(* ===== verification/Prelude.thy ===== *)
theory Prelude
  imports Complex_Main "HOL-Library.AList"
begin

text \<open>
  Shared vocabulary of the development: the collections of rewrite rules the
  component theories contribute to, the error-passing combinator used where the
  TypeScript code throws, the clamping function that every device kind calls, and
  generic lemmas on association lists (the model of JavaScript objects, whose keys
  keep their insertion order).
\<close>

named_theorems js_simps "evaluation rules of the JavaScript value layer"
named_theorems kind_simps "evaluation rules of the device kinds"
named_theorems store_simps "evaluation rules of the service state"

type_synonym topic = string
type_synonym device_id = string

subsection \<open>Errors as values\<close>

text \<open>
  A TypeScript function that may throw is modelled as returning \<open>'e + 'a\<close>:
  \<open>Inl\<close> is the exception, \<open>Inr\<close> the normal result. \<open>ebind\<close> sequences two
  such computations, propagating the first exception as the \<open>await\<close>/call chain does.
\<close>

definition ebind :: "'e + 'a \<Rightarrow> ('a \<Rightarrow> 'e + 'b) \<Rightarrow> 'e + 'b" where
  "ebind m f = (case m of Inl e \<Rightarrow> Inl e | Inr a \<Rightarrow> f a)"

lemma ebind_Inl [simp]: "ebind (Inl e) f = Inl e"
  by (simp add: ebind_def)

lemma ebind_Inr [simp]: "ebind (Inr a) f = f a"
  by (simp add: ebind_def)

lemma ebind_eq_Inr:
  "ebind m f = Inr b \<longleftrightarrow> (\<exists>a. m = Inr a \<and> f a = Inr b)"
  by (cases m) (simp_all add: ebind_def)

lemma ebind_eq_Inl:
  "ebind m f = Inl e \<longleftrightarrow> m = Inl e \<or> (\<exists>a. m = Inr a \<and> f a = Inl e)"
  by (cases m) (simp_all add: ebind_def)

subsection \<open>Clamping\<close>

text \<open>
  \<open>Math.max(lo, Math.min(hi, n))\<close>, the \<open>clamp\<close> helper that the cover, light and
  temperature-sensor kinds each define, on finite numbers.
\<close>

definition clamp :: "'a::linorder \<Rightarrow> 'a \<Rightarrow> 'a \<Rightarrow> 'a" where
  "clamp lo hi x = max lo (min hi x)"

lemma clamp_bounds [intro]:
  "lo \<le> hi \<Longrightarrow> lo \<le> clamp lo hi x \<and> clamp lo hi x \<le> hi"
  by (auto simp: clamp_def)

lemma clamp_id [simp]: "lo \<le> x \<Longrightarrow> x \<le> hi \<Longrightarrow> clamp lo hi x = x"
  by (simp add: clamp_def)

lemma clamp_low: "x \<le> lo \<Longrightarrow> lo \<le> hi \<Longrightarrow> clamp lo hi x = lo"
  by (simp add: clamp_def)

lemma clamp_high: "hi \<le> x \<Longrightarrow> lo \<le> hi \<Longrightarrow> clamp lo hi x = hi"
  by (simp add: clamp_def)

lemma clamp_idem [simp]: "lo \<le> hi \<Longrightarrow> clamp lo hi (clamp lo hi x) = clamp lo hi x"
  by (auto simp: clamp_def)

lemma clamp_mono: "x \<le> y \<Longrightarrow> clamp lo hi x \<le> clamp lo hi y"
  unfolding clamp_def by (intro max.mono min.mono) auto

lemma set_map_zip_snd:
  "(k, v) \<in> set (map (\<lambda>(i, b). (f i, g b)) (zip xs ys)) \<Longrightarrow> \<exists>y \<in> set ys. v = g y"
  by (auto dest: set_zip_rightD)

subsection \<open>Association lists as insertion-ordered objects\<close>

text \<open>
  The object spread \<open>{...a, ...b}\<close> writes the properties of \<open>b\<close> into a copy of
  \<open>a\<close> one after the other; a key already present keeps its position, a new one is
  appended, as \<^const>\<open>AList.update\<close> does.
\<close>

definition alist_spread :: "('k \<times> 'v) list \<Rightarrow> ('k \<times> 'v) list \<Rightarrow> ('k \<times> 'v) list" where
  "alist_spread a b = foldl (\<lambda>acc (k, v). AList.update k v acc) a b"

lemma alist_spread_Nil [simp]: "alist_spread a [] = a"
  by (simp add: alist_spread_def)

lemma alist_spread_Cons [simp]:
  "alist_spread a ((k, v) # b) = alist_spread (AList.update k v a) b"
  by (simp add: alist_spread_def)

lemma map_of_alist_spread:
  "map_of (alist_spread a b) = map_of a ++ map_of (rev b)"
proof (induction b arbitrary: a)
  case Nil
  then show ?case by simp
next
  case (Cons p b)
  obtain k v where p: "p = (k, v)" by fastforce
  have "map_of (alist_spread a (p # b)) = map_of (AList.update k v a) ++ map_of (rev b)"
    using Cons.IH by (simp add: p)
  also have "\<dots> = map_of a ++ map_of (rev (p # b))"
    by (auto simp: p update_conv' map_add_def fun_eq_iff split: option.splits)
  finally show ?case .
qed

lemma alist_spread_keys:
  "set (map fst (alist_spread a b)) = set (map fst a) \<union> set (map fst b)"
proof (induction b arbitrary: a)
  case Nil
  then show ?case by simp
next
  case (Cons p b)
  then show ?case
    by (cases p) (auto simp: dom_update)
qed

lemma alist_spread_distinct:
  "distinct (map fst a) \<Longrightarrow> distinct (map fst (alist_spread a b))"
proof (induction b arbitrary: a)
  case Nil
  then show ?case by simp
next
  case (Cons p b)
  then show ?case
    by (cases p) (simp add: distinct_update)
qed

lemma in_set_alist_update:
  "x \<in> set (AList.update k v xs) \<Longrightarrow> x = (k, v) \<or> x \<in> set xs"
  by (induction xs) (auto split: if_splits)

lemma in_set_alist_delete: "x \<in> set (AList.delete k xs) \<Longrightarrow> x \<in> set xs"
  by (induction xs) (auto split: if_splits)

lemma length_filter_le_1:
  "distinct (map f xs) \<Longrightarrow> (\<forall>x \<in> set xs. P x \<longrightarrow> f x = c) \<Longrightarrow> length (filter P xs) \<le> 1"
proof (induction xs)
  case (Cons x xs)
  show ?case
  proof (cases "P x")
    case True
    then have "f x = c" using Cons.prems by simp
    have "\<forall>y \<in> set xs. \<not> P y"
    proof
      fix y assume y: "y \<in> set xs"
      show "\<not> P y"
      proof
        assume "P y"
        then have "f y = f x" using Cons.prems y \<open>f x = c\<close> by simp
        then show False using Cons.prems(1) y by (auto simp: image_iff)
      qed
    qed
    then have "filter P xs = []" by (simp add: filter_empty_conv)
    then show ?thesis using True by simp
  next
    case False
    then show ?thesis using Cons by simp
  qed
qed simp

lemma distinct_fst_unique:
  "distinct (map fst xs) \<Longrightarrow> (k, a) \<in> set xs \<Longrightarrow> (k, b) \<in> set xs \<Longrightarrow> a = b"
  by (induction xs) (auto simp: image_iff)

lemma in_set_alist_update_same: "(k, v) \<in> set (AList.update k v xs)"
  by (induction xs) auto

lemma in_set_alist_update_other: "x \<in> set xs \<Longrightarrow> fst x \<noteq> k \<Longrightarrow> x \<in> set (AList.update k v xs)"
  by (induction xs) auto

end
