(* ===== verification/Decimal.thy ===== *)
theory Decimal
  imports Prelude
begin

text \<open>
  Conversions between numbers and strings that the simulator's code relies on:
  the decimal rendering of a natural number (template literals such as
  \<open>`${base}-${i}`\<close> in \<open>createDevice\<close>, the index keys of a spread
  \<open>Buffer\<close>), and the two JavaScript string-to-number conversions the code reaches:
  \<open>parseFloat\<close> (called by \<open>coerceCommandValues\<close>) and \<open>Number\<close> (applied
  implicitly by the relational operators in the kinds' \<open>validate\<close>). JavaScript
  numbers are modelled as exact rationals extended by the two infinities and NaN;
  IEEE rounding is not modelled. Strings are byte strings; only ASCII white space is
  recognised as white space.
\<close>

datatype jnum = Fin rat | PosInf | NegInf | NaN

subsection \<open>Digits\<close>

definition is_digit :: "char \<Rightarrow> bool" where
  "is_digit c \<longleftrightarrow> 48 \<le> (of_char c :: nat) \<and> (of_char c :: nat) \<le> 57"

definition digit_val :: "char \<Rightarrow> nat" where
  "digit_val c = of_char c - 48"

definition digit_char :: "nat \<Rightarrow> char" where
  "digit_char d = char_of (48 + d)"

fun show_nat :: "nat \<Rightarrow> string" where
  "show_nat n = (if n < 10 then [digit_char n] else show_nat (n div 10) @ [digit_char (n mod 10)])"

declare show_nat.simps [simp del]

definition digits_val :: "string \<Rightarrow> nat" where
  "digits_val ds = foldl (\<lambda>n c. 10 * n + digit_val c) 0 ds"

lemma digits_val_Nil [simp]: "digits_val [] = 0"
  by (simp add: digits_val_def)

lemma digits_val_snoc [simp]: "digits_val (ds @ [c]) = 10 * digits_val ds + digit_val c"
  by (simp add: digits_val_def)

lemma digits_val_single [simp]: "digits_val [c] = digit_val c"
  by (simp add: digits_val_def)

lemma digit_char_is_digit [simp]: "d < 10 \<Longrightarrow> is_digit (digit_char d)"
  by (simp add: is_digit_def digit_char_def)

lemma digit_val_digit_char [simp]: "d < 10 \<Longrightarrow> digit_val (digit_char d) = d"
  by (simp add: digit_val_def digit_char_def)

lemma show_nat_digits: "\<forall>c \<in> set (show_nat n). is_digit c"
proof (induction n rule: show_nat.induct)
  case (1 n)
  then show ?case by (subst show_nat.simps) auto
qed

lemma show_nat_nonempty [simp]: "show_nat n \<noteq> []"
  by (subst show_nat.simps) simp

lemma digits_val_show_nat [simp]: "digits_val (show_nat n) = n"
proof (induction n rule: show_nat.induct)
  case (1 n)
  then show ?case by (subst show_nat.simps) auto
qed

lemma show_nat_inj: "show_nat m = show_nat n \<longleftrightarrow> m = n"
  by (metis digits_val_show_nat)

subsection \<open>Decimal literals\<close>

text \<open>
  \<open>StrUnsignedDecimalLiteral\<close> of ECMAScript: digits, an optional fraction after a
  dot, and an optional exponent; at least one digit before or after the dot. The
  scanner returns the value of the longest such prefix and the rest of the string.
  An exponent marker not followed by digits is not part of the literal.
\<close>

definition scan_exponent :: "string \<Rightarrow> (int \<times> string) option" where
  "scan_exponent s =
     (let (sg, r) = (case s of c # r \<Rightarrow> if c = CHR ''-'' then (-1, r)
                                        else if c = CHR ''+'' then (1, r) else (1, s)
                              | [] \<Rightarrow> (1, []));
          ds = takeWhile is_digit r
      in if ds = [] then None else Some (sg * int (digits_val ds), dropWhile is_digit r))"

definition scan_unsigned :: "string \<Rightarrow> (rat \<times> string) option" where
  "scan_unsigned s =
     (let ip = takeWhile is_digit s; r1 = dropWhile is_digit s;
          (fp, r2) = (case r1 of c # r \<Rightarrow> if c = CHR ''.'' then (takeWhile is_digit r, dropWhile is_digit r)
                                          else ([], r1)
                                | [] \<Rightarrow> ([], []));
          m = of_nat (digits_val ip) + of_nat (digits_val fp) / 10 ^ length fp
      in if ip = [] \<and> fp = [] then None
         else (case r2 of
                 c # r3 \<Rightarrow> if c = CHR ''e'' \<or> c = CHR ''E'' then
                             (case scan_exponent r3 of Some (e, r4) \<Rightarrow> Some (m * 10 powi e, r4)
                                                   | None \<Rightarrow> Some (m, r2))
                           else Some (m, r2)
               | [] \<Rightarrow> Some (m, [])))"

definition neg_jnum :: "jnum \<Rightarrow> jnum" where
  "neg_jnum x = (case x of Fin r \<Rightarrow> Fin (- r) | PosInf \<Rightarrow> NegInf | NegInf \<Rightarrow> PosInf | NaN \<Rightarrow> NaN)"

text \<open>\<open>StrDecimalLiteral\<close>: an optional sign, then \<open>Infinity\<close> or an unsigned literal.\<close>

definition scan_signed :: "string \<Rightarrow> (jnum \<times> string) option" where
  "scan_signed s =
     (let (neg, t) = (case s of c # r \<Rightarrow> if c = CHR ''-'' then (True, r)
                                         else if c = CHR ''+'' then (False, r) else (False, s)
                              | [] \<Rightarrow> (False, []));
          sgn = (\<lambda>x. if neg then neg_jnum x else x)
      in if take 8 t = ''Infinity'' then Some (sgn PosInf, drop 8 t)
         else (case scan_unsigned t of Some (m, r) \<Rightarrow> Some (sgn (Fin m), r) | None \<Rightarrow> None))"

definition is_js_space :: "char \<Rightarrow> bool" where
  "is_js_space c \<longleftrightarrow> of_char c \<in> {9, 10, 11, 12, 13, 32 :: nat}"

definition trim_js :: "string \<Rightarrow> string" where
  "trim_js s = rev (dropWhile is_js_space (rev (dropWhile is_js_space s)))"

text \<open>Non-decimal integer literals \<open>0x\<close>, \<open>0o\<close>, \<open>0b\<close> accepted by \<open>Number\<close>.\<close>

definition radix_digit :: "nat \<Rightarrow> char \<Rightarrow> nat option" where
  "radix_digit b c =
     (let n = of_char c :: nat;
          d = (if 48 \<le> n \<and> n \<le> 57 then n - 48
               else if 97 \<le> n \<and> n \<le> 102 then n - 87
               else if 65 \<le> n \<and> n \<le> 70 then n - 55 else 16)
      in if d < b then Some d else None)"

definition radix_val :: "nat \<Rightarrow> string \<Rightarrow> nat option" where
  "radix_val b ds =
     (if ds = [] \<or> (\<exists>c \<in> set ds. radix_digit b c = None) then None
      else Some (foldl (\<lambda>n c. b * n + the (radix_digit b c)) 0 ds))"

definition radix_of :: "char \<Rightarrow> nat option" where
  "radix_of c =
     (if c \<in> {CHR ''x'', CHR ''X''} then Some 16
      else if c \<in> {CHR ''o'', CHR ''O''} then Some 8
      else if c \<in> {CHR ''b'', CHR ''B''} then Some 2 else None)"

text \<open>\<open>Number(s)\<close> for a string \<open>s\<close> (ECMAScript \<open>StringToNumber\<close>).\<close>

definition string_to_number :: "string \<Rightarrow> jnum" where
  "string_to_number s =
     (let t = trim_js s in
      if t = [] then Fin 0
      else (case t of
              c0 # c1 # ds \<Rightarrow>
                if c0 = CHR ''0'' \<and> radix_of c1 \<noteq> None then
                  (case radix_val (the (radix_of c1)) ds of Some n \<Rightarrow> Fin (of_nat n) | None \<Rightarrow> NaN)
                else (case scan_signed t of Some (v, []) \<Rightarrow> v | _ \<Rightarrow> NaN)
            | _ \<Rightarrow> (case scan_signed t of Some (v, []) \<Rightarrow> v | _ \<Rightarrow> NaN)))"

text \<open>\<open>parseFloat(s)\<close>: the longest decimal-literal prefix after leading white space.\<close>

definition parse_float :: "string \<Rightarrow> jnum" where
  "parse_float s = (case scan_signed (dropWhile is_js_space s) of Some (v, _) \<Rightarrow> v | None \<Rightarrow> NaN)"

subsection \<open>Round trips\<close>

lemma takeWhile_show_nat [simp]: "takeWhile is_digit (show_nat n) = show_nat n"
  using show_nat_digits [of n] by (simp add: takeWhile_eq_all_conv)

lemma dropWhile_show_nat [simp]: "dropWhile is_digit (show_nat n) = []"
  using show_nat_digits [of n] by (simp add: dropWhile_eq_Nil_conv)

lemma digit_not_sign:
  "is_digit c \<Longrightarrow> c \<noteq> CHR ''-'' \<and> c \<noteq> CHR ''+'' \<and> c \<noteq> CHR ''I'' \<and> \<not> is_js_space c"
  by (auto simp: is_digit_def is_js_space_def)

lemma scan_signed_digit_start:
  assumes "is_digit c"
  shows "scan_signed (c # r) = map_option (\<lambda>(m, r). (Fin m, r)) (scan_unsigned (c # r))"
  using digit_not_sign [OF assms]
  by (auto simp: scan_signed_def split: option.splits)

lemma takeWhile_show_nat_append:
  "(r = [] \<or> \<not> is_digit (hd r)) \<Longrightarrow> takeWhile is_digit (show_nat n @ r) = show_nat n"
  using show_nat_digits [of n] by (cases r) (auto simp: takeWhile_append2)

lemma dropWhile_show_nat_append:
  "(r = [] \<or> \<not> is_digit (hd r)) \<Longrightarrow> dropWhile is_digit (show_nat n @ r) = r"
  using show_nat_digits [of n] by (cases r) (auto simp: dropWhile_append2)

lemma scan_unsigned_show_nat:
  "(r = [] \<or> \<not> is_digit (hd r) \<and> hd r \<notin> {CHR ''.'', CHR ''e'', CHR ''E''}) \<Longrightarrow>
   scan_unsigned (show_nat n @ r) = Some (of_nat n, r)"
  by (cases r) (auto simp: scan_unsigned_def takeWhile_show_nat_append dropWhile_show_nat_append Let_def)

lemma show_nat_hd: "is_digit (hd (show_nat n))"
  using show_nat_digits [of n] by simp

text \<open>
  \<open>parseFloat\<close> reads back the decimal rendering of every natural number
  (the \<open>`${i}`\<close> suffixes and index keys the code writes).
\<close>

theorem parse_float_show_nat: "parse_float (show_nat n) = Fin (of_nat n)"
proof -
  obtain c r where cr: "show_nat n = c # r" by (cases "show_nat n") auto
  have d: "is_digit c" using show_nat_hd [of n] cr by simp
  have "scan_unsigned (show_nat n) = Some (of_nat n, [])"
    using scan_unsigned_show_nat [of "[]" n] by simp
  then show ?thesis using d digit_not_sign [OF d]
    by (simp add: parse_float_def cr scan_signed_digit_start)
qed

subsection \<open>Rendering numbers\<close>

definition show_int :: "int \<Rightarrow> string" where
  "show_int i = (if i < 0 then CHR ''-'' # show_nat (nat (- i)) else show_nat (nat i))"

text \<open>
  \<open>Number::toString\<close> (ECMAScript 6.1.6.1.20) on a positive finite value
  \<open>x = s \<cdot> 10^(n-k)\<close>, where \<open>s\<close> has \<open>k\<close> digits and no trailing zero:
  fixed notation for \<open>-6 < n \<le> 21\<close>, exponent notation otherwise.
\<close>

definition fmt_decimal :: "string \<Rightarrow> int \<Rightarrow> string" where
  "fmt_decimal ds n =
     (let k = int (length ds) in
      if k \<le> n \<and> n \<le> 21 then ds @ replicate (nat (n - k)) (CHR ''0'')
      else if 0 < n \<and> n \<le> 21 then take (nat n) ds @ ''.'' @ drop (nat n) ds
      else if -6 < n \<and> n \<le> 0 then ''0.'' @ replicate (nat (- n)) (CHR ''0'') @ ds
      else (let e = n - 1;
                es = (if e < 0 then CHR ''-'' else CHR ''+'') # show_nat (nat \<bar>e\<bar>)
            in if k = 1 then ds @ ''e'' @ es else [hd ds] @ ''.'' @ tl ds @ ''e'' @ es))"

fun strip_tz :: "nat \<Rightarrow> nat \<times> nat" where
  "strip_tz m = (if 0 < m \<and> m mod 10 = 0 then (case strip_tz (m div 10) of (s, c) \<Rightarrow> (s, Suc c)) else (m, 0))"

declare strip_tz.simps [simp del]

text \<open>The number of fractional decimal digits of a rational, if its expansion terminates.\<close>

function pow_count :: "nat \<Rightarrow> nat \<Rightarrow> nat" where
  "pow_count p n = (if 1 < p \<and> 0 < n \<and> n mod p = 0 then Suc (pow_count p (n div p)) else 0)"
  by pat_completeness auto
termination
  by (relation "measure (\<lambda>(p, n). n)") auto

declare pow_count.simps [simp del]

definition dec_places :: "rat \<Rightarrow> nat option" where
  "dec_places r =
     (let b = nat (snd (quotient_of r)); x = pow_count 2 b; y = pow_count 5 b
      in if b = 2 ^ x * 5 ^ y then Some (max x y) else None)"

text \<open>
  Every number the code computes is a finite decimal (JSON literals, \<open>parseFloat\<close>
  results, and sums, products, clampings and power-of-ten roundings of them), and is
  rendered exactly. A rational whose expansion does not terminate does not arise; it
  is rendered from its first twenty fractional digits.
\<close>

definition pos_rat_to_string :: "rat \<Rightarrow> string" where
  "pos_rat_to_string x =
     (let j = (case dec_places x of Some j \<Rightarrow> j | None \<Rightarrow> 20);
          m = nat \<lfloor>x * 10 ^ j\<rfloor>;
          (s, c) = strip_tz m
      in fmt_decimal (show_nat s) (int (length (show_nat s)) + int c - int j))"

definition num_to_string :: "jnum \<Rightarrow> string" where
  "num_to_string v =
     (case v of NaN \<Rightarrow> ''NaN'' | PosInf \<Rightarrow> ''Infinity'' | NegInf \<Rightarrow> ''-Infinity''
              | Fin r \<Rightarrow> if r = 0 then ''0''
                         else if r < 0 then CHR ''-'' # pos_rat_to_string (- r)
                         else pos_rat_to_string r)"

end
