(* ===== verification/JsValue.thy ===== *)
theory JsValue
  imports Decimal "HOL-Library.Word"
begin

text \<open>
  The JavaScript values the device engine manipulates: command payloads, device
  states and capability maps are JSON-shaped values, and the code reads and writes
  them with JavaScript's own operators (property reads, truthiness, \<open>typeof\<close>,
  loose relational comparison, \<open>Math.min\<close>/\<open>Math.max\<close>, object spread).
  This theory gives each of those operators its ECMAScript meaning on the value
  type \<open>jval\<close>. Objects are association lists in property-insertion order;
  \<open>undefined\<close> is the absent value (\<open>None\<close>) of a property read. In-memory numbers
  may be infinite or NaN (\<open>parseFloat\<close> and \<open>Number\<close> produce them); serialising a
  value to JSON, as the store and the broker do, turns them into \<open>null\<close>
  (\<open>json_norm\<close>).
\<close>

datatype jval =
    JNull
  | JBool bool
  | JNum jnum
  | JStr string
  | JArr "jval list"
  | JObj "(string \<times> jval) list"

type_synonym jobj = "(string \<times> jval) list"

abbreviation jn :: "rat \<Rightarrow> jval" where
  "jn r \<equiv> JNum (Fin r)"

datatype js_error = TypeError string | Error string

subsection \<open>Objects\<close>

definition js_get :: "jobj \<Rightarrow> string \<Rightarrow> jval option" where
  "js_get obj k = map_of obj k"

definition js_set :: "string \<Rightarrow> jval \<Rightarrow> jobj \<Rightarrow> jobj" where
  "js_set k v obj = AList.update k v obj"

text \<open>\<open>{...a, ...b}\<close>\<close>

definition js_spread :: "jobj \<Rightarrow> jobj \<Rightarrow> jobj" where
  "js_spread a b = alist_spread a b"

lemma js_get_set [simp, js_simps]:
  "js_get (js_set k v obj) k' = (if k' = k then Some v else js_get obj k')"
  by (simp add: js_get_def js_set_def update_conv')

lemma js_get_spread [js_simps]:
  "js_get (js_spread a b) k = (case map_of (rev b) k of Some v \<Rightarrow> Some v | None \<Rightarrow> js_get a k)"
  by (simp add: js_get_def js_spread_def map_of_alist_spread map_add_def split: option.splits)

lemma js_get_Nil [simp, js_simps]: "js_get [] k = None"
  by (simp add: js_get_def)

lemma js_get_Cons [simp, js_simps]:
  "js_get ((k', v) # obj) k = (if k = k' then Some v else js_get obj k)"
  by (simp add: js_get_def)

lemma js_spread_Nil [simp, js_simps]: "js_spread a [] = a"
  by (simp add: js_spread_def)

lemma js_spread_Cons [simp, js_simps]: "js_spread a ((k, v) # b) = js_spread (js_set k v a) b"
  by (simp add: js_spread_def js_set_def)

text \<open>
  A property read \<open>v.k\<close> on a value that is not \<open>null\<close> or \<open>undefined\<close>. The
  property names the code reads (\<open>state\<close>, \<open>brightness\<close>, \<open>r\<close>, \dots) are never
  array indices or built-in properties of strings and arrays, so on every value but
  an object the read gives \<open>undefined\<close>.
\<close>

fun js_prop :: "jval \<Rightarrow> string \<Rightarrow> jval option" where
  "js_prop (JObj obj) k = js_get obj k"
| "js_prop _ k = None"

text \<open>\<open>v.k\<close> where \<open>v\<close> may be \<open>null\<close>: reading a property of \<open>null\<close> throws.\<close>

definition js_read :: "jval \<Rightarrow> string \<Rightarrow> js_error + jval option" where
  "js_read v k =
     (if v = JNull then Inl (TypeError (''Cannot read properties of null (reading '' @ k @ '')''))
      else Inr (js_prop v k))"

text \<open>\<open>k in v\<close>: defined on objects (arrays included), a \<open>TypeError\<close> otherwise.\<close>

definition js_in :: "string \<Rightarrow> jval \<Rightarrow> js_error + bool" where
  "js_in k v =
     (case v of JObj obj \<Rightarrow> Inr (js_get obj k \<noteq> None)
              | JArr _ \<Rightarrow> Inr False
              | _ \<Rightarrow> Inl (TypeError (''Cannot use 'in' operator to search for '' @ k)))"

subsection \<open>Type tests and truthiness\<close>

fun js_truthy_val :: "jval \<Rightarrow> bool" where
  "js_truthy_val JNull = False"
| "js_truthy_val (JBool b) = b"
| "js_truthy_val (JNum (Fin r)) = (r \<noteq> 0)"
| "js_truthy_val (JNum NaN) = False"
| "js_truthy_val (JNum _) = True"
| "js_truthy_val (JStr s) = (s \<noteq> [])"
| "js_truthy_val (JArr _) = True"
| "js_truthy_val (JObj _) = True"

definition js_truthy :: "jval option \<Rightarrow> bool" where
  "js_truthy v = (case v of None \<Rightarrow> False | Some x \<Rightarrow> js_truthy_val x)"

text \<open>\<open>v == null\<close>\<close>

definition js_nullish :: "jval option \<Rightarrow> bool" where
  "js_nullish v \<longleftrightarrow> v = None \<or> v = Some JNull"

text \<open>\<open>typeof v === 'number'\<close>\<close>

definition js_is_number :: "jval option \<Rightarrow> bool" where
  "js_is_number v = (case v of Some (JNum _) \<Rightarrow> True | _ \<Rightarrow> False)"

text \<open>\<open>v === s\<close> for a string literal \<open>s\<close>\<close>

definition js_is_str :: "jval option \<Rightarrow> string \<Rightarrow> bool" where
  "js_is_str v s \<longleftrightarrow> v = Some (JStr s)"

text \<open>\<open>[s1, ..., sn].includes(v)\<close> for a list of string literals\<close>

definition js_includes :: "string list \<Rightarrow> jval option \<Rightarrow> bool" where
  "js_includes xs v = list_ex (\<lambda>s. v = Some (JStr s)) xs"

lemma js_truthy_simps [simp, js_simps]:
  "js_truthy None = False"
  "js_truthy (Some (JStr s)) = (s \<noteq> [])"
  "js_truthy (Some (JBool b)) = b"
  "js_truthy (Some JNull) = False"
  "js_truthy (Some (jn r)) = (r \<noteq> 0)"
  "js_truthy (Some (JObj obj)) = True"
  by (simp_all add: js_truthy_def)

lemma js_is_number_simps [simp, js_simps]:
  "js_is_number None = False"
  "js_is_number (Some (JNum n)) = True"
  "js_is_number (Some (JStr s)) = False"
  "js_is_number (Some (JBool b)) = False"
  "js_is_number (Some JNull) = False"
  by (simp_all add: js_is_number_def)

lemma js_includes_simps [simp, js_simps]:
  "js_includes [] v = False"
  "js_includes (s # xs) v = (v = Some (JStr s) \<or> js_includes xs v)"
  by (simp_all add: js_includes_def)

subsection \<open>Numbers\<close>

text \<open>\<open>ToNumber\<close> of a present value. An array converts through its string form, the
  comma-joined string forms of its elements: the empty array is \<open>0\<close>, a singleton
  converts as its element would (with \<open>null\<close> joined as the empty string), and a
  longer array contains a comma and is NaN. An object's string form is
  \<open>[object Object]\<close>, which is NaN.\<close>

fun js_to_number :: "jval \<Rightarrow> jnum" where
  "js_to_number JNull = Fin 0"
| "js_to_number (JBool b) = Fin (if b then 1 else 0)"
| "js_to_number (JNum n) = n"
| "js_to_number (JStr s) = string_to_number s"
| "js_to_number (JArr []) = Fin 0"
| "js_to_number (JArr [x]) =
     (case x of JNull \<Rightarrow> Fin 0 | JBool _ \<Rightarrow> NaN | JObj _ \<Rightarrow> NaN | _ \<Rightarrow> js_to_number x)"
| "js_to_number (JArr (x # y # zs)) = NaN"
| "js_to_number (JObj _) = NaN"

text \<open>\<open>Number(v)\<close>, where \<open>undefined\<close> converts to NaN.\<close>

definition js_number :: "jval option \<Rightarrow> jnum" where
  "js_number v = (case v of None \<Rightarrow> NaN | Some x \<Rightarrow> js_to_number x)"

text \<open>\<open><\<close> on numbers: every comparison with NaN is false.\<close>

fun num_less :: "jnum \<Rightarrow> jnum \<Rightarrow> bool" where
  "num_less (Fin a) (Fin b) = (a < b)"
| "num_less NaN _ = False"
| "num_less _ NaN = False"
| "num_less NegInf y = (y \<noteq> NegInf)"
| "num_less x PosInf = (x \<noteq> PosInf)"
| "num_less PosInf _ = False"
| "num_less _ NegInf = False"

text \<open>\<open>v < c\<close> and \<open>v > c\<close> for a numeric literal \<open>c\<close> (abstract relational comparison).\<close>

definition js_lt :: "jval option \<Rightarrow> rat \<Rightarrow> bool" where
  "js_lt v c = num_less (js_number v) (Fin c)"

definition js_gt :: "jval option \<Rightarrow> rat \<Rightarrow> bool" where
  "js_gt v c = num_less (Fin c) (js_number v)"

definition num_min :: "jnum \<Rightarrow> jnum \<Rightarrow> jnum" where
  "num_min a b = (if a = NaN \<or> b = NaN then NaN else if num_less b a then b else a)"

definition num_max :: "jnum \<Rightarrow> jnum \<Rightarrow> jnum" where
  "num_max a b = (if a = NaN \<or> b = NaN then NaN else if num_less a b then b else a)"

text \<open>\<open>clamp(n, lo, hi) = Math.max(lo, Math.min(hi, n))\<close> on any JavaScript number.\<close>

definition js_clamp :: "jnum \<Rightarrow> rat \<Rightarrow> rat \<Rightarrow> jnum" where
  "js_clamp n lo hi = num_max (Fin lo) (num_min (Fin hi) n)"

lemma js_number_Fin [simp, js_simps]: "js_number (Some (jn r)) = Fin r"
  by (simp add: js_number_def)

lemma js_lt_Fin [simp, js_simps]: "js_lt (Some (jn r)) c \<longleftrightarrow> r < c"
  by (simp add: js_lt_def)

lemma js_gt_Fin [simp, js_simps]: "js_gt (Some (jn r)) c \<longleftrightarrow> c < r"
  by (simp add: js_gt_def)

lemma js_clamp_Fin [simp, js_simps]: "js_clamp (Fin x) lo hi = Fin (clamp lo hi x)"
  by (simp add: js_clamp_def num_min_def num_max_def clamp_def max_def min_def)

lemma js_clamp_finite:
  "lo \<le> hi \<Longrightarrow> n \<noteq> NaN \<Longrightarrow> \<exists>r. js_clamp n lo hi = Fin r \<and> lo \<le> r \<and> r \<le> hi"
  by (cases n) (auto simp: js_clamp_def num_min_def num_max_def clamp_def)

subsection \<open>Serialisation\<close>

text \<open>
  \<open>JSON.parse(JSON.stringify(v))\<close>: what the store (\<open>simple-json\<close> columns) and the
  broker keep of an in-memory value. Non-finite numbers become \<open>null\<close>. Two values
  have the same \<open>JSON.stringify\<close> text exactly when their normal forms are equal.
\<close>

fun json_norm :: "jval \<Rightarrow> jval" where
  "json_norm (JNum (Fin r)) = JNum (Fin r)"
| "json_norm (JNum _) = JNull"
| "json_norm (JArr xs) = JArr (map json_norm xs)"
| "json_norm (JObj obj) = JObj (map (\<lambda>(k, v). (k, json_norm v)) obj)"
| "json_norm v = v"

definition json_norm_obj :: "jobj \<Rightarrow> jobj" where
  "json_norm_obj obj = map (\<lambda>(k, v). (k, json_norm v)) obj"

lemma json_norm_idem [simp]: "json_norm (json_norm v) = json_norm v"
proof (induction v rule: json_norm.induct)
  case (4 obj)
  then show ?case by (auto simp: case_prod_beta)
qed auto

lemma json_norm_obj_idem [simp]: "json_norm_obj (json_norm_obj obj) = json_norm_obj obj"
  by (simp add: json_norm_obj_def comp_def case_prod_beta)

subsection \<open>Spreading a Buffer\<close>

text \<open>
  \<open>{...buf}\<close> for a Node.js \<open>Buffer\<close> (a \<open>Uint8Array\<close>): one enumerable property
  per byte, keyed by its decimal index.
\<close>

definition buffer_obj :: "8 word list \<Rightarrow> jobj" where
  "buffer_obj bs = map (\<lambda>(i, b). (show_nat i, jn (of_nat (unat b)))) (zip [0..<length bs] bs)"

lemma buffer_obj_keys_digits:
  "(k, v) \<in> set (buffer_obj bs) \<Longrightarrow> \<forall>c \<in> set k. is_digit c"
  by (auto simp: buffer_obj_def show_nat_digits)

lemma byte_rat_bounds: "0 \<le> (of_nat (unat b) :: rat) \<and> (of_nat (unat b) :: rat) \<le> 255"
  for b :: "8 word"
proof -
  have "unat b < 2 ^ LENGTH(8)" by (rule unsigned_less)
  then have "unat b \<le> 255" by simp
  then have "(of_nat (unat b) :: rat) \<le> of_nat 255" by (simp only: of_nat_le_iff)
  moreover have "0 \<le> (of_nat (unat b) :: rat)" by (rule of_nat_0_le_iff)
  ultimately show ?thesis by simp
qed

lemma buffer_obj_values:
  assumes "(k, v) \<in> set (buffer_obj bs)"
  shows "\<exists>r. v = jn r \<and> 0 \<le> r \<and> r \<le> 255"
proof -
  from set_map_zip_snd [OF assms [unfolded buffer_obj_def]]
  obtain b :: "8 word" where "v = jn (of_nat (unat b))" by blast
  with byte_rat_bounds [of b] show ?thesis by blast
qed

subsection \<open>Strings of values, primitives, operators\<close>

text \<open>\<open>xs.join(',')\<close>\<close>

fun join_comma :: "string list \<Rightarrow> string" where
  "join_comma [] = []"
| "join_comma [x] = x"
| "join_comma (x # xs) = x @ '','' @ join_comma xs"

text \<open>\<open>String(v)\<close>; inside an array, \<open>null\<close> joins as the empty string.\<close>

fun js_to_string :: "jval \<Rightarrow> string" where
  "js_to_string JNull = ''null''"
| "js_to_string (JBool b) = (if b then ''true'' else ''false'')"
| "js_to_string (JNum n) = num_to_string n"
| "js_to_string (JStr s) = s"
| "js_to_string (JArr xs) =
     join_comma (map (\<lambda>x. if x = JNull then [] else js_to_string x) xs)"
| "js_to_string (JObj _) = ''[object Object]''"

text \<open>\<open>ToPrimitive\<close>: arrays and objects become their string forms.\<close>

definition js_to_prim :: "jval \<Rightarrow> jval" where
  "js_to_prim v = (case v of JArr _ \<Rightarrow> JStr (js_to_string v) | JObj _ \<Rightarrow> JStr (js_to_string v) | _ \<Rightarrow> v)"

fun str_less :: "string \<Rightarrow> string \<Rightarrow> bool" where
  "str_less [] (c # cs) = True"
| "str_less _ [] = False"
| "str_less (a # as) (b # bs) =
     (if a = b then str_less as bs else (of_char a :: nat) < of_char b)"

text \<open>Abstract relational comparison \<open>x < y\<close> of two values (\<open>undefined\<close> as \<open>None\<close>):
  two strings compare by code units, anything else numerically.\<close>

definition js_less :: "jval option \<Rightarrow> jval option \<Rightarrow> bool" where
  "js_less x y =
     (case (map_option js_to_prim x, map_option js_to_prim y) of
        (Some (JStr a), Some (JStr b)) \<Rightarrow> str_less a b
      | (px, py) \<Rightarrow> num_less (js_number px) (js_number py))"

fun num_add :: "jnum \<Rightarrow> jnum \<Rightarrow> jnum" where
  "num_add (Fin a) (Fin b) = Fin (a + b)"
| "num_add NaN _ = NaN"
| "num_add _ NaN = NaN"
| "num_add PosInf NegInf = NaN"
| "num_add NegInf PosInf = NaN"
| "num_add PosInf _ = PosInf"
| "num_add NegInf _ = NegInf"
| "num_add (Fin _) y = y"

definition num_sub :: "jnum \<Rightarrow> jnum \<Rightarrow> jnum" where
  "num_sub a b = num_add a (neg_jnum b)"

fun num_mul :: "jnum \<Rightarrow> jnum \<Rightarrow> jnum" where
  "num_mul (Fin a) (Fin b) = Fin (a * b)"
| "num_mul NaN _ = NaN"
| "num_mul _ NaN = NaN"
| "num_mul (Fin a) y = (if a = 0 then NaN else if 0 < a then y else neg_jnum y)"
| "num_mul x (Fin b) = (if b = 0 then NaN else if 0 < b then x else neg_jnum x)"
| "num_mul PosInf y = y"
| "num_mul NegInf y = neg_jnum y"

fun num_div :: "jnum \<Rightarrow> jnum \<Rightarrow> jnum" where
  "num_div (Fin a) (Fin b) =
     (if b \<noteq> 0 then Fin (a / b) else if a = 0 then NaN else if 0 < a then PosInf else NegInf)"
| "num_div NaN _ = NaN"
| "num_div _ NaN = NaN"
| "num_div (Fin _) _ = Fin 0"
| "num_div x (Fin b) = (if b < 0 then neg_jnum x else x)"
| "num_div _ _ = NaN"

text \<open>\<open>Math.sign\<close>, \<open>Math.abs\<close>, \<open>Math.round\<close> (halves round up).\<close>

definition num_sign :: "jnum \<Rightarrow> jnum" where
  "num_sign x = (case x of Fin r \<Rightarrow> Fin (sgn r) | PosInf \<Rightarrow> Fin 1 | NegInf \<Rightarrow> Fin (-1) | NaN \<Rightarrow> NaN)"

definition num_abs :: "jnum \<Rightarrow> jnum" where
  "num_abs x = (case x of Fin r \<Rightarrow> Fin \<bar>r\<bar> | NegInf \<Rightarrow> PosInf | _ \<Rightarrow> x)"

definition num_round :: "jnum \<Rightarrow> jnum" where
  "num_round x = (case x of Fin r \<Rightarrow> Fin (of_int \<lfloor>r + 1 / 2\<rfloor>) | _ \<Rightarrow> x)"

text \<open>\<open>x || 0\<close> for a number \<open>x\<close>\<close>

definition num_or_zero :: "jnum \<Rightarrow> jnum" where
  "num_or_zero x = (if x = NaN \<or> x = Fin 0 then Fin 0 else x)"

text \<open>\<open>x + y\<close>: string concatenation when either primitive is a string.\<close>

definition js_add :: "jval option \<Rightarrow> jval option \<Rightarrow> jval" where
  "js_add x y =
     (case (map_option js_to_prim x, map_option js_to_prim y) of
        (Some (JStr a), Some py) \<Rightarrow> JStr (a @ js_to_string py)
      | (Some (JStr a), None) \<Rightarrow> JStr (a @ ''undefined'')
      | (Some px, Some (JStr b)) \<Rightarrow> JStr (js_to_string px @ b)
      | (None, Some (JStr b)) \<Rightarrow> JStr (''undefined'' @ b)
      | (px, py) \<Rightarrow> JNum (num_add (js_number px) (js_number py)))"

text \<open>\<open>x - y\<close>\<close>

definition js_sub :: "jval option \<Rightarrow> jval option \<Rightarrow> jval" where
  "js_sub x y = JNum (num_sub (js_number x) (js_number y))"

text \<open>\<open>x >= c\<close> for a number \<open>x\<close> and a literal \<open>c\<close>; false when \<open>x\<close> is NaN.\<close>

definition num_ge :: "jnum \<Rightarrow> rat \<Rightarrow> bool" where
  "num_ge x c \<longleftrightarrow> x \<noteq> NaN \<and> \<not> num_less x (Fin c)"

definition num_le :: "jnum \<Rightarrow> rat \<Rightarrow> bool" where
  "num_le x c \<longleftrightarrow> x \<noteq> NaN \<and> \<not> num_less (Fin c) x"

text \<open>\<open>Math.max(lo, Math.min(hi, n))\<close> with bounds that are themselves values.\<close>

definition js_clamp_num :: "jnum \<Rightarrow> jnum \<Rightarrow> jnum \<Rightarrow> jnum" where
  "js_clamp_num n lo hi = num_max lo (num_min hi n)"

lemma js_clamp_num_Fin [simp, js_simps]:
  "js_clamp_num (Fin x) (Fin lo) (Fin hi) = Fin (clamp lo hi x)"
  by (simp add: js_clamp_num_def num_min_def num_max_def clamp_def max_def min_def)

lemma js_clamp_eq: "js_clamp n lo hi = js_clamp_num n (Fin lo) (Fin hi)"
  by (simp add: js_clamp_def js_clamp_num_def)

lemma js_add_Fin [simp, js_simps]: "js_add (Some (jn a)) (Some (jn b)) = jn (a + b)"
  by (simp add: js_add_def js_to_prim_def js_number_def)

lemma js_sub_Fin [simp, js_simps]: "js_sub (Some (jn a)) (Some (jn b)) = jn (a - b)"
  by (simp add: js_sub_def num_sub_def neg_jnum_def js_number_def)

lemma js_less_Fin [simp, js_simps]: "js_less (Some (jn a)) (Some (jn b)) \<longleftrightarrow> a < b"
  by (simp add: js_less_def js_to_prim_def js_number_def)

lemma num_ge_Fin [simp, js_simps]: "num_ge (Fin x) c \<longleftrightarrow> c \<le> x"
  by (auto simp: num_ge_def)

lemma num_le_Fin [simp, js_simps]: "num_le (Fin x) c \<longleftrightarrow> x \<le> c"
  by (auto simp: num_le_def)

subsection \<open>Object literals\<close>

text \<open>
  An object literal \<open>{k1: e1, ..., kn: en}\<close> whose values may be \<open>undefined\<close>;
  serialised, a property holding \<open>undefined\<close> disappears.
\<close>

definition js_obj_lit :: "(string \<times> jval option) list \<Rightarrow> jobj" where
  "js_obj_lit ps = concat (map (\<lambda>(k, v). case v of None \<Rightarrow> [] | Some x \<Rightarrow> [(k, x)]) ps)"

text \<open>\<open>o.k = v\<close> where \<open>v\<close> may be \<open>undefined\<close>.\<close>

definition js_set_opt :: "string \<Rightarrow> jval option \<Rightarrow> jobj \<Rightarrow> jobj" where
  "js_set_opt k v obj = (case v of None \<Rightarrow> AList.delete k obj | Some x \<Rightarrow> js_set k x obj)"

lemma js_obj_lit_simps [simp, js_simps]:
  "js_obj_lit [] = []"
  "js_obj_lit ((k, Some x) # ps) = (k, x) # js_obj_lit ps"
  "js_obj_lit ((k, None) # ps) = js_obj_lit ps"
  by (simp_all add: js_obj_lit_def)

lemma js_get_set_opt [simp, js_simps]:
  "js_get (js_set_opt k v obj) k' = (if k' = k then v else js_get obj k')"
  by (cases v) (simp_all add: js_set_opt_def js_get_def js_set_def delete_conv' update_conv')

text \<open>\<open>${v}\<close> in a template literal\<close>

definition js_template :: "jval option \<Rightarrow> string" where
  "js_template v = (case v of None \<Rightarrow> ''undefined'' | Some x \<Rightarrow> js_to_string x)"

text \<open>\<open>v ?? d\<close>\<close>

definition js_coalesce :: "jval option \<Rightarrow> jval \<Rightarrow> jval" where
  "js_coalesce v d = (case v of None \<Rightarrow> d | Some JNull \<Rightarrow> d | Some x \<Rightarrow> x)"

lemma js_coalesce_simps [simp, js_simps]:
  "js_coalesce None d = d"
  "js_coalesce (Some JNull) d = d"
  "js_coalesce (Some (JNum n)) d = JNum n"
  "js_coalesce (Some (JStr s)) d = JStr s"
  "js_coalesce (Some (JObj obj)) d = JObj obj"
  by (simp_all add: js_coalesce_def)

end
