(* ===== verification/KindSwitch.thy ===== *)
theory KindSwitch
  imports JsValue
begin

text \<open>
  The \<open>switch\<close> kind (\<open>src/mqtt-sim/src/devices/kinds/switch.kind.ts\<close>): an
  on/off state and nothing else. Commands are arbitrary JSON values; \<open>validate\<close>
  and \<open>reduce\<close> read \<open>cmd.state\<close>, which throws on \<open>null\<close>.
\<close>

definition switch_capabilities :: jobj where
  "switch_capabilities = []"

definition switch_default_telemetry :: rat where
  "switch_default_telemetry = 0"

definition switch_default_state :: "jobj \<Rightarrow> jobj" where
  "switch_default_state caps = [(''state'', JStr ''OFF'')]"

definition switch_validate :: "jval \<Rightarrow> jobj \<Rightarrow> js_error + unit" where
  "switch_validate cmd caps =
     ebind (js_read cmd ''state'') (\<lambda>st.
       if js_truthy st \<and> \<not> js_includes [''ON'', ''OFF''] st
       then Inl (Error ''state must be ON|OFF'') else Inr ())"

definition switch_reduce :: "jobj \<Rightarrow> jval \<Rightarrow> jobj \<Rightarrow> js_error + jobj" where
  "switch_reduce prev cmd caps =
     ebind (js_read cmd ''state'') (\<lambda>st.
       Inr (js_obj_lit [(''state'',
              if js_truthy st then Some (JStr (if js_is_str st ''ON'' then ''ON'' else ''OFF''))
              else js_get prev ''state'')]))"

subsection \<open>Properties\<close>

text \<open>The state of a switch is one property, \<open>ON\<close> or \<open>OFF\<close>.\<close>

definition switch_wf :: "jobj \<Rightarrow> bool" where
  "switch_wf s \<longleftrightarrow> s = [(''state'', JStr ''ON'')] \<or> s = [(''state'', JStr ''OFF'')]"

lemma switch_validate_iff:
  "switch_validate cmd caps = Inr () \<longleftrightarrow>
     cmd \<noteq> JNull \<and> (js_truthy (js_prop cmd ''state'') \<longrightarrow> js_includes [''ON'', ''OFF''] (js_prop cmd ''state''))"
  by (auto simp: switch_validate_def js_read_def)

lemma switch_reduce_total:
  "switch_validate cmd caps = Inr () \<Longrightarrow> \<exists>s. switch_reduce prev cmd caps = Inr s"
  by (simp add: switch_validate_iff switch_reduce_def js_read_def)

text \<open>
  \<open>reduce\<close> takes a switch state holding only \<open>state: ON\<close> or \<open>state: OFF\<close>
  to another such state, for every command; any truthy \<open>state\<close> other than
  \<open>ON\<close> switches the switch off.
\<close>

theorem switch_reduce_wf:
  "switch_wf prev \<Longrightarrow> switch_reduce prev cmd caps = Inr s \<Longrightarrow> switch_wf s"
  by (auto simp: switch_wf_def switch_reduce_def js_read_def js_is_str_def split: if_splits)

lemma switch_default_wf: "switch_wf (switch_default_state caps)"
  by (simp add: switch_wf_def switch_default_state_def)

theorem switch_reduce_wf_witness:
  "switch_wf (switch_default_state []) \<and>
   switch_reduce (switch_default_state []) (JObj [(''state'', JStr ''ON'')]) [] = Inr [(''state'', JStr ''ON'')] \<and>
   switch_wf [(''state'', JStr ''ON'')]"
proof -
  have h: "switch_wf (switch_default_state [])"
    "switch_reduce (switch_default_state []) (JObj [(''state'', JStr ''ON'')]) [] = Inr [(''state'', JStr ''ON'')]"
    by (simp_all add: switch_wf_def switch_default_state_def switch_reduce_def js_read_def js_is_str_def)
  show ?thesis using h switch_reduce_wf [OF h] by blast
qed

end
