(* ===== verification/KindFan.thy ===== *)
theory KindFan
  imports JsValue
begin

text \<open>
  The \<open>fan\<close> kind (\<open>src/mqtt-sim/src/devices/kinds/fan.kind.ts\<close>): on/off and an
  integer speed in \<open>[0, maxSpeed]\<close>. Setting a positive speed switches the fan on,
  switching it off zeroes the speed, switching it on at speed 0 restores
  \<open>defaultSpeed\<close>.
\<close>

definition fan_capabilities :: jobj where
  "fan_capabilities = [(''maxSpeed'', jn 3), (''defaultSpeed'', jn 1)]"

definition fan_default_telemetry :: rat where
  "fan_default_telemetry = 0"

definition fan_default_state :: "jobj \<Rightarrow> jobj" where
  "fan_default_state caps = [(''state'', JStr ''OFF''), (''speed'', jn 0)]"

definition fan_validate :: "jval \<Rightarrow> jobj \<Rightarrow> js_error + unit" where
  "fan_validate cmd caps =
     (let c = js_spread fan_capabilities caps in
      ebind (js_read cmd ''state'') (\<lambda>st.
        if js_truthy st \<and> \<not> js_includes [''ON'', ''OFF''] st
        then Inl (Error ''state must be ON|OFF'')
        else (let sp = js_prop cmd ''speed'' in
              if \<not> js_nullish sp \<and> (js_lt sp 0 \<or> js_less (js_get c ''maxSpeed'') sp)
              then Inl (Error (''speed 0..'' @ js_template (js_get c ''maxSpeed'')))
              else Inr ())))"

text \<open>The \<open>if (cmd.state)\<close> block of \<open>reduce\<close>.\<close>

definition fan_apply_state :: "jobj \<Rightarrow> jval option \<Rightarrow> jobj \<Rightarrow> jobj" where
  "fan_apply_state c st prev =
     (let s1 = js_set ''state'' (JStr (if js_is_str st ''ON'' then ''ON'' else ''OFF'')) prev;
          s2 = (if js_get s1 ''state'' = Some (JStr ''OFF'') then js_set ''speed'' (jn 0) s1 else s1)
      in if js_get s2 ''state'' = Some (JStr ''ON'') \<and> js_get s2 ''speed'' = Some (jn 0)
         then js_set_opt ''speed'' (js_get c ''defaultSpeed'') s2 else s2)"

text \<open>The \<open>if (typeof cmd.speed === 'number')\<close> block of \<open>reduce\<close>.\<close>

definition fan_apply_speed :: "jobj \<Rightarrow> jval option \<Rightarrow> jobj \<Rightarrow> jobj" where
  "fan_apply_speed c sp s =
     (let v = js_clamp_num (js_number sp) (Fin 0) (js_number (js_get c ''maxSpeed''))
      in js_set ''state'' (JStr (if num_less (Fin 0) v then ''ON'' else ''OFF'')) (js_set ''speed'' (JNum v) s))"

definition fan_reduce :: "jobj \<Rightarrow> jval \<Rightarrow> jobj \<Rightarrow> js_error + jobj" where
  "fan_reduce prev cmd caps =
     (let c = js_spread fan_capabilities caps in
      ebind (js_read cmd ''state'') (\<lambda>st.
        let n1 = (if js_truthy st then fan_apply_state c st prev else prev);
            sp = js_prop cmd ''speed''
        in Inr (if js_is_number sp then fan_apply_speed c sp n1 else n1)))"

subsection \<open>Well-formed capabilities and states\<close>

text \<open>Capabilities under which the fan is meaningful: numeric \<open>maxSpeed\<close> and
  \<open>defaultSpeed\<close> with \<open>0 < defaultSpeed \<le> maxSpeed\<close> (the defaults 3 and 1 are).\<close>

definition fan_caps_ok :: "jobj \<Rightarrow> rat \<Rightarrow> rat \<Rightarrow> bool" where
  "fan_caps_ok caps m d \<longleftrightarrow>
     js_get (js_spread fan_capabilities caps) ''maxSpeed'' = Some (jn m) \<and>
     js_get (js_spread fan_capabilities caps) ''defaultSpeed'' = Some (jn d) \<and> 0 < d \<and> d \<le> m"

text \<open>A fan state: a numeric speed within \<open>[0, m]\<close>; on exactly when the speed is positive.\<close>

definition fan_wf :: "rat \<Rightarrow> jobj \<Rightarrow> bool" where
  "fan_wf m s \<longleftrightarrow>
     (\<exists>v. js_get s ''speed'' = Some (jn v) \<and> 0 \<le> v \<and> v \<le> m \<and>
          (js_get s ''state'' = Some (JStr ''ON'') \<and> 0 < v \<or>
           js_get s ''state'' = Some (JStr ''OFF'') \<and> v = 0))"

lemma fan_apply_state_wf:
  assumes "fan_caps_ok caps m d" and "fan_wf m prev"
  shows "fan_wf m (fan_apply_state (js_spread fan_capabilities caps) st prev)"
  using assms by (auto simp: fan_caps_ok_def fan_wf_def fan_apply_state_def Let_def)

lemma fan_apply_speed_wf:
  assumes "fan_caps_ok caps m d" and "sp \<noteq> Some (JNum NaN)" and "js_is_number sp"
  shows "fan_wf m (fan_apply_speed (js_spread fan_capabilities caps) sp s)"
proof -
  from assms(3) obtain n where sp: "sp = Some (JNum n)" and "n \<noteq> NaN"
    using assms(2) by (cases sp; cases "the sp") (auto simp: js_is_number_def)
  moreover have "0 \<le> m" using assms(1) by (simp add: fan_caps_ok_def)
  ultimately obtain r where "js_clamp_num n (Fin 0) (Fin m) = Fin r" and "0 \<le> r" and "r \<le> m"
    using js_clamp_finite [of 0 m n] by (auto simp: js_clamp_eq)
  then show ?thesis
    using assms(1) sp by (auto simp: fan_wf_def fan_apply_speed_def fan_caps_ok_def js_number_def)
qed

subsection \<open>Properties\<close>

text \<open>
  C33: under well-formed capabilities, every command whose \<open>speed\<close> is not NaN takes
  a well-formed fan state to a well-formed one: the speed stays a number within
  \<open>[0, maxSpeed]\<close> and the fan is on exactly when the speed is positive.
\<close>

theorem fan_reduce_wf:
  assumes "fan_caps_ok caps m d" and "fan_wf m prev"
    and "js_prop cmd ''speed'' \<noteq> Some (JNum NaN)" and "fan_reduce prev cmd caps = Inr s"
  shows "fan_wf m s"
proof -
  let ?c = "js_spread fan_capabilities caps"
  let ?st = "js_prop cmd ''state''"
  let ?n1 = "if js_truthy ?st then fan_apply_state ?c ?st prev else prev"
  have "fan_wf m ?n1" using assms(1,2) by (simp add: fan_apply_state_wf)
  moreover have "s = (if js_is_number (js_prop cmd ''speed'') then fan_apply_speed ?c (js_prop cmd ''speed'') ?n1 else ?n1)"
    using assms(4) by (auto simp: fan_reduce_def js_read_def Let_def split: if_splits)
  ultimately show ?thesis using assms(1,3) by (simp add: fan_apply_speed_wf)
qed

theorem fan_reduce_wf_witness:
  "fan_caps_ok [] 3 1 \<and> fan_wf 3 (fan_default_state []) \<and>
   fan_reduce (fan_default_state []) (JObj [(''speed'', jn 2)]) [] = Inr [(''state'', JStr ''ON''), (''speed'', jn 2)] \<and>
   fan_wf 3 [(''state'', JStr ''ON''), (''speed'', jn 2)]"
proof -
  have h: "fan_caps_ok [] 3 1" "fan_wf 3 (fan_default_state [])"
    "js_prop (JObj [(''speed'', jn 2)]) ''speed'' \<noteq> Some (JNum NaN)"
    "fan_reduce (fan_default_state []) (JObj [(''speed'', jn 2)]) [] = Inr [(''state'', JStr ''ON''), (''speed'', jn 2)]"
    by (simp_all add: fan_caps_ok_def fan_capabilities_def fan_wf_def fan_default_state_def fan_reduce_def
        js_read_def fan_apply_speed_def js_set_def js_number_def clamp_def)
  show ?thesis using h fan_reduce_wf [OF h] by blast
qed

text \<open>
  C34: a command that \<open>validate\<close> accepts carries, when its \<open>speed\<close> is a number, a
  speed within \<open>[0, maxSpeed]\<close>; a speed above \<open>maxSpeed\<close> is rejected.
\<close>

theorem fan_validate_speed_range:
  assumes "fan_validate cmd caps = Inr ()" and "fan_caps_ok caps m d"
    and "js_prop cmd ''speed'' = Some (jn v)"
  shows "0 \<le> v \<and> v \<le> m"
  using assms by (auto simp: fan_validate_def fan_caps_ok_def js_read_def js_nullish_def Let_def split: if_splits)

theorem fan_validate_speed_range_witness:
  "fan_validate (JObj [(''speed'', jn 3)]) [] = Inr () \<and> fan_caps_ok [] 3 1 \<and> 0 \<le> (3::rat) \<and> (3::rat) \<le> 3"
proof -
  have h: "fan_validate (JObj [(''speed'', jn 3)]) [] = Inr ()" "fan_caps_ok [] 3 1"
    "js_prop (JObj [(''speed'', jn 3)]) ''speed'' = Some (jn 3)"
    by (simp_all add: fan_validate_def fan_caps_ok_def fan_capabilities_def js_read_def js_nullish_def)
  show ?thesis using h fan_validate_speed_range [OF h] by blast
qed

end
