(* ===== verification/KindCover.thy ===== *)
theory KindCover
  imports JsValue
begin

text \<open>
  The \<open>cover\<close> kind (\<open>src/mqtt-sim/src/devices/kinds/cover.kind.ts\<close>): a position
  in \<open>[0, 100]\<close>, the last action (\<open>OPEN\<close>, \<open>CLOSE\<close>, \<open>STOP\<close>) and a
  \<open>moving\<close> flag. Its \<open>tick\<close> moves the position by \<open>speedPerTick\<close> towards the
  end the action names and stops there. \<open>reduce\<close> applies the \<open>invert\<close> capability
  twice, as the source does.
\<close>

definition cover_capabilities :: jobj where
  "cover_capabilities = [(''speedPerTick'', jn 5), (''invert'', JBool False)]"

definition cover_default_telemetry :: rat where
  "cover_default_telemetry = 2"

definition cover_default_state :: "jobj \<Rightarrow> jobj" where
  "cover_default_state caps =
     (let c = js_spread cover_capabilities caps in
      [(''position'', jn (if js_truthy (js_get c ''invert'') then 100 else 0)),
       (''action'', JStr ''STOP''), (''moving'', JBool False)])"

definition cover_validate :: "jval \<Rightarrow> jobj \<Rightarrow> js_error + unit" where
  "cover_validate cmd caps =
     ebind (js_read cmd ''position'') (\<lambda>pos.
       if \<not> js_nullish pos \<and> (js_lt pos 0 \<or> js_gt pos 100) then Inl (Error ''position 0..100'')
       else (let act = js_prop cmd ''action'' in
             if js_truthy act \<and> \<not> js_includes [''OPEN'', ''CLOSE'', ''STOP''] act
             then Inl (Error ''action must be OPEN|CLOSE|STOP'') else Inr ()))"

text \<open>\<open>next.position = 100 - next.position\<close>\<close>

definition cover_flip :: "jobj \<Rightarrow> jobj" where
  "cover_flip s = js_set ''position'' (js_sub (Some (jn 100)) (js_get s ''position'')) s"

definition cover_reduce :: "jobj \<Rightarrow> jval \<Rightarrow> jobj \<Rightarrow> js_error + jobj" where
  "cover_reduce prev cmd caps =
     (let c = js_spread cover_capabilities caps in
      ebind (js_read cmd ''position'') (\<lambda>pos.
        let n1 = (if js_is_number pos
                  then js_set ''moving'' (JBool False) (js_set ''action'' (JStr ''STOP'')
                         (js_set ''position'' (JNum (js_clamp (js_number pos) 0 100)) prev))
                  else prev);
            act = js_prop cmd ''action'';
            n2 = (if js_truthy act
                  then js_set ''moving'' (JBool (js_is_str act ''OPEN'' \<or> js_is_str act ''CLOSE''))
                         (js_set_opt ''action'' act n1)
                  else n1);
            inv = js_truthy (js_get c ''invert'');
            n3 = (if inv then cover_flip n2 else n2);
            n4 = (if inv then cover_flip n3 else n3)
        in Inr n4))"

definition cover_tick :: "jobj \<Rightarrow> jobj \<Rightarrow> jobj" where
  "cover_tick prev caps =
     (let c = js_spread cover_capabilities caps in
      if \<not> js_truthy (js_get prev ''moving'') then prev
      else (let act = js_get prev ''action'';
                p0 = js_get prev ''position'';
                p1 = (if js_is_str act ''OPEN'' then Some (js_add p0 (js_get c ''speedPerTick'')) else p0);
                p2 = (if js_is_str act ''CLOSE'' then Some (js_sub p1 (js_get c ''speedPerTick'')) else p1);
                pos = js_clamp (js_number p2) 0 100;
                at_end = (js_is_str act ''OPEN'' \<and> num_ge pos 100 \<or> js_is_str act ''CLOSE'' \<and> num_le pos 0)
            in js_obj_lit [(''position'', Some (JNum pos)),
                           (''action'', if at_end then Some (JStr ''STOP'') else act),
                           (''moving'', Some (JBool (\<not> at_end)))]))"

subsection \<open>Cover states and repeated ticks\<close>

text \<open>A cover state as the code writes it: position, action, moving flag.\<close>

definition cover_st :: "rat \<Rightarrow> string \<Rightarrow> bool \<Rightarrow> jobj" where
  "cover_st p a m = [(''position'', jn p), (''action'', JStr a), (''moving'', JBool m)]"

definition cover_speed :: "jobj \<Rightarrow> rat \<Rightarrow> bool" where
  "cover_speed caps v \<longleftrightarrow> js_get (js_spread cover_capabilities caps) ''speedPerTick'' = Some (jn v)"

text \<open>\<open>k\<close> firings of the telemetry timer of one cover, with no command in between.\<close>

definition cover_ticks :: "nat \<Rightarrow> jobj \<Rightarrow> jobj \<Rightarrow> jobj" where
  "cover_ticks k caps s = ((\<lambda>s. cover_tick s caps) ^^ k) s"

lemma cover_tick_open:
  assumes "cover_speed caps v" "0 \<le> p" "0 \<le> v"
  shows "cover_tick (cover_st p ''OPEN'' True) caps =
           cover_st (min 100 (p + v)) (if 100 \<le> p + v then ''STOP'' else ''OPEN'') (p + v < 100)"
  using assms by (auto simp: cover_tick_def cover_st_def cover_speed_def js_is_str_def clamp_def Let_def)

lemma cover_tick_close:
  assumes "cover_speed caps v" "p \<le> 100" "0 \<le> v"
  shows "cover_tick (cover_st p ''CLOSE'' True) caps =
           cover_st (max 0 (p - v)) (if p - v \<le> 0 then ''STOP'' else ''CLOSE'') (0 < p - v)"
  using assms by (auto simp: cover_tick_def cover_st_def cover_speed_def js_is_str_def clamp_def Let_def)

lemma cover_tick_stopped: "cover_tick (cover_st p a False) caps = cover_st p a False"
  by (simp add: cover_tick_def cover_st_def)

lemma cover_ticks_stopped: "cover_ticks k caps (cover_st p a False) = cover_st p a False"
  by (induction k) (simp_all add: cover_ticks_def cover_tick_stopped)

lemma cover_ticks_open:
  assumes "cover_speed caps v" "0 < v" "0 \<le> p" "p < 100"
  shows "cover_ticks k caps (cover_st p ''OPEN'' True) =
           (if p + of_nat k * v < 100 then cover_st (p + of_nat k * v) ''OPEN'' True
            else cover_st 100 ''STOP'' False)"
proof (induction k)
  case 0
  then show ?case using assms by (simp add: cover_ticks_def)
next
  case (Suc k)
  have "0 \<le> of_nat k * v" using assms by simp
  then show ?case using Suc.IH assms
    by (auto simp: cover_ticks_def cover_tick_open cover_tick_stopped algebra_simps)
qed

lemma cover_ticks_close:
  assumes "cover_speed caps v" "0 < v" "0 < p" "p \<le> 100"
  shows "cover_ticks k caps (cover_st p ''CLOSE'' True) =
           (if 0 < p - of_nat k * v then cover_st (p - of_nat k * v) ''CLOSE'' True
            else cover_st 0 ''STOP'' False)"
proof (induction k)
  case 0
  then show ?case using assms by (simp add: cover_ticks_def)
next
  case (Suc k)
  have "0 \<le> of_nat k * v" using assms by simp
  then have "p - of_nat k * v \<le> 100" using assms by linarith
  with assms have "cover_tick (cover_st (p - of_nat k * v) ''CLOSE'' True) caps =
      cover_st (max 0 (p - of_nat (Suc k) * v)) (if p - of_nat (Suc k) * v \<le> 0 then ''STOP'' else ''CLOSE'')
        (0 < p - of_nat (Suc k) * v)"
    by (simp add: cover_tick_close algebra_simps)
  then show ?case using Suc.IH assms
    by (auto simp: cover_ticks_def cover_tick_stopped algebra_simps)
qed

subsection \<open>The double inversion\<close>

lemma update_same_value: "map_of al k = Some v \<Longrightarrow> AList.update k v al = al"
  by (induction al) auto

lemma cover_flip_flip:
  "js_get s ''position'' = Some (jn p) \<Longrightarrow> cover_flip (cover_flip s) = s"
  by (simp add: cover_flip_def js_set_def js_get_def update_conv' update_same_value)

lemma cover_flip_undefined:
  "js_get s ''position'' = None \<Longrightarrow> js_get (cover_flip (cover_flip s)) ''position'' = Some (JNum NaN)"
  by (simp add: cover_flip_def js_sub_def js_number_def num_sub_def neg_jnum_def)

subsection \<open>Properties\<close>

text \<open>
  C14: an opening cover with a positive \<open>speedPerTick\<close> reaches the open end: after
  \<open>\<lceil>(100 - p) / v\<rceil>\<close> telemetry ticks its position is 100, its action \<open>STOP\<close>
  and it no longer moves; from position 0 at the default speed 5 that is 20 ticks.
\<close>

theorem cover_open_reaches_end:
  assumes "cover_speed caps v" "0 < v" "0 \<le> p" "p < 100"
  shows "cover_ticks (nat \<lceil>(100 - p) / v\<rceil>) caps (cover_st p ''OPEN'' True) = cover_st 100 ''STOP'' False"
proof -
  let ?k = "nat \<lceil>(100 - p) / v\<rceil>"
  have "(100 - p) / v \<le> of_nat ?k" by linarith
  then have "100 - p \<le> of_nat ?k * v" using assms(2) by (simp add: pos_divide_le_eq)
  then show ?thesis using cover_ticks_open [OF assms, of ?k] by simp
qed

theorem cover_open_reaches_end_witness:
  "cover_ticks 20 [] (cover_st 0 ''OPEN'' True) = cover_st 100 ''STOP'' False \<and>
   cover_ticks 5 [] (cover_st 100 ''STOP'' False) = cover_st 100 ''STOP'' False"
proof -
  have h: "cover_speed [] 5" by (simp add: cover_speed_def cover_capabilities_def)
  have "nat \<lceil>(100 - 0) / (5::rat)\<rceil> = 20" by simp
  then show ?thesis using cover_open_reaches_end [OF h, of 0] cover_ticks_stopped by simp
qed

text \<open>After the \<open>position\<close> block of \<open>reduce\<close> the position is still a number.\<close>

lemma cover_reduce_pos_finite:
  assumes "js_get prev ''position'' = Some (jn p)" and "js_prop cmd ''position'' \<noteq> Some (JNum NaN)"
  shows "\<exists>q. js_get (if js_is_number (js_prop cmd ''position'')
                  then js_set ''moving'' (JBool False) (js_set ''action'' (JStr ''STOP'')
                         (js_set ''position'' (JNum (js_clamp (js_number (js_prop cmd ''position'')) 0 100)) prev))
                  else prev) ''position'' = Some (jn q)"
proof (cases "js_is_number (js_prop cmd ''position'')")
  case True
  then obtain n where "js_prop cmd ''position'' = Some (JNum n)" and "n \<noteq> NaN"
    using assms(2) by (cases "js_prop cmd ''position''"; cases "the (js_prop cmd ''position'')")
      (auto simp: js_is_number_def)
  then show ?thesis using js_clamp_finite [of 0 100 n] True by (auto simp: js_number_def)
next
  case False
  then show ?thesis using assms(1) by simp
qed

text \<open>
  C36: the \<open>invert\<close> capability has no effect on \<open>reduce\<close>: it is applied and
  immediately undone, so whenever the stored position is a number (and the command's
  position is not NaN) the result does not depend on the capabilities at all.
\<close>

theorem cover_reduce_caps_independent:
  assumes "js_get prev ''position'' = Some (jn p)" and "js_prop cmd ''position'' \<noteq> Some (JNum NaN)"
  shows "cover_reduce prev cmd caps = cover_reduce prev cmd []"
proof -
  obtain q where q: "js_get (if js_is_number (js_prop cmd ''position'')
                  then js_set ''moving'' (JBool False) (js_set ''action'' (JStr ''STOP'')
                         (js_set ''position'' (JNum (js_clamp (js_number (js_prop cmd ''position'')) 0 100)) prev))
                  else prev) ''position'' = Some (jn q)"
    using cover_reduce_pos_finite [OF assms] by blast
  then show ?thesis
    by (auto simp: cover_reduce_def js_read_def Let_def cover_capabilities_def cover_flip_flip
        split: if_splits)
qed

theorem cover_reduce_caps_independent_witness:
  "cover_reduce (cover_st 30 ''STOP'' False) (JObj [(''position'', jn 40)]) [(''invert'', JBool True)] =
   cover_reduce (cover_st 30 ''STOP'' False) (JObj [(''position'', jn 40)]) [] \<and>
   cover_reduce (cover_st 30 ''STOP'' False) (JObj [(''position'', jn 40)]) [] = Inr (cover_st 40 ''STOP'' False)"
proof -
  have h: "js_get (cover_st 30 ''STOP'' False) ''position'' = Some (jn 30)"
    "js_prop (JObj [(''position'', jn 40)]) ''position'' \<noteq> Some (JNum NaN)"
    by (simp_all add: cover_st_def)
  have "cover_reduce (cover_st 30 ''STOP'' False) (JObj [(''position'', jn 40)]) [] = Inr (cover_st 40 ''STOP'' False)"
    by (simp add: cover_reduce_def cover_st_def cover_capabilities_def js_read_def js_set_def js_number_def
        clamp_def Let_def)
  then show ?thesis using cover_reduce_caps_independent [OF h, of "[(''invert'', JBool True)]"] by simp
qed

text \<open>
  C35: a command that \<open>validate\<close> accepts carries, when its \<open>position\<close> is a
  number, a position within \<open>[0, 100]\<close>: position 150 is rejected.
\<close>

theorem cover_validate_position_range:
  assumes "cover_validate cmd caps = Inr ()" and "js_prop cmd ''position'' = Some (jn p)"
  shows "0 \<le> p \<and> p \<le> 100"
  using assms by (auto simp: cover_validate_def js_read_def js_nullish_def split: if_splits)

theorem cover_validate_position_range_witness:
  "cover_validate (JObj [(''position'', jn 100)]) [] = Inr () \<and> 0 \<le> (100::rat) \<and> (100::rat) \<le> 100 \<and>
   cover_validate (JObj [(''position'', jn 150)]) [] = Inl (Error ''position 0..100'')"
proof -
  have h: "cover_validate (JObj [(''position'', jn 100)]) [] = Inr ()"
    "js_prop (JObj [(''position'', jn 100)]) ''position'' = Some (jn 100)"
    by (simp_all add: cover_validate_def js_read_def js_nullish_def)
  have "cover_validate (JObj [(''position'', jn 150)]) [] = Inl (Error ''position 0..100'')"
    by (simp add: cover_validate_def js_read_def js_nullish_def)
  then show ?thesis using h cover_validate_position_range [OF h] by blast
qed

end
