(* ===== verification/KindLight.thy ===== *)
theory KindLight
  imports JsValue
begin

text \<open>
  The \<open>light\<close> kind (\<open>src/mqtt-sim/src/devices/kinds/light.kind.ts\<close>): on/off,
  and, as the capabilities allow, a brightness in \<open>[0, 255]\<close>, a colour temperature
  in \<open>[153, 500]\<close> mired, an RGB colour, and a display mode among \<open>white\<close>,
  \<open>ct\<close>, \<open>rgb\<close>. \<open>validate\<close> uses the \<open>in\<close> operator, which throws on a
  primitive command.
\<close>

definition light_capabilities :: jobj where
  "light_capabilities = [(''brightness'', JBool True), (''color_temp'', JBool False), (''rgb'', JBool False)]"

definition light_default_telemetry :: rat where
  "light_default_telemetry = 0"

definition light_caps :: "jobj \<Rightarrow> jobj" where
  "light_caps caps = js_spread light_capabilities caps"

definition light_default_state :: "jobj \<Rightarrow> jobj" where
  "light_default_state caps =
     (let c = light_caps caps;
          st0 = [(''state'', JStr ''OFF'')];
          st1 = (if js_truthy (js_get c ''brightness'') then js_set ''brightness'' (jn 0) st0 else st0);
          st2 = (if js_truthy (js_get c ''color_temp'')
                 then js_set ''mode'' (JStr ''ct'') (js_set ''colorTemp'' (jn 350) st1) else st1);
          st3 = (if js_truthy (js_get c ''rgb'')
                 then js_set ''mode''
                        (if js_truthy (js_get c ''color_temp'') then js_coalesce (js_get st2 ''mode'') (JStr ''rgb'')
                         else JStr ''rgb'')
                        (js_set ''color'' (JObj [(''r'', jn 255), (''g'', jn 255), (''b'', jn 255)]) st2)
                 else st2)
      in if \<not> js_truthy (js_get c ''color_temp'') \<and> \<not> js_truthy (js_get c ''rgb'')
         then js_set ''mode'' (JStr ''white'') st3 else st3)"

text \<open>\<open>['white', ...(c.color_temp?['ct']:[]), ...(c.rgb?['rgb']:[])]\<close>\<close>

definition light_allowed :: "jobj \<Rightarrow> string list" where
  "light_allowed c =
     [''white''] @ (if js_truthy (js_get c ''color_temp'') then [''ct''] else [])
       @ (if js_truthy (js_get c ''rgb'') then [''rgb''] else [])"

text \<open>\<open>const {r,g,b} = cmd.color ?? {}\<close> and the range check of each channel.\<close>

definition light_rgb_ok :: "jval option \<Rightarrow> bool" where
  "light_rgb_ok col =
     (let ov = js_coalesce col (JObj []) in
      list_all (\<lambda>v. \<not> (js_nullish v \<or> js_lt v 0 \<or> js_gt v 255))
        [js_prop ov ''r'', js_prop ov ''g'', js_prop ov ''b''])"

definition light_validate :: "jval \<Rightarrow> jobj \<Rightarrow> js_error + unit" where
  "light_validate cmd caps =
     (let c = light_caps caps in
      ebind (js_read cmd ''state'') (\<lambda>st.
      if js_truthy st \<and> \<not> js_includes [''ON'', ''OFF''] st then Inl (Error ''state must be ON|OFF'')
      else ebind (js_in ''brightness'' cmd) (\<lambda>hb.
      if hb \<and> \<not> js_truthy (js_get c ''brightness'') then Inl (Error ''brightness not supported'')
      else if hb \<and> (js_lt (js_prop cmd ''brightness'') 0 \<or> js_gt (js_prop cmd ''brightness'') 255)
      then Inl (Error ''brightness 0..255'')
      else ebind (js_in ''colorTemp'' cmd) (\<lambda>hc.
      if hc \<and> \<not> js_truthy (js_get c ''color_temp'') then Inl (Error ''color_temp not supported'')
      else if hc \<and> (js_lt (js_prop cmd ''colorTemp'') 153 \<or> js_gt (js_prop cmd ''colorTemp'') 500)
      then Inl (Error ''colorTemp 153..500'')
      else ebind (js_in ''color'' cmd) (\<lambda>hr.
      if hr \<and> \<not> js_truthy (js_get c ''rgb'') then Inl (Error ''rgb not supported'')
      else if hr \<and> \<not> light_rgb_ok (js_prop cmd ''color'') then Inl (Error ''color r/g/b 0..255'')
      else ebind (js_in ''mode'' cmd) (\<lambda>hm.
      if hm \<and> \<not> js_includes (light_allowed c) (js_prop cmd ''mode'')
      then Inl (Error (''mode must be one of '' @ join_comma (light_allowed c)))
      else Inr ()))))))"

text \<open>\<open>clampRGB\<close>: each channel \<open>clamp(Number(c?.r ?? 255), 0, 255)\<close>.\<close>

definition clamp_rgb :: "jval \<Rightarrow> jobj" where
  "clamp_rgb v =
     map (\<lambda>k. (k, JNum (js_clamp (js_number (Some (js_coalesce (js_prop v k) (jn 255)))) 0 255)))
       [''r'', ''g'', ''b'']"

definition light_reduce :: "jobj \<Rightarrow> jval \<Rightarrow> jobj \<Rightarrow> js_error + jobj" where
  "light_reduce prev cmd caps =
     (let c = light_caps caps in
      ebind (js_read cmd ''state'') (\<lambda>st.
      let n1 = (if js_truthy st then js_set ''state'' (JStr (if js_is_str st ''ON'' then ''ON'' else ''OFF'')) prev
                else prev);
          br = js_prop cmd ''brightness'';
          n2 = (if js_truthy (js_get c ''brightness'') \<and> js_is_number br
                then js_set ''brightness'' (JNum (js_clamp (js_number br) 0 255)) n1 else n1);
          ct = js_prop cmd ''colorTemp'';
          n3 = (if js_truthy (js_get c ''color_temp'') \<and> js_is_number ct
                then js_set ''mode'' (JStr ''ct'') (js_set ''colorTemp'' (JNum (js_clamp (js_number ct) 153 500)) n2)
                else n2);
          col = js_prop cmd ''color'';
          n4 = (if js_truthy (js_get c ''rgb'') \<and> js_truthy col
                then js_set ''mode'' (JStr ''rgb'') (js_set ''color'' (JObj (clamp_rgb (the col))) n3) else n3);
          md = js_prop cmd ''mode'';
          n5 = (if js_truthy md \<and> js_includes (light_allowed c) md then js_set_opt ''mode'' md n4 else n4);
          n6 = (if \<not> js_truthy (js_get n5 ''mode'')
                then js_set ''mode'' (JStr (if js_truthy (js_get c ''rgb'') then ''rgb''
                                          else if js_truthy (js_get c ''color_temp'') then ''ct'' else ''white'')) n5
                else n5)
      in Inr n6))"

subsection \<open>Well-formed light states\<close>

text \<open>
  A light state is well formed for merged capabilities \<open>c\<close> when its \<open>state\<close> is
  \<open>ON\<close> or \<open>OFF\<close>, each property the capabilities enable is present and within
  its declared range, and the mode is one the capabilities allow.
\<close>

definition rgb_wf :: "jval \<Rightarrow> bool" where
  "rgb_wf v \<longleftrightarrow> (\<exists>r g b. v = JObj [(''r'', jn r), (''g'', jn g), (''b'', jn b)] \<and>
                 0 \<le> r \<and> r \<le> 255 \<and> 0 \<le> g \<and> g \<le> 255 \<and> 0 \<le> b \<and> b \<le> 255)"

definition light_wf :: "jobj \<Rightarrow> jobj \<Rightarrow> bool" where
  "light_wf c s \<longleftrightarrow>
     (js_get s ''state'' = Some (JStr ''ON'') \<or> js_get s ''state'' = Some (JStr ''OFF'')) \<and>
     (js_truthy (js_get c ''brightness'') \<longrightarrow>
        (\<exists>b. js_get s ''brightness'' = Some (jn b) \<and> 0 \<le> b \<and> b \<le> 255)) \<and>
     (js_truthy (js_get c ''color_temp'') \<longrightarrow>
        (\<exists>t. js_get s ''colorTemp'' = Some (jn t) \<and> 153 \<le> t \<and> t \<le> 500)) \<and>
     (js_truthy (js_get c ''rgb'') \<longrightarrow> (\<exists>v. js_get s ''color'' = Some v \<and> rgb_wf v)) \<and>
     (\<exists>m. js_get s ''mode'' = Some (JStr m) \<and> m \<in> set (light_allowed c))"

definition rgb_finite :: "jval \<Rightarrow> bool" where
  "rgb_finite v \<longleftrightarrow>
     list_all (\<lambda>k. js_number (Some (js_coalesce (js_prop v k) (jn 255))) \<noteq> NaN) [''r'', ''g'', ''b'']"

definition light_cmd_finite :: "jval \<Rightarrow> bool" where
  "light_cmd_finite cmd \<longleftrightarrow>
     js_prop cmd ''brightness'' \<noteq> Some (JNum NaN) \<and> js_prop cmd ''colorTemp'' \<noteq> Some (JNum NaN) \<and>
     (case js_prop cmd ''color'' of Some v \<Rightarrow> rgb_finite v | None \<Rightarrow> True)"

lemma light_wf_state:
  "light_wf c s \<Longrightarrow> x \<in> {''ON'', ''OFF''} \<Longrightarrow> light_wf c (js_set ''state'' (JStr x) s)"
  by (auto simp: light_wf_def)

lemma light_wf_brightness:
  "light_wf c s \<Longrightarrow> n \<noteq> NaN \<Longrightarrow> light_wf c (js_set ''brightness'' (JNum (js_clamp n 0 255)) s)"
  using js_clamp_finite [of 0 255 n] by (auto simp: light_wf_def)

lemma light_wf_color_temp:
  "light_wf c s \<Longrightarrow> js_truthy (js_get c ''color_temp'') \<Longrightarrow> n \<noteq> NaN \<Longrightarrow>
   light_wf c (js_set ''mode'' (JStr ''ct'') (js_set ''colorTemp'' (JNum (js_clamp n 153 500)) s))"
  using js_clamp_finite [of 153 500 n] by (auto simp: light_wf_def light_allowed_def)

lemma clamp_rgb_wf: "rgb_finite v \<Longrightarrow> rgb_wf (JObj (clamp_rgb v))"
proof -
  assume "rgb_finite v"
  then have "\<forall>k \<in> {''r'', ''g'', ''b''}. \<exists>x. js_clamp (js_number (Some (js_coalesce (js_prop v k) (jn 255)))) 0 255 = Fin x \<and> 0 \<le> x \<and> x \<le> 255"
    using js_clamp_finite [of 0 255] by (auto simp: rgb_finite_def)
  then show ?thesis by (auto simp: rgb_wf_def clamp_rgb_def)
qed

lemma light_wf_rgb:
  "light_wf c s \<Longrightarrow> js_truthy (js_get c ''rgb'') \<Longrightarrow> rgb_finite v \<Longrightarrow>
   light_wf c (js_set ''mode'' (JStr ''rgb'') (js_set ''color'' (JObj (clamp_rgb v)) s))"
  using clamp_rgb_wf [of v] by (auto simp: light_wf_def light_allowed_def)

lemma light_wf_mode:
  "light_wf c s \<Longrightarrow> m \<in> set (light_allowed c) \<Longrightarrow> light_wf c (js_set ''mode'' (JStr m) s)"
  by (auto simp: light_wf_def)

lemma js_includes_iff: "js_includes xs v \<longleftrightarrow> (\<exists>m \<in> set xs. v = Some (JStr m))"
  by (induction xs) auto

text \<open>
  \<open>reduce\<close> keeps a light state well formed for its capabilities, for every
  command whose numeric fields are not NaN and whose colour channels convert to
  numbers: the state stays \<open>ON\<close>/\<open>OFF\<close>, brightness, colour temperature and
  colour stay within their ranges, and the mode stays one the capabilities allow.
\<close>

theorem light_reduce_wf:
  assumes "light_wf (light_caps caps) prev" and "light_cmd_finite cmd"
    and "light_reduce prev cmd caps = Inr s"
  shows "light_wf (light_caps caps) s"
proof -
  let ?c = "light_caps caps"
  from assms(3) have nn: "cmd \<noteq> JNull" by (auto simp: light_reduce_def js_read_def)
  define st where "st = js_prop cmd ''state''"
  define n1 where "n1 = (if js_truthy st then js_set ''state'' (JStr (if js_is_str st ''ON'' then ''ON'' else ''OFF'')) prev else prev)"
  have w1: "light_wf ?c n1" using assms(1) by (auto simp: n1_def intro: light_wf_state)
  define br where "br = js_prop cmd ''brightness''"
  define n2 where "n2 = (if js_truthy (js_get ?c ''brightness'') \<and> js_is_number br
                then js_set ''brightness'' (JNum (js_clamp (js_number br) 0 255)) n1 else n1)"
  have w2: "light_wf ?c n2"
    using w1 assms(2) by (auto simp: n2_def br_def light_cmd_finite_def js_is_number_def js_number_def
        split: option.splits jval.splits intro!: light_wf_brightness)
  define ct where "ct = js_prop cmd ''colorTemp''"
  define n3 where "n3 = (if js_truthy (js_get ?c ''color_temp'') \<and> js_is_number ct
                then js_set ''mode'' (JStr ''ct'') (js_set ''colorTemp'' (JNum (js_clamp (js_number ct) 153 500)) n2)
                else n2)"
  have w3: "light_wf ?c n3"
    using w2 assms(2) by (auto simp: n3_def ct_def light_cmd_finite_def js_is_number_def js_number_def
        split: option.splits jval.splits intro!: light_wf_color_temp)
  define col where "col = js_prop cmd ''color''"
  define n4 where "n4 = (if js_truthy (js_get ?c ''rgb'') \<and> js_truthy col
                then js_set ''mode'' (JStr ''rgb'') (js_set ''color'' (JObj (clamp_rgb (the col))) n3) else n3)"
  have w4: "light_wf ?c n4"
    using w3 assms(2) by (auto simp: n4_def col_def light_cmd_finite_def js_truthy_def
        split: option.splits intro!: light_wf_rgb)
  define md where "md = js_prop cmd ''mode''"
  define n5 where "n5 = (if js_truthy md \<and> js_includes (light_allowed ?c) md then js_set_opt ''mode'' md n4 else n4)"
  have w5: "light_wf ?c n5"
    using w4 by (auto simp: n5_def js_includes_iff js_set_opt_def intro!: light_wf_mode)
  have m5: "js_truthy (js_get n5 ''mode'')"
  proof -
    from w5 obtain m where "js_get n5 ''mode'' = Some (JStr m)" and "m \<in> set (light_allowed ?c)"
      by (auto simp: light_wf_def)
    then show ?thesis by (auto simp: light_allowed_def)
  qed
  have "light_reduce prev cmd caps = Inr n5"
    using nn m5 unfolding light_reduce_def n5_def n4_def n3_def n2_def n1_def md_def col_def ct_def br_def st_def
    by (simp add: js_read_def Let_def)
  then have "s = n5" using assms(3) by simp
  with w5 show ?thesis by simp
qed
lemma light_default_wf: "light_wf (light_caps caps) (light_default_state caps)"
  by (auto simp: light_wf_def light_default_state_def light_allowed_def rgb_wf_def Let_def js_coalesce_def)

subsection \<open>Properties\<close>

theorem light_reduce_wf_witness:
  "light_wf (light_caps []) (light_default_state []) \<and>
   light_cmd_finite (JObj [(''state'', JStr ''ON''), (''brightness'', jn 300)]) \<and>
   light_reduce (light_default_state []) (JObj [(''state'', JStr ''ON''), (''brightness'', jn 300)]) [] =
     Inr [(''state'', JStr ''ON''), (''brightness'', jn 255), (''mode'', JStr ''white'')] \<and>
   light_wf (light_caps []) [(''state'', JStr ''ON''), (''brightness'', jn 255), (''mode'', JStr ''white'')]"
proof -
  have h1: "light_wf (light_caps []) (light_default_state [])"
    by (rule light_default_wf)
  have h: "light_cmd_finite (JObj [(''state'', JStr ''ON''), (''brightness'', jn 300)])"
    "light_reduce (light_default_state []) (JObj [(''state'', JStr ''ON''), (''brightness'', jn 300)]) [] =
     Inr [(''state'', JStr ''ON''), (''brightness'', jn 255), (''mode'', JStr ''white'')]"
    by (simp_all add: light_cmd_finite_def light_reduce_def light_default_state_def
        light_caps_def light_capabilities_def js_read_def js_set_def js_is_str_def js_number_def clamp_def Let_def)
  show ?thesis using h1 h light_reduce_wf [OF h1 h] by blast
qed

text \<open>
  C13: \<open>validate\<close> lets a non-numeric colour channel through and \<open>reduce\<close> stores
  NaN. On a light with the \<open>rgb\<close> capability, the command
  \<open>{color: {r: s, g: 0, b: 0}}\<close> with a string \<open>s\<close> that \<open>Number\<close> cannot read passes
  \<open>validate\<close>, since \<open>s < 0\<close> and \<open>s > 255\<close> are both false (line 55), and \<open>clampRGB\<close>
  turns it into \<open>NaN\<close> (line 15): the new state is not well formed, and the store
  and the broker receive \<open>null\<close> for the channel.
\<close>

theorem light_rgb_nan:
  assumes "js_truthy (js_get (light_caps caps) ''rgb'')" "js_to_number (JStr s) = NaN"
  shows "light_validate (JObj [(''color'', JObj [(''r'', JStr s), (''g'', jn 0), (''b'', jn 0)])]) caps = Inr () \<and>
         (\<exists>n. light_reduce prev (JObj [(''color'', JObj [(''r'', JStr s), (''g'', jn 0), (''b'', jn 0)])]) caps = Inr n \<and>
              js_get n ''color'' = Some (JObj [(''r'', JNum NaN), (''g'', jn 0), (''b'', jn 0)]) \<and>
              \<not> light_wf (light_caps caps) n)"
proof -
  have v: "light_validate (JObj [(''color'', JObj [(''r'', JStr s), (''g'', jn 0), (''b'', jn 0)])]) caps = Inr ()"
    using assms by (simp add: light_validate_def light_rgb_ok_def js_read_def js_in_def js_nullish_def js_lt_def
        js_gt_def js_number_def js_coalesce_def Let_def)
  let ?n = "js_set ''mode'' (JStr ''rgb'') (js_set ''color'' (JObj [(''r'', JNum NaN), (''g'', jn 0), (''b'', jn 0)]) prev)"
  have r: "light_reduce prev (JObj [(''color'', JObj [(''r'', JStr s), (''g'', jn 0), (''b'', jn 0)])]) caps = Inr ?n"
    using assms by (simp add: light_reduce_def clamp_rgb_def js_read_def js_number_def js_coalesce_def js_clamp_def
        num_min_def num_max_def js_is_number_def Let_def)
  have "\<not> light_wf (light_caps caps) ?n"
    using assms(1) by (simp add: light_wf_def rgb_wf_def)
  then show ?thesis using v r by simp
qed

lemma nan_abc: "js_to_number (JStr ''abc'') = NaN"
  by (simp add: string_to_number_def trim_js_def is_js_space_def Let_def) code_simp

theorem light_rgb_nan_witness:
  "light_validate (JObj [(''color'', JObj [(''r'', JStr ''abc''), (''g'', jn 0), (''b'', jn 0)])]) [(''rgb'', JBool True)] = Inr () \<and>
   (\<exists>n. light_reduce [] (JObj [(''color'', JObj [(''r'', JStr ''abc''), (''g'', jn 0), (''b'', jn 0)])]) [(''rgb'', JBool True)] = Inr n \<and>
        js_get n ''color'' = Some (JObj [(''r'', JNum NaN), (''g'', jn 0), (''b'', jn 0)]) \<and>
        \<not> light_wf (light_caps [(''rgb'', JBool True)]) n)"
  using light_rgb_nan [of "[(''rgb'', JBool True)]" "''abc''" "[]"] nan_abc
  by (simp add: light_caps_def light_capabilities_def)

text \<open>
  C34: a command that \<open>validate\<close> accepts carries, when its \<open>brightness\<close> is a
  number, a brightness within \<open>[0, 255]\<close>: brightness \<open>-10\<close> or \<open>300\<close> is rejected.
\<close>

theorem light_validate_brightness_range:
  assumes "light_validate cmd caps = Inr ()" and "js_prop cmd ''brightness'' = Some (jn b)"
  shows "0 \<le> b \<and> b \<le> 255"
  using assms
  by (cases cmd) (auto simp: light_validate_def js_read_def js_in_def ebind_eq_Inr Let_def split: if_splits)

theorem light_validate_brightness_range_witness:
  "light_validate (JObj [(''brightness'', jn 128)]) [] = Inr () \<and> 0 \<le> (128::rat) \<and> (128::rat) \<le> 255 \<and>
   light_validate (JObj [(''brightness'', jn 300)]) [] = Inl (Error ''brightness 0..255'') \<and>
   light_validate (JObj [(''brightness'', jn (-10))]) [] = Inl (Error ''brightness 0..255'')"
proof -
  have h: "light_validate (JObj [(''brightness'', jn 128)]) [] = Inr ()"
    "js_prop (JObj [(''brightness'', jn 128)]) ''brightness'' = Some (jn 128)"
    by (simp_all add: light_validate_def light_caps_def light_capabilities_def js_read_def js_in_def)
  have "light_validate (JObj [(''brightness'', jn 300)]) [] = Inl (Error ''brightness 0..255'')"
    "light_validate (JObj [(''brightness'', jn (-10))]) [] = Inl (Error ''brightness 0..255'')"
    by (simp_all add: light_validate_def light_caps_def light_capabilities_def js_read_def js_in_def)
  then show ?thesis using h light_validate_brightness_range [OF h] by blast
qed

end
