(* ===== verification/KindSensor.thy ===== *)
theory KindSensor
  imports JsValue
begin

text \<open>
  The \<open>sensor.temp\<close> kind (\<open>src/mqtt-sim/src/devices/kinds/sensor.temp.kind.ts\<close>):
  a read-only temperature that commands may force, and whose \<open>tick\<close> drifts it
  towards \<open>target\<close>, adds noise, clamps it to \<open>[min, max]\<close> and rounds it to
  \<open>decimals\<close> places. The two \<open>Math.random()\<close> draws of a tick are parameters:
  \<open>rd\<close> decides the direction when \<open>target\<close> is not a number, \<open>rn\<close> scales the
  noise; both lie in \<open>[0, 1)\<close>. A fractional \<open>decimals\<close> capability would make
  \<open>Math.pow\<close> irrational; the model rounds such an exponent down.
\<close>

text \<open>The unit string of the source: U+00B0 (degree sign) followed by \<open>C\<close>; strings
  are sequences of code points below 256 throughout.\<close>

definition deg_C :: string where
  "deg_C = [CHR 0xB0, CHR ''C'']"

definition sensor_capabilities :: jobj where
  "sensor_capabilities =
     [(''min'', jn 0), (''max'', jn 40), (''drift'', jn (5 / 100)), (''noise'', jn (1 / 10)),
      (''target'', jn 22), (''unit'', JStr deg_C), (''decimals'', jn 1)]"

definition sensor_default_telemetry :: rat where
  "sensor_default_telemetry = 10"

definition sensor_caps :: "jobj \<Rightarrow> jobj" where
  "sensor_caps caps = js_spread sensor_capabilities caps"

definition sensor_default_state :: "jobj \<Rightarrow> jobj" where
  "sensor_default_state caps =
     (let c = sensor_caps caps;
          start = (if js_is_number (js_get c ''start'') then the (js_get c ''start'')
                   else js_coalesce (js_get c ''target'') (jn 22))
      in [(''value'', JNum (js_clamp_num (js_number (Some start)) (js_number (js_get c ''min''))
                              (js_number (js_get c ''max'')))),
          (''unit'', JStr (if js_is_str (js_get c ''unit'') ''C'' then ''C'' else deg_C))])"

definition sensor_validate :: "jval \<Rightarrow> jobj \<Rightarrow> js_error + unit" where
  "sensor_validate cmd caps =
     (if \<not> js_truthy_val cmd then Inr ()
      else ebind (js_in ''value'' cmd) (\<lambda>h.
             if h \<and> \<not> js_is_number (js_prop cmd ''value'') then Inl (Error ''value must be a number'')
             else Inr ()))"

definition sensor_reduce :: "jobj \<Rightarrow> jval \<Rightarrow> jobj \<Rightarrow> js_error + jobj" where
  "sensor_reduce prev cmd caps =
     Inr (if js_truthy_val cmd \<and> js_is_number (js_prop cmd ''value'')
          then js_set ''value'' (the (js_prop cmd ''value'')) prev else prev)"

text \<open>\<open>Math.pow(10, d)\<close> for the clamped \<open>decimals\<close>.\<close>

definition num_pow10 :: "jnum \<Rightarrow> jnum" where
  "num_pow10 d = (case d of Fin x \<Rightarrow> Fin (10 powi \<lfloor>x\<rfloor>) | PosInf \<Rightarrow> PosInf | NegInf \<Rightarrow> Fin 0 | NaN \<Rightarrow> NaN)"

definition sensor_tick :: "jobj \<Rightarrow> jobj \<Rightarrow> rat \<Rightarrow> rat \<Rightarrow> jobj" where
  "sensor_tick prev caps rd rn =
     (let c = sensor_caps caps;
          towards = (if js_is_number (js_get c ''target'')
                     then num_sign (num_sub (js_number (js_get c ''target'')) (js_number (js_get prev ''value'')))
                     else Fin (if rd < 1 / 2 then -1 else 1));
          drift_step = num_mul (num_or_zero (num_abs (js_number (js_get c ''drift'')))) (num_or_zero towards);
          noise = num_mul (Fin (rn * 2 - 1)) (num_or_zero (num_abs (js_number (js_get c ''noise''))));
          raw = js_add (Some (js_add (js_get prev ''value'') (Some (JNum drift_step)))) (Some (JNum noise));
          next_val = js_clamp_num (js_number (Some raw)) (js_number (js_get c ''min'')) (js_number (js_get c ''max''));
          decimals = js_clamp_num (js_number (Some (js_coalesce (js_get c ''decimals'') (jn 1)))) (Fin 0) (Fin 4);
          factor = num_pow10 decimals;
          rounded = num_div (num_round (num_mul next_val factor)) factor
      in js_set ''value'' (JNum rounded) prev)"

subsection \<open>Range of a tick\<close>

text \<open>\<open>x\<close> is a multiple of \<open>10^-d\<close>: rounding to \<open>d\<close> places leaves it unchanged.\<close>

definition on_grid :: "nat \<Rightarrow> rat \<Rightarrow> bool" where
  "on_grid d x \<longleftrightarrow> of_int \<lfloor>x * 10 ^ d\<rfloor> = x * 10 ^ d"

lemma grid_round_bounds:
  fixes y lo hi :: rat
  assumes "lo \<le> y" "y \<le> hi" "on_grid d lo" "on_grid d hi"
  shows "lo \<le> of_int \<lfloor>y * 10 ^ d + 1 / 2\<rfloor> / 10 ^ d \<and> of_int \<lfloor>y * 10 ^ d + 1 / 2\<rfloor> / 10 ^ d \<le> hi"
proof -
  let ?f = "(10::rat) ^ d"
  have f: "0 < ?f" by simp
  have "lo * ?f \<le> y * ?f" using assms(1) f by (simp add: mult_right_mono)
  then have "lo * ?f \<le> y * ?f + 1 / 2" by linarith
  then have "\<lfloor>lo * ?f\<rfloor> \<le> \<lfloor>y * ?f + 1 / 2\<rfloor>" by (rule floor_mono)
  then have "lo * ?f \<le> of_int \<lfloor>y * ?f + 1 / 2\<rfloor>"
    using assms(3) unfolding on_grid_def by (metis of_int_le_iff)
  then have low: "lo \<le> of_int \<lfloor>y * ?f + 1 / 2\<rfloor> / ?f" using f by (simp add: le_divide_eq)
  have "y * ?f \<le> hi * ?f" using assms(2) f by (simp add: mult_right_mono)
  then have "y * ?f + 1 / 2 < of_int \<lfloor>hi * ?f\<rfloor> + 1"
    using assms(4) unfolding on_grid_def by linarith
  then have "\<lfloor>y * ?f + 1 / 2\<rfloor> \<le> \<lfloor>hi * ?f\<rfloor>" by linarith
  then have "of_int \<lfloor>y * ?f + 1 / 2\<rfloor> \<le> hi * ?f"
    using assms(4) unfolding on_grid_def by (metis of_int_le_iff)
  then have "of_int \<lfloor>y * ?f + 1 / 2\<rfloor> / ?f \<le> hi" using f by (simp add: divide_le_eq)
  with low show ?thesis by simp
qed

lemma num_or_zero_finite: "x \<noteq> PosInf \<Longrightarrow> x \<noteq> NegInf \<Longrightarrow> \<exists>t. num_or_zero x = Fin t"
  by (cases x) (auto simp: num_or_zero_def)

lemma num_or_zero_abs [simp]: "num_or_zero (num_abs (Fin a)) = Fin \<bar>a\<bar>"
  by (simp add: num_or_zero_def num_abs_def)

text \<open>
  C36: a telemetry tick keeps the temperature within \<open>[min, max]\<close> whatever the two
  random draws, when the capabilities' bounds, drift and noise are numbers,
  \<open>decimals\<close> is an integer in \<open>[0, 4]\<close>, and both bounds lie on the rounding
  grid of \<open>decimals\<close> places (the defaults 0 and 40 with one place do).
\<close>

theorem sensor_tick_bounds:
  assumes mn: "js_get (sensor_caps caps) ''min'' = Some (jn lo)"
    and mx: "js_get (sensor_caps caps) ''max'' = Some (jn hi)"
    and dc: "js_get (sensor_caps caps) ''decimals'' = Some (jn (of_nat d))" and "d \<le> 4"
    and dr: "js_get (sensor_caps caps) ''drift'' = Some (jn a)"
    and nz: "js_get (sensor_caps caps) ''noise'' = Some (jn b)"
    and "lo \<le> hi" and "on_grid d lo" and "on_grid d hi"
    and pv: "js_get prev ''value'' = Some (jn x)"
  shows "\<exists>v. js_get (sensor_tick prev caps rd rn) ''value'' = Some (jn v) \<and> lo \<le> v \<and> v \<le> hi"
proof -
  let ?c = "sensor_caps caps"
  define towards where "towards = (if js_is_number (js_get ?c ''target'')
                     then num_sign (num_sub (js_number (js_get ?c ''target'')) (js_number (js_get prev ''value'')))
                     else Fin (if rd < 1 / 2 then -1 else 1))"
  have "towards \<noteq> PosInf \<and> towards \<noteq> NegInf"
    by (auto simp: towards_def num_sign_def split: jnum.splits)
  then obtain t where t: "num_or_zero towards = Fin t" using num_or_zero_finite by blast
  define ds where "ds = \<bar>a\<bar> * t"
  have ds: "num_mul (num_or_zero (num_abs (js_number (js_get ?c ''drift'')))) (num_or_zero towards) = Fin ds"
    using dr t by (simp add: ds_def)
  define ns where "ns = (rn * 2 - 1) * \<bar>b\<bar>"
  have ns: "num_mul (Fin (rn * 2 - 1)) (num_or_zero (num_abs (js_number (js_get ?c ''noise'')))) = Fin ns"
    using nz by (simp add: ns_def)
  let ?y = "clamp lo hi (x + ds + ns)"
  have y: "lo \<le> ?y \<and> ?y \<le> hi" using \<open>lo \<le> hi\<close> by (rule clamp_bounds)
  have dec: "js_clamp_num (js_number (Some (js_coalesce (js_get ?c ''decimals'') (jn 1)))) (Fin 0) (Fin 4) = Fin (of_nat d)"
    using dc \<open>d \<le> 4\<close> by simp
  have "js_get (sensor_tick prev caps rd rn) ''value'' =
          Some (jn (of_int \<lfloor>?y * 10 ^ d + 1 / 2\<rfloor> / 10 ^ d))"
    using pv mn mx ds ns dec
    by (simp add: sensor_tick_def towards_def [symmetric] Let_def num_pow10_def num_round_def)
  then show ?thesis using grid_round_bounds [OF conjunct1 [OF y] conjunct2 [OF y] \<open>on_grid d lo\<close> \<open>on_grid d hi\<close>]
    by blast
qed
theorem sensor_tick_bounds_witness:
  "\<exists>v. js_get (sensor_tick (sensor_default_state []) [] 0 (1 / 2)) ''value'' = Some (jn v) \<and> 0 \<le> v \<and> v \<le> 40"
proof -
  have h: "js_get (sensor_caps []) ''min'' = Some (jn 0)" "js_get (sensor_caps []) ''max'' = Some (jn 40)"
    "js_get (sensor_caps []) ''decimals'' = Some (jn (of_nat 1))" "(1::nat) \<le> 4"
    "js_get (sensor_caps []) ''drift'' = Some (jn (5 / 100))"
    "js_get (sensor_caps []) ''noise'' = Some (jn (1 / 10))" "(0::rat) \<le> 40"
    "on_grid 1 0" "on_grid 1 40"
    "js_get (sensor_default_state []) ''value'' = Some (jn 22)"
    by (simp_all add: sensor_caps_def sensor_capabilities_def on_grid_def sensor_default_state_def
        Let_def js_number_def clamp_def)
  show ?thesis using sensor_tick_bounds [OF h] by blast
qed

end
