(* ===== verification/Registry.thy ===== *)
theory Registry
  imports KindSwitch KindFan KindCover KindLight KindSensor
begin

text \<open>
  The kind contract and its registry (\<open>src/mqtt-sim/src/devices/kinds/device-kind.ts\<close>,
  \<open>registry.ts\<close>). The five built-in kinds form a closed datatype; each operation of
  the \<open>DeviceKind\<close> interface dispatches on it. \<open>REGISTRY\<close> is a plain object
  literal, so \<open>REGISTRY[id]\<close> also finds the members of \<open>Object.prototype\<close>
  (\<open>constructor\<close>, \<open>toString\<close>, \dots): \<open>getKind\<close> accepts those ids and returns a
  value that is not a kind, whose \<open>capabilities\<close> and \<open>reduce\<close> calls then throw.
\<close>

datatype kind = Light | Switch | TempSensor | Cover | Fan

primrec kind_id :: "kind \<Rightarrow> string" where
  "kind_id Light = ''light''"
| "kind_id Switch = ''switch''"
| "kind_id TempSensor = ''sensor.temp''"
| "kind_id Cover = ''cover''"
| "kind_id Fan = ''fan''"

primrec kind_title :: "kind \<Rightarrow> string" where
  "kind_title Light = ''Light''"
| "kind_title Switch = ''Switch''"
| "kind_title TempSensor = ''Temperature Sensor''"
| "kind_title Cover = ''Cover / Blind''"
| "kind_title Fan = ''Fan''"

primrec kind_capabilities :: "kind \<Rightarrow> jobj" where
  "kind_capabilities Light = light_capabilities"
| "kind_capabilities Switch = switch_capabilities"
| "kind_capabilities TempSensor = sensor_capabilities"
| "kind_capabilities Cover = cover_capabilities"
| "kind_capabilities Fan = fan_capabilities"

primrec kind_default_telemetry :: "kind \<Rightarrow> rat" where
  "kind_default_telemetry Light = light_default_telemetry"
| "kind_default_telemetry Switch = switch_default_telemetry"
| "kind_default_telemetry TempSensor = sensor_default_telemetry"
| "kind_default_telemetry Cover = cover_default_telemetry"
| "kind_default_telemetry Fan = fan_default_telemetry"

primrec kind_default_state :: "kind \<Rightarrow> jobj \<Rightarrow> jobj" where
  "kind_default_state Light = light_default_state"
| "kind_default_state Switch = switch_default_state"
| "kind_default_state TempSensor = sensor_default_state"
| "kind_default_state Cover = cover_default_state"
| "kind_default_state Fan = fan_default_state"

primrec kind_validate :: "kind \<Rightarrow> jval \<Rightarrow> jobj \<Rightarrow> js_error + unit" where
  "kind_validate Light = light_validate"
| "kind_validate Switch = switch_validate"
| "kind_validate TempSensor = sensor_validate"
| "kind_validate Cover = cover_validate"
| "kind_validate Fan = fan_validate"

primrec kind_reduce :: "kind \<Rightarrow> jobj \<Rightarrow> jval \<Rightarrow> jobj \<Rightarrow> js_error + jobj" where
  "kind_reduce Light = light_reduce"
| "kind_reduce Switch = switch_reduce"
| "kind_reduce TempSensor = sensor_reduce"
| "kind_reduce Cover = cover_reduce"
| "kind_reduce Fan = fan_reduce"

text \<open>The optional \<open>tick\<close> hook: only covers and temperature sensors define one.
  Its arguments are the previous state, the capabilities and the two random draws.\<close>

primrec kind_tick :: "kind \<Rightarrow> (jobj \<Rightarrow> jobj \<Rightarrow> rat \<Rightarrow> rat \<Rightarrow> jobj) option" where
  "kind_tick Light = None"
| "kind_tick Switch = None"
| "kind_tick TempSensor = Some sensor_tick"
| "kind_tick Cover = Some (\<lambda>prev caps rd rn. cover_tick prev caps)"
| "kind_tick Fan = None"

text \<open>The registry object in declaration order.\<close>

definition registry :: "(string \<times> kind) list" where
  "registry = map (\<lambda>k. (kind_id k, k)) [Light, Switch, TempSensor, Cover, Fan]"

definition object_proto_keys :: "string list" where
  "object_proto_keys =
     [''constructor'', ''__proto__'', ''hasOwnProperty'', ''isPrototypeOf'', ''propertyIsEnumerable'',
      ''toLocaleString'', ''toString'', ''valueOf'', ''__defineGetter__'', ''__defineSetter__'',
      ''__lookupGetter__'', ''__lookupSetter__'']"

datatype kind_ref = KindRef kind | ProtoRef string

text \<open>\<open>REGISTRY[id]\<close>\<close>

definition registry_lookup :: "string \<Rightarrow> kind_ref option" where
  "registry_lookup i =
     (case map_of registry i of Some k \<Rightarrow> Some (KindRef k)
      | None \<Rightarrow> if i \<in> set object_proto_keys then Some (ProtoRef i) else None)"

text \<open>\<open>getKind(id)\<close>: throws \<open>Unsupported device type\<close> when the lookup is falsy.\<close>

definition get_kind :: "string \<Rightarrow> js_error + kind_ref" where
  "get_kind i =
     (case registry_lookup i of Some r \<Rightarrow> Inr r
      | None \<Rightarrow> Inl (Error (''Unsupported device type: '' @ i)))"

definition has_kind :: "string \<Rightarrow> bool" where
  "has_kind i \<longleftrightarrow> registry_lookup i \<noteq> None"

definition kind_ids :: "string list" where
  "kind_ids = map fst registry"

text \<open>\<open>listKinds()\<close>\<close>

definition list_kinds :: "(string \<times> string \<times> jobj) list" where
  "list_kinds = map (\<lambda>(i, k). (kind_id k, kind_title k, kind_capabilities k)) registry"

subsection \<open>Kind references used as kinds\<close>

text \<open>
  Calling an interface method on a \<open>kind_ref\<close>: a prototype member has no
  \<open>capabilities\<close>, \<open>defaultState\<close> or \<open>reduce\<close> function (the call throws) and no
  \<open>validate\<close> or \<open>tick\<close> (the optional call is skipped).
\<close>

definition not_a_function :: "string \<Rightarrow> js_error" where
  "not_a_function m = TypeError (''kind.'' @ m @ '' is not a function'')"

definition ref_capabilities :: "kind_ref \<Rightarrow> js_error + jobj" where
  "ref_capabilities r = (case r of KindRef k \<Rightarrow> Inr (kind_capabilities k)
                                  | ProtoRef _ \<Rightarrow> Inl (not_a_function ''capabilities''))"

definition ref_validate :: "kind_ref \<Rightarrow> jval \<Rightarrow> jobj \<Rightarrow> js_error + unit" where
  "ref_validate r cmd caps = (case r of KindRef k \<Rightarrow> kind_validate k cmd caps | ProtoRef _ \<Rightarrow> Inr ())"

definition ref_reduce :: "kind_ref \<Rightarrow> jobj \<Rightarrow> jval \<Rightarrow> jobj \<Rightarrow> js_error + jobj" where
  "ref_reduce r prev cmd caps = (case r of KindRef k \<Rightarrow> kind_reduce k prev cmd caps
                                          | ProtoRef _ \<Rightarrow> Inl (not_a_function ''reduce''))"

definition ref_tick :: "kind_ref \<Rightarrow> (jobj \<Rightarrow> jobj \<Rightarrow> rat \<Rightarrow> rat \<Rightarrow> jobj) option" where
  "ref_tick r = (case r of KindRef k \<Rightarrow> kind_tick k | ProtoRef _ \<Rightarrow> None)"

subsection \<open>Registry lemmas\<close>

lemma registry_lookup_kind_id [simp]: "registry_lookup (kind_id k) = Some (KindRef k)"
  by (cases k) (simp_all add: registry_lookup_def registry_def)

lemma get_kind_kind_id [simp]: "get_kind (kind_id k) = Inr (KindRef k)"
  by (simp add: get_kind_def)

lemma kind_id_inj: "kind_id k = kind_id k' \<longleftrightarrow> k = k'"
  by (cases k; cases k') simp_all

lemma get_kind_KindRef: "get_kind i = Inr (KindRef k) \<longleftrightarrow> i = kind_id k"
  by (cases k) (auto simp: get_kind_def registry_lookup_def registry_def object_proto_keys_def
      split: option.splits if_splits)

lemma kind_ids_distinct: "distinct kind_ids"
  by (simp add: kind_ids_def registry_def)

end
