(* ===== verification/Json.thy ===== *)
theory Json
  imports JsValue
begin

text \<open>
  \<open>JSON.stringify\<close> without indentation, the function the transport adapter applies
  to every non-string payload (\<open>mqtt.service.ts\<close>, \<open>publish\<close>) and the import uses to
  compare capability maps (\<open>devices.service.ts\<close>, \<open>importAll\<close>). It follows the
  ECMAScript algorithms \<open>SerializeJSONProperty\<close>, \<open>QuoteJSONString\<close>,
  \<open>SerializeJSONObject\<close> and \<open>SerializeJSONArray\<close>: non-finite numbers print as
  \<open>null\<close>, strings are quoted with the short two-character escapes for backspace, tab, newline,
  form feed, carriage return, quote and backslash and six-character \<open>u00xx\<close>
  escapes (lower-case hex) for the other control characters, properties are
  printed in insertion order, separated by commas without spaces. Characters are
  the 8-bit characters of Isabelle strings (code units below 256).
\<close>

definition hex_digit :: "nat \<Rightarrow> char" where
  "hex_digit n = (if n < 10 then char_of (48 + n) else char_of (87 + n))"

definition json_escape :: "char \<Rightarrow> string" where
  "json_escape c =
     (let n = (of_char c :: nat) in
      if n = 8 then [CHR 0x5C, CHR ''b'']
      else if n = 9 then [CHR 0x5C, CHR ''t'']
      else if n = 10 then [CHR 0x5C, CHR ''n'']
      else if n = 12 then [CHR 0x5C, CHR ''f'']
      else if n = 13 then [CHR 0x5C, CHR ''r'']
      else if n = 34 then [CHR 0x5C, CHR 0x22]
      else if n = 92 then [CHR 0x5C, CHR 0x5C]
      else if n < 32 then [CHR 0x5C, CHR ''u'', CHR ''0'', CHR ''0'', hex_digit (n div 16), hex_digit (n mod 16)]
      else [c])"

definition json_quote :: "string \<Rightarrow> string" where
  "json_quote s = CHR 0x22 # concat (map json_escape s) @ [CHR 0x22]"

fun json_stringify :: "jval \<Rightarrow> string" where
  "json_stringify JNull = ''null''"
| "json_stringify (JBool b) = (if b then ''true'' else ''false'')"
| "json_stringify (JNum n) = (case n of Fin r \<Rightarrow> num_to_string (Fin r) | _ \<Rightarrow> ''null'')"
| "json_stringify (JStr s) = json_quote s"
| "json_stringify (JArr xs) = ''['' @ join_comma (map json_stringify xs) @ '']''"
| "json_stringify (JObj kvs) =
     ''{'' @ join_comma (map (\<lambda>(k, v). json_quote k @ '':'' @ json_stringify v) kvs) @ ''}''"

definition json_stringify_obj :: "jobj \<Rightarrow> string" where
  "json_stringify_obj obj = json_stringify (JObj obj)"

subsection \<open>Serialisation and the store\<close>

text \<open>
  Printing does not see the difference between a value and what the store keeps
  of it: the text published from a freshly computed state equals the text of the
  state read back from the database.
\<close>

lemma json_stringify_norm [simp]: "json_stringify (json_norm v) = json_stringify v"
proof (induction v rule: json_norm.induct)
  case (3 xs)
  then show ?case by (simp add: comp_def cong: map_cong)
next
  case (4 obj)
  then show ?case by (auto simp: comp_def case_prod_beta intro!: arg_cong[where f = join_comma] map_cong)
qed simp_all

lemma json_stringify_obj_norm [simp]: "json_stringify_obj (json_norm_obj obj) = json_stringify_obj obj"
  using json_stringify_norm [of "JObj obj"] by (simp add: json_stringify_obj_def json_norm_obj_def)

lemma json_quote_nonempty: "json_quote s \<noteq> []"
  by (simp add: json_quote_def)

end
