(* ===== verification/Topics.thy ===== *)
theory Topics
  imports Prelude
begin

text \<open>
  The topic namespace (\<open>src/mqtt-sim/src/mqtt/topics.ts\<close>), the \<open>split('/')\<close>
  with which the transport adapter takes an inbound topic apart, and MQTT topic-filter
  matching (MQTT 3.1.1, section 4.7): \<open>+\<close> matches one level, \<open>#\<close> the remaining
  levels, and a topic beginning with \<open>$\<close> is not matched by a filter beginning with a
  wildcard. The broker delivers to the adapter exactly the topics matching its
  subscription filters.
\<close>

definition topic_cmd :: "string \<Rightarrow> string \<Rightarrow> string \<Rightarrow> topic" where
  "topic_cmd ns ty i = ns @ ''/'' @ ty @ ''/'' @ i @ ''/set''"

definition topic_state :: "string \<Rightarrow> string \<Rightarrow> string \<Rightarrow> topic" where
  "topic_state ns ty i = ns @ ''/'' @ ty @ ''/'' @ i @ ''/state''"

definition topic_status :: "string \<Rightarrow> string \<Rightarrow> string \<Rightarrow> topic" where
  "topic_status ns ty i = ns @ ''/'' @ ty @ ''/'' @ i @ ''/status''"

definition topic_discovery :: "string \<Rightarrow> string \<Rightarrow> string \<Rightarrow> topic" where
  "topic_discovery ns ty i = ns @ ''/discovery/'' @ ty @ ''/'' @ i"

text \<open>\<open>s.split('/')\<close>: consecutive separators give empty segments.\<close>

fun split_slash :: "string \<Rightarrow> string list" where
  "split_slash [] = [[]]"
| "split_slash (c # cs) =
     (if c = CHR ''/'' then [] # split_slash cs
      else (case split_slash cs of w # ws \<Rightarrow> (c # w) # ws | [] \<Rightarrow> [[c]]))"

text \<open>\<open>${ns}/+/+/set\<close>, the filter of the wildcard command subscription.\<close>

definition cmd_wildcard :: "string \<Rightarrow> string" where
  "cmd_wildcard ns = ns @ ''/+/+/set''"

fun filter_levels_match :: "string list \<Rightarrow> string list \<Rightarrow> bool" where
  "filter_levels_match [] [] = True"
| "filter_levels_match [f] ts = (f = ''#'' \<or> (case ts of [t] \<Rightarrow> f = ''+'' \<or> f = t | _ \<Rightarrow> False))"
| "filter_levels_match (f # fs) [] = False"
| "filter_levels_match [] (t # ts) = False"
| "filter_levels_match (f # fs) (t # ts) = ((f = ''+'' \<or> f = t) \<and> filter_levels_match fs ts)"

definition topic_matches :: "string \<Rightarrow> topic \<Rightarrow> bool" where
  "topic_matches flt t =
     (let fs = split_slash flt in
      if t \<noteq> [] \<and> hd t = CHR ''$'' \<and> (hd fs = ''+'' \<or> hd fs = ''#'') then False
      else filter_levels_match fs (split_slash t))"

text \<open>
  The wildcard router of \<open>MqttService\<close> (lines 71-73 of \<open>mqtt.service.ts\<close>):
  \<open>parts.length === 4 && parts[0] === ns && parts[3] === 'set'\<close>, then
  \<open>[, type, id] = parts\<close>.
\<close>

definition parse_cmd_topic :: "string \<Rightarrow> topic \<Rightarrow> (string \<times> string) option" where
  "parse_cmd_topic ns t =
     (case split_slash t of [a, ty, i, s] \<Rightarrow> if a = ns \<and> s = ''set'' then Some (ty, i) else None
                         | _ \<Rightarrow> None)"

subsection \<open>Splitting\<close>

definition no_slash :: "string \<Rightarrow> bool" where
  "no_slash s \<longleftrightarrow> CHR ''/'' \<notin> set s"

lemma split_slash_no_slash: "no_slash w \<Longrightarrow> split_slash w = [w]"
  by (induction w) (auto simp: no_slash_def)

lemma split_slash_append:
  "no_slash w \<Longrightarrow> split_slash (w @ CHR ''/'' # r) = w # split_slash r"
  by (induction w) (auto simp: no_slash_def)

lemma split_slash_nonempty [simp]: "split_slash s \<noteq> []"
  by (induction s rule: split_slash.induct) (auto split: list.splits)

lemma split_slash_topics:
  assumes "no_slash ns" "no_slash ty" "no_slash i"
  shows "split_slash (topic_cmd ns ty i) = [ns, ty, i, ''set'']"
    and "split_slash (topic_state ns ty i) = [ns, ty, i, ''state'']"
    and "split_slash (topic_status ns ty i) = [ns, ty, i, ''status'']"
    and "split_slash (topic_discovery ns ty i) = [ns, ''discovery'', ty, i]"
  using assms
  by (simp_all add: topic_cmd_def topic_state_def topic_status_def topic_discovery_def
      split_slash_append split_slash_no_slash no_slash_def)

subsection \<open>Parsing command topics\<close>

text \<open>
  C37: the router parses the command topic of every device back into the device's
  type and id, when namespace, type and id contain no \<open>/\<close>.
\<close>

theorem parse_cmd_topic_cmd:
  assumes "no_slash ns" "no_slash ty" "no_slash i"
  shows "parse_cmd_topic ns (topic_cmd ns ty i) = Some (ty, i)"
  using split_slash_topics(1) [OF assms] by (simp add: parse_cmd_topic_def)

lemma parse_cmd_topic_state:
  assumes "no_slash ns" "no_slash ty" "no_slash i"
  shows "parse_cmd_topic ns (topic_state ns ty i) = None \<and> parse_cmd_topic ns (topic_status ns ty i) = None"
  using split_slash_topics(2,3) [OF assms] by (simp add: parse_cmd_topic_def)

lemma split_cmd_wildcard:
  "no_slash ns \<Longrightarrow> split_slash (cmd_wildcard ns) = [ns, ''+'', ''+'', ''set'']"
  by (simp add: cmd_wildcard_def split_slash_append split_slash_no_slash no_slash_def)

lemma filter_levels_match_no_hash:
  "''#'' \<notin> set fs \<Longrightarrow> filter_levels_match fs ts \<longleftrightarrow> list_all2 (\<lambda>f t. f = ''+'' \<or> f = t) fs ts"
  by (induction fs ts rule: filter_levels_match.induct) (auto split: list.splits)

lemma filter_cmd_levels:
  "ns \<noteq> ''+'' \<Longrightarrow> ns \<noteq> ''#'' \<Longrightarrow>
   filter_levels_match [ns, ''+'', ''+'', ''set''] ts \<longleftrightarrow> (\<exists>a b. ts = [ns, a, b, ''set''])"
  by (auto simp: filter_levels_match_no_hash list_all2_Cons1)

text \<open>
  C16: for a namespace without \<open>/\<close>, \<open>+\<close> or \<open>#\<close>, the topics the broker
  delivers for the wildcard subscription are exactly those the adapter's router
  parses into a (type, id) pair: no delivered command is silently lost and no other
  topic reaches the command handler.
\<close>

theorem cmd_wildcard_matches_iff_parsed:
  assumes "no_slash ns" "ns \<noteq> ''+''" "ns \<noteq> ''#''"
  shows "topic_matches (cmd_wildcard ns) t \<longleftrightarrow> parse_cmd_topic ns t \<noteq> None"
  using assms
  by (auto simp: topic_matches_def split_cmd_wildcard filter_cmd_levels parse_cmd_topic_def
      split: list.splits)

lemma no_slash_append_slash: "\<not> no_slash (a @ CHR ''/'' # b)"
  by (simp add: no_slash_def)

theorem parse_cmd_topic_cmd_witness:
  "parse_cmd_topic ''sim'' (topic_cmd ''sim'' ''light'' ''d1'') = Some (''light'', ''d1'')"
proof -
  have h: "no_slash ''sim''" "no_slash ''light''" "no_slash ''d1''" by (simp_all add: no_slash_def)
  show ?thesis by (rule parse_cmd_topic_cmd [OF h])
qed

theorem cmd_wildcard_matches_iff_parsed_witness:
  "topic_matches (cmd_wildcard ''sim'') ''sim/fan/d7/set'' \<and> parse_cmd_topic ''sim'' ''sim/fan/d7/set'' \<noteq> None \<and>
   \<not> topic_matches (cmd_wildcard ''sim'') ''sim/fan/d7/state''"
proof -
  have h: "no_slash ''sim''" "''sim'' \<noteq> ''+''" "''sim'' \<noteq> ''#''" by (simp_all add: no_slash_def)
  have "parse_cmd_topic ''sim'' ''sim/fan/d7/set'' \<noteq> None" "parse_cmd_topic ''sim'' ''sim/fan/d7/state'' = None"
    by (simp_all add: parse_cmd_topic_def)
  then show ?thesis using cmd_wildcard_matches_iff_parsed [OF h] by blast
qed

text \<open>
  A configured namespace that contains \<open>/\<close> (\<open>MQTT_NAMESPACE=home/sim\<close>) still
  subscribes to and receives every command topic, but the router compares
  \<open>parts[0]\<close> with the whole namespace and drops all of them.
\<close>

lemma namespace_with_slash_drops_commands:
  "topic_matches (cmd_wildcard ''home/sim'') (topic_cmd ''home/sim'' ''light'' ''d1'') \<and>
   parse_cmd_topic ''home/sim'' (topic_cmd ''home/sim'' ''light'' ''d1'') = None"
  by (simp add: topic_matches_def cmd_wildcard_def topic_cmd_def parse_cmd_topic_def)

end
