(* ===== verification/Mqtt.thy ===== *)
theory Mqtt
  imports Json Topics
begin

text \<open>
  The transport adapter \<open>MqttService\<close> (\<open>src/mqtt-sim/src/mqtt/mqtt.service.ts\<close>).
  Its state is the record \<open>mqtt_st\<close>: the configuration read in the constructor, the
  flags \<open>connected\<close>, \<open>cmdWildcardSubscribed\<close> and the registration of the command
  handler, the exact-topic handler map, and, standing for the broker client, the
  subscribe, unsubscribe and publish requests the adapter has handed to it, in
  order. Every operation of the class and every client event handler is one
  function on this record; \<open>mqtt_step\<close> applies a sequence of them. The inbound
  message handler is \<open>mqtt_message\<close>: it returns the exact-topic handler to call and
  the (type, id) pair passed to the command handler.
\<close>

datatype payload = PStr string | PVal jval

text \<open>\<open>typeof payload === 'string' ? payload : JSON.stringify(payload)\<close>\<close>

definition payload_data :: "payload \<Rightarrow> string" where
  "payload_data p = (case p of PStr s \<Rightarrow> s | PVal v \<Rightarrow> json_stringify v)"

record mqtt_msg =
  msg_topic :: topic
  msg_data :: string
  msg_retain :: bool
  msg_qos :: jnum

text \<open>The environment as \<open>ConfigService\<close> sees it, and \<open>cfg.get(key, default)\<close>.\<close>

type_synonym config = "string \<Rightarrow> string option"

definition cfg_get :: "config \<Rightarrow> string \<Rightarrow> string \<Rightarrow> string" where
  "cfg_get cfg k d = (case cfg k of Some v \<Rightarrow> v | None \<Rightarrow> d)"

record mqtt_st =
  mq_ns :: string
  mq_qos :: jnum
  mq_retained :: bool
  mq_will :: "mqtt_msg option"
  mq_connected :: bool
  mq_wild :: bool
  mq_cmd_handler :: bool
  mq_handlers :: "(topic \<times> nat) list"
  mq_subs :: "(topic \<times> jnum) list"
  mq_unsubs :: "topic list"
  mq_out :: "mqtt_msg list"
  mq_ended :: bool

subsection \<open>Construction and connection lifecycle\<close>

text \<open>The constructor: \<open>ns\<close>, \<open>qos = Number(cfg.get('MQTT_QOS', 1))\<close>, \<open>retained\<close>.\<close>

definition mqtt_new :: "config \<Rightarrow> mqtt_st" where
  "mqtt_new cfg =
     \<lparr>mq_ns = cfg_get cfg ''MQTT_NAMESPACE'' ''sim'',
      mq_qos = (case cfg ''MQTT_QOS'' of None \<Rightarrow> Fin 1 | Some s \<Rightarrow> string_to_number s),
      mq_retained = (cfg_get cfg ''MQTT_RETAINED'' ''true'' = ''true''),
      mq_will = None, mq_connected = False, mq_wild = False, mq_cmd_handler = False,
      mq_handlers = [], mq_subs = [], mq_unsubs = [], mq_out = [], mq_ended = False\<rparr>"

definition will_topic :: "string \<Rightarrow> topic" where
  "will_topic ns = ns @ ''/service/status''"

text \<open>
  \<open>onModuleInit\<close>: fails without \<open>MQTT_URL\<close> (an empty value is falsy too), otherwise
  creates the client with the retained \<open>offline\<close> will. The credentials and the
  reconnect period are passed to the library and not modelled.
\<close>

definition mqtt_init :: "config \<Rightarrow> mqtt_st \<Rightarrow> js_error + mqtt_st" where
  "mqtt_init cfg st =
     (case cfg ''MQTT_URL'' of
        None \<Rightarrow> Inl (Error ''MQTT_URL missing'')
      | Some url \<Rightarrow> if url = [] then Inl (Error ''MQTT_URL missing'')
          else Inr (st\<lparr>mq_will := Some \<lparr>msg_topic = will_topic (mq_ns st), msg_data = ''offline'',
                                         msg_retain = True, msg_qos = mq_qos st\<rparr>\<rparr>))"

text \<open>\<open>publish(topic, payload, opts)\<close>: \<open>retain: opts?.retain ?? this.retained\<close>.\<close>

definition mqtt_publish :: "topic \<Rightarrow> payload \<Rightarrow> bool option \<Rightarrow> mqtt_st \<Rightarrow> mqtt_st" where
  "mqtt_publish t p r st =
     st\<lparr>mq_out := mq_out st @ [\<lparr>msg_topic = t, msg_data = payload_data p,
                                 msg_retain = (case r of None \<Rightarrow> mq_retained st | Some b \<Rightarrow> b),
                                 msg_qos = mq_qos st\<rparr>]\<rparr>"

text \<open>\<open>subscribeCommandsWildcard()\<close>: returns early once the flag is set.\<close>

definition mqtt_subscribe_wildcard :: "mqtt_st \<Rightarrow> mqtt_st" where
  "mqtt_subscribe_wildcard st =
     (if mq_wild st then st
      else st\<lparr>mq_subs := mq_subs st @ [(cmd_wildcard (mq_ns st), mq_qos st)], mq_wild := True\<rparr>)"

text \<open>The \<open>connect\<close> event: \<open>connected = true\<close>, the retained \<open>online\<close> status, and the
  re-subscription guarded by \<open>cmdWildcardSubscribed\<close>.\<close>

definition mqtt_connect :: "mqtt_st \<Rightarrow> mqtt_st" where
  "mqtt_connect st =
     (let s1 = mqtt_publish (will_topic (mq_ns st)) (PStr ''online'') (Some True) (st\<lparr>mq_connected := True\<rparr>)
      in if mq_wild s1 then mqtt_subscribe_wildcard s1 else s1)"

definition mqtt_reconnect :: "mqtt_st \<Rightarrow> mqtt_st" where
  "mqtt_reconnect st = st\<lparr>mq_connected := False\<rparr>"

definition mqtt_close :: "mqtt_st \<Rightarrow> mqtt_st" where
  "mqtt_close st = st\<lparr>mq_connected := False\<rparr>"

definition mqtt_destroy :: "mqtt_st \<Rightarrow> mqtt_st" where
  "mqtt_destroy st = st\<lparr>mq_ended := True\<rparr>"

text \<open>\<open>subscribe(topic, handler)\<close>: the broker request only for a new topic.\<close>

definition mqtt_subscribe :: "topic \<Rightarrow> nat \<Rightarrow> mqtt_st \<Rightarrow> mqtt_st" where
  "mqtt_subscribe t h st =
     st\<lparr>mq_subs := (if t \<in> set (map fst (mq_handlers st)) then mq_subs st else mq_subs st @ [(t, mq_qos st)]),
        mq_handlers := AList.update t h (mq_handlers st)\<rparr>"

definition mqtt_unsubscribe :: "topic \<Rightarrow> mqtt_st \<Rightarrow> mqtt_st" where
  "mqtt_unsubscribe t st =
     st\<lparr>mq_handlers := AList.delete t (mq_handlers st), mq_unsubs := mq_unsubs st @ [t]\<rparr>"

definition mqtt_on_command :: "mqtt_st \<Rightarrow> mqtt_st" where
  "mqtt_on_command st = st\<lparr>mq_cmd_handler := True\<rparr>"

text \<open>
  The \<open>message\<close> event: the exact-topic handler registered for the topic, if any,
  and the \<open>(type, id)\<close> handed to the command handler, if the topic has the command
  shape and a handler is registered.
\<close>

definition mqtt_message :: "mqtt_st \<Rightarrow> topic \<Rightarrow> nat option \<times> (string \<times> string) option" where
  "mqtt_message st t =
     (map_of (mq_handlers st) t,
      if mq_cmd_handler st then parse_cmd_topic (mq_ns st) t else None)"

subsection \<open>Sequences of adapter operations\<close>

datatype mq_op =
    MConnect | MReconnect | MClose
  | MPublish topic payload "bool option"
  | MSubWild | MOnCommand
  | MSubscribe topic nat | MUnsubscribe topic

fun mqtt_step :: "mq_op \<Rightarrow> mqtt_st \<Rightarrow> mqtt_st" where
  "mqtt_step MConnect st = mqtt_connect st"
| "mqtt_step MReconnect st = mqtt_reconnect st"
| "mqtt_step MClose st = mqtt_close st"
| "mqtt_step (MPublish t p r) st = mqtt_publish t p r st"
| "mqtt_step MSubWild st = mqtt_subscribe_wildcard st"
| "mqtt_step MOnCommand st = mqtt_on_command st"
| "mqtt_step (MSubscribe t h) st = mqtt_subscribe t h st"
| "mqtt_step (MUnsubscribe t) st = mqtt_unsubscribe t st"

definition mqtt_run :: "mq_op list \<Rightarrow> mqtt_st \<Rightarrow> mqtt_st" where
  "mqtt_run ops st = fold mqtt_step ops st"

text \<open>The number of wildcard command subscriptions requested from the broker.\<close>

definition wild_subs :: "mqtt_st \<Rightarrow> nat" where
  "wild_subs st = length (filter (\<lambda>(p, q). p = cmd_wildcard (mq_ns st)) (mq_subs st))"

definition mqtt_wild_inv :: "mqtt_st \<Rightarrow> bool" where
  "mqtt_wild_inv st \<longleftrightarrow> wild_subs st = (if mq_wild st then 1 else 0)"

text \<open>An operation that does not subscribe the wildcard filter as an exact topic.\<close>

fun wild_free :: "string \<Rightarrow> mq_op \<Rightarrow> bool" where
  "wild_free ns (MSubscribe t h) = (t \<noteq> cmd_wildcard ns)"
| "wild_free ns op = True"

subsection \<open>The wildcard subscription is requested once\<close>

lemma mqtt_step_ns [simp]: "mq_ns (mqtt_step op st) = mq_ns st"
  by (cases op) (simp_all add: mqtt_connect_def mqtt_publish_def mqtt_reconnect_def mqtt_close_def
      mqtt_subscribe_wildcard_def mqtt_on_command_def mqtt_subscribe_def mqtt_unsubscribe_def Let_def)

lemma mqtt_run_ns [simp]: "mq_ns (mqtt_run ops st) = mq_ns st"
  by (induction ops arbitrary: st) (simp_all add: mqtt_run_def)

lemma mqtt_subscribe_wildcard_inv:
  "mqtt_wild_inv st \<Longrightarrow> mqtt_wild_inv (mqtt_subscribe_wildcard st)"
  by (simp add: mqtt_subscribe_wildcard_def mqtt_wild_inv_def wild_subs_def)

lemma mqtt_publish_wild [simp]:
  "mq_subs (mqtt_publish t p r st) = mq_subs st" "mq_wild (mqtt_publish t p r st) = mq_wild st"
  "mq_ns (mqtt_publish t p r st) = mq_ns st"
  by (simp_all add: mqtt_publish_def)

lemma mqtt_step_wild_inv:
  assumes "mqtt_wild_inv st" "wild_free (mq_ns st) op"
  shows "mqtt_wild_inv (mqtt_step op st)"
proof (cases op)
  case MConnect
  then show ?thesis using assms
    by (auto simp: mqtt_connect_def Let_def mqtt_wild_inv_def wild_subs_def mqtt_subscribe_wildcard_def)
next
  case MSubWild
  then show ?thesis using assms by (simp add: mqtt_subscribe_wildcard_inv)
next
  case (MSubscribe t h)
  then show ?thesis using assms
    by (auto simp: mqtt_subscribe_def mqtt_wild_inv_def wild_subs_def)
qed (use assms in \<open>simp_all add: mqtt_wild_inv_def wild_subs_def mqtt_reconnect_def mqtt_close_def
      mqtt_on_command_def mqtt_unsubscribe_def\<close>)

theorem mqtt_run_wild_inv:
  assumes "mqtt_wild_inv st" "list_all (wild_free (mq_ns st)) ops"
  shows "mqtt_wild_inv (mqtt_run ops st)"
  using assms
proof (induction ops arbitrary: st)
  case Nil
  then show ?case by (simp add: mqtt_run_def)
next
  case (Cons op ops)
  have "mqtt_wild_inv (mqtt_step op st)" using Cons.prems by (simp add: mqtt_step_wild_inv)
  then have "mqtt_wild_inv (mqtt_run ops (mqtt_step op st))" using Cons by simp
  then show ?case by (simp add: mqtt_run_def)
qed

lemma mqtt_init_ok:
  "mqtt_init cfg st = Inr st' \<Longrightarrow> mq_subs st' = mq_subs st \<and> mq_wild st' = mq_wild st \<and> mq_ns st' = mq_ns st"
  by (auto simp: mqtt_init_def split: option.splits if_splits)

lemma mqtt_new_wild_inv: "mqtt_wild_inv (mqtt_new cfg)"
  by (simp add: mqtt_new_def mqtt_wild_inv_def wild_subs_def)

text \<open>
  C15: over the whole life of the adapter, whatever sequence of connects,
  reconnects, closes, publishes, handler registrations and repeated calls of
  \<open>subscribeCommandsWildcard\<close> it goes through, the wildcard command filter is
  requested from the broker exactly once once the adapter has subscribed, and never
  before (the sequence does not subscribe the filter as an exact topic).
\<close>

theorem mqtt_wildcard_subscribed_once:
  assumes "mqtt_init cfg (mqtt_new cfg) = Inr st" "list_all (wild_free (mq_ns st)) ops"
  shows "wild_subs (mqtt_run ops st) = (if mq_wild (mqtt_run ops st) then 1 else 0)"
proof -
  have "mqtt_wild_inv st"
    using mqtt_init_ok [OF assms(1)] mqtt_new_wild_inv [of cfg]
    by (simp add: mqtt_wild_inv_def wild_subs_def)
  then show ?thesis using mqtt_run_wild_inv assms(2) by (simp add: mqtt_wild_inv_def)
qed

theorem mqtt_wildcard_subscribed_once_witness:
  "mqtt_init [''MQTT_URL'' \<mapsto> ''mqtt://broker''] (mqtt_new [''MQTT_URL'' \<mapsto> ''mqtt://broker'']) =
     Inr (projr (mqtt_init [''MQTT_URL'' \<mapsto> ''mqtt://broker''] (mqtt_new [''MQTT_URL'' \<mapsto> ''mqtt://broker'']))) \<and>
   wild_subs (mqtt_run [MSubWild, MOnCommand, MConnect, MReconnect, MConnect, MSubWild]
     (projr (mqtt_init [''MQTT_URL'' \<mapsto> ''mqtt://broker''] (mqtt_new [''MQTT_URL'' \<mapsto> ''mqtt://broker''])))) = 1"
proof -
  let ?c = "[''MQTT_URL'' \<mapsto> ''mqtt://broker'']"
  let ?s = "projr (mqtt_init ?c (mqtt_new ?c))"
  let ?ops = "[MSubWild, MOnCommand, MConnect, MReconnect, MConnect, MSubWild]"
  have h1: "mqtt_init ?c (mqtt_new ?c) = Inr ?s" by (simp add: mqtt_init_def)
  have h2: "list_all (wild_free (mq_ns ?s)) ?ops" by simp
  have "mq_wild (mqtt_run ?ops ?s)"
    by (simp add: mqtt_run_def mqtt_init_def mqtt_new_def mqtt_subscribe_wildcard_def mqtt_connect_def
        mqtt_on_command_def mqtt_reconnect_def mqtt_publish_def Let_def)
  then show ?thesis using h1 mqtt_wildcard_subscribed_once [OF h1 h2] by simp
qed

subsection \<open>Connection and inbound messages\<close>

text \<open>
  A (re)connection publishes the retained \<open>online\<close> status and sends no subscription:
  the call \<open>subscribeCommandsWildcard()\<close> in the \<open>connect\<close> handler returns at its
  guard, since it only runs when the flag is already set.
\<close>

lemma mqtt_connect_effect:
  "mq_subs (mqtt_connect st) = mq_subs st \<and> mq_wild (mqtt_connect st) = mq_wild st \<and>
   mq_connected (mqtt_connect st) \<and>
   mq_out (mqtt_connect st) = mq_out st @ [\<lparr>msg_topic = will_topic (mq_ns st), msg_data = ''online'',
                                            msg_retain = True, msg_qos = mq_qos st\<rparr>]"
  by (simp add: mqtt_connect_def Let_def mqtt_subscribe_wildcard_def mqtt_publish_def payload_data_def)

lemma mqtt_message_cmd:
  assumes "mq_cmd_handler st" "no_slash (mq_ns st)" "no_slash ty" "no_slash i"
  shows "snd (mqtt_message st (topic_cmd (mq_ns st) ty i)) = Some (ty, i)"
  using assms split_slash_topics(1) [OF assms(2-4)] by (simp add: mqtt_message_def parse_cmd_topic_def)

end
