(* ===== verification/Gateway.thy ===== *)
theory Gateway
  imports JsValue
begin

text \<open>
  The live-update gateway \<open>DevicesGateway\<close>
  (\<open>src/mqtt-sim/src/devices/devices.gateway.ts\<close>) over socket.io rooms. The state
  \<open>gw_st\<close> holds, for every connected client, the rooms it is in (a socket starts in
  the room named by its own id, and the connection handler adds \<open>devices:all\<close>),
  and the deliveries made so far: client, event name, payload. \<open>server.to(r).emit\<close>
  delivers to every member of room \<open>r\<close>; the emit methods of the gateway call it once
  per room, so a client in several of the rooms receives the event once per room.
\<close>

record gw_st =
  gw_clients :: "(string \<times> string list) list"
  gw_sent :: "(string \<times> string \<times> jval) list"

definition gw_join :: "string \<Rightarrow> string \<Rightarrow> gw_st \<Rightarrow> gw_st" where
  "gw_join c r st =
     (case map_of (gw_clients st) c of
        None \<Rightarrow> st
      | Some rs \<Rightarrow> st\<lparr>gw_clients := AList.update c (if r \<in> set rs then rs else rs @ [r]) (gw_clients st)\<rparr>)"

definition gw_leave :: "string \<Rightarrow> string \<Rightarrow> gw_st \<Rightarrow> gw_st" where
  "gw_leave c r st =
     (case map_of (gw_clients st) c of
        None \<Rightarrow> st
      | Some rs \<Rightarrow> st\<lparr>gw_clients := AList.update c (removeAll r rs) (gw_clients st)\<rparr>)"

definition room_all :: string where
  "room_all = ''devices:all''"

definition room_type :: "string \<Rightarrow> string" where
  "room_type t = ''devices:type:'' @ t"

definition room_id :: "string \<Rightarrow> string" where
  "room_id i = ''devices:id:'' @ i"

text \<open>\<open>handleConnection\<close>; on disconnect socket.io removes the socket from its rooms.\<close>

definition gw_connect :: "string \<Rightarrow> gw_st \<Rightarrow> gw_st" where
  "gw_connect c st = gw_join c room_all (st\<lparr>gw_clients := AList.update c [c] (gw_clients st)\<rparr>)"

definition gw_disconnect :: "string \<Rightarrow> gw_st \<Rightarrow> gw_st" where
  "gw_disconnect c st = st\<lparr>gw_clients := AList.delete c (gw_clients st)\<rparr>"

text \<open>The four subscription handlers; the room name is the template literal of the
  property read from the message data.\<close>

definition gw_sub_room :: "(string \<Rightarrow> string) \<Rightarrow> string \<Rightarrow> bool \<Rightarrow> string \<Rightarrow> jval \<Rightarrow> gw_st \<Rightarrow> js_error + gw_st" where
  "gw_sub_room room k join c d st =
     ebind (js_read d k) (\<lambda>v. Inr ((if join then gw_join else gw_leave) c (room (js_template v)) st))"

definition handle_subscribe_type :: "string \<Rightarrow> jval \<Rightarrow> gw_st \<Rightarrow> js_error + gw_st" where
  "handle_subscribe_type = gw_sub_room room_type ''type'' True"

definition handle_unsubscribe_type :: "string \<Rightarrow> jval \<Rightarrow> gw_st \<Rightarrow> js_error + gw_st" where
  "handle_unsubscribe_type = gw_sub_room room_type ''type'' False"

definition handle_subscribe_device :: "string \<Rightarrow> jval \<Rightarrow> gw_st \<Rightarrow> js_error + gw_st" where
  "handle_subscribe_device = gw_sub_room room_id ''deviceId'' True"

definition handle_unsubscribe_device :: "string \<Rightarrow> jval \<Rightarrow> gw_st \<Rightarrow> js_error + gw_st" where
  "handle_unsubscribe_device = gw_sub_room room_id ''deviceId'' False"

text \<open>\<open>this.server.to(r).emit(ev, payload)\<close>\<close>

definition gw_to :: "string \<Rightarrow> string \<Rightarrow> jval \<Rightarrow> gw_st \<Rightarrow> gw_st" where
  "gw_to r ev p st =
     st\<lparr>gw_sent := gw_sent st @ map (\<lambda>(c, rs). (c, ev, p)) (filter (\<lambda>(c, rs). r \<in> set rs) (gw_clients st))\<rparr>"

definition emit_device_created :: "jval \<Rightarrow> gw_st \<Rightarrow> gw_st" where
  "emit_device_created d st =
     gw_to (room_type (js_template (js_prop d ''type''))) ''device:created'' d
       (gw_to room_all ''device:created'' d st)"

definition emit_device_updated :: "jval \<Rightarrow> gw_st \<Rightarrow> gw_st" where
  "emit_device_updated d st =
     gw_to (room_id (js_template (js_prop d ''id''))) ''device:updated'' d
       (gw_to (room_type (js_template (js_prop d ''type''))) ''device:updated'' d
         (gw_to room_all ''device:updated'' d st))"

definition emit_device_deleted :: "string \<Rightarrow> string \<Rightarrow> gw_st \<Rightarrow> gw_st" where
  "emit_device_deleted i t st =
     (let p = JObj [(''id'', JStr i), (''type'', JStr t)] in
      gw_to (room_id i) ''device:deleted'' p (gw_to (room_type t) ''device:deleted'' p
        (gw_to room_all ''device:deleted'' p st)))"

definition emit_device_state_changed :: "string \<Rightarrow> string \<Rightarrow> jobj \<Rightarrow> gw_st \<Rightarrow> gw_st" where
  "emit_device_state_changed i t s st =
     (let p = JObj [(''id'', JStr i), (''type'', JStr t), (''state'', JObj s)] in
      gw_to (room_id i) ''device:state:changed'' p (gw_to (room_type t) ''device:state:changed'' p
        (gw_to room_all ''device:state:changed'' p st)))"

text \<open>The deliveries made to client \<open>c\<close>.\<close>

definition gw_received :: "string \<Rightarrow> gw_st \<Rightarrow> (string \<times> jval) list" where
  "gw_received c st = map snd (filter (\<lambda>(c', e). c' = c) (gw_sent st))"

text \<open>Sequences of connections and room changes, from the empty server.\<close>

datatype gw_op =
    GConnect string | GDisconnect string
  | GSubType string jval | GUnsubType string jval
  | GSubDevice string jval | GUnsubDevice string jval

definition gw_handled :: "(js_error + gw_st) \<Rightarrow> gw_st \<Rightarrow> gw_st" where
  "gw_handled r st = (case r of Inl e \<Rightarrow> st | Inr st' \<Rightarrow> st')"

fun gw_step :: "gw_op \<Rightarrow> gw_st \<Rightarrow> gw_st" where
  "gw_step (GConnect c) st = gw_connect c st"
| "gw_step (GDisconnect c) st = gw_disconnect c st"
| "gw_step (GSubType c d) st = gw_handled (handle_subscribe_type c d st) st"
| "gw_step (GUnsubType c d) st = gw_handled (handle_unsubscribe_type c d st) st"
| "gw_step (GSubDevice c d) st = gw_handled (handle_subscribe_device c d st) st"
| "gw_step (GUnsubDevice c d) st = gw_handled (handle_unsubscribe_device c d st) st"

definition gw_empty :: gw_st where
  "gw_empty = \<lparr>gw_clients = [], gw_sent = []\<rparr>"

definition gw_wf :: "gw_st \<Rightarrow> bool" where
  "gw_wf st \<longleftrightarrow> distinct (map fst (gw_clients st))"

text \<open>Every connected client is in \<open>devices:all\<close>.\<close>

definition gw_all_inv :: "gw_st \<Rightarrow> bool" where
  "gw_all_inv st \<longleftrightarrow> gw_wf st \<and> (\<forall>(c, rs) \<in> set (gw_clients st). room_all \<in> set rs)"

subsection \<open>Deliveries\<close>

lemma filter_client_deliveries:
  "distinct (map fst xs) \<Longrightarrow>
   map snd (filter (\<lambda>(c', e). c' = c) (map (\<lambda>(c, rs). (c, ev, p)) (filter (\<lambda>(c, rs). r \<in> set rs) xs))) =
   (case map_of xs c of Some rs \<Rightarrow> if r \<in> set rs then [(ev, p)] else [] | None \<Rightarrow> [])"
proof (induction xs)
  case (Cons x xs)
  obtain a b where x: "x = (a, b)" by fastforce
  show ?case
  proof (cases "a = c")
    case True
    with Cons.prems x have "map_of xs c = None" by (auto simp: map_of_eq_None_iff)
    with Cons x True show ?thesis by auto
  next
    case False
    with Cons x show ?thesis by auto
  qed
qed simp

lemma gw_received_to:
  "gw_wf st \<Longrightarrow> map_of (gw_clients st) c = Some rs \<Longrightarrow>
   gw_received c (gw_to r ev p st) = gw_received c st @ (if r \<in> set rs then [(ev, p)] else [])"
  by (simp add: gw_received_def gw_to_def gw_wf_def filter_client_deliveries)

lemma gw_to_clients [simp]: "gw_clients (gw_to r ev p st) = gw_clients st"
  by (simp add: gw_to_def)

lemma gw_wf_to [simp]: "gw_wf (gw_to r ev p st) = gw_wf st"
  by (simp add: gw_wf_def)

lemma room_names_distinct [simp]:
  "room_type t \<noteq> room_all" "room_id i \<noteq> room_all" "room_type t \<noteq> room_id i"
  "room_all \<noteq> room_type t" "room_all \<noteq> room_id i" "room_id i \<noteq> room_type t"
  by (simp_all add: room_type_def room_id_def room_all_def)

theorem gw_state_changed_copies:
  assumes "gw_wf st" "map_of (gw_clients st) c = Some rs"
  shows "gw_received c (emit_device_state_changed i t s st) =
         gw_received c st @
         replicate (length (filter (\<lambda>r. r \<in> set rs) [room_all, room_type t, room_id i]))
           (''device:state:changed'', JObj [(''id'', JStr i), (''type'', JStr t), (''state'', JObj s)])"
  using assms by (simp add: emit_device_state_changed_def Let_def gw_received_to)

lemma alist_update_all_rooms:
  "\<forall>(c, rs) \<in> set xs. room_all \<in> set rs \<Longrightarrow> room_all \<in> set v \<Longrightarrow>
   \<forall>(c, rs) \<in> set (AList.update k v xs). room_all \<in> set rs"
  by (auto dest!: in_set_alist_update)

lemma gw_connect_inv: "gw_all_inv st \<Longrightarrow> gw_all_inv (gw_connect c st)"
proof -
  assume a: "gw_all_inv st"
  let ?cl = "AList.update c [c] (gw_clients st)"
  have m: "map_of ?cl c = Some [c]" by (simp add: update_conv')
  have "gw_clients (gw_connect c st) = AList.update c (if room_all \<in> set [c] then [c] else [c] @ [room_all]) ?cl"
    by (simp add: gw_connect_def gw_join_def m)
  moreover have "\<forall>(c, rs) \<in> set ?cl. room_all \<in> set rs \<or> c = c" by auto
  ultimately show ?thesis using a
    by (auto simp: gw_all_inv_def gw_wf_def distinct_update
        dest!: in_set_alist_update split: if_splits)
qed

lemma gw_join_inv: "gw_all_inv st \<Longrightarrow> gw_all_inv (gw_join c r st)"
  by (auto simp: gw_join_def gw_all_inv_def gw_wf_def distinct_update dest!: in_set_alist_update
      split: option.splits dest: map_of_SomeD)

lemma gw_leave_inv: "r \<noteq> room_all \<Longrightarrow> gw_all_inv st \<Longrightarrow> gw_all_inv (gw_leave c r st)"
  by (auto simp: gw_leave_def gw_all_inv_def gw_wf_def distinct_update dest!: in_set_alist_update
      split: option.splits dest: map_of_SomeD)

lemma gw_disconnect_inv: "gw_all_inv st \<Longrightarrow> gw_all_inv (gw_disconnect c st)"
  by (auto simp: gw_disconnect_def gw_all_inv_def gw_wf_def distinct_delete dest!: in_set_alist_delete)

lemma gw_sub_room_inv:
  assumes "\<And>s. room s \<noteq> room_all" "gw_all_inv st"
  shows "gw_all_inv (gw_handled (gw_sub_room room k j c d st) st)"
  using assms gw_join_inv gw_leave_inv
  by (cases "js_read d k") (simp_all add: gw_handled_def gw_sub_room_def)

lemma gw_step_inv: "gw_all_inv st \<Longrightarrow> gw_all_inv (gw_step op st)"
  by (cases op) (simp_all add: gw_connect_inv gw_disconnect_inv gw_sub_room_inv
      handle_subscribe_type_def handle_unsubscribe_type_def
      handle_subscribe_device_def handle_unsubscribe_device_def)

lemma gw_run_inv: "gw_all_inv (fold gw_step ops gw_empty)"
proof -
  have step: "gw_all_inv st \<Longrightarrow> gw_all_inv (fold gw_step ops st)" for st
    by (induction ops arbitrary: st) (simp_all add: gw_step_inv)
  have "gw_all_inv gw_empty" by (simp add: gw_all_inv_def gw_wf_def gw_empty_def)
  then show ?thesis by (rule step)
qed

text \<open>
  C38: a client of the live-update gateway that has subscribed to a device's room
  (as the web control page does) receives every state change of that device at
  least twice, since every client is also in \<open>devices:all\<close> and the gateway emits
  once per room.
\<close>

theorem gw_state_changed_duplicated:
  assumes "st = fold gw_step ops gw_empty" "map_of (gw_clients st) c = Some rs" "room_id i \<in> set rs"
  shows "\<exists>n \<ge> 2. gw_received c (emit_device_state_changed i t s st) =
           gw_received c st @
           replicate n (''device:state:changed'', JObj [(''id'', JStr i), (''type'', JStr t), (''state'', JObj s)])"
proof -
  have inv: "gw_all_inv st" using assms(1) gw_run_inv by simp
  then have "room_all \<in> set rs" using assms(2) by (auto simp: gw_all_inv_def dest: map_of_SomeD)
  then have "2 \<le> length (filter (\<lambda>r. r \<in> set rs) [room_all, room_type t, room_id i])"
    using assms(3) by simp
  with gw_state_changed_copies [of st c rs i t s] inv assms(2) show ?thesis
    by (auto simp: gw_all_inv_def)
qed

theorem gw_state_changed_duplicated_witness:
  "\<exists>n \<ge> 2. gw_received ''s1'' (emit_device_state_changed ''d1'' ''light'' [(''state'', JStr ''ON'')]
                  (fold gw_step [GConnect ''s1'', GSubDevice ''s1'' (JObj [(''deviceId'', JStr ''d1'')])] gw_empty)) =
     gw_received ''s1'' (fold gw_step [GConnect ''s1'', GSubDevice ''s1'' (JObj [(''deviceId'', JStr ''d1'')])] gw_empty) @
     replicate n (''device:state:changed'',
       JObj [(''id'', JStr ''d1''), (''type'', JStr ''light''), (''state'', JObj [(''state'', JStr ''ON'')])])"
proof -
  let ?st = "fold gw_step [GConnect ''s1'', GSubDevice ''s1'' (JObj [(''deviceId'', JStr ''d1'')])] gw_empty"
  have h: "map_of (gw_clients ?st) ''s1'' = Some [''s1'', room_all, room_id ''d1'']"
    by (simp add: gw_empty_def gw_connect_def gw_join_def gw_handled_def handle_subscribe_device_def
        gw_sub_room_def js_read_def js_get_def js_template_def room_all_def room_id_def)
  have "room_id ''d1'' \<in> set [''s1'', room_all, room_id ''d1'']" by simp
  from gw_state_changed_duplicated [OF refl h this] show ?thesis .
qed

end
