(* ===== verification/Service.thy ===== *)
theory Service
  imports Registry Mqtt Gateway
begin

text \<open>
  The state of \<open>DevicesService\<close> (\<open>src/mqtt-sim/src/devices/devices.service.ts\<close>)
  together with the collaborators it writes to. The \<open>Device\<close> entity
  (\<open>device.entity.ts\<close>) is the record \<open>device\<close>; the two repositories are the
  device rows, in insertion order, and the \<open>DeviceState\<close> rows
  (\<open>device-state.entity.ts\<close>), a map from device id to the stored JSON data. The
  service's own fields are the namespace, the discovery flag and the timer map
  \<open>timers\<close>; the Node.js intervals it has started are kept beside them, each with
  the device object its callback captured and its effective period. The adapter
  state \<open>mqtt_st\<close> and the gateway state \<open>gw_st\<close> receive the publishes and the
  live-update events. Generated ids come from a counter; timestamps are the ISO
  texts of the \<open>Date\<close> values, with the current one in \<open>sv_now\<close>.

  The store operations are the TypeORM calls the service makes: \<open>findOneBy\<close> by
  id or by \<open>(type, slug)\<close>, \<open>update\<close> of a state row (the \<open>simple-json\<close> column keeps
  \<open>JSON.parse(JSON.stringify(data))\<close>, i.e. \<open>json_norm_obj\<close>; a missing row is left
  alone), \<open>save\<close> of an existing row, and \<open>delete\<close>, which cascades to the state row.
\<close>

record device =
  dv_id :: string
  dv_type :: string
  dv_name :: string
  dv_slug :: "string option"
  dv_caps :: jobj
  dv_template :: "string option"
  dv_topic_base :: string
  dv_retained :: bool
  dv_telemetry :: jnum
  dv_created :: string
  dv_updated :: string

record svc =
  sv_ns :: string
  sv_discovery :: bool
  sv_devices :: "device list"
  sv_states :: "(string \<times> jobj) list"
  sv_timers :: "(string \<times> nat) list"
  sv_intervals :: "(nat \<times> device \<times> rat) list"
  sv_next_handle :: nat
  sv_mqtt :: mqtt_st
  sv_gw :: gw_st
  sv_uuid :: nat
  sv_now :: string

text \<open>
  What a service method rejects with: the HTTP exceptions it throws
  (\<open>BadRequestException\<close>, \<open>NotFoundException\<close>, \<open>ConflictException\<close>), a
  JavaScript error it lets through, or a failed query of the store (the SQLite
  unique constraint of \<open>(type, slug)\<close>).
\<close>

datatype svc_error = BadRequest string | NotFound string | Conflict string | JsErr js_error
  | UniqueViolation

definition error_message :: "js_error \<Rightarrow> string" where
  "error_message e = (case e of TypeError m \<Rightarrow> m | Error m \<Rightarrow> m)"

text \<open>The constructor of \<open>DevicesService\<close>.\<close>

definition svc_new :: "config \<Rightarrow> mqtt_st \<Rightarrow> gw_st \<Rightarrow> string \<Rightarrow> svc" where
  "svc_new cfg mq gw now =
     \<lparr>sv_ns = cfg_get cfg ''MQTT_NAMESPACE'' ''sim'',
      sv_discovery = (cfg_get cfg ''DISCOVERY_ENABLED'' ''true'' \<noteq> ''false''),
      sv_devices = [], sv_states = [], sv_timers = [], sv_intervals = [], sv_next_handle = 1,
      sv_mqtt = mq, sv_gw = gw, sv_uuid = 0, sv_now = now\<rparr>"

subsection \<open>Repository operations\<close>

definition find_device :: "svc \<Rightarrow> string \<Rightarrow> device option" where
  "find_device st i = find (\<lambda>d. dv_id d = i) (sv_devices st)"

definition find_type_slug :: "svc \<Rightarrow> string \<Rightarrow> string \<Rightarrow> device option" where
  "find_type_slug st t s = find (\<lambda>d. dv_type d = t \<and> dv_slug d = Some s) (sv_devices st)"

definition get_state :: "svc \<Rightarrow> string \<Rightarrow> jobj option" where
  "get_state st i = map_of (sv_states st) i"

text \<open>\<open>states.update({deviceId}, {data})\<close>\<close>

definition update_state :: "string \<Rightarrow> jobj \<Rightarrow> svc \<Rightarrow> svc" where
  "update_state i data st =
     (if i \<in> set (map fst (sv_states st))
      then st\<lparr>sv_states := AList.update i (json_norm_obj data) (sv_states st)\<rparr> else st)"

text \<open>\<open>states.save(states.create({deviceId, data}))\<close>: insert or overwrite.\<close>

definition save_state :: "string \<Rightarrow> jobj \<Rightarrow> svc \<Rightarrow> svc" where
  "save_state i data st = st\<lparr>sv_states := AList.update i (json_norm_obj data) (sv_states st)\<rparr>"

text \<open>\<open>devices.save(dev)\<close> for a loaded row: the columns are written back, the
  update timestamp is set.\<close>

definition save_device :: "device \<Rightarrow> svc \<Rightarrow> svc" where
  "save_device d st =
     st\<lparr>sv_devices := map (\<lambda>x. if dv_id x = dv_id d
                                then d\<lparr>dv_caps := json_norm_obj (dv_caps d), dv_updated := sv_now st\<rparr>
                                else x) (sv_devices st)\<rparr>"

text \<open>\<open>devices.delete({id})\<close>, cascading to the state row.\<close>

definition delete_device :: "string \<Rightarrow> svc \<Rightarrow> svc" where
  "delete_device i st =
     st\<lparr>sv_devices := filter (\<lambda>d. dv_id d \<noteq> i) (sv_devices st),
        sv_states := AList.delete i (sv_states st)\<rparr>"

definition mk_uuid :: "nat \<Rightarrow> string" where
  "mk_uuid n = ''uuid-'' @ show_nat n"

subsection \<open>Publishing and notifying\<close>

definition svc_publish :: "topic \<Rightarrow> payload \<Rightarrow> bool option \<Rightarrow> svc \<Rightarrow> svc" where
  "svc_publish t p r st = st\<lparr>sv_mqtt := mqtt_publish t p r (sv_mqtt st)\<rparr>"

definition svc_gw :: "(gw_st \<Rightarrow> gw_st) \<Rightarrow> svc \<Rightarrow> svc" where
  "svc_gw f st = st\<lparr>sv_gw := f (sv_gw st)\<rparr>"

definition opt_str :: "string option \<Rightarrow> jval" where
  "opt_str v = (case v of None \<Rightarrow> JNull | Some s \<Rightarrow> JStr s)"

text \<open>A loaded \<open>Device\<close> entity as the JSON the gateway sends, in declaration order.\<close>

definition device_json :: "device \<Rightarrow> jobj" where
  "device_json d =
     [(''id'', JStr (dv_id d)), (''type'', JStr (dv_type d)), (''name'', JStr (dv_name d)),
      (''slug'', opt_str (dv_slug d)), (''capabilities'', JObj (dv_caps d)),
      (''templateId'', opt_str (dv_template d)), (''topicBase'', JStr (dv_topic_base d)),
      (''retained'', JBool (dv_retained d)), (''telemetryIntervalSec'', JNum (dv_telemetry d)),
      (''createdAt'', JStr (dv_created d)), (''updatedAt'', JStr (dv_updated d))]"

text \<open>\<open>buildDiscoveryPayload(ns, d)\<close> (\<open>discovery.ts\<close>)\<close>

definition discovery_payload :: "string \<Rightarrow> device \<Rightarrow> jobj" where
  "discovery_payload ns d =
     [(''id'', JStr (dv_id d)), (''type'', JStr (dv_type d)), (''name'', JStr (dv_name d)),
      (''slug'', opt_str (dv_slug d)), (''templateId'', opt_str (dv_template d)),
      (''capabilities'', JObj (dv_caps d)),
      (''topics'', JObj [(''cmd'', JStr (topic_cmd ns (dv_type d) (dv_id d))),
                         (''state'', JStr (topic_state ns (dv_type d) (dv_id d))),
                         (''status'', JStr (topic_status ns (dv_type d) (dv_id d)))]),
      (''createdAt'', JStr (dv_created d)),
      (''meta'', JObj [(''simulator'', JStr ''mqtt-sim''), (''version'', JStr ''0.1.0'')])]"

definition publish_discovery_if_enabled :: "device \<Rightarrow> svc \<Rightarrow> svc" where
  "publish_discovery_if_enabled d st =
     (if \<not> sv_discovery st then st
      else svc_publish (topic_discovery (sv_ns st) (dv_type d) (dv_id d))
             (PVal (JObj (discovery_payload (sv_ns st) d))) (Some True) st)"

definition clear_discovery :: "device \<Rightarrow> svc \<Rightarrow> svc" where
  "clear_discovery d st = svc_publish (topic_discovery (sv_ns st) (dv_type d) (dv_id d)) (PStr []) (Some True) st"

text \<open>A small store used by the examples: one switch, currently off.\<close>

definition demo_device :: device where
  "demo_device =
     \<lparr>dv_id = mk_uuid 0, dv_type = ''switch'', dv_name = ''Lamp'', dv_slug = Some ''lamp'', dv_caps = [],
      dv_template = None, dv_topic_base = ''sim/switch'', dv_retained = True, dv_telemetry = Fin 0,
      dv_created = ''t0'', dv_updated = ''t0''\<rparr>"

definition demo_svc :: svc where
  "demo_svc =
     (svc_new Map.empty (mqtt_on_command (mqtt_new Map.empty)) gw_empty ''t0'')
       \<lparr>sv_devices := [demo_device], sv_states := [(mk_uuid 0, [(''state'', JStr ''OFF'')])], sv_uuid := 1\<rparr>"

subsection \<open>Listing\<close>

text \<open>
  \<open>list(type, slug, page, limit)\<close>: the filters apply when the arguments are
  non-empty; \<open>page = max(1, Number(page) || 1)\<close>, \<open>limit = max(1, min(500, Number(limit) || 50))\<close>,
  then \<open>findAndCount\<close> with \<open>skip = (page - 1) * limit\<close>. The model covers integral
  page and limit values (the result is \<open>None\<close> otherwise: the SQL offset of a
  fractional page is not modelled).
\<close>

text \<open>\<open>x || d\<close> for a number \<open>x\<close> and a numeric literal \<open>d\<close>\<close>

definition num_or :: "jnum \<Rightarrow> rat \<Rightarrow> jnum" where
  "num_or x d = (if x = NaN \<or> x = Fin 0 then Fin d else x)"

definition svc_list :: "string option \<Rightarrow> string option \<Rightarrow> jnum \<Rightarrow> jnum \<Rightarrow> svc \<Rightarrow>
                        (device list \<times> rat \<times> rat \<times> nat \<times> int) option" where
  "svc_list ty sl pg lm st =
     (case (num_max (Fin 1) (num_or pg 1), num_max (Fin 1) (num_min (Fin 500) (num_or lm 50))) of
        (Fin page, Fin limit) \<Rightarrow>
          let rows = filter (\<lambda>d. (case ty of Some t \<Rightarrow> t = [] \<or> dv_type d = t | None \<Rightarrow> True) \<and>
                                 (case sl of Some s \<Rightarrow> s = [] \<or> dv_slug d = Some s | None \<Rightarrow> True))
                       (sv_devices st);
              total = length rows
          in if of_int \<lfloor>page\<rfloor> = page \<and> of_int \<lfloor>limit\<rfloor> = limit
             then Some (take (nat \<lfloor>limit\<rfloor>) (drop (nat \<lfloor>(page - 1) * limit\<rfloor>) rows), page, limit, total,
                        \<lceil>of_nat total / limit\<rceil>)
             else None
      | _ \<Rightarrow> None)"

subsection \<open>Evaluation rules of the store and the collaborators\<close>

lemma update_state_get [simp]:
  "get_state (update_state i data st) j =
     (if j = i \<and> i \<in> set (map fst (sv_states st)) then Some (json_norm_obj data) else get_state st j)"
  by (auto simp: update_state_def get_state_def update_conv')


lemma svc_publish_out [simp]:
  "mq_out (sv_mqtt (svc_publish t p r st)) =
     mq_out (sv_mqtt st) @ [\<lparr>msg_topic = t, msg_data = payload_data p,
                              msg_retain = (case r of None \<Rightarrow> mq_retained (sv_mqtt st) | Some b \<Rightarrow> b),
                              msg_qos = mq_qos (sv_mqtt st)\<rparr>]"
  by (simp add: svc_publish_def mqtt_publish_def)


lemma svc_publish_fields [simp]:
  "sv_states (svc_publish t p r st) = sv_states st" "sv_devices (svc_publish t p r st) = sv_devices st"
  "sv_ns (svc_publish t p r st) = sv_ns st" "sv_timers (svc_publish t p r st) = sv_timers st"
  "sv_intervals (svc_publish t p r st) = sv_intervals st"
  by (simp_all add: svc_publish_def)


lemma svc_gw_fields [simp]:
  "sv_states (svc_gw f st) = sv_states st" "sv_devices (svc_gw f st) = sv_devices st"
  "sv_mqtt (svc_gw f st) = sv_mqtt st" "sv_ns (svc_gw f st) = sv_ns st"
  "sv_timers (svc_gw f st) = sv_timers st" "sv_intervals (svc_gw f st) = sv_intervals st"
  by (simp_all add: svc_gw_def)


lemma update_state_fields [simp]:
  "sv_mqtt (update_state i d st) = sv_mqtt st" "sv_devices (update_state i d st) = sv_devices st"
  "sv_ns (update_state i d st) = sv_ns st" "sv_gw (update_state i d st) = sv_gw st"
  "sv_timers (update_state i d st) = sv_timers st" "sv_intervals (update_state i d st) = sv_intervals st"
  by (simp_all add: update_state_def)


lemma get_state_publish_gw [simp]:
  "get_state (svc_publish t p r st) i = get_state st i" "get_state (svc_gw f st) i = get_state st i"
  by (simp_all add: get_state_def)


lemma get_state_dom: "get_state st i = Some s \<Longrightarrow> i \<in> set (map fst (sv_states st))"
  by (force simp: get_state_def dest: map_of_SomeD)


end
