(* ===== verification/Router.thy ===== *)
theory Router
  imports Service
begin

text \<open>
  The command router (\<open>devices.service.ts\<close>, lines 241-292, and the message handler
  of \<open>mqtt.service.ts\<close>, lines 72-89): \<open>coerceCommandValues\<close>, \<open>applyCommand\<close>,
  \<open>sendById\<close>, and the dispatch of an inbound broker message to \<open>applyCommand\<close> that
  \<open>onModuleInit\<close> registers. A command reaches \<open>applyCommand\<close> either as the
  \<open>Buffer\<close> the broker client delivers or as the parsed HTTP body, which
  \<open>express.json\<close> (strict mode) only produces as an object or an array; both have
  \<open>typeof === 'object'\<close>, so the \<open>JSON.parse\<close> branch is never taken and is not
  modelled. \<open>applyCommand\<close> is \<open>async\<close>: an exception becomes a rejected promise,
  the \<open>Inl\<close> of the result, raised before any write of the store.
\<close>

datatype raw_cmd = RawBuffer "8 word list" | RawObject jobj | RawArray "jval list"

text \<open>\<open>{...arr}\<close> for an array: one property per index.\<close>

definition array_obj :: "jval list \<Rightarrow> jobj" where
  "array_obj xs = map (\<lambda>(i, v). (show_nat i, v)) (zip [0..<length xs] xs)"

definition numeric_fields :: "string list" where
  "numeric_fields = [''brightness'', ''colorTemperature'', ''position'', ''speed'',
                     ''temperature'', ''humidity'', ''pressure'', ''value'']"

text \<open>One round of the loop of \<open>coerceCommandValues\<close>: a string field that
  \<open>parseFloat\<close> reads as a number is replaced by that number.\<close>

definition coerce_field :: "string \<Rightarrow> jobj \<Rightarrow> jobj" where
  "coerce_field f obj =
     (case js_get obj f of
        Some (JStr s) \<Rightarrow> if parse_float s = NaN then obj else js_set f (JNum (parse_float s)) obj
      | _ \<Rightarrow> obj)"

definition coerce_obj :: "jobj \<Rightarrow> jobj" where
  "coerce_obj obj = fold coerce_field numeric_fields obj"

text \<open>\<open>coerceCommandValues(cmd)\<close> applied to what \<open>applyCommand\<close> passes: the
  \<open>Buffer\<close> itself, whose spread is its bytes by index, or the body.\<close>

definition coerce_command :: "raw_cmd \<Rightarrow> jval" where
  "coerce_command raw =
     (case raw of RawBuffer bs \<Rightarrow> JObj (coerce_obj (buffer_obj bs))
                | RawObject obj \<Rightarrow> JObj (coerce_obj obj)
                | RawArray xs \<Rightarrow> JObj (coerce_obj (array_obj xs)))"

text \<open>\<open>try { kind.validate?.(cmd, caps) } catch (e) { throw new BadRequestException(e.message) }\<close>\<close>

definition validate_or_bad_request :: "kind_ref \<Rightarrow> jval \<Rightarrow> jobj \<Rightarrow> svc_error + unit" where
  "validate_or_bad_request k cmd caps =
     (case ref_validate k cmd caps of Inl e \<Rightarrow> Inl (BadRequest (error_message e)) | Inr u \<Rightarrow> Inr u)"

definition js_lift :: "js_error + 'a \<Rightarrow> svc_error + 'a" where
  "js_lift r = (case r of Inl e \<Rightarrow> Inl (JsErr e) | Inr a \<Rightarrow> Inr a)"

text \<open>\<open>applyCommand(deviceId, type, raw)\<close>\<close>

definition apply_command :: "string \<Rightarrow> string \<Rightarrow> raw_cmd \<Rightarrow> svc \<Rightarrow> svc_error + svc" where
  "apply_command i ty raw st =
     ebind (js_lift (get_kind ty)) (\<lambda>k.
       case (get_state st i, find_device st i) of
         (Some prev, Some dev) \<Rightarrow>
           let caps = dv_caps dev; cmd = coerce_command raw in
           ebind (validate_or_bad_request k cmd caps) (\<lambda>_.
           ebind (js_lift (ref_reduce k prev cmd caps)) (\<lambda>next.
             let st1 = update_state i next st;
                 st2 = svc_publish (topic_state (sv_ns st) ty i) (PVal (JObj next)) (Some True) st1
             in Inr (svc_gw (emit_device_state_changed i ty next) st2)))
       | _ \<Rightarrow> Inr st)"

text \<open>\<open>sendById(id, cmd)\<close>: the HTTP path, with the stored type.\<close>

definition send_by_id :: "string \<Rightarrow> raw_cmd \<Rightarrow> svc \<Rightarrow> svc_error + svc" where
  "send_by_id i cmd st =
     (case find_device st i of
        None \<Rightarrow> Inl (NotFound (''Device not found: '' @ i))
      | Some dev \<Rightarrow> apply_command i (dv_type dev) cmd st)"

text \<open>An object whose keys are all strings of digits, as the spread of a \<open>Buffer\<close>.\<close>

definition digit_keyed :: "jobj \<Rightarrow> bool" where
  "digit_keyed obj \<longleftrightarrow> (\<forall>(k, v) \<in> set obj. \<forall>c \<in> set k. is_digit c)"

text \<open>
  An inbound broker message. The adapter hands \<open>(type, id, payload)\<close> to the
  handler registered by \<open>onModuleInit\<close>, which returns the promise of
  \<open>applyCommand(id, type, payload)\<close> without awaiting it: the \<open>try\<close>/\<open>catch\<close>
  around the call sees no exception, and a rejection is unhandled, which
  terminates the Node.js process (the default \<open>--unhandled-rejections=throw\<close>).
\<close>

datatype route_outcome = Dropped | Applied | Crashed svc_error

definition route_message :: "topic \<Rightarrow> 8 word list \<Rightarrow> svc \<Rightarrow> route_outcome \<times> svc" where
  "route_message t bs st =
     (case snd (mqtt_message (sv_mqtt st) t) of
        None \<Rightarrow> (Dropped, st)
      | Some (ty, i) \<Rightarrow>
          (case apply_command i ty (RawBuffer bs) st of
             Inl e \<Rightarrow> (Crashed e, st)
           | Inr st' \<Rightarrow> (Applied, st')))"

subsection \<open>Commands from the broker\<close>

lemma digit_keyed_get:
  "digit_keyed obj \<Longrightarrow> \<exists>c \<in> set k. \<not> is_digit c \<Longrightarrow> js_get obj k = None"
  by (auto simp: digit_keyed_def js_get_def map_of_eq_None_iff)

lemma digit_keyed_cmd [simp]:
  assumes "digit_keyed obj" "\<exists>c \<in> set k. \<not> is_digit c"
  shows "js_prop (JObj obj) k = None" "js_read (JObj obj) k = Inr None" "js_in k (JObj obj) = Inr False"
  using digit_keyed_get [OF assms] by (simp_all add: js_read_def js_in_def js_get_def)

lemma digit_keyed_buffer: "digit_keyed (buffer_obj bs)"
  using buffer_obj_keys_digits by (fastforce simp: digit_keyed_def)

lemma digit_keyed_empty: "digit_keyed []" by (simp add: digit_keyed_def)

lemma kind_digit_keyed:
  assumes "digit_keyed obj"
  shows "kind_reduce k prev (JObj obj) caps = kind_reduce k prev (JObj []) caps \<and>
         kind_validate k (JObj obj) caps = kind_validate k (JObj []) caps"
  using assms
  by (cases k) (simp_all add: is_digit_def digit_keyed_get js_read_def js_in_def Let_def
      light_reduce_def light_validate_def switch_reduce_def switch_validate_def
      fan_reduce_def fan_validate_def cover_reduce_def cover_validate_def
      sensor_reduce_def sensor_validate_def)

lemma coerce_digit_keyed: "digit_keyed obj \<Longrightarrow> coerce_obj obj = obj"
  by (simp add: coerce_obj_def numeric_fields_def coerce_field_def digit_keyed_get is_digit_def)

text \<open>
  C1: a command that arrives from the broker is ignored: whatever bytes the
  payload holds, \<open>applyCommand\<close> does exactly what it does for the empty command
  \<open>{}\<close>. The broker client delivers a \<open>Buffer\<close>, \<open>typeof\<close> of which is
  \<open>'object'\<close>, so the payload is never parsed and the kinds see only its bytes
  under the keys \<open>"0"\<close>, \<open>"1"\<close>, ...
\<close>

theorem broker_commands_ignored:
  "apply_command i ty (RawBuffer bs) st = apply_command i ty (RawObject []) st"
proof -
  have ce: "coerce_command (RawBuffer bs) = JObj (buffer_obj bs)" "coerce_command (RawObject []) = JObj []"
    using coerce_digit_keyed [OF digit_keyed_buffer] coerce_digit_keyed [OF digit_keyed_empty]
    by (simp_all add: coerce_command_def)
  have rv: "ref_validate r (JObj (buffer_obj bs)) caps = ref_validate r (JObj []) caps"
    and rr: "ref_reduce r prev (JObj (buffer_obj bs)) caps = ref_reduce r prev (JObj []) caps" for r prev caps
    using kind_digit_keyed [OF digit_keyed_buffer]
    by (cases r; simp add: ref_validate_def ref_reduce_def)+
  show ?thesis unfolding apply_command_def ce Let_def validate_or_bad_request_def rv rr ..
qed


lemma apply_command_ok:
  assumes "get_kind ty = Inr (KindRef k)" "get_state st i = Some prev" "find_device st i = Some dev"
    "kind_validate k (coerce_command raw) (dv_caps dev) = Inr ()"
    "kind_reduce k prev (coerce_command raw) (dv_caps dev) = Inr next"
  shows "apply_command i ty raw st =
           Inr (svc_gw (emit_device_state_changed i ty next)
                 (svc_publish (topic_state (sv_ns st) ty i) (PVal (JObj next)) (Some True)
                   (update_state i next st)))"
  using assms by (simp add: apply_command_def validate_or_bad_request_def js_lift_def ref_validate_def
      ref_reduce_def Let_def)

lemma apply_command_invalid:
  assumes "get_kind ty = Inr (KindRef k)" "get_state st i = Some prev" "find_device st i = Some dev"
    "kind_validate k (coerce_command raw) (dv_caps dev) = Inl e"
  shows "apply_command i ty raw st = Inl (BadRequest (error_message e))"
  using assms by (simp add: apply_command_def validate_or_bad_request_def js_lift_def ref_validate_def Let_def)

lemma apply_command_missing:
  assumes "get_kind ty = Inr r" "get_state st i = None \<or> find_device st i = None"
  shows "apply_command i ty raw st = Inr st"
  using assms by (auto simp: apply_command_def js_lift_def split: option.splits)

lemma apply_command_unknown_type:
  "registry_lookup ty = None \<Longrightarrow> apply_command i ty raw st = Inl (JsErr (Error (''Unsupported device type: '' @ ty)))"
  by (simp add: apply_command_def get_kind_def js_lift_def)

text \<open>
  C2: a command sent by id that the device's kind validates and reduces is
  persisted (as its JSON normal form) and published, retained, on the device's
  state topic, as the last message of the adapter.
\<close>

theorem send_by_id_applies:
  assumes "find_device st i = Some dev" "get_kind (dv_type dev) = Inr (KindRef k)"
    "get_state st i = Some prev"
    "kind_validate k (coerce_command raw) (dv_caps dev) = Inr ()"
    "kind_reduce k prev (coerce_command raw) (dv_caps dev) = Inr next"
  shows "\<exists>st'. send_by_id i raw st = Inr st' \<and> get_state st' i = Some (json_norm_obj next) \<and>
           mq_out (sv_mqtt st') = mq_out (sv_mqtt st) @
             [\<lparr>msg_topic = topic_state (sv_ns st) (dv_type dev) i, msg_data = json_stringify (JObj next),
               msg_retain = True, msg_qos = mq_qos (sv_mqtt st)\<rparr>]"
  using apply_command_ok [OF assms(2,3,1,4,5)] assms(1) get_state_dom [OF assms(3)]
  by (simp add: send_by_id_def payload_data_def)

lemma demo_facts:
  "find_device demo_svc (mk_uuid 0) = Some demo_device"
  "get_state demo_svc (mk_uuid 0) = Some [(''state'', JStr ''OFF'')]"
  "get_kind (dv_type demo_device) = Inr (KindRef Switch)"
  "sv_ns demo_svc = ''sim''" "mq_ns (sv_mqtt demo_svc) = ''sim''" "mq_cmd_handler (sv_mqtt demo_svc)"
  by (simp_all add: demo_svc_def demo_device_def find_device_def get_state_def svc_new_def cfg_get_def
      mqtt_new_def mqtt_on_command_def get_kind_def registry_lookup_def registry_def)

theorem send_by_id_applies_witness:
  "\<exists>st'. send_by_id (mk_uuid 0) (RawObject [(''state'', JStr ''ON'')]) demo_svc = Inr st' \<and>
     get_state st' (mk_uuid 0) = Some (json_norm_obj [(''state'', JStr ''ON'')]) \<and>
     mq_out (sv_mqtt st') = mq_out (sv_mqtt demo_svc) @
       [\<lparr>msg_topic = topic_state (sv_ns demo_svc) (dv_type demo_device) (mk_uuid 0),
         msg_data = json_stringify (JObj [(''state'', JStr ''ON'')]),
         msg_retain = True, msg_qos = mq_qos (sv_mqtt demo_svc)\<rparr>]"
proof -
  have v: "kind_validate Switch (coerce_command (RawObject [(''state'', JStr ''ON'')])) (dv_caps demo_device) = Inr ()"
    and r: "kind_reduce Switch [(''state'', JStr ''OFF'')] (coerce_command (RawObject [(''state'', JStr ''ON'')]))
              (dv_caps demo_device) = Inr [(''state'', JStr ''ON'')]"
    by (simp_all add: coerce_command_def coerce_obj_def numeric_fields_def coerce_field_def js_get_def
        switch_validate_def switch_reduce_def js_read_def js_is_str_def js_includes_def)
  show ?thesis using send_by_id_applies [OF demo_facts(1,3,2) v r] .
qed

text \<open>
  C8: a well-formed command topic whose type is not a registered kind makes
  \<open>applyCommand\<close> reject before it looks at the store; the adapter's handler does
  not await the promise, so the rejection is unhandled and ends the process,
  whatever device id and payload the message carries.
\<close>

theorem route_unknown_type_crashes:
  assumes "mq_cmd_handler (sv_mqtt st)" "no_slash (mq_ns (sv_mqtt st))" "no_slash ty" "no_slash i"
    "registry_lookup ty = None"
  shows "route_message (topic_cmd (mq_ns (sv_mqtt st)) ty i) bs st =
           (Crashed (JsErr (Error (''Unsupported device type: '' @ ty))), st)"
  using mqtt_message_cmd [OF assms(1-4)] apply_command_unknown_type [OF assms(5)]
  by (simp add: route_message_def)

theorem route_unknown_type_crashes_witness:
  "route_message (topic_cmd ''sim'' ''thermostat'' ''x1'') [] demo_svc =
     (Crashed (JsErr (Error (''Unsupported device type: thermostat''))), demo_svc)"
proof -
  have h: "no_slash ''sim''" "no_slash ''thermostat''" "no_slash ''x1''"
    "registry_lookup ''thermostat'' = None"
    by (simp_all add: no_slash_def registry_lookup_def registry_def object_proto_keys_def)
  show ?thesis using route_unknown_type_crashes [OF demo_facts(6) _ h(2,3,4)] h(1) demo_facts(5) by simp
qed

text \<open>
  The broker route reduces a stored state with the kind named in the topic, not
  the stored type: a message for the switch on a light command topic stores the
  switch's state with a light display mode and publishes it on the light state
  topic.
\<close>

lemma route_uses_topic_type:
  "fst (route_message (topic_cmd ''sim'' ''light'' (mk_uuid 0)) [] demo_svc) = Applied \<and>
   get_state (snd (route_message (topic_cmd ''sim'' ''light'' (mk_uuid 0)) [] demo_svc)) (mk_uuid 0) =
     Some [(''state'', JStr ''OFF''), (''mode'', JStr ''white'')] \<and>
   map msg_topic (mq_out (sv_mqtt (snd (route_message (topic_cmd ''sim'' ''light'' (mk_uuid 0)) [] demo_svc)))) =
     [topic_state ''sim'' ''light'' (mk_uuid 0)]"
  by code_simp

text \<open>
  \<open>coerceCommandValues\<close> converts \<open>colorTemperature\<close>, but the light kind reads
  \<open>colorTemp\<close>: a colour temperature sent as a string passes validation (the range
  check converts it) and is then ignored by \<open>reduce\<close>, which wants a number.
\<close>

lemma light_string_color_temp_ignored:
  "light_validate (coerce_command (RawObject [(''colorTemp'', JStr ''300'')])) [(''color_temp'', JBool True)] = Inr () \<and>
   light_reduce [(''state'', JStr ''ON''), (''colorTemp'', jn 200)]
     (coerce_command (RawObject [(''colorTemp'', JStr ''300'')])) [(''color_temp'', JBool True)] =
   Inr [(''state'', JStr ''ON''), (''colorTemp'', jn 200), (''mode'', JStr ''ct'')]"
  by code_simp

end
