(* ===== verification/Scheduler.thy ===== *)
theory Scheduler
  imports Service
begin

text \<open>
  The telemetry scheduler of \<open>DevicesService\<close>: \<open>ensureTelemetryTimer\<close>,
  \<open>clearTelemetryTimer\<close> and \<open>heartbeatTick\<close> (\<open>devices.service.ts\<close>, lines 85-119),
  and the firing of a Node.js interval. \<open>setInterval(f, ms)\<close> starts an interval
  with a fresh handle whose callback captured the device object passed to
  \<open>ensureTelemetryTimer\<close>; Node.js replaces a delay outside \<open>[1, 2^31 - 1]\<close>
  milliseconds by 1 (\<open>lib/internal/timers.js\<close>, \<open>TIMEOUT_MAX\<close>), which is \<open>node_delay\<close>.
  \<open>clearInterval\<close> removes the interval. The invariant \<open>sched_inv\<close> is the one the
  specification states for the scheduler: a stored device has exactly one active
  interval when its interval is positive and none otherwise, the timer map points
  at it, and no interval belongs to a device that is not stored.
\<close>

definition timeout_max :: rat where
  "timeout_max = 2147483647"

definition node_delay :: "jnum \<Rightarrow> rat" where
  "node_delay n = (case n of Fin r \<Rightarrow> if 1 \<le> r \<and> r \<le> timeout_max then r else 1 | _ \<Rightarrow> 1)"

text \<open>\<open>!t || t <= 0\<close>: no timer for a falsy or non-positive interval.\<close>

definition arms :: "jnum \<Rightarrow> bool" where
  "arms t \<longleftrightarrow> (case t of Fin r \<Rightarrow> 0 < r | PosInf \<Rightarrow> True | _ \<Rightarrow> False)"

definition clear_timer :: "string \<Rightarrow> svc \<Rightarrow> svc" where
  "clear_timer i st =
     (case map_of (sv_timers st) i of
        Some h \<Rightarrow> st\<lparr>sv_intervals := AList.delete h (sv_intervals st), sv_timers := AList.delete i (sv_timers st)\<rparr>
      | None \<Rightarrow> st\<lparr>sv_timers := AList.delete i (sv_timers st)\<rparr>)"

definition ensure_timer :: "device \<Rightarrow> svc \<Rightarrow> svc" where
  "ensure_timer d st =
     (let st1 = clear_timer (dv_id d) st in
      if \<not> arms (dv_telemetry d) then st1
      else let h = sv_next_handle st1 in
        st1\<lparr>sv_intervals := sv_intervals st1 @ [(h, d, node_delay (num_mul (dv_telemetry d) (Fin 1000)))],
            sv_timers := AList.update (dv_id d) h (sv_timers st1),
            sv_next_handle := Suc h\<rparr>)"

text \<open>
  Whether \<open>kind.tick(prev, caps)\<close> returns \<open>prev\<close> itself: the cover's tick does so
  when the cover is not moving (\<open>cover.kind.ts\<close>, line 60); the temperature sensor's
  tick always builds a new object. \<open>heartbeatTick\<close> compares by reference.
\<close>

definition tick_returns_prev :: "kind_ref \<Rightarrow> jobj \<Rightarrow> bool" where
  "tick_returns_prev k prev =
     (case k of KindRef Cover \<Rightarrow> \<not> js_truthy (js_get prev ''moving'') | _ \<Rightarrow> False)"

text \<open>
  \<open>heartbeatTick(device)\<close> with the two \<open>Math.random()\<close> draws of a sensor tick. A
  failing \<open>getKind\<close> rejects the returned promise (\<open>Inl\<close>); errors of the tick hook
  are caught and the unchanged state is published.
\<close>

definition heartbeat_tick :: "device \<Rightarrow> rat \<Rightarrow> rat \<Rightarrow> svc \<Rightarrow> js_error + svc" where
  "heartbeat_tick d rd rn st =
     (case get_state st (dv_id d) of
        None \<Rightarrow> Inr st
      | Some data \<Rightarrow> ebind (get_kind (dv_type d)) (\<lambda>k.
          let caps = dv_caps d;
              (data', write) = (case ref_tick k of None \<Rightarrow> (data, False)
                                | Some f \<Rightarrow> (f data caps rd rn, \<not> tick_returns_prev k data));
              st1 = (if write then update_state (dv_id d) data' st else st);
              st2 = svc_publish (topic_state (sv_ns st) (dv_type d) (dv_id d)) (PVal (JObj data')) (Some True) st1
          in Inr (svc_gw (emit_device_state_changed (dv_id d) (dv_type d) data') st2)))"

text \<open>An interval fires: its callback runs \<open>heartbeatTick\<close> on the captured device.\<close>

definition timer_fire :: "nat \<Rightarrow> rat \<Rightarrow> rat \<Rightarrow> svc \<Rightarrow> js_error + svc" where
  "timer_fire h rd rn st =
     (case map_of (sv_intervals st) h of None \<Rightarrow> Inr st | Some (d, ms) \<Rightarrow> heartbeat_tick d rd rn st)"

subsection \<open>The scheduler invariant\<close>

definition intervals_of :: "svc \<Rightarrow> string \<Rightarrow> nat list" where
  "intervals_of st i = map fst (filter (\<lambda>(h, d, ms). dv_id d = i) (sv_intervals st))"

definition interval_ids :: "svc \<Rightarrow> string set" where
  "interval_ids st = set (map (\<lambda>(h, d, ms). dv_id d) (sv_intervals st))"

definition armed_ids :: "device list \<Rightarrow> string set" where
  "armed_ids devs = dv_id ` {d \<in> set devs. arms (dv_telemetry d)}"

text \<open>The timer map and the active intervals are in one-to-one correspondence.\<close>

definition sched_core :: "svc \<Rightarrow> bool" where
  "sched_core st \<longleftrightarrow>
     distinct (map fst (sv_intervals st)) \<and> distinct (map fst (sv_timers st)) \<and>
     (\<forall>h \<in> set (map fst (sv_intervals st)). h < sv_next_handle st) \<and>
     (\<forall>(h, d, ms) \<in> set (sv_intervals st). (dv_id d, h) \<in> set (sv_timers st)) \<and>
     (\<forall>(i, h) \<in> set (sv_timers st). \<exists>d ms. (h, d, ms) \<in> set (sv_intervals st) \<and> dv_id d = i)"

definition sched_inv :: "svc \<Rightarrow> bool" where
  "sched_inv st \<longleftrightarrow> sched_core st \<and> interval_ids st = armed_ids (sv_devices st)"

subsection \<open>Arming and disarming keep the timer map and the intervals in step\<close>

lemma sched_core_parts:
  assumes "sched_core st"
  shows "distinct (map fst (sv_intervals st))" "distinct (map fst (sv_timers st))"
    "\<forall>h \<in> set (map fst (sv_intervals st)). h < sv_next_handle st"
    "\<forall>(h, d, ms) \<in> set (sv_intervals st). (dv_id d, h) \<in> set (sv_timers st)"
    "\<forall>(i, h) \<in> set (sv_timers st). \<exists>d ms. (h, d, ms) \<in> set (sv_intervals st) \<and> dv_id d = i"
  using assms unfolding sched_core_def by blast+

lemma sched_core_intervals_of:
  assumes "sched_core st"
  shows "intervals_of st i = (if i \<in> interval_ids st then [the (map_of (sv_timers st) i)] else [])"
proof (cases "i \<in> interval_ids st")
  case True
  then obtain h d ms where hd: "(h, d, ms) \<in> set (sv_intervals st)" "dv_id d = i"
    by (auto simp: interval_ids_def)
  have ih: "(i, h) \<in> set (sv_timers st)" using sched_core_parts(4) [OF assms] hd by fastforce
  have tm: "map_of (sv_timers st) i = Some h"
    using sched_core_parts(2) [OF assms] ih by (rule map_of_is_SomeI)
  have same: "\<forall>x \<in> set (sv_intervals st). (\<lambda>(h, d, ms). dv_id d = i) x \<longrightarrow> fst x = h"
  proof (intro ballI impI)
    fix x assume x: "x \<in> set (sv_intervals st)" "(\<lambda>(h, d, ms). dv_id d = i) x"
    obtain h' d' ms' where xe: "x = (h', d', ms')" by (cases x) auto
    then have "(i, h') \<in> set (sv_timers st)" using sched_core_parts(4) [OF assms] x by fastforce
    then show "fst x = h" using distinct_fst_unique [OF sched_core_parts(2) [OF assms] _ ih] xe by simp
  qed
  have le: "length (filter (\<lambda>(h, d, ms). dv_id d = i) (sv_intervals st)) \<le> 1"
    using length_filter_le_1 [OF _ same] assms by (simp add: sched_core_def)
  have mem: "(h, d, ms) \<in> set (filter (\<lambda>(h, d, ms). dv_id d = i) (sv_intervals st))"
    using hd by simp
  define ys where "ys = filter (\<lambda>(h, d, ms). dv_id d = i) (sv_intervals st)"
  have "ys = [(h, d, ms)]"
    using le mem unfolding ys_def[symmetric] by (cases ys rule: remdups_adj.cases) auto
  then show ?thesis using True tm by (simp add: intervals_of_def ys_def)
next
  case False
  then have "filter (\<lambda>(h, d, ms). dv_id d = i) (sv_intervals st) = []"
    by (force simp: interval_ids_def filter_empty_conv)
  then show ?thesis using False by (simp add: intervals_of_def)
qed

lemma clear_timer_fields [simp]:
  "sv_devices (clear_timer i st) = sv_devices st" "sv_states (clear_timer i st) = sv_states st"
  "sv_mqtt (clear_timer i st) = sv_mqtt st" "sv_gw (clear_timer i st) = sv_gw st"
  "sv_ns (clear_timer i st) = sv_ns st" "sv_discovery (clear_timer i st) = sv_discovery st"
  "sv_next_handle (clear_timer i st) = sv_next_handle st" "sv_uuid (clear_timer i st) = sv_uuid st"
  "sv_now (clear_timer i st) = sv_now st"
  by (simp_all add: clear_timer_def split: option.splits)

lemma clear_timer_core:
  assumes "sched_core st"
  shows "sched_core (clear_timer i st) \<and> interval_ids (clear_timer i st) = interval_ids st - {i}"
proof -
  note dI = sched_core_parts(1) [OF assms] and dT = sched_core_parts(2) [OF assms]
    and a = sched_core_parts(3) [OF assms] and b = sched_core_parts(4) [OF assms]
    and c = sched_core_parts(5) [OF assms]
  show ?thesis
  proof (cases "map_of (sv_timers st) i")
    case None
    then have nt: "\<And>h. (i, h) \<notin> set (sv_timers st)" by (auto dest: weak_map_of_SomeI)
    have ni: "i \<notin> interval_ids st"
    proof
      assume "i \<in> interval_ids st"
      then obtain h d ms where "(h, d, ms) \<in> set (sv_intervals st)" "dv_id d = i"
        by (auto simp: interval_ids_def)
      with b nt show False by fastforce
    qed
    have "i \<notin> fst ` set (sv_timers st)" using nt by force
    then have "clear_timer i st = st" using None by (simp add: clear_timer_def)
    with ni assms show ?thesis by simp
  next
    case (Some h)
    then have ih: "(i, h) \<in> set (sv_timers st)" by (rule map_of_SomeD)
    have cl: "clear_timer i st = st\<lparr>sv_intervals := filter (\<lambda>(k', _). h \<noteq> k') (sv_intervals st),
                                     sv_timers := filter (\<lambda>(k', _). i \<noteq> k') (sv_timers st)\<rparr>"
      using Some by (simp add: clear_timer_def AList.delete_eq)
    from c ih obtain d0 ms0 where d0: "(h, d0, ms0) \<in> set (sv_intervals st)" "dv_id d0 = i" by blast
    have hid: "dv_id d = i" if "(h, d, ms) \<in> set (sv_intervals st)" for d ms
      using distinct_fst_unique [OF dI that d0(1)] d0(2) by simp
    have ih2: "h' = h" if "(h', d, ms) \<in> set (sv_intervals st)" "dv_id d = i" for h' d ms
    proof -
      have "(i, h') \<in> set (sv_timers st)" using b that by fastforce
      then show ?thesis using distinct_fst_unique [OF dT _ ih] by blast
    qed
    have b': "\<forall>(h', d, ms) \<in> set (filter (\<lambda>(k', _). h \<noteq> k') (sv_intervals st)).
                (dv_id d, h') \<in> set (filter (\<lambda>(k', _). i \<noteq> k') (sv_timers st))"
      using b ih2 by fastforce
    have c': "\<forall>(j, h') \<in> set (filter (\<lambda>(k', _). i \<noteq> k') (sv_timers st)).
                \<exists>d ms. (h', d, ms) \<in> set (filter (\<lambda>(k', _). h \<noteq> k') (sv_intervals st)) \<and> dv_id d = j"
      using c hid by fastforce
    have core: "sched_core (clear_timer i st)"
      unfolding cl sched_core_def using dI dT a b' c'
      by (intro conjI) (simp_all add: distinct_map_filter)
    have "interval_ids (clear_timer i st) = interval_ids st - {i}"
    proof (rule set_eqI, rule iffI)
      fix j assume "j \<in> interval_ids (clear_timer i st)"
      then obtain h' d ms where x: "(h', d, ms) \<in> set (sv_intervals st)" "h \<noteq> h'" "dv_id d = j"
        by (auto simp: cl interval_ids_def)
      then have "j \<noteq> i" using ih2 by blast
      with x show "j \<in> interval_ids st - {i}"
        by (auto simp: interval_ids_def intro!: image_eqI [where x = "(h', d, ms)"])
    next
      fix j assume "j \<in> interval_ids st - {i}"
      then obtain h' d ms where x: "(h', d, ms) \<in> set (sv_intervals st)" "dv_id d = j" "j \<noteq> i"
        by (auto simp: interval_ids_def)
      then have "h \<noteq> h'" using hid by blast
      with x show "j \<in> interval_ids (clear_timer i st)"
        by (auto simp: cl interval_ids_def intro!: image_eqI [where x = "(h', d, ms)"])
    qed
    with core show ?thesis by simp
  qed
qed

lemma ensure_timer_fields [simp]:
  "sv_devices (ensure_timer d st) = sv_devices st" "sv_states (ensure_timer d st) = sv_states st"
  "sv_mqtt (ensure_timer d st) = sv_mqtt st" "sv_gw (ensure_timer d st) = sv_gw st"
  "sv_ns (ensure_timer d st) = sv_ns st" "sv_discovery (ensure_timer d st) = sv_discovery st"
  "sv_uuid (ensure_timer d st) = sv_uuid st" "sv_now (ensure_timer d st) = sv_now st"
  by (simp_all add: ensure_timer_def Let_def)

lemma ensure_timer_core:
  assumes "sched_core st"
  shows "sched_core (ensure_timer d st) \<and>
         interval_ids (ensure_timer d st) =
           interval_ids st - {dv_id d} \<union> (if arms (dv_telemetry d) then {dv_id d} else {})"
proof -
  let ?i = "dv_id d"
  define st1 where "st1 = clear_timer ?i st"
  have c1: "sched_core st1" and ids1: "interval_ids st1 = interval_ids st - {?i}"
    using clear_timer_core [OF assms, of ?i] by (simp_all add: st1_def)
  show ?thesis
  proof (cases "arms (dv_telemetry d)")
    case False
    then show ?thesis using c1 ids1 by (simp add: ensure_timer_def Let_def st1_def [symmetric])
  next
    case True
    let ?h = "sv_next_handle st1"
    let ?iv = "(?h, d, node_delay (num_mul (dv_telemetry d) (Fin 1000)))"
    have e: "ensure_timer d st = st1\<lparr>sv_intervals := sv_intervals st1 @ [?iv],
               sv_timers := AList.update ?i ?h (sv_timers st1), sv_next_handle := Suc ?h\<rparr>"
      using True by (simp add: ensure_timer_def Let_def st1_def [symmetric])
    note dI = sched_core_parts(1) [OF c1] and dT = sched_core_parts(2) [OF c1]
      and a = sched_core_parts(3) [OF c1] and b = sched_core_parts(4) [OF c1]
      and c = sched_core_parts(5) [OF c1]
    have fresh: "?h \<notin> set (map fst (sv_intervals st1))" using a by auto
    have noi: "dv_id d' \<noteq> ?i" if "(h', d', ms') \<in> set (sv_intervals st1)" for h' d' ms'
      using that ids1 by (force simp: interval_ids_def)
    have b': "\<forall>(h', d', ms') \<in> set (sv_intervals st1 @ [?iv]). (dv_id d', h') \<in> set (AList.update ?i ?h (sv_timers st1))"
      using b noi by (auto simp: in_set_alist_update_same intro!: in_set_alist_update_other)
    have c': "\<forall>(j, h') \<in> set (AList.update ?i ?h (sv_timers st1)).
                \<exists>d' ms'. (h', d', ms') \<in> set (sv_intervals st1 @ [?iv]) \<and> dv_id d' = j"
    proof (intro ballI, clarify)
      fix j h' assume "(j, h') \<in> set (AList.update ?i ?h (sv_timers st1))"
      then consider "(j, h') = (?i, ?h)" | "(j, h') \<in> set (sv_timers st1)" by (blast dest: in_set_alist_update)
      then show "\<exists>d' ms'. (h', d', ms') \<in> set (sv_intervals st1 @ [?iv]) \<and> dv_id d' = j"
      proof cases
        case 1
        then show ?thesis by auto
      next
        case 2
        then show ?thesis using c by fastforce
      qed
    qed
    have core: "sched_core (ensure_timer d st)"
      unfolding e sched_core_def using dI dT a b' c' fresh
      by (intro conjI) (auto simp: distinct_update)
    have "interval_ids (ensure_timer d st) = interval_ids st1 \<union> {?i}"
      by (simp add: e interval_ids_def)
    with core ids1 True show ?thesis by auto
  qed
qed

lemma sched_inv_intervals:
  assumes "sched_inv st" "distinct (map dv_id (sv_devices st))" "d \<in> set (sv_devices st)"
  shows "length (intervals_of st (dv_id d)) = (if arms (dv_telemetry d) then 1 else 0)"
proof -
  have "dv_id d \<in> armed_ids (sv_devices st) \<longleftrightarrow> arms (dv_telemetry d)"
  proof
    assume "dv_id d \<in> armed_ids (sv_devices st)"
    then obtain d' where "d' \<in> set (sv_devices st)" "arms (dv_telemetry d')" "dv_id d' = dv_id d"
      by (auto simp: armed_ids_def)
    then show "arms (dv_telemetry d)" using assms(2,3) by (metis distinct_map inj_onD)
  qed (use assms(3) in \<open>auto simp: armed_ids_def\<close>)
  then show ?thesis using assms(1) sched_core_intervals_of [of st "dv_id d"] by (simp add: sched_inv_def)
qed

end
