(* ===== verification/Slug.thy ===== *)
theory Slug
  imports Decimal "HOL-Library.Sublist"
begin

text \<open>
  \<open>toSlug\<close> (\<open>src/mqtt-sim/src/devices/slug.util.ts\<close>) and the collision probe of
  \<open>createDevice\<close> (\<open>devices.service.ts\<close>, lines 156-165). Characters are code points
  below 256 (Latin-1); \<open>fold_char\<close> is their Unicode compatibility decomposition
  (\<open>normalize('NFKD')\<close>) with the combining marks U+0300..U+036F removed, as the
  Unicode character database gives it: accented letters lose their accents,
  the ordinal indicators U+00AA and U+00BA become \<open>a\<close> and \<open>o\<close>, superscript digits become digits, the
  vulgar fractions become digit, fraction slash, digit, and the spacing accents
  and the no-break space become a space. The micro sign decomposes to U+03BC and
  the fractions contain U+2044, both outside the alphabet: the model keeps the
  micro sign and writes \<open>/\<close>, which the hyphen replacement treats alike.
  \<open>toLowerCase\<close> only matters for ASCII
  letters here, since every other remaining character is replaced by a hyphen.
  The probe loop is a \<open>function\<close> whose termination measure is the number of
  taken candidates still ahead of the counter.
\<close>

definition latin1_base :: "nat \<Rightarrow> string" where
  "latin1_base n =
     (if n = 0xA0 \<or> n = 0xA8 \<or> n = 0xAF \<or> n = 0xB4 \<or> n = 0xB8 then '' ''
      else if n = 0xAA then ''a'' else if n = 0xBA then ''o''
      else if n = 0xB2 then ''2'' else if n = 0xB3 then ''3'' else if n = 0xB9 then ''1''
      else if n = 0xB5 then [CHR 0xB5]
      else if n = 0xBC then [CHR ''1'', CHR 0x2F, CHR ''4''] else if n = 0xBD then [CHR ''1'', CHR 0x2F, CHR ''2'']
      else if n = 0xBE then [CHR ''3'', CHR 0x2F, CHR ''4'']
      else if 0xC0 \<le> n \<and> n \<le> 0xC5 then ''A'' else if n = 0xC7 then ''C''
      else if 0xC8 \<le> n \<and> n \<le> 0xCB then ''E'' else if 0xCC \<le> n \<and> n \<le> 0xCF then ''I''
      else if n = 0xD1 then ''N'' else if 0xD2 \<le> n \<and> n \<le> 0xD6 then ''O''
      else if 0xD9 \<le> n \<and> n \<le> 0xDC then ''U'' else if n = 0xDD then ''Y''
      else if 0xE0 \<le> n \<and> n \<le> 0xE5 then ''a'' else if n = 0xE7 then ''c''
      else if 0xE8 \<le> n \<and> n \<le> 0xEB then ''e'' else if 0xEC \<le> n \<and> n \<le> 0xEF then ''i''
      else if n = 0xF1 then ''n'' else if 0xF2 \<le> n \<and> n \<le> 0xF6 then ''o''
      else if 0xF9 \<le> n \<and> n \<le> 0xFC then ''u'' else if n = 0xFD \<or> n = 0xFF then ''y''
      else [char_of n])"

definition fold_char :: "char \<Rightarrow> string" where
  "fold_char c = latin1_base (of_char c)"

definition lower_ascii :: "char \<Rightarrow> char" where
  "lower_ascii c = (let n = (of_char c :: nat) in if 65 \<le> n \<and> n \<le> 90 then char_of (n + 32) else c)"

definition is_slug_char :: "char \<Rightarrow> bool" where
  "is_slug_char c \<longleftrightarrow> is_digit c \<or> (97 \<le> (of_char c :: nat) \<and> (of_char c :: nat) \<le> 122)"

text \<open>\<open>.replace(/[^a-z0-9]+/g, '-')\<close>, scanning with a flag that is set inside a
  run of replaced characters.\<close>

fun collapse_runs :: "bool \<Rightarrow> string \<Rightarrow> string" where
  "collapse_runs inrun [] = []"
| "collapse_runs inrun (c # cs) =
     (if is_slug_char c then c # collapse_runs False cs
      else if inrun then collapse_runs True cs
      else CHR ''-'' # collapse_runs True cs)"

text \<open>\<open>.replace(/^-+|-+$/g, '')\<close>\<close>

definition trim_hyphens :: "string \<Rightarrow> string" where
  "trim_hyphens s = rev (dropWhile (\<lambda>c. c = CHR ''-'') (rev (dropWhile (\<lambda>c. c = CHR ''-'') s)))"

definition to_slug :: "string \<Rightarrow> string" where
  "to_slug input =
     (let base = trim_hyphens (collapse_runs False (map lower_ascii (concat (map fold_char input))))
      in if base = [] then ''device'' else base)"

text \<open>\<open>`${base}-${i}`\<close>\<close>

definition suffixed :: "string \<Rightarrow> nat \<Rightarrow> string" where
  "suffixed base i = base @ ''-'' @ show_nat i"

text \<open>
  The probe \<open>while (await findOne({type, slug: finalSlug})) finalSlug = `${base}-${i++}`\<close>
  against the slugs already taken for the type.
\<close>

function probe_from :: "string list \<Rightarrow> string \<Rightarrow> nat \<Rightarrow> string" where
  "probe_from taken base i =
     (if suffixed base i \<in> set taken then probe_from taken base (Suc i) else suffixed base i)"
  by pat_completeness auto

termination
proof (relation "measure (\<lambda>(taken, base, i). card {j. i \<le> j \<and> suffixed base j \<in> set taken})")
  fix taken base i
  assume mem: "suffixed base i \<in> set taken"
  have inj: "inj (suffixed base)"
    by (rule injI) (simp add: suffixed_def show_nat_inj)
  have fin: "finite {j. i \<le> j \<and> suffixed base j \<in> set taken}"
    by (rule finite_subset [of _ "suffixed base -` set taken"]) (auto intro: finite_vimageI inj)
  let ?A = "{j. Suc i \<le> j \<and> suffixed base j \<in> set taken}"
  let ?B = "{j. i \<le> j \<and> suffixed base j \<in> set taken}"
  have iB: "i \<in> ?B" using mem by simp
  have iA: "i \<notin> ?A" by simp
  have sub: "?A \<subseteq> ?B" by auto
  have ne: "?A \<noteq> ?B" using iA iB by blast
  from sub ne have "?A \<subset> ?B" by (rule psubsetI)
  then show "((taken, base, Suc i), taken, base, i)
               \<in> measure (\<lambda>(taken, base, i). card {j. i \<le> j \<and> suffixed base j \<in> set taken})"
    using fin by (simp add: psubset_card_mono)
qed simp

declare probe_from.simps [simp del]

definition probe_slug :: "string list \<Rightarrow> string \<Rightarrow> string" where
  "probe_slug taken base = (if base \<in> set taken then probe_from taken base 2 else base)"

text \<open>The pattern \<open>^[a-z0-9]+(?:-[a-z0-9]+)*$\<close> of \<open>CreateDeviceDto.slug\<close>.\<close>

definition slug_ok :: "string \<Rightarrow> bool" where
  "slug_ok s \<longleftrightarrow> s \<noteq> [] \<and> hd s \<noteq> CHR ''-'' \<and> last s \<noteq> CHR ''-'' \<and>
     (\<forall>c \<in> set s. is_slug_char c \<or> c = CHR ''-'') \<and> \<not> sublist ''--'' s"

subsection \<open>Shape of derived slugs\<close>

lemma sublist_pair_Cons:
  "sublist [a, b] (x # r) \<longleftrightarrow> (x = a \<and> r \<noteq> [] \<and> hd r = b) \<or> sublist [a, b] r"
  by (cases r) (auto simp: sublist_Cons_right)

lemma collapse_runs_shape:
  "\<not> sublist ''--'' (collapse_runs b w) \<and> (b \<longrightarrow> collapse_runs b w = [] \<or> hd (collapse_runs b w) \<noteq> CHR ''-'') \<and>
   (\<forall>c \<in> set (collapse_runs b w). is_slug_char c \<or> c = CHR ''-'')"
proof (induction b w rule: collapse_runs.induct)
  case (2 inrun c cs)
  have nd: "is_slug_char c \<Longrightarrow> c \<noteq> CHR ''-''" by (auto simp: is_slug_char_def is_digit_def)
  show ?case
  proof (cases "is_slug_char c")
    case True
    then show ?thesis using 2 nd by (auto simp: sublist_pair_Cons)
  next
    case False
    then show ?thesis using 2 by (cases inrun) (auto simp: sublist_pair_Cons)
  qed
qed simp

lemma trim_hyphens_split:
  "\<exists>a b. s = a @ trim_hyphens s @ b"
proof -
  let ?u = "dropWhile (\<lambda>c. c = CHR ''-'') s"
  have s: "s = takeWhile (\<lambda>c. c = CHR ''-'') s @ ?u" by simp
  have "rev ?u = takeWhile (\<lambda>c. c = CHR ''-'') (rev ?u) @ dropWhile (\<lambda>c. c = CHR ''-'') (rev ?u)" by simp
  then have "?u = trim_hyphens s @ rev (takeWhile (\<lambda>c. c = CHR ''-'') (rev ?u))"
    unfolding trim_hyphens_def by (metis rev_append rev_rev_ident)
  then show ?thesis using s by metis
qed

lemma trim_hyphens_ends:
  assumes "trim_hyphens s \<noteq> []"
  shows "hd (trim_hyphens s) \<noteq> CHR ''-''" "last (trim_hyphens s) \<noteq> CHR ''-''"
proof -
  let ?P = "\<lambda>c. c = CHR ''-''"
  let ?u = "dropWhile ?P s"
  have "rev ?u = takeWhile ?P (rev ?u) @ dropWhile ?P (rev ?u)" by simp
  then have u: "?u = trim_hyphens s @ rev (takeWhile ?P (rev ?u))"
    unfolding trim_hyphens_def by (metis rev_append rev_rev_ident)
  have ne: "?u \<noteq> []" using u assms by (metis Nil_is_append_conv)
  have "hd ?u = hd (trim_hyphens s)" by (subst u) (rule hd_append2 [OF assms])
  then show "hd (trim_hyphens s) \<noteq> CHR ''-''" using hd_dropWhile [OF ne] by simp
  have ne2: "dropWhile ?P (rev ?u) \<noteq> []" using assms unfolding trim_hyphens_def by simp
  have "last (trim_hyphens s) = hd (dropWhile ?P (rev ?u))" by (simp only: trim_hyphens_def last_rev)
  then show "last (trim_hyphens s) \<noteq> CHR ''-''" using hd_dropWhile [OF ne2] by simp
qed

text \<open>
  C31: every slug \<open>toSlug\<close> derives from a name, whatever Latin-1 characters the
  name holds, matches the pattern \<open>^[a-z0-9]+(?:-[a-z0-9]+)*$\<close> that the HTTP
  layer demands of a caller-supplied slug.
\<close>

theorem to_slug_ok: "slug_ok (to_slug s)"
proof -
  let ?w = "collapse_runs False (map lower_ascii (concat (map fold_char s)))"
  obtain a b where ab: "?w = a @ trim_hyphens ?w @ b" using trim_hyphens_split by blast
  have shape: "\<not> sublist ''--'' ?w" "\<forall>c \<in> set ?w. is_slug_char c \<or> c = CHR ''-''"
    using collapse_runs_shape by blast+
  show ?thesis
  proof (cases "trim_hyphens ?w = []")
    case True
    then show ?thesis by (simp add: to_slug_def slug_ok_def is_slug_char_def is_digit_def sublist_pair_Cons)
  next
    case False
    have "\<not> sublist ''--'' (trim_hyphens ?w)"
      using shape(1) ab by (metis sublist_appendI sublist_order.order.trans)
    moreover have "\<forall>c \<in> set (trim_hyphens ?w). is_slug_char c \<or> c = CHR ''-''"
      using shape(2) ab by (metis Un_iff set_append)
    ultimately show ?thesis using False trim_hyphens_ends [OF False] by (simp add: to_slug_def slug_ok_def Let_def)
  qed
qed


lemma slug_char_small: "is_slug_char c \<or> c = CHR ''-'' \<Longrightarrow> (of_char c :: nat) < 128"
  by (auto simp: is_slug_char_def is_digit_def)

lemma fold_char_small: "(of_char c :: nat) < 128 \<Longrightarrow> fold_char c = [c]"
  by (simp add: fold_char_def latin1_base_def)

lemma lower_ascii_slug: "is_slug_char c \<or> c = CHR ''-'' \<Longrightarrow> lower_ascii c = c"
  by (auto simp: lower_ascii_def is_slug_char_def is_digit_def Let_def)

lemma collapse_runs_id:
  "(\<forall>c \<in> set x. is_slug_char c \<or> c = CHR ''-'') \<Longrightarrow> \<not> sublist ''--'' x \<Longrightarrow>
   (b \<longrightarrow> x = [] \<or> hd x \<noteq> CHR ''-'') \<Longrightarrow> collapse_runs b x = x"
proof (induction x arbitrary: b)
  case (Cons c cs)
  have nd: "is_slug_char c \<Longrightarrow> c \<noteq> CHR ''-''" by (auto simp: is_slug_char_def is_digit_def)
  have "is_slug_char c \<or> c = CHR ''-''" using Cons.prems(1) by simp
  then show ?case
  proof
    assume "is_slug_char c"
    then show ?thesis using Cons by (auto simp: sublist_pair_Cons)
  next
    assume h: "c = CHR ''-''"
    then have "\<not> b" using Cons.prems(3) by auto
    moreover have "cs = [] \<or> hd cs \<noteq> CHR ''-''" using Cons.prems(2) h by (auto simp: sublist_pair_Cons)
    ultimately show ?thesis using Cons h by (auto simp: sublist_pair_Cons is_slug_char_def is_digit_def)
  qed
qed simp

text \<open>
  C38: \<open>toSlug\<close> leaves a well-formed slug unchanged, so deriving the slug of a slug
  is the identity and \<open>toSlug\<close> is idempotent.
\<close>

theorem to_slug_idem: "slug_ok x \<Longrightarrow> to_slug x = x"
proof -
  assume ok: "slug_ok x"
  then have cs: "\<forall>c \<in> set x. is_slug_char c \<or> c = CHR ''-''" by (simp add: slug_ok_def)
  have "concat (map fold_char x) = x"
    using cs by (induction x) (auto simp: fold_char_small slug_char_small)
  moreover have "map lower_ascii x = x" using cs by (induction x) (auto simp: lower_ascii_slug)
  moreover have "collapse_runs False x = x" using cs ok by (intro collapse_runs_id) (auto simp: slug_ok_def)
  moreover have "trim_hyphens x = x"
  proof -
    have "x \<noteq> []" "hd x \<noteq> CHR ''-''" "last x \<noteq> CHR ''-''" using ok by (simp_all add: slug_ok_def)
    then have d1: "dropWhile (\<lambda>c. c = CHR ''-'') x = x"
      and d2: "dropWhile (\<lambda>c. c = CHR ''-'') (rev x) = rev x"
      by (simp_all add: dropWhile_eq_self_iff hd_rev)
    show ?thesis by (simp add: trim_hyphens_def d1 d2)
  qed
  ultimately show ?thesis using ok by (simp add: to_slug_def slug_ok_def)
qed

lemma no_dd_append:
  "\<not> sublist ''--'' a \<Longrightarrow> \<not> sublist ''--'' b \<Longrightarrow>
   (a = [] \<or> b = [] \<or> last a \<noteq> CHR ''-'' \<or> hd b \<noteq> CHR ''-'') \<Longrightarrow> \<not> sublist ''--'' (a @ b)"
proof (induction a)
  case (Cons c a)
  then show ?case by (cases a) (auto simp: sublist_pair_Cons)
qed simp

lemma slug_ok_digits: "s \<noteq> [] \<Longrightarrow> \<forall>c \<in> set s. is_digit c \<Longrightarrow> slug_ok s"
proof -
  assume ne: "s \<noteq> []" and d: "\<forall>c \<in> set s. is_digit c"
  have nh: "\<forall>c \<in> set s. c \<noteq> CHR ''-''" using d by (auto simp: is_digit_def)
  have "\<not> sublist ''--'' s"
  proof
    assume "sublist ''--'' s"
    then have "CHR ''-'' \<in> set s" by (auto dest: set_mono_sublist)
    with nh show False by blast
  qed
  with ne d nh show ?thesis by (auto simp: slug_ok_def is_slug_char_def)
qed

lemma slug_ok_join: "slug_ok a \<Longrightarrow> slug_ok b \<Longrightarrow> slug_ok (a @ CHR ''-'' # b)"
proof -
  assume a: "slug_ok a" and b: "slug_ok b"
  have "\<not> sublist ''--'' (CHR ''-'' # b)" using b by (auto simp: slug_ok_def sublist_pair_Cons)
  then have "\<not> sublist ''--'' (a @ CHR ''-'' # b)" using a by (intro no_dd_append) (auto simp: slug_ok_def)
  with a b show ?thesis by (auto simp: slug_ok_def)
qed

lemma suffixed_ok: "slug_ok b \<Longrightarrow> slug_ok (suffixed b i)"
  using slug_ok_join [OF _ slug_ok_digits [OF show_nat_nonempty show_nat_digits]]
  by (simp add: suffixed_def)

lemma suffixed_inj: "suffixed base i = suffixed base j \<longleftrightarrow> i = j"
  by (auto simp: suffixed_def show_nat_inj)

lemma suffixed_not_base [simp]: "suffixed base i \<noteq> base"
  by (metis append_eq_append_conv append.right_neutral list.distinct(1) suffixed_def append_Cons)

lemma probe_from_free: "probe_from taken base i \<notin> set taken"
  by (induction taken base i rule: probe_from.induct) (simp add: probe_from.simps)

lemma probe_slug_free: "probe_slug taken base \<notin> set taken"
  by (simp add: probe_slug_def probe_from_free)

lemma probe_from_seq:
  "i \<le> m \<Longrightarrow> 2 \<le> i \<Longrightarrow> probe_from (base # map (suffixed base) [2..<m]) base i = suffixed base m"
proof (induction "m - i" arbitrary: i)
  case 0
  then have "i = m" by simp
  then show ?case by (subst probe_from.simps) (auto simp: suffixed_inj)
next
  case (Suc k)
  then have "suffixed base i \<in> set (base # map (suffixed base) [2..<m])" by auto
  then show ?case using Suc by (subst probe_from.simps) simp
qed

lemma probe_slug_seq:
  "probe_slug (base # map (suffixed base) [2..<n + 2]) base = suffixed base (n + 2)"
  using probe_from_seq [of 2 "n + 2" base] by (simp add: probe_slug_def)

lemma probe_from_least:
  "\<exists>j. probe_from taken base i = suffixed base j \<and> i \<le> j \<and> (\<forall>k. i \<le> k \<and> k < j \<longrightarrow> suffixed base k \<in> set taken)"
proof (induction taken base i rule: probe_from.induct)
  case (1 taken base i)
  show ?case
  proof (cases "suffixed base i \<in> set taken")
    case True
    then obtain j where "probe_from taken base (Suc i) = suffixed base j" "Suc i \<le> j"
        "\<forall>k. Suc i \<le> k \<and> k < j \<longrightarrow> suffixed base k \<in> set taken"
      using 1 by blast
    then show ?thesis using True
      by (subst probe_from.simps) (auto intro!: exI [of _ j] simp: le_Suc_eq Suc_le_eq dest: le_neq_implies_less)
  next
    case False then show ?thesis by (subst probe_from.simps) auto
  qed
qed

text \<open>
  C32: the slug probe loop ends after at most one query per taken slug plus one: its result is the base or one of the suffixes 2 to (number of taken slugs + 1).
\<close>

theorem probe_slug_bounded:
  "probe_slug taken base \<in> insert base (suffixed base ` {2..length taken + 1})"
proof (cases "base \<in> set taken")
  case True
  obtain j where j: "probe_from taken base 2 = suffixed base j" "2 \<le> j"
      "\<forall>k. 2 \<le> k \<and> k < j \<longrightarrow> suffixed base k \<in> set taken"
    using probe_from_least by blast
  have "j \<le> length taken + 1"
  proof (rule ccontr)
    assume "\<not> j \<le> length taken + 1"
    then have sub: "insert base (suffixed base ` {2..length taken + 1}) \<subseteq> set taken" using j(3) True by auto
    have "card (insert base (suffixed base ` {2..length taken + 1})) = length taken + 1"
    proof -
      have "inj_on (suffixed base) {2..length taken + 1}" by (simp add: inj_on_def suffixed_inj)
      moreover have "base \<notin> suffixed base ` {2..length taken + 1}" using suffixed_not_base by (metis imageE)
      ultimately show ?thesis by (simp add: card_image)
    qed
    moreover have "card (insert base (suffixed base ` {2..length taken + 1})) \<le> length taken"
      using card_mono [OF _ sub] card_length [of taken] by simp
    ultimately show False by simp
  qed
  then show ?thesis using True j by (simp add: probe_slug_def)
qed (simp add: probe_slug_def)

theorem to_slug_idem_witness: "slug_ok ''kitchen-lamp-2'' \<and> to_slug ''kitchen-lamp-2'' = ''kitchen-lamp-2''"
proof -
  have "slug_ok ''kitchen-lamp-2''" by code_simp
  then show ?thesis using to_slug_idem by blast
qed

end
