(* ===== verification/Lifecycle.thy ===== *)
theory Lifecycle
  imports Router Scheduler Slug
begin

text \<open>
  The lifecycle operations of \<open>DevicesService\<close> (\<open>devices.service.ts\<close>, lines
  40-52 and 137-353): \<open>onModuleInit\<close>, \<open>createDevice\<close>, \<open>updateTelemetry\<close>,
  \<open>updateDevice\<close>, \<open>refreshDiscovery\<close> and \<open>remove\<close>. \<open>createDevice\<close> is split where
  it awaits the store: \<open>create_prepare\<close> runs the kind check, the idempotency lookup
  and the slug probe against one store; \<open>create_commit\<close> runs the retry loop of
  inserts and the publishes against the store as it is when the inserts happen.
  Run one after the other on the same store they are \<open>create_device\<close>; run on
  two stores they model a concurrent insert between the probe and the save. The
  retry loop \<open>create_loop\<close> terminates after at most six inserts (measure
  \<open>6 - attempt\<close>).
\<close>

text \<open>\<open>if (slug)\<close>: a present, non-empty slug.\<close>

definition slug_given :: "string option \<Rightarrow> bool" where
  "slug_given s \<longleftrightarrow> (case s of Some x \<Rightarrow> x \<noteq> [] | None \<Rightarrow> False)"

definition taken_slugs :: "svc \<Rightarrow> string \<Rightarrow> string list" where
  "taken_slugs st ty =
     concat (map (\<lambda>d. if dv_type d = ty then (case dv_slug d of Some s \<Rightarrow> [s] | None \<Rightarrow> []) else [])
                 (sv_devices st))"

text \<open>\<open>devices.save(devices.create({...}))\<close> of a new row: the unique index on
  \<open>(type, slug)\<close> rejects a second row with the same non-null pair.\<close>

definition new_device :: "svc \<Rightarrow> string \<Rightarrow> string \<Rightarrow> string \<Rightarrow> jobj \<Rightarrow> string option \<Rightarrow> rat \<Rightarrow> device" where
  "new_device st ty name s caps tpl tel =
     \<lparr>dv_id = mk_uuid (sv_uuid st), dv_type = ty, dv_name = name, dv_slug = Some s,
      dv_caps = json_norm_obj caps, dv_template = tpl, dv_topic_base = sv_ns st @ ''/'' @ ty,
      dv_retained = True, dv_telemetry = Fin tel, dv_created = sv_now st, dv_updated = sv_now st\<rparr>"

definition insert_device :: "device \<Rightarrow> svc \<Rightarrow> svc_error + (device \<times> svc)" where
  "insert_device d st =
     (if \<exists>x \<in> set (sv_devices st). dv_type x = dv_type d \<and> dv_slug x = dv_slug d \<and> dv_slug d \<noteq> None
      then Inl UniqueViolation
      else Inr (d, st\<lparr>sv_devices := sv_devices st @ [d], sv_uuid := Suc (sv_uuid st)\<rparr>))"

text \<open>
  The \<open>while (true)\<close> loop of \<open>createDevice\<close>: a unique violation with an
  auto-derived slug is retried with \<open>`${toSlug(name)}-${attempt + 1}`\<close> after the
  increment, until the sixth failure gives the conflict; with a caller-supplied
  slug the store's error is rethrown.
\<close>

function create_loop ::
  "(string \<Rightarrow> svc_error + (device \<times> svc)) \<Rightarrow> bool \<Rightarrow> string \<Rightarrow> nat \<Rightarrow> string \<Rightarrow> svc_error + (device \<times> svc)" where
  "create_loop save given base attempt fs =
     (case save fs of
        Inl UniqueViolation \<Rightarrow>
          if given then Inl UniqueViolation
          else if 5 < Suc attempt
          then Inl (Conflict (''Could not allocate unique slug for base '' @ [CHR 0x27] @ fs @ [CHR 0x27]))
          else create_loop save given base (Suc attempt) (suffixed base (Suc attempt + 1))
      | r \<Rightarrow> r)"
  by pat_completeness auto

termination
  by (relation "measure (\<lambda>(save, given, base, attempt, fs). 6 - attempt)") auto

declare create_loop.simps [simp del]

text \<open>What \<open>createDevice\<close> decides before its first insert.\<close>

record create_plan =
  cp_kind :: kind
  cp_type :: string
  cp_name :: string
  cp_given :: bool
  cp_slug :: string
  cp_caps :: jobj
  cp_tpl :: "string option"
  cp_tel :: rat

datatype create_result = CrExisted string string | CrCreated device jobj

definition create_prepare ::
  "string \<Rightarrow> string \<Rightarrow> string option \<Rightarrow> jobj option \<Rightarrow> string option \<Rightarrow> svc \<Rightarrow>
   svc_error + ((string \<times> string) + create_plan)" where
  "create_prepare ty name slug caps tpl st =
     (case get_kind ty of
        Inl e \<Rightarrow> Inl (BadRequest (''Unsupported device type: '' @ ty))
      | Inr r \<Rightarrow>
          (case (if slug_given slug then find_type_slug st ty (the slug) else None) of
             Some ex \<Rightarrow> Inr (Inl (dv_id ex, the slug))
           | None \<Rightarrow>
               let fs = (if slug_given slug then the slug else probe_slug (taken_slugs st ty) (to_slug name))
               in ebind (js_lift (ref_capabilities r)) (\<lambda>kc.
                    case r of
                      KindRef k \<Rightarrow>
                        Inr (Inr \<lparr>cp_kind = k, cp_type = ty, cp_name = name, cp_given = slug_given slug,
                                  cp_slug = fs, cp_caps = js_spread kc (case caps of None \<Rightarrow> [] | Some c \<Rightarrow> c),
                                  cp_tpl = tpl, cp_tel = kind_default_telemetry k\<rparr>)
                    | ProtoRef m \<Rightarrow> Inl (JsErr (not_a_function ''capabilities'')))))"

text \<open>After the insert: the state row, birth, status and state publishes, discovery,
  the timer when the default interval is positive, and the live-update event.\<close>

definition create_finish :: "create_plan \<Rightarrow> device \<Rightarrow> svc \<Rightarrow> create_result \<times> svc" where
  "create_finish p d st =
     (let init = kind_default_state (cp_kind p) (cp_caps p);
          ns = sv_ns st; ty = cp_type p; i = dv_id d;
          st1 = save_state i init st;
          st2 = svc_publish (ns @ ''/service/birth'') (PVal (JObj [(''deviceId'', JStr i), (''type'', JStr ty)])) (Some False) st1;
          st3 = svc_publish (topic_status ns ty i) (PStr ''online'') (Some True) st2;
          st4 = svc_publish (topic_state ns ty i) (PVal (JObj init)) (Some True) st3;
          st5 = publish_discovery_if_enabled d st4;
          st6 = (if 0 < cp_tel p then ensure_timer d st5 else st5);
          st7 = svc_gw (emit_device_created (JObj (device_json d @ [(''state'', JObj init)]))) st6
      in (CrCreated d init, st7))"

definition create_commit :: "create_plan \<Rightarrow> svc \<Rightarrow> svc_error + (create_result \<times> svc)" where
  "create_commit p st =
     ebind (create_loop (\<lambda>s. insert_device (new_device st (cp_type p) (cp_name p) s (cp_caps p) (cp_tpl p) (cp_tel p)) st)
                        (cp_given p) (to_slug (cp_name p)) 0 (cp_slug p))
       (\<lambda>(d, st1). Inr (create_finish p d st1))"

definition create_device ::
  "string \<Rightarrow> string \<Rightarrow> string option \<Rightarrow> jobj option \<Rightarrow> string option \<Rightarrow> svc \<Rightarrow> svc_error + (create_result \<times> svc)" where
  "create_device ty name slug caps tpl st =
     ebind (create_prepare ty name slug caps tpl st)
       (\<lambda>r. case r of Inl (i, s) \<Rightarrow> Inr (CrExisted i s, st) | Inr p \<Rightarrow> create_commit p st)"

subsection \<open>Updates and removal\<close>

text \<open>The row \<open>devices.save(dev)\<close> writes, and the entity after the call.\<close>

definition saved_row :: "device \<Rightarrow> svc \<Rightarrow> device" where
  "saved_row d st = d\<lparr>dv_caps := json_norm_obj (dv_caps d), dv_updated := sv_now st\<rparr>"

definition not_found :: "string \<Rightarrow> svc_error" where
  "not_found i = NotFound (''Device not found: '' @ i)"

text \<open>\<open>updateTelemetry(id, intervalSec)\<close>\<close>

definition update_telemetry :: "string \<Rightarrow> jnum \<Rightarrow> svc \<Rightarrow> svc_error + svc" where
  "update_telemetry i n st =
     (if num_less n (Fin 0) then Inl (BadRequest ''intervalSec must be >= 0'')
      else case find_device st i of
        None \<Rightarrow> Inl (not_found i)
      | Some dev \<Rightarrow>
          let dev' = dev\<lparr>dv_telemetry := n\<rparr>
          in Inr (ensure_timer (saved_row dev' st) (save_device dev' st)))"

text \<open>\<open>updateDevice(id, body)\<close>: the merge-patch of name, capabilities and template.\<close>

definition patch_device :: "jobj \<Rightarrow> device \<Rightarrow> device" where
  "patch_device body dev =
     (let d1 = (case js_get body ''name'' of
                  Some (JStr s) \<Rightarrow> if trim_js s \<noteq> [] then dev\<lparr>dv_name := trim_js s\<rparr> else dev
                | _ \<Rightarrow> dev);
          d2 = (case js_get body ''capabilities'' of
                  Some (JObj c) \<Rightarrow> d1\<lparr>dv_caps := js_spread (dv_caps d1) c\<rparr>
                | Some (JArr xs) \<Rightarrow> d1\<lparr>dv_caps := js_spread (dv_caps d1) (array_obj xs)\<rparr>
                | _ \<Rightarrow> d1)
      in case js_get body ''templateId'' of Some (JStr s) \<Rightarrow> d2\<lparr>dv_template := Some s\<rparr> | _ \<Rightarrow> d2)"

definition update_device :: "string \<Rightarrow> jobj \<Rightarrow> svc \<Rightarrow> svc_error + svc" where
  "update_device i body st =
     (case find_device st i of
        None \<Rightarrow> Inl (not_found i)
      | Some dev \<Rightarrow>
          let d = patch_device body dev; row = saved_row d st;
              st1 = publish_discovery_if_enabled row (save_device d st)
          in Inr (svc_gw (emit_device_updated (JObj (device_json row))) st1))"

definition refresh_discovery :: "string \<Rightarrow> svc \<Rightarrow> svc_error + svc" where
  "refresh_discovery i st =
     (case find_device st i of None \<Rightarrow> Inl (not_found i) | Some dev \<Rightarrow> Inr (publish_discovery_if_enabled dev st))"

text \<open>\<open>remove(id)\<close>: timer, the two tombstones, the discovery retraction, the delete.\<close>

definition remove_device :: "string \<Rightarrow> svc \<Rightarrow> svc_error + svc" where
  "remove_device i st =
     (case find_device st i of
        None \<Rightarrow> Inl (not_found i)
      | Some dev \<Rightarrow>
          let st1 = clear_timer i st;
              st2 = svc_publish (topic_state (sv_ns st) (dv_type dev) i) (PStr []) (Some True) st1;
              st3 = svc_publish (topic_status (sv_ns st) (dv_type dev) i) (PStr []) (Some True) st2;
              st4 = delete_device i (clear_discovery dev st3)
          in Inr (svc_gw (emit_device_deleted i (dv_type dev)) st4))"

text \<open>\<open>onModuleInit()\<close>: the wildcard subscription, the command handler, and a timer
  for every stored device with \<open>telemetryIntervalSec > 0\<close>.\<close>

definition svc_init :: "svc \<Rightarrow> svc" where
  "svc_init st =
     fold ensure_timer (filter (\<lambda>d. arms (dv_telemetry d)) (sv_devices st))
       (st\<lparr>sv_mqtt := mqtt_on_command (mqtt_subscribe_wildcard (sv_mqtt st))\<rparr>)"

subsection \<open>The store invariant\<close>

text \<open>
  What the store promises (specification, section 3): ids are distinct and were
  generated by the store, \<open>(type, slug)\<close> is unique among devices with a slug,
  every device has exactly one state row and no state row is left without its
  device; together with the scheduler invariant.
\<close>

definition dev_key :: "device \<Rightarrow> string \<times> string \<times> string option" where
  "dev_key d = (dv_id d, dv_type d, dv_slug d)"

definition store_inv :: "svc \<Rightarrow> bool" where
  "store_inv st \<longleftrightarrow>
     distinct (map dv_id (sv_devices st)) \<and>
     (\<forall>d \<in> set (sv_devices st). \<exists>j < sv_uuid st. dv_id d = mk_uuid j) \<and>
     (\<forall>d \<in> set (sv_devices st). \<forall>d' \<in> set (sv_devices st).
        dv_type d = dv_type d' \<and> dv_slug d = dv_slug d' \<and> dv_slug d \<noteq> None \<longrightarrow> dv_id d = dv_id d') \<and>
     distinct (map fst (sv_states st)) \<and>
     set (map fst (sv_states st)) = set (map dv_id (sv_devices st))"

definition svc_inv :: "svc \<Rightarrow> bool" where
  "svc_inv st \<longleftrightarrow> store_inv st \<and> sched_inv st"

subsection \<open>The HTTP create handler\<close>

text \<open>
  \<open>DevicesController.create(dto)\<close> (\<open>devices.controller.ts\<close>): with a
  \<open>templateId\<close>, the template must exist and be of the requested type, and its
  capabilities are spread under the caller's; the merged object is passed to
  \<open>createDevice\<close>. The templates file read by \<open>getTemplate\<close> (\<open>kinds/templates.ts\<close>)
  is the map \<open>tpls\<close> from template ids to the template's kind and capabilities.
\<close>

type_synonym template_map = "string \<Rightarrow> (string \<times> jobj option) option"

definition ctl_create ::
  "template_map \<Rightarrow> string \<Rightarrow> string \<Rightarrow> string option \<Rightarrow> jobj option \<Rightarrow> string option \<Rightarrow> svc \<Rightarrow>
   svc_error + (create_result \<times> svc)" where
  "ctl_create tpls ty name slug caps tid st =
     (let merged = (case caps of None \<Rightarrow> [] | Some c \<Rightarrow> c) in
      if slug_given tid
      then (case tpls (the tid) of
              None \<Rightarrow> Inl (BadRequest (''Unknown templateId: '' @ the tid))
            | Some (k, tc) \<Rightarrow>
                if k \<noteq> ty
                then Inl (BadRequest (''Template kind '' @ [CHR 0x27] @ k @ [CHR 0x27] @ '' does not match type '' @
                                      [CHR 0x27] @ ty @ [CHR 0x27]))
                else create_device ty name slug (Some (js_spread (case tc of None \<Rightarrow> [] | Some c \<Rightarrow> c) merged)) tid st)
      else create_device ty name slug (Some merged) None st)"

subsection \<open>The service as a transition system\<close>

text \<open>
  The requests and events that change the service's state: the HTTP handlers of
  \<open>DevicesController\<close> that call the service methods above, an inbound broker
  command, and a firing heartbeat interval. A crash of the process on an
  unhandled rejection (\<open>route_message\<close>) and a rejected request are errors.
  Reads (\<open>list\<close>, \<open>findOne\<close>, the exports) leave the state unchanged and are omitted.
\<close>

datatype svc_op =
    OpCreate string string "string option" "jobj option" "string option"
  | OpTelemetry string jnum
  | OpUpdate string jobj
  | OpRefresh string
  | OpRemove string
  | OpSend string raw_cmd
  | OpMqtt topic "8 word list"
  | OpFire nat rat rat

fun svc_step :: "template_map \<Rightarrow> svc_op \<Rightarrow> svc \<Rightarrow> svc_error + svc" where
  "svc_step tpls (OpCreate ty name slug caps tid) st = ebind (ctl_create tpls ty name slug caps tid st) (\<lambda>(r, st'). Inr st')"
| "svc_step tpls (OpTelemetry i n) st = update_telemetry i n st"
| "svc_step tpls (OpUpdate i b) st = update_device i b st"
| "svc_step tpls (OpRefresh i) st = refresh_discovery i st"
| "svc_step tpls (OpRemove i) st = remove_device i st"
| "svc_step tpls (OpSend i c) st = send_by_id i c st"
| "svc_step tpls (OpMqtt t bs) st = (case route_message t bs st of (Crashed e, _) \<Rightarrow> Inl e | (_, st') \<Rightarrow> Inr st')"
| "svc_step tpls (OpFire h rd rn) st = (case timer_fire h rd rn st of Inl e \<Rightarrow> Inl (JsErr e) | Inr st' \<Rightarrow> Inr st')"

text \<open>The states the running service reaches: \<open>onModuleInit\<close> on a store that
  satisfies the store invariant, in a fresh process (no timers yet), then any
  sequence of successful steps.\<close>

inductive svc_reach :: "template_map \<Rightarrow> svc \<Rightarrow> bool" for tpls :: template_map where
  boot: "store_inv st \<Longrightarrow> sv_timers st = [] \<Longrightarrow> sv_intervals st = [] \<Longrightarrow> svc_reach tpls (svc_init st)"
| step: "svc_reach tpls st \<Longrightarrow> svc_step tpls op st = Inr st' \<Longrightarrow> svc_reach tpls st'"

text \<open>Example stores: \<open>lamp_store n\<close> holds \<open>n\<close> switches named Lamp with the slugs
  \<open>lamp\<close>, \<open>lamp-2\<close>, ..., \<open>lamp-n\<close>.\<close>

definition lamp_store :: "nat \<Rightarrow> svc" where
  "lamp_store n =
     demo_svc\<lparr>sv_devices := map (\<lambda>j. demo_device\<lparr>dv_id := mk_uuid j,
                                   dv_slug := Some (if j = 0 then ''lamp'' else suffixed ''lamp'' (j + 1))\<rparr>) [0..<n],
              sv_states := map (\<lambda>j. (mk_uuid j, [(''state'', JStr ''OFF'')])) [0..<n], sv_uuid := n\<rparr>"

text \<open>A templates file with one switch template.\<close>

definition wall_templates :: template_map where
  "wall_templates = (\<lambda>x. if x = ''wall'' then Some (''switch'', Some [(''label'', JStr ''Wall'')]) else None)"

subsection \<open>Lemmas: identifiers, the retry loop and the store invariant\<close>

lemma mk_uuid_inj [simp]: "mk_uuid i = mk_uuid j \<longleftrightarrow> i = j"
  by (simp add: mk_uuid_def show_nat_inj)

lemma create_loop_Inr:
  "create_loop save given base a fs = Inr x \<Longrightarrow> \<exists>s. save s = Inr x"
proof (induction save given base a fs rule: create_loop.induct)
  case (1 save given base attempt fs)
  show ?case
  proof (cases "save fs")
    case (Inl e)
    then show ?thesis using 1 by (cases e) (auto simp: create_loop.simps split: if_splits)
  next
    case (Inr y)
    then show ?thesis using 1 by (auto simp: create_loop.simps)
  qed
qed

lemma insert_device_Inr:
  assumes "insert_device d st = Inr (d', st')"
  shows "d' = d" "st' = st\<lparr>sv_devices := sv_devices st @ [d], sv_uuid := Suc (sv_uuid st)\<rparr>"
    "\<forall>x \<in> set (sv_devices st). dv_type x = dv_type d \<and> dv_slug x = dv_slug d \<longrightarrow> dv_slug d = None"
  using assms by (auto simp: insert_device_def split: if_splits)

lemma fresh_uuid:
  "\<forall>d \<in> set (sv_devices st). \<exists>j < sv_uuid st. dv_id d = mk_uuid j \<Longrightarrow>
   mk_uuid (sv_uuid st) \<notin> set (map dv_id (sv_devices st))"
  by force

lemma store_inv_parts:
  "store_inv st \<longleftrightarrow>
     distinct (map dv_id (sv_devices st)) \<and>
     (\<forall>d \<in> set (sv_devices st). \<exists>j < sv_uuid st. dv_id d = mk_uuid j) \<and>
     (\<forall>d \<in> set (sv_devices st). \<forall>d' \<in> set (sv_devices st).
        dv_type d = dv_type d' \<and> dv_slug d = dv_slug d' \<and> dv_slug d \<noteq> None \<longrightarrow> dv_id d = dv_id d') \<and>
     distinct (map fst (sv_states st)) \<and>
     set (map fst (sv_states st)) = set (map dv_id (sv_devices st))"
  by (simp add: store_inv_def)

lemma store_inv_slug_unique:
  "store_inv st \<Longrightarrow> d \<in> set (sv_devices st) \<Longrightarrow> d' \<in> set (sv_devices st) \<Longrightarrow>
   dv_type d = dv_type d' \<Longrightarrow> dv_slug d = dv_slug d' \<Longrightarrow> dv_slug d \<noteq> None \<Longrightarrow> dv_id d = dv_id d'"
  unfolding store_inv_def by blast

lemma store_inv_insert:
  assumes inv: "store_inv st"
    and ins: "insert_device (new_device st ty n s c t tel) st = Inr (d, st1)"
  shows "store_inv (save_state (dv_id d) init st1) \<and> d = new_device st ty n s c t tel \<and>
         sv_devices st1 = sv_devices st @ [d] \<and> dv_id d \<notin> set (map dv_id (sv_devices st))"
proof -
  note i = insert_device_Inr [OF ins]
  have dd: "d = new_device st ty n s c t tel" using i(1) by simp
  have st1: "st1 = st\<lparr>sv_devices := sv_devices st @ [d], sv_uuid := Suc (sv_uuid st)\<rparr>" using i(2) dd by simp
  have nc: "\<forall>x \<in> set (sv_devices st). dv_type x = dv_type d \<and> dv_slug x = dv_slug d \<longrightarrow> dv_slug d = None"
    using i(3) dd by simp
  have ids: "\<forall>x \<in> set (sv_devices st). \<exists>j < sv_uuid st. dv_id x = mk_uuid j"
    using inv by (simp add: store_inv_def)
  have did: "dv_id d = mk_uuid (sv_uuid st)" by (simp add: dd new_device_def)
  have fr: "dv_id d \<notin> set (map dv_id (sv_devices st))" using fresh_uuid [OF ids] did by simp
  let ?st2 = "save_state (dv_id d) init st1"
  have devs: "sv_devices ?st2 = sv_devices st @ [d]" and uu: "sv_uuid ?st2 = Suc (sv_uuid st)"
    and sts: "sv_states ?st2 = AList.update (dv_id d) (json_norm_obj init) (sv_states st)"
    by (simp_all add: st1 save_state_def)
  have p1: "distinct (map dv_id (sv_devices ?st2))" using inv fr by (simp add: devs store_inv_def)
  have p2: "\<forall>x \<in> set (sv_devices ?st2). \<exists>j < sv_uuid ?st2. dv_id x = mk_uuid j"
    unfolding devs uu using ids did by (auto simp: less_Suc_eq)
  have p3: "\<forall>x \<in> set (sv_devices ?st2). \<forall>x' \<in> set (sv_devices ?st2).
        dv_type x = dv_type x' \<and> dv_slug x = dv_slug x' \<and> dv_slug x \<noteq> None \<longrightarrow> dv_id x = dv_id x'"
  proof (intro ballI impI)
    fix x x' assume x: "x \<in> set (sv_devices ?st2)" and x': "x' \<in> set (sv_devices ?st2)"
      and eq: "dv_type x = dv_type x' \<and> dv_slug x = dv_slug x' \<and> dv_slug x \<noteq> None"
    consider "x \<in> set (sv_devices st)" "x' \<in> set (sv_devices st)" | "x = d" "x' \<in> set (sv_devices st)"
      | "x \<in> set (sv_devices st)" "x' = d" | "x = d" "x' = d" using x x' by (auto simp: devs)
    then show "dv_id x = dv_id x'"
    proof cases
      case 1 then show ?thesis using store_inv_slug_unique [OF inv] eq by blast
    next
      case 2 then show ?thesis using nc eq by force
    next
      case 3 then show ?thesis using nc eq by force
    qed simp
  qed
  have p4: "distinct (map fst (sv_states ?st2))"
    using inv by (simp add: sts store_inv_def distinct_update)
  have p5: "set (map fst (sv_states ?st2)) = set (map dv_id (sv_devices ?st2))"
    using inv by (simp add: sts devs store_inv_def dom_update Un_commute)
  have "store_inv ?st2" unfolding store_inv_parts using p1 p2 p3 p4 p5 by blast
  then show ?thesis using dd st1 fr by simp
qed


lemma sched_frame:
  "sv_timers st' = sv_timers st \<Longrightarrow> sv_intervals st' = sv_intervals st \<Longrightarrow>
   sv_next_handle st' = sv_next_handle st \<Longrightarrow> sched_core st' = sched_core st \<and> interval_ids st' = interval_ids st"
  by (simp add: sched_core_def interval_ids_def)

lemma store_frame:
  "sv_devices st' = sv_devices st \<Longrightarrow> sv_states st' = sv_states st \<Longrightarrow> sv_uuid st' = sv_uuid st \<Longrightarrow>
   store_inv st' = store_inv st"
  by (simp add: store_inv_def)

lemma pub_fields [simp]:
  "sv_devices (publish_discovery_if_enabled d st) = sv_devices st"
  "sv_states (publish_discovery_if_enabled d st) = sv_states st"
  "sv_uuid (publish_discovery_if_enabled d st) = sv_uuid st"
  "sv_timers (publish_discovery_if_enabled d st) = sv_timers st"
  "sv_intervals (publish_discovery_if_enabled d st) = sv_intervals st"
  "sv_next_handle (publish_discovery_if_enabled d st) = sv_next_handle st"
  "sv_ns (publish_discovery_if_enabled d st) = sv_ns st"
  "sv_now (publish_discovery_if_enabled d st) = sv_now st"
  "sv_discovery (publish_discovery_if_enabled d st) = sv_discovery st"
  "sv_devices (clear_discovery d st) = sv_devices st"
  "sv_states (clear_discovery d st) = sv_states st"
  "sv_uuid (clear_discovery d st) = sv_uuid st"
  "sv_timers (clear_discovery d st) = sv_timers st"
  "sv_intervals (clear_discovery d st) = sv_intervals st"
  "sv_next_handle (clear_discovery d st) = sv_next_handle st"
  "sv_ns (clear_discovery d st) = sv_ns st"
  "sv_now (clear_discovery d st) = sv_now st"
  by (simp_all add: publish_discovery_if_enabled_def clear_discovery_def svc_publish_def)

lemma svc_more_fields [simp]:
  "sv_uuid (svc_publish t p r st) = sv_uuid st" "sv_next_handle (svc_publish t p r st) = sv_next_handle st"
  "sv_now (svc_publish t p r st) = sv_now st" "sv_discovery (svc_publish t p r st) = sv_discovery st"
  "sv_uuid (svc_gw f st) = sv_uuid st" "sv_next_handle (svc_gw f st) = sv_next_handle st"
  "sv_now (svc_gw f st) = sv_now st" "sv_discovery (svc_gw f st) = sv_discovery st"
  "sv_devices (save_state i x st) = sv_devices st" "sv_uuid (save_state i x st) = sv_uuid st"
  "sv_timers (save_state i x st) = sv_timers st" "sv_intervals (save_state i x st) = sv_intervals st"
  "sv_next_handle (save_state i x st) = sv_next_handle st" "sv_ns (save_state i x st) = sv_ns st"
  "sv_now (save_state i x st) = sv_now st" "sv_discovery (save_state i x st) = sv_discovery st"
  "sv_mqtt (save_state i x st) = sv_mqtt st"
  by (simp_all add: svc_publish_def svc_gw_def save_state_def)


lemma create_finish_facts:
  assumes "create_finish p d st = (r, st')"
  shows "sv_devices st' = sv_devices st" "sv_uuid st' = sv_uuid st"
    "sv_states st' = sv_states (save_state (dv_id d) (kind_default_state (cp_kind p) (cp_caps p)) st)"
    "sched_core st \<Longrightarrow> sched_core st' \<and>
       interval_ids st' = (if 0 < cp_tel p then interval_ids st - {dv_id d} \<union> (if arms (dv_telemetry d) then {dv_id d} else {})
                           else interval_ids st)"
proof -
  define st5 where "st5 = publish_discovery_if_enabled d
     (svc_publish (topic_state (sv_ns st) (cp_type p) (dv_id d)) (PVal (JObj (kind_default_state (cp_kind p) (cp_caps p)))) (Some True)
     (svc_publish (topic_status (sv_ns st) (cp_type p) (dv_id d)) (PStr ''online'') (Some True)
     (svc_publish (sv_ns st @ ''/service/birth'') (PVal (JObj [(''deviceId'', JStr (dv_id d)), (''type'', JStr (cp_type p))])) (Some False)
     (save_state (dv_id d) (kind_default_state (cp_kind p) (cp_caps p)) st))))"
  have st': "st' = svc_gw (emit_device_created (JObj (device_json d @ [(''state'', JObj (kind_default_state (cp_kind p) (cp_caps p)))])))
               (if 0 < cp_tel p then ensure_timer d st5 else st5)"
  proof -
    have "st' = snd (create_finish p d st)" using assms by simp
    then show ?thesis by (simp add: create_finish_def Let_def st5_def)
  qed
  have f5: "sv_devices st5 = sv_devices st" "sv_uuid st5 = sv_uuid st"
    "sv_states st5 = sv_states (save_state (dv_id d) (kind_default_state (cp_kind p) (cp_caps p)) st)"
    "sv_timers st5 = sv_timers st" "sv_intervals st5 = sv_intervals st" "sv_next_handle st5 = sv_next_handle st"
    by (simp_all add: st5_def)
  show "sv_devices st' = sv_devices st" "sv_uuid st' = sv_uuid st"
    "sv_states st' = sv_states (save_state (dv_id d) (kind_default_state (cp_kind p) (cp_caps p)) st)"
    using f5 by (simp_all add: st')
  assume c: "sched_core st"
  have c5: "sched_core st5 \<and> interval_ids st5 = interval_ids st" using sched_frame [OF f5(4-6)] c by simp
  show "sched_core st' \<and>
       interval_ids st' = (if 0 < cp_tel p then interval_ids st - {dv_id d} \<union> (if arms (dv_telemetry d) then {dv_id d} else {})
                           else interval_ids st)"
  proof (cases "0 < cp_tel p")
    case True
    have "sched_core (ensure_timer d st5) \<and> interval_ids (ensure_timer d st5) =
            interval_ids st5 - {dv_id d} \<union> (if arms (dv_telemetry d) then {dv_id d} else {})"
      using ensure_timer_core c5 by blast
    then show ?thesis using True c5 by (simp add: st' sched_core_def interval_ids_def svc_gw_def)
  next
    case False
    then show ?thesis using c5 by (simp add: st' sched_core_def interval_ids_def svc_gw_def)
  qed
qed


lemma armed_ids_append:
  "armed_ids (xs @ [d]) = armed_ids xs \<union> (if arms (dv_telemetry d) then {dv_id d} else {})"
  by (auto simp: armed_ids_def)

lemma armed_ids_sub: "armed_ids xs \<subseteq> set (map dv_id xs)"
  by (auto simp: armed_ids_def)

lemma arms_Fin [simp]: "arms (Fin r) \<longleftrightarrow> 0 < r"
  by (simp add: arms_def)

lemma create_commit_inv:
  assumes inv: "svc_inv st" and cc: "create_commit p st = Inr (r, st')"
  shows "svc_inv st'"
proof -
  obtain d st1 where lp: "create_loop (\<lambda>s. insert_device (new_device st (cp_type p) (cp_name p) s (cp_caps p) (cp_tpl p) (cp_tel p)) st)
                        (cp_given p) (to_slug (cp_name p)) 0 (cp_slug p) = Inr (d, st1)"
    and fin: "create_finish p d st1 = (r, st')"
    using cc by (auto simp: create_commit_def ebind_eq_Inr)
  obtain s where ins: "insert_device (new_device st (cp_type p) (cp_name p) s (cp_caps p) (cp_tpl p) (cp_tel p)) st = Inr (d, st1)"
    using create_loop_Inr [OF lp] by blast
  have si: "store_inv st" "sched_inv st" using inv by (simp_all add: svc_inv_def)
  note ii = store_inv_insert [OF si(1) ins, of "kind_default_state (cp_kind p) (cp_caps p)"]
  note ff = create_finish_facts [OF fin]
  have st1: "st1 = st\<lparr>sv_devices := sv_devices st @ [d], sv_uuid := Suc (sv_uuid st)\<rparr>"
    using insert_device_Inr(1,2) [OF ins] by simp
  have "store_inv st' = store_inv (save_state (dv_id d) (kind_default_state (cp_kind p) (cp_caps p)) st1)"
    by (rule store_frame) (simp_all add: ff(1-3))
  then have "store_inv st'" using ii by blast
  moreover have "sched_core st1 = sched_core st \<and> interval_ids st1 = interval_ids st"
    using sched_frame [of st1 st] st1 by simp
  then have c1: "sched_core st1" "interval_ids st1 = armed_ids (sv_devices st)"
    using si(2) by (simp_all add: sched_inv_def)
  have fresh: "dv_id d \<notin> armed_ids (sv_devices st)" using ii armed_ids_sub by blast
  have tel: "dv_telemetry d = Fin (cp_tel p)" using ii by (simp add: new_device_def)
  have "sched_core st' \<and> interval_ids st' = armed_ids (sv_devices st')"
    using ff(4) [OF c1(1)] c1(2) fresh tel ii ff(1) by (auto simp: armed_ids_append)
  ultimately show ?thesis by (simp add: svc_inv_def sched_inv_def)
qed


lemma store_inv_keys:
  "store_inv st \<longleftrightarrow>
     distinct (map fst (map dev_key (sv_devices st))) \<and>
     (\<forall>k \<in> set (map dev_key (sv_devices st)). \<exists>j < sv_uuid st. fst k = mk_uuid j) \<and>
     (\<forall>k \<in> set (map dev_key (sv_devices st)). \<forall>k' \<in> set (map dev_key (sv_devices st)).
        fst (snd k) = fst (snd k') \<and> snd (snd k) = snd (snd k') \<and> snd (snd k) \<noteq> None \<longrightarrow> fst k = fst k') \<and>
     distinct (map fst (sv_states st)) \<and>
     set (map fst (sv_states st)) = set (map fst (map dev_key (sv_devices st)))"
  by (simp add: store_inv_def dev_key_def comp_def)

lemma store_frame_keys:
  "map dev_key (sv_devices st') = map dev_key (sv_devices st) \<Longrightarrow> map fst (sv_states st') = map fst (sv_states st) \<Longrightarrow>
   sv_uuid st' = sv_uuid st \<Longrightarrow> store_inv st' = store_inv st"
  unfolding store_inv_keys by simp

lemma find_device_in:
  "find_device st i = Some d \<Longrightarrow> d \<in> set (sv_devices st) \<and> dv_id d = i"
  by (simp add: find_device_def find_Some_iff) (metis nth_mem)

lemma store_inv_find_unique:
  "store_inv st \<Longrightarrow> find_device st i = Some d \<Longrightarrow> x \<in> set (sv_devices st) \<Longrightarrow> dv_id x = i \<Longrightarrow> x = d"
  using find_device_in [of st i d] by (auto simp: store_inv_def dest: inj_onD [OF distinct_map [THEN iffD1, THEN conjunct2]])

lemma save_device_keys:
  assumes "store_inv st" "find_device st (dv_id d) = Some dev" "dev_key d = dev_key dev"
  shows "map dev_key (sv_devices (save_device d st)) = map dev_key (sv_devices st)"
  using store_inv_find_unique [OF assms(1,2)] assms(3) by (auto simp: save_device_def dev_key_def)

lemma mem_armed_ids: "i \<in> armed_ids xs \<longleftrightarrow> (\<exists>d \<in> set xs. dv_id d = i \<and> arms (dv_telemetry d))"
  by (auto simp: armed_ids_def)

lemma armed_ids_replace:
  assumes "store_inv st" "find_device st (dv_id d) = Some dev"
  shows "armed_ids (sv_devices (save_device d st)) =
           armed_ids (sv_devices st) - {dv_id d} \<union> (if arms (dv_telemetry d) then {dv_id d} else {})"
proof -
  have dv: "dev \<in> set (sv_devices st)" "dv_id dev = dv_id d"
    using find_device_in [OF assms(2)] by auto
  have row: "(\<exists>x \<in> set (sv_devices (save_device d st)). P x) \<longleftrightarrow>
      (\<exists>y \<in> set (sv_devices st). P (if dv_id y = dv_id d
          then d\<lparr>dv_caps := json_norm_obj (dv_caps d), dv_updated := sv_now st\<rparr> else y))" for P
  proof -
    have "sv_devices (save_device d st) = map (\<lambda>y. if dv_id y = dv_id d
          then d\<lparr>dv_caps := json_norm_obj (dv_caps d), dv_updated := sv_now st\<rparr> else y) (sv_devices st)"
      by (simp add: save_device_def)
    then show ?thesis by (simp only: set_map) blast
  qed
  show ?thesis
  proof (rule set_eqI)
    fix i
    show "i \<in> armed_ids (sv_devices (save_device d st)) \<longleftrightarrow>
          i \<in> armed_ids (sv_devices st) - {dv_id d} \<union> (if arms (dv_telemetry d) then {dv_id d} else {})"
    proof (cases "i = dv_id d")
      case True
      then show ?thesis unfolding mem_armed_ids row using dv by (auto intro: bexI [of _ dev])
    next
      case False
      then show ?thesis unfolding mem_armed_ids row by (auto simp: mem_armed_ids)
    qed
  qed
qed


lemma map_fst_alist_update:
  "k \<in> set (map fst xs) \<Longrightarrow> map fst (AList.update k v xs) = map fst xs"
  by (induction xs) auto

lemma update_state_keys [simp]:
  "map fst (sv_states (update_state i x st)) = map fst (sv_states st)"
  by (simp add: update_state_def map_fst_alist_update)

lemma save_device_fields [simp]:
  "sv_states (save_device d st) = sv_states st" "sv_uuid (save_device d st) = sv_uuid st"
  "sv_timers (save_device d st) = sv_timers st" "sv_intervals (save_device d st) = sv_intervals st"
  "sv_next_handle (save_device d st) = sv_next_handle st" "sv_ns (save_device d st) = sv_ns st"
  "sv_now (save_device d st) = sv_now st" "sv_discovery (save_device d st) = sv_discovery st"
  "sv_mqtt (save_device d st) = sv_mqtt st"
  "sv_uuid (delete_device i st) = sv_uuid st"
  "sv_timers (delete_device i st) = sv_timers st" "sv_intervals (delete_device i st) = sv_intervals st"
  "sv_next_handle (delete_device i st) = sv_next_handle st"
  "sv_uuid (update_state i x st) = sv_uuid st" "sv_next_handle (update_state i x st) = sv_next_handle st"
  by (simp_all add: save_device_def delete_device_def update_state_def)

lemma svc_inv_frame:
  assumes "svc_inv st" "map dev_key (sv_devices st') = map dev_key (sv_devices st)"
    "map fst (sv_states st') = map fst (sv_states st)" "sv_uuid st' = sv_uuid st"
    "sv_timers st' = sv_timers st" "sv_intervals st' = sv_intervals st" "sv_next_handle st' = sv_next_handle st"
    "armed_ids (sv_devices st') = armed_ids (sv_devices st)"
  shows "svc_inv st'"
  using assms store_frame_keys [OF assms(2-4)] sched_frame [OF assms(5-7)]
  by (simp add: svc_inv_def sched_inv_def)

lemma armed_ids_find:
  "store_inv st \<Longrightarrow> find_device st i = Some dev \<Longrightarrow> i \<in> armed_ids (sv_devices st) \<longleftrightarrow> arms (dv_telemetry dev)"
  using store_inv_find_unique [of st i dev] find_device_in [of st i dev] by (auto simp: mem_armed_ids)

lemma update_telemetry_inv:
  assumes inv: "svc_inv st" and ok: "update_telemetry i n st = Inr st'"
  shows "svc_inv st'"
proof -
  obtain dev where fd: "find_device st i = Some dev"
    and st': "st' = ensure_timer (saved_row (dev\<lparr>dv_telemetry := n\<rparr>) st) (save_device (dev\<lparr>dv_telemetry := n\<rparr>) st)"
    using ok by (auto simp: update_telemetry_def Let_def split: if_splits option.splits)
  let ?d = "dev\<lparr>dv_telemetry := n\<rparr>"
  have si: "store_inv st" "sched_core st" "interval_ids st = armed_ids (sv_devices st)"
    using inv by (simp_all add: svc_inv_def sched_inv_def)
  have di: "dv_id ?d = i" using find_device_in [OF fd] by simp
  have fd': "find_device st (dv_id ?d) = Some dev" using fd di by simp
  have keys: "map dev_key (sv_devices (save_device ?d st)) = map dev_key (sv_devices st)"
    using save_device_keys [OF si(1) fd'] by (simp add: dev_key_def)
  have s1: "store_inv (save_device ?d st)"
    using store_frame_keys [OF keys] si(1) by simp
  have c1: "sched_core (save_device ?d st) \<and> interval_ids (save_device ?d st) = interval_ids st"
    using sched_frame [of "save_device ?d st" st] si(2) by simp
  have "sched_core st' \<and> interval_ids st' = interval_ids st - {i} \<union> (if arms n then {i} else {})"
    using ensure_timer_core [of "save_device ?d st" "saved_row ?d st"] c1 di by (simp add: st' saved_row_def)
  moreover have "armed_ids (sv_devices st') = armed_ids (sv_devices st) - {i} \<union> (if arms n then {i} else {})"
    using armed_ids_replace [OF si(1) fd'] di by (simp add: st')
  moreover have "store_inv st'" using s1 store_frame [of st' "save_device ?d st"] by (simp add: st')
  ultimately show ?thesis using si(3) by (simp add: svc_inv_def sched_inv_def)
qed

lemma patch_device_keeps [simp]:
  "dv_id (patch_device b dev) = dv_id dev" "dv_type (patch_device b dev) = dv_type dev"
  "dv_slug (patch_device b dev) = dv_slug dev" "dv_telemetry (patch_device b dev) = dv_telemetry dev"
  by (simp_all add: patch_device_def Let_def split: option.splits jval.splits)

lemma update_device_inv:
  assumes inv: "svc_inv st" and ok: "update_device i b st = Inr st'"
  shows "svc_inv st'"
proof -
  obtain dev where fd: "find_device st i = Some dev"
    and st': "st' = svc_gw (emit_device_updated (JObj (device_json (saved_row (patch_device b dev) st))))
                 (publish_discovery_if_enabled (saved_row (patch_device b dev) st) (save_device (patch_device b dev) st))"
    using ok by (auto simp: update_device_def Let_def split: option.splits)
  let ?d = "patch_device b dev"
  have si: "store_inv st" using inv by (simp add: svc_inv_def)
  have di: "dv_id ?d = i" using find_device_in [OF fd] by simp
  have fd': "find_device st (dv_id ?d) = Some dev" using fd di by simp
  have keys: "map dev_key (sv_devices st') = map dev_key (sv_devices st)"
    using save_device_keys [OF si fd'] by (simp add: dev_key_def st')
  have "armed_ids (sv_devices st') = armed_ids (sv_devices st)"
    using armed_ids_replace [OF si fd'] armed_ids_find [OF si fd] di by (auto simp: st')
  then show ?thesis using svc_inv_frame [OF inv keys] by (simp add: st')
qed

lemma svc_inv_effects [intro]:
  "svc_inv st \<Longrightarrow> svc_inv (svc_publish t p r st)"
  "svc_inv st \<Longrightarrow> svc_inv (svc_gw f st)"
  "svc_inv st \<Longrightarrow> svc_inv (publish_discovery_if_enabled d st)"
  "svc_inv st \<Longrightarrow> svc_inv (update_state i x st)"
  by (rule svc_inv_frame; simp)+

lemma refresh_discovery_inv:
  "svc_inv st \<Longrightarrow> refresh_discovery i st = Inr st' \<Longrightarrow> svc_inv st'"
  by (auto simp: refresh_discovery_def split: option.splits)

lemma apply_command_inv:
  "svc_inv st \<Longrightarrow> apply_command i ty c st = Inr st' \<Longrightarrow> svc_inv st'"
  by (cases "get_state st i"; cases "find_device st i")
     (auto simp: apply_command_def Let_def ebind_eq_Inr intro!: svc_inv_effects)

lemma heartbeat_tick_inv:
  "svc_inv st \<Longrightarrow> heartbeat_tick d rd rn st = Inr st' \<Longrightarrow> svc_inv st'"
  by (auto simp: heartbeat_tick_def Let_def ebind_eq_Inr split: option.splits prod.splits intro!: svc_inv_effects)


lemma map_fst_alist_delete: "map fst (AList.delete k xs) = filter (\<lambda>x. x \<noteq> k) (map fst xs)"
  by (induction xs) auto

lemma delete_device_store:
  assumes "store_inv st" shows "store_inv (delete_device i st)"
proof -
  have "distinct (filter (\<lambda>x. x \<noteq> i) (map fst (sv_states st)))"
    using assms by (simp add: store_inv_def)
  then show ?thesis using assms
    by (auto simp: store_inv_def delete_device_def map_fst_alist_delete distinct_map_filter)
qed

lemma armed_ids_filter: "armed_ids (filter (\<lambda>d. dv_id d \<noteq> i) xs) = armed_ids xs - {i}"
  by (auto simp: armed_ids_def)

lemma remove_device_inv:
  assumes inv: "svc_inv st" and ok: "remove_device i st = Inr st'"
  shows "svc_inv st'"
proof -
  obtain dev where fd: "find_device st i = Some dev"
    and st': "st' = svc_gw (emit_device_deleted i (dv_type dev)) (delete_device i (clear_discovery dev
                 (svc_publish (topic_status (sv_ns st) (dv_type dev) i) (PStr []) (Some True)
                 (svc_publish (topic_state (sv_ns st) (dv_type dev) i) (PStr []) (Some True) (clear_timer i st)))))"
    using ok by (auto simp: remove_device_def Let_def split: option.splits)
  define st3 where "st3 = clear_discovery dev
                 (svc_publish (topic_status (sv_ns st) (dv_type dev) i) (PStr []) (Some True)
                 (svc_publish (topic_state (sv_ns st) (dv_type dev) i) (PStr []) (Some True) (clear_timer i st)))"
  have si: "store_inv st" "sched_core st" "interval_ids st = armed_ids (sv_devices st)"
    using inv by (simp_all add: svc_inv_def sched_inv_def)
  have "store_inv st3" using store_frame [of st3 st] si(1) by (simp add: st3_def)
  then have "store_inv (delete_device i st3)" by (rule delete_device_store)
  moreover have "store_inv st' = store_inv (delete_device i st3)"
    by (rule store_frame) (simp_all add: st' st3_def)
  ultimately have s: "store_inv st'" by simp
  have c0: "sched_core (clear_timer i st) \<and> interval_ids (clear_timer i st) = interval_ids st - {i}"
    using clear_timer_core [OF si(2)] .
  have "sched_core st' = sched_core (clear_timer i st) \<and> interval_ids st' = interval_ids (clear_timer i st)"
    by (rule sched_frame) (simp_all add: st' delete_device_def)
  moreover have "sv_devices st' = filter (\<lambda>d. dv_id d \<noteq> i) (sv_devices st)"
    by (simp add: st' delete_device_def)
  ultimately show ?thesis using c0 s si(3) armed_ids_filter by (simp add: svc_inv_def sched_inv_def)
qed

lemma fold_ensure_timer:
  "sched_core st \<Longrightarrow> \<forall>d \<in> set ds. arms (dv_telemetry d) \<Longrightarrow>
   sched_core (fold ensure_timer ds st) \<and> interval_ids (fold ensure_timer ds st) = interval_ids st \<union> dv_id ` set ds \<and>
   sv_devices (fold ensure_timer ds st) = sv_devices st \<and> sv_states (fold ensure_timer ds st) = sv_states st \<and>
   sv_uuid (fold ensure_timer ds st) = sv_uuid st"
proof (induction ds arbitrary: st)
  case (Cons d ds)
  have "sched_core (ensure_timer d st) \<and> interval_ids (ensure_timer d st) = interval_ids st \<union> {dv_id d}"
    using ensure_timer_core [OF Cons.prems(1), of d] Cons.prems(2) by auto
  then show ?case using Cons.IH [of "ensure_timer d st"] Cons.prems(2) by auto
qed simp

lemma svc_init_inv:
  assumes "store_inv st" "sv_timers st = []" "sv_intervals st = []"
  shows "svc_inv (svc_init st)"
proof -
  let ?st0 = "st\<lparr>sv_mqtt := mqtt_on_command (mqtt_subscribe_wildcard (sv_mqtt st))\<rparr>"
  let ?ds = "filter (\<lambda>d. arms (dv_telemetry d)) (sv_devices st)"
  have c0: "sched_core ?st0" "interval_ids ?st0 = {}" using assms(2,3) by (simp_all add: sched_core_def interval_ids_def)
  note f = fold_ensure_timer [OF c0(1), of ?ds]
  have "armed_ids (sv_devices st) = dv_id ` set ?ds" by (auto simp: armed_ids_def)
  moreover have "store_inv (svc_init st)" using f assms(1) store_frame [of "svc_init st" st] by (simp add: svc_init_def)
  ultimately show ?thesis using f c0(2) by (simp add: svc_init_def svc_inv_def sched_inv_def)
qed

lemma create_device_inv:
  assumes inv: "svc_inv st" and ok: "create_device ty name slug caps tpl st = Inr (r, st')"
  shows "svc_inv st'"
proof (cases "create_prepare ty name slug caps tpl st")
  case (Inl e) then show ?thesis using ok by (simp add: create_device_def)
next
  case (Inr x)
  show ?thesis
  proof (cases x)
    case (Inl a)
    obtain i s where "a = (i, s)" by (cases a)
    then show ?thesis using ok inv Inl Inr by (simp add: create_device_def)
  next
    case (Inr p)
    then have "create_commit p st = Inr (r, st')" using ok \<open>create_prepare ty name slug caps tpl st = Inr x\<close>
      by (simp add: create_device_def)
    then show ?thesis using create_commit_inv [OF inv] by blast
  qed
qed


lemma find_distinct_key:
  "distinct (map f xs) \<Longrightarrow> x \<in> set xs \<Longrightarrow> find (\<lambda>y. f y = f x) xs = Some x"
  by (induction xs) (auto simp: image_iff)

lemma ctl_create_inv:
  "svc_inv st \<Longrightarrow> ctl_create tpls ty name slug caps tid st = Inr (r, st') \<Longrightarrow> svc_inv st'"
  using create_device_inv
  by (auto simp: ctl_create_def Let_def split: if_splits option.splits prod.splits)

lemma svc_step_preserves:
  assumes inv: "svc_inv st" and ok: "svc_step tpls op st = Inr st'"
  shows "svc_inv st'"
proof (cases op)
  case (OpCreate ty name slug caps tid)
  then obtain r where "ctl_create tpls ty name slug caps tid st = Inr (r, st')"
    using ok by (auto simp: ebind_eq_Inr)
  then show ?thesis using ctl_create_inv [OF inv] by blast
next
  case (OpTelemetry i n) then show ?thesis using ok update_telemetry_inv [OF inv] by simp
next
  case (OpUpdate i b) then show ?thesis using ok update_device_inv [OF inv] by simp
next
  case (OpRefresh i) then show ?thesis using ok refresh_discovery_inv [OF inv] by simp
next
  case (OpRemove i) then show ?thesis using ok remove_device_inv [OF inv] by simp
next
  case (OpSend i c) then show ?thesis using ok apply_command_inv [OF inv]
    by (auto simp: send_by_id_def split: option.splits)
next
  case (OpMqtt t bs) then show ?thesis using ok inv apply_command_inv [OF inv]
    by (auto simp: route_message_def split: option.splits prod.splits sum.splits route_outcome.splits)
next
  case (OpFire h rd rn) then show ?thesis using ok inv heartbeat_tick_inv [OF inv]
    by (auto simp: timer_fire_def split: option.splits prod.splits sum.splits)
qed

lemma reach_svc_inv: "svc_reach tpls st \<Longrightarrow> svc_inv st"
proof (induction rule: svc_reach.induct)
  case (boot st) then show ?case by (rule svc_init_inv)
next
  case (step st op st') then show ?case using svc_step_preserves by blast
qed

text \<open>
  C3: in every state the running service reaches, a stored device has exactly one heartbeat interval when its telemetry interval arms a timer and none otherwise: creating, re-timing, updating, removing, commands and ticks never double-arm a device.
\<close>

theorem reach_single_heartbeat:
  assumes "svc_reach tpls st" "d \<in> set (sv_devices st)"
  shows "length (intervals_of st (dv_id d)) = (if arms (dv_telemetry d) then 1 else 0)"
  using reach_svc_inv [OF assms(1)] assms(2) sched_inv_intervals
  by (simp add: svc_inv_def store_inv_def)

text \<open>
  C9: in every reachable state, looking a stored device up by its id finds that device, and it has a state row, so \<open>applyCommand\<close> and the heartbeat never miss the state of a stored device.
\<close>

theorem reach_device_lookup:
  assumes "svc_reach tpls st" "d \<in> set (sv_devices st)"
  shows "find_device st (dv_id d) = Some d \<and> (\<exists>s. get_state st (dv_id d) = Some s)"
proof -
  have si: "store_inv st" using reach_svc_inv [OF assms(1)] by (simp add: svc_inv_def)
  have "distinct (map dv_id (sv_devices st))" using si by (simp add: store_inv_def)
  then have "find_device st (dv_id d) = Some d" using assms(2)
    by (simp add: find_device_def find_distinct_key)
  moreover have "dv_id d \<in> set (map fst (sv_states st))" using si assms(2) by (simp add: store_inv_def)
  then have "\<exists>s. get_state st (dv_id d) = Some s"
    by (auto simp: get_state_def intro: weak_map_of_SomeI)
  ultimately show ?thesis by blast
qed

lemma store_inv_demo: "store_inv demo_svc"
  by (simp add: store_inv_def demo_svc_def svc_new_def demo_device_def)

lemma reach_demo: "svc_reach tpls (svc_init demo_svc)"
  by (rule svc_reach.boot) (simp_all add: store_inv_demo, simp_all add: demo_svc_def svc_new_def)


lemma svc_init_demo_devices: "sv_devices (svc_init demo_svc) = [demo_device]"
  by (simp add: svc_init_def demo_svc_def svc_new_def demo_device_def)

theorem reach_device_lookup_witness:
  "svc_reach Map.empty (svc_init demo_svc) \<and> demo_device \<in> set (sv_devices (svc_init demo_svc)) \<and>
   find_device (svc_init demo_svc) (mk_uuid 0) = Some demo_device \<and> (\<exists>s. get_state (svc_init demo_svc) (mk_uuid 0) = Some s)"
proof -
  have d: "demo_device \<in> set (sv_devices (svc_init demo_svc))" by (simp add: svc_init_demo_devices)
  have i: "dv_id demo_device = mk_uuid 0" by (simp add: demo_device_def)
  show ?thesis using reach_device_lookup [OF reach_demo d] reach_demo d unfolding i by blast
qed

lemma demo_tel:
  "svc_step tpls (OpTelemetry (mk_uuid 0) (Fin 5)) (svc_init demo_svc) = Inr (projr (update_telemetry (mk_uuid 0) (Fin 5) (svc_init demo_svc)))"
  by (simp add: update_telemetry_def svc_init_def demo_svc_def svc_new_def demo_device_def find_device_def Let_def json_norm_obj_def)

lemma demo_tel_dev:
  "sv_devices (projr (update_telemetry (mk_uuid 0) (Fin 5) (svc_init demo_svc))) = [demo_device\<lparr>dv_telemetry := Fin 5\<rparr>]"
  by (simp add: update_telemetry_def svc_init_def demo_svc_def svc_new_def demo_device_def find_device_def
      save_device_def Let_def json_norm_obj_def)

theorem reach_single_heartbeat_witness:
  "svc_reach Map.empty (projr (update_telemetry (mk_uuid 0) (Fin 5) (svc_init demo_svc))) \<and>
   demo_device\<lparr>dv_telemetry := Fin 5\<rparr> \<in> set (sv_devices (projr (update_telemetry (mk_uuid 0) (Fin 5) (svc_init demo_svc)))) \<and>
   length (intervals_of (projr (update_telemetry (mk_uuid 0) (Fin 5) (svc_init demo_svc))) (mk_uuid 0)) = 1"
proof -
  have r: "svc_reach Map.empty (projr (update_telemetry (mk_uuid 0) (Fin 5) (svc_init demo_svc)))"
    by (rule svc_reach.step [OF reach_demo demo_tel])
  show ?thesis using reach_single_heartbeat [OF r, of "demo_device\<lparr>dv_telemetry := Fin 5\<rparr>"] r demo_tel_dev
    by (simp add: demo_device_def)
qed


lemma effect_mqtt [simp]:
  "sv_mqtt (delete_device i st) = sv_mqtt st" "sv_ns (delete_device i st) = sv_ns st"
  "mq_qos (mqtt_publish t p r m) = mq_qos m"
  by (simp_all add: delete_device_def mqtt_publish_def)

lemma interval_free: "i \<notin> interval_ids st \<Longrightarrow> intervals_of st i = []"
  by (force simp: intervals_of_def interval_ids_def filter_empty_conv)

text \<open>
  C10: removing a stored device succeeds; afterwards the device and its state row are gone, no heartbeat interval remains for it, and the broker received, in order, the empty retained tombstones for its state, status and discovery topics.
\<close>

theorem remove_device_retracts:
  assumes inv: "svc_inv st" and fd: "find_device st i = Some dev"
  shows "\<exists>st'. remove_device i st = Inr st' \<and> find_device st' i = None \<and> get_state st' i = None \<and>
           intervals_of st' i = [] \<and>
           mq_out (sv_mqtt st') = mq_out (sv_mqtt st) @
             map (\<lambda>t. \<lparr>msg_topic = t, msg_data = payload_data (PStr []), msg_retain = True, msg_qos = mq_qos (sv_mqtt st)\<rparr>)
               [topic_state (sv_ns st) (dv_type dev) i, topic_status (sv_ns st) (dv_type dev) i,
                topic_discovery (sv_ns st) (dv_type dev) i]"
proof -
  define st' where "st' = svc_gw (emit_device_deleted i (dv_type dev)) (delete_device i (clear_discovery dev
                 (svc_publish (topic_status (sv_ns st) (dv_type dev) i) (PStr []) (Some True)
                 (svc_publish (topic_state (sv_ns st) (dv_type dev) i) (PStr []) (Some True) (clear_timer i st)))))"
  have ok: "remove_device i st = Inr st'" using fd by (simp add: remove_device_def st'_def)
  have "svc_inv st'" using remove_device_inv [OF inv ok] .
  then have "sched_core st'" "interval_ids st' = armed_ids (sv_devices st')"
    by (simp_all add: svc_inv_def sched_inv_def)
  moreover have devs: "sv_devices st' = filter (\<lambda>d. dv_id d \<noteq> i) (sv_devices st)"
    by (simp add: st'_def delete_device_def)
  ultimately have "intervals_of st' i = []" using interval_free armed_ids_filter by simp
  moreover have "find_device st' i = None" using devs by (simp add: find_device_def find_None_iff)
  moreover have "get_state st' i = None"
    by (simp add: st'_def get_state_def delete_device_def delete_conv' clear_discovery_def svc_publish_def svc_gw_def)
  moreover have "mq_out (sv_mqtt st') = mq_out (sv_mqtt st) @
             map (\<lambda>t. \<lparr>msg_topic = t, msg_data = payload_data (PStr []), msg_retain = True, msg_qos = mq_qos (sv_mqtt st)\<rparr>)
               [topic_state (sv_ns st) (dv_type dev) i, topic_status (sv_ns st) (dv_type dev) i,
                topic_discovery (sv_ns st) (dv_type dev) i]"
    using find_device_in [OF fd] by (simp add: st'_def clear_discovery_def svc_publish_def mqtt_publish_def)
  ultimately show ?thesis using ok by blast
qed

lemma svc_inv_demo: "svc_inv demo_svc"
  using store_inv_demo by (simp add: svc_inv_def sched_inv_def sched_core_def interval_ids_def armed_ids_def
      demo_svc_def svc_new_def demo_device_def)

theorem remove_device_retracts_witness:
  "svc_inv demo_svc \<and> find_device demo_svc (mk_uuid 0) = Some demo_device \<and>
   (\<exists>st'. remove_device (mk_uuid 0) demo_svc = Inr st' \<and> find_device st' (mk_uuid 0) = None \<and>
      get_state st' (mk_uuid 0) = None \<and> intervals_of st' (mk_uuid 0) = [] \<and>
      mq_out (sv_mqtt st') =
        map (\<lambda>t. \<lparr>msg_topic = t, msg_data = [], msg_retain = True, msg_qos = Fin 1\<rparr>)
          [topic_state ''sim'' ''switch'' (mk_uuid 0), topic_status ''sim'' ''switch'' (mk_uuid 0),
           topic_discovery ''sim'' ''switch'' (mk_uuid 0)])"
proof -
  have fd: "find_device demo_svc (mk_uuid 0) = Some demo_device"
    by (simp add: find_device_def demo_svc_def demo_device_def)
  have e: "mq_out (sv_mqtt demo_svc) = []" "sv_ns demo_svc = ''sim''" "mq_qos (sv_mqtt demo_svc) = Fin 1"
    "dv_type demo_device = ''switch''" "payload_data (PStr []) = []"
    by (simp_all add: demo_svc_def svc_new_def demo_device_def mqtt_on_command_def mqtt_new_def cfg_get_def payload_data_def)
  show ?thesis using remove_device_retracts [OF svc_inv_demo fd] svc_inv_demo fd unfolding e by simp
qed





lemma has_kind_get: "has_kind ty \<Longrightarrow> \<exists>r. get_kind ty = Inr r"
  by (auto simp: has_kind_def get_kind_def)

text \<open>
  C7: \<open>createDevice\<close> with a non-empty slug already taken by a device of that type returns the existing device flagged as existed and changes nothing (idempotent create).
\<close>

theorem create_device_existing:
  assumes "has_kind ty" "s \<noteq> []" "find_type_slug st ty s = Some ex"
  shows "create_device ty name (Some s) caps tpl st = Inr (CrExisted (dv_id ex) s, st)"
  using has_kind_get [OF assms(1)] assms(2,3)
  by (auto simp: create_device_def create_prepare_def slug_given_def)

theorem create_device_existing_witness:
  "has_kind ''switch'' \<and> ''lamp'' \<noteq> [] \<and> find_type_slug demo_svc ''switch'' ''lamp'' = Some demo_device \<and>
   create_device ''switch'' ''Kitchen'' (Some ''lamp'') None None demo_svc = Inr (CrExisted (mk_uuid 0) ''lamp'', demo_svc)"
proof -
  have h: "has_kind ''switch''" by code_simp
  have f: "find_type_slug demo_svc ''switch'' ''lamp'' = Some demo_device"
    by (simp add: find_type_slug_def demo_svc_def demo_device_def)
  show ?thesis using create_device_existing [OF h _ f] h f by (simp add: demo_device_def)
qed

lemma mem_slug_case: "z \<in> set (case v of Some s \<Rightarrow> [s] | None \<Rightarrow> []) \<longleftrightarrow> v = Some z"
  by (cases v) auto

lemma mem_concat_slugs:
  "z \<in> set (concat (map (\<lambda>d. if dv_type d = ty then (case dv_slug d of Some s \<Rightarrow> [s] | None \<Rightarrow> []) else []) xs)) \<longleftrightarrow>
   (\<exists>x \<in> set xs. dv_type x = ty \<and> dv_slug x = Some z)"
  by (auto simp: mem_slug_case split: if_splits) (use IntI in fastforce)

lemma mem_taken_slugs:
  "s \<in> set (taken_slugs st ty) \<longleftrightarrow> (\<exists>x \<in> set (sv_devices st). dv_type x = ty \<and> dv_slug x = Some s)"
  unfolding taken_slugs_def by (rule mem_concat_slugs)

lemma insert_new_device:
  "insert_device (new_device st ty n s c t tel) st =
     (if s \<in> set (taken_slugs st ty) then Inl UniqueViolation
      else Inr (new_device st ty n s c t tel, st\<lparr>sv_devices := sv_devices st @ [new_device st ty n s c t tel], sv_uuid := Suc (sv_uuid st)\<rparr>))"
  by (auto simp: insert_device_def new_device_def mem_taken_slugs)

lemma create_auto:
  assumes inv: "svc_inv st" and k: "get_kind ty = Inr (KindRef k)"
  shows "\<exists>st'. create_device ty name None caps tpl st =
           Inr (CrCreated (new_device st ty name (probe_slug (taken_slugs st ty) (to_slug name))
                             (js_spread (kind_capabilities k) (case caps of None \<Rightarrow> [] | Some c \<Rightarrow> c)) tpl
                             (kind_default_telemetry k))
                          (kind_default_state k (js_spread (kind_capabilities k) (case caps of None \<Rightarrow> [] | Some c \<Rightarrow> c))), st') \<and>
           svc_inv st'"
proof -
  let ?fs = "probe_slug (taken_slugs st ty) (to_slug name)"
  let ?c = "js_spread (kind_capabilities k) (case caps of None \<Rightarrow> [] | Some c \<Rightarrow> c)"
  let ?p = "\<lparr>cp_kind = k, cp_type = ty, cp_name = name, cp_given = False, cp_slug = ?fs, cp_caps = ?c,
             cp_tpl = tpl, cp_tel = kind_default_telemetry k\<rparr>"
  let ?d = "new_device st ty name ?fs ?c tpl (kind_default_telemetry k)"
  let ?st1 = "st\<lparr>sv_devices := sv_devices st @ [?d], sv_uuid := Suc (sv_uuid st)\<rparr>"
  have pr: "create_prepare ty name None caps tpl st = Inr (Inr ?p)"
    using k by (simp add: create_prepare_def slug_given_def js_lift_def ref_capabilities_def)
  have ins: "insert_device ?d st = Inr (?d, ?st1)"
    using probe_slug_free by (simp add: insert_new_device)
  have "create_loop (\<lambda>s. insert_device (new_device st ty name s ?c tpl (kind_default_telemetry k)) st) False (to_slug name) 0 ?fs
          = Inr (?d, ?st1)"
    using ins by (simp add: create_loop.simps)
  then have cc: "create_commit ?p st = Inr (create_finish ?p ?d ?st1)" by (simp add: create_commit_def)
  then have cd: "create_device ty name None caps tpl st = Inr (create_finish ?p ?d ?st1)"
    using pr by (simp add: create_device_def)
  moreover have "fst (create_finish ?p ?d ?st1) = CrCreated ?d (kind_default_state k ?c)"
    by (simp add: create_finish_def Let_def)
  ultimately show ?thesis using create_device_inv [OF inv, of ty name None caps tpl] by (metis prod.collapse)
qed


text \<open>
  C4: an HTTP create with a template of the requested type and no slug succeeds on a consistent
  store at the first insert: the device gets the probed slug, the next uuid, the template id, and
  the capabilities kind defaults, overridden by the template's, overridden by the caller's; its
  state is the kind default state of these capabilities, and the invariant holds afterwards.
\<close>

theorem ctl_create_template:
  assumes inv: "svc_inv st" and k: "get_kind ty = Inr (KindRef k)" and t: "tpls tid = Some (ty, tc)" "tid \<noteq> []"
  shows "\<exists>st'. ctl_create tpls ty name None caps (Some tid) st =
           Inr (CrCreated (new_device st ty name (probe_slug (taken_slugs st ty) (to_slug name))
                             (js_spread (kind_capabilities k)
                                (js_spread (case tc of None \<Rightarrow> [] | Some c \<Rightarrow> c) (case caps of None \<Rightarrow> [] | Some c \<Rightarrow> c)))
                             (Some tid) (kind_default_telemetry k))
                          (kind_default_state k (js_spread (kind_capabilities k)
                                (js_spread (case tc of None \<Rightarrow> [] | Some c \<Rightarrow> c) (case caps of None \<Rightarrow> [] | Some c \<Rightarrow> c)))), st') \<and>
           svc_inv st'"
  using create_auto [OF inv k, of name "Some (js_spread (case tc of None \<Rightarrow> [] | Some c \<Rightarrow> c) (case caps of None \<Rightarrow> [] | Some c \<Rightarrow> c))"
      "Some tid"] t
  by (simp add: ctl_create_def slug_given_def)

theorem ctl_create_template_witness:
  "svc_inv demo_svc \<and> get_kind ''switch'' = Inr (KindRef Switch) \<and> wall_templates ''wall'' = Some (''switch'', Some [(''label'', JStr ''Wall'')]) \<and>
   (\<exists>st'. ctl_create wall_templates ''switch'' ''Lamp'' None (Some [(''label'', JStr ''Hall'')]) (Some ''wall'') demo_svc =
      Inr (CrCreated (new_device demo_svc ''switch'' ''Lamp'' ''lamp-2''
                        (js_spread (kind_capabilities Switch) (js_spread [(''label'', JStr ''Wall'')] [(''label'', JStr ''Hall'')]))
                        (Some ''wall'') (kind_default_telemetry Switch))
                     (kind_default_state Switch (js_spread (kind_capabilities Switch)
                        (js_spread [(''label'', JStr ''Wall'')] [(''label'', JStr ''Hall'')]))), st') \<and> svc_inv st')"
proof -
  have k: "get_kind ''switch'' = Inr (KindRef Switch)" by code_simp
  have p: "probe_slug (taken_slugs demo_svc ''switch'') (to_slug ''Lamp'') = ''lamp-2''"
    by (simp add: taken_slugs_def demo_svc_def demo_device_def) code_simp
  have w: "wall_templates ''wall'' = Some (''switch'', Some [(''label'', JStr ''Wall'')])"
    by (simp add: wall_templates_def)
  show ?thesis using ctl_create_template [of demo_svc "''switch''" Switch wall_templates "''wall''",
      OF svc_inv_demo k w, of "''Lamp''" "Some [(''label'', JStr ''Hall'')]"] svc_inv_demo k w
    unfolding p by simp
qed

text \<open>The retry loop after a unique violation on an auto-derived slug.\<close>

lemma create_loop_taken:
  assumes "a \<le> 5" "save fs = Inl UniqueViolation"
    "\<forall>j. a + 2 \<le> j \<and> j \<le> 6 \<longrightarrow> save (suffixed base j) = Inl UniqueViolation"
  shows "create_loop save False base a fs =
           Inl (Conflict (''Could not allocate unique slug for base '' @ [CHR 0x27] @
                          (if a = 5 then fs else suffixed base 6) @ [CHR 0x27]))"
  using assms
proof (induction "5 - a" arbitrary: a fs)
  case 0 then show ?case by (simp add: create_loop.simps)
next
  case (Suc n)
  have "create_loop save False base (Suc a) (suffixed base (Suc a + 1)) =
          Inl (Conflict (''Could not allocate unique slug for base '' @ [CHR 0x27] @
                          (if Suc a = 5 then suffixed base (Suc a + 1) else suffixed base 6) @ [CHR 0x27]))"
    using Suc by (intro Suc.hyps) auto
  moreover have "Suc a = 5 \<Longrightarrow> suffixed base (Suc a + 1) = suffixed base 6" by simp
  ultimately show ?case using Suc by (simp add: create_loop.simps)
qed

text \<open>
  C17: when the probed slug was taken by a concurrent create and the suffixes 2 to 6 are taken, the retry loop fails with the conflict error, naming the last candidate, although a larger suffix is free: the retries restart at suffix 2 instead of continuing the probe.
\<close>

theorem create_commit_race_conflict:
  assumes "\<not> cp_given p" "cp_slug p \<in> set (taken_slugs st (cp_type p))"
    "\<forall>j \<in> set [2..<7]. suffixed (to_slug (cp_name p)) j \<in> set (taken_slugs st (cp_type p))"
  shows "create_commit p st =
           Inl (Conflict (''Could not allocate unique slug for base '' @ [CHR 0x27] @ suffixed (to_slug (cp_name p)) 6 @ [CHR 0x27]))"
proof -
  have "create_loop (\<lambda>s. insert_device (new_device st (cp_type p) (cp_name p) s (cp_caps p) (cp_tpl p) (cp_tel p)) st)
          False (to_slug (cp_name p)) 0 (cp_slug p) =
        Inl (Conflict (''Could not allocate unique slug for base '' @ [CHR 0x27] @
                       (if (0::nat) = 5 then cp_slug p else suffixed (to_slug (cp_name p)) 6) @ [CHR 0x27]))"
  proof (rule create_loop_taken)
    show "\<forall>j. 0 + 2 \<le> j \<and> j \<le> 6 \<longrightarrow>
      insert_device (new_device st (cp_type p) (cp_name p) (suffixed (to_slug (cp_name p)) j) (cp_caps p) (cp_tpl p) (cp_tel p)) st =
      Inl UniqueViolation"
      using assms(3) unfolding set_upt by (auto simp: insert_new_device)
  qed (use assms(2) in \<open>simp_all add: insert_new_device\<close>)
  then show ?thesis using assms(1) by (simp add: create_commit_def)
qed

theorem create_commit_race_conflict_witness:
  "create_prepare ''switch'' ''Lamp'' None None None (lamp_store 6) =
     Inr (Inr \<lparr>cp_kind = Switch, cp_type = ''switch'', cp_name = ''Lamp'', cp_given = False, cp_slug = ''lamp-7'',
               cp_caps = kind_capabilities Switch, cp_tpl = None, cp_tel = kind_default_telemetry Switch\<rparr>) \<and>
   ''lamp-8'' \<notin> set (taken_slugs (lamp_store 7) ''switch'') \<and>
   create_commit \<lparr>cp_kind = Switch, cp_type = ''switch'', cp_name = ''Lamp'', cp_given = False, cp_slug = ''lamp-7'',
               cp_caps = kind_capabilities Switch, cp_tpl = None, cp_tel = kind_default_telemetry Switch\<rparr> (lamp_store 7) =
     Inl (Conflict (''Could not allocate unique slug for base '' @ [CHR 0x27] @ ''lamp-6'' @ [CHR 0x27]))"
proof -
  let ?p = "\<lparr>cp_kind = Switch, cp_type = ''switch'', cp_name = ''Lamp'', cp_given = False, cp_slug = ''lamp-7'',
               cp_caps = kind_capabilities Switch, cp_tpl = None, cp_tel = kind_default_telemetry Switch\<rparr>"
  have a: "cp_slug ?p \<in> set (taken_slugs (lamp_store 7) (cp_type ?p))"
    "\<forall>j \<in> set [2..<7]. suffixed (to_slug (cp_name ?p)) j \<in> set (taken_slugs (lamp_store 7) (cp_type ?p))"
    by code_simp+
  have m: "suffixed (to_slug (cp_name ?p)) 6 = ''lamp-6''" by code_simp
  have "create_prepare ''switch'' ''Lamp'' None None None (lamp_store 6) = Inr (Inr ?p)" by code_simp
  moreover have "''lamp-8'' \<notin> set (taken_slugs (lamp_store 7) ''switch'')" by code_simp
  moreover have "create_commit ?p (lamp_store 7) =
                   Inl (Conflict (''Could not allocate unique slug for base '' @ [CHR 0x27] @ ''lamp-6'' @ [CHR 0x27]))"
  proof -
    have "create_commit ?p (lamp_store 7) =
            Inl (Conflict (''Could not allocate unique slug for base '' @ [CHR 0x27] @ suffixed (to_slug (cp_name ?p)) 6 @ [CHR 0x27]))"
      by (rule create_commit_race_conflict [OF _ a]) simp
    then show ?thesis by (simp only: m)
  qed
  ultimately show ?thesis by blast
qed

text \<open>
  C18: a caller-supplied slug taken between the existence check and the insert surfaces as the store unique-violation error, not as a conflict error.
\<close>

theorem create_commit_given_race:
  assumes "cp_given p" "cp_slug p \<in> set (taken_slugs st (cp_type p))"
  shows "create_commit p st = Inl UniqueViolation"
  using assms by (simp add: create_commit_def create_loop.simps insert_new_device)

theorem create_commit_given_race_witness:
  "create_prepare ''switch'' ''Lamp'' (Some ''lamp-7'') None None (lamp_store 6) =
     Inr (Inr \<lparr>cp_kind = Switch, cp_type = ''switch'', cp_name = ''Lamp'', cp_given = True, cp_slug = ''lamp-7'',
               cp_caps = kind_capabilities Switch, cp_tpl = None, cp_tel = kind_default_telemetry Switch\<rparr>) \<and>
   create_commit \<lparr>cp_kind = Switch, cp_type = ''switch'', cp_name = ''Lamp'', cp_given = True, cp_slug = ''lamp-7'',
               cp_caps = kind_capabilities Switch, cp_tpl = None, cp_tel = kind_default_telemetry Switch\<rparr> (lamp_store 7) =
     Inl UniqueViolation"
proof -
  let ?p = "\<lparr>cp_kind = Switch, cp_type = ''switch'', cp_name = ''Lamp'', cp_given = True, cp_slug = ''lamp-7'',
               cp_caps = kind_capabilities Switch, cp_tpl = None, cp_tel = kind_default_telemetry Switch\<rparr>"
  have a: "cp_slug ?p \<in> set (taken_slugs (lamp_store 7) (cp_type ?p))" by code_simp
  have "create_prepare ''switch'' ''Lamp'' (Some ''lamp-7'') None None (lamp_store 6) = Inr (Inr ?p)" by code_simp
  moreover have "create_commit ?p (lamp_store 7) = Inl UniqueViolation"
    by (rule create_commit_given_race [OF _ a]) simp
  ultimately show ?thesis by blast
qed

text \<open>
  C35: with discovery disabled, \<open>refreshDiscovery\<close> of a stored device publishes nothing and leaves the state unchanged.
\<close>

theorem refresh_discovery_disabled:
  "\<not> sv_discovery st \<Longrightarrow> find_device st i = Some d \<Longrightarrow> refresh_discovery i st = Inr st"
  by (simp add: refresh_discovery_def publish_discovery_if_enabled_def)

theorem refresh_discovery_disabled_witness:
  "\<not> sv_discovery (demo_svc\<lparr>sv_discovery := False\<rparr>) \<and>
   find_device (demo_svc\<lparr>sv_discovery := False\<rparr>) (mk_uuid 0) = Some demo_device \<and>
   refresh_discovery (mk_uuid 0) (demo_svc\<lparr>sv_discovery := False\<rparr>) = Inr (demo_svc\<lparr>sv_discovery := False\<rparr>)"
proof -
  have "find_device (demo_svc\<lparr>sv_discovery := False\<rparr>) (mk_uuid 0) = Some demo_device"
    by (simp add: find_device_def demo_svc_def demo_device_def)
  then show ?thesis using refresh_discovery_disabled [of "demo_svc\<lparr>sv_discovery := False\<rparr>"] by simp
qed

text \<open>
  C39: setting a telemetry interval longer than 2^31-1 milliseconds installs an interval whose Node.js delay is 1 millisecond.
\<close>

theorem update_telemetry_long_interval:
  assumes "find_device st i = Some dev" "timeout_max < r * 1000"
  shows "\<exists>st'. update_telemetry i (Fin r) st = Inr st' \<and>
           last (sv_intervals st') = (sv_next_handle st, saved_row (dev\<lparr>dv_telemetry := Fin r\<rparr>) st, 1)"
proof -
  have r: "0 < r" using assms(2) by (simp add: timeout_max_def)
  have nd: "node_delay (num_mul (Fin r) (Fin 1000)) = 1" using assms(2) by (auto simp: node_delay_def)
  have di: "dv_id dev = i" using find_device_in [OF assms(1)] by simp
  show ?thesis using assms(1) r nd di
    by (simp add: update_telemetry_def ensure_timer_def Let_def saved_row_def)
qed

theorem update_telemetry_long_interval_witness:
  "find_device demo_svc (mk_uuid 0) = Some demo_device \<and> timeout_max < 2592000 * 1000 \<and>
   (\<exists>st'. update_telemetry (mk_uuid 0) (Fin 2592000) demo_svc = Inr st' \<and>
      last (sv_intervals st') = (1, saved_row (demo_device\<lparr>dv_telemetry := Fin 2592000\<rparr>) demo_svc, 1))"
proof -
  have fd: "find_device demo_svc (mk_uuid 0) = Some demo_device"
    by (simp add: find_device_def demo_svc_def demo_device_def)
  have t: "timeout_max < 2592000 * 1000" by (simp add: timeout_max_def)
  have h: "sv_next_handle demo_svc = 1" by (simp add: demo_svc_def svc_new_def)
  show ?thesis using update_telemetry_long_interval [OF fd t] fd t unfolding h by simp
qed

end
