(* ===== verification/ImportExport.thy ===== *)
theory ImportExport
  imports Lifecycle
begin

text \<open>
  Bulk export and import of \<open>DevicesService\<close> (\<open>devices.service.ts\<close>, lines
  357-479, \<open>exportAll\<close> and \<open>importAll\<close>; the entry type \<open>ExportedDevice\<close> of
  \<open>dto/import.dto.ts\<close>). An import entry is the record \<open>exp_dev\<close> of the fields the
  service reads; \<open>entry_of\<close> reads it from a JSON object, and is \<open>None\<close> when a field
  has a JSON type other than the one \<open>ExportedDevice\<close> declares (such payloads are
  outside the model). The per-entry work of the second loop is \<open>import_entry\<close>: it
  fails with the error and the store as it was when the error was thrown, so the
  effects of the steps before the failure are kept, as in the code, where the
  \<open>catch\<close> only counts the error. \<open>import_all\<close> runs the key-collecting first
  loop, the second loop and the \<open>replaceAll\<close> deletion.
\<close>

subsection \<open>Export\<close>

definition export_state :: "svc \<Rightarrow> device \<Rightarrow> jobj" where
  "export_state st d = (case get_state st (dv_id d) of Some s \<Rightarrow> s | None \<Rightarrow> [])"

definition export_device :: "svc \<Rightarrow> device \<Rightarrow> jval" where
  "export_device st d =
     JObj (js_obj_lit
       [(''id'', Some (JStr (dv_id d))), (''type'', Some (JStr (dv_type d))), (''name'', Some (JStr (dv_name d))),
        (''slug'', map_option JStr (dv_slug d)), (''templateId'', map_option JStr (dv_template d)),
        (''capabilities'', Some (JObj (dv_caps d))), (''telemetryIntervalSec'', Some (JNum (dv_telemetry d))),
        (''state'', Some (JObj (export_state st d))),
        (''createdAt'', Some (JStr (dv_created d))), (''updatedAt'', Some (JStr (dv_updated d))),
        (''topics'', Some (JObj [(''cmd'', JStr (topic_cmd (sv_ns st) (dv_type d) (dv_id d))),
                                (''state'', JStr (topic_state (sv_ns st) (dv_type d) (dv_id d))),
                                (''status'', JStr (topic_status (sv_ns st) (dv_type d) (dv_id d))),
                                (''discovery'', JStr (topic_discovery (sv_ns st) (dv_type d) (dv_id d)))]))])"

definition export_all :: "svc \<Rightarrow> string \<Rightarrow> jval" where
  "export_all st now =
     JObj [(''version'', jn 1), (''exportedAt'', JStr now), (''namespace'', JStr (sv_ns st)),
           (''count'', jn (of_nat (length (sv_devices st)))),
           (''devices'', JArr (map (export_device st) (sv_devices st)))]"

subsection \<open>Import entries and payload\<close>

text \<open>\<open>ExportedDevice\<close>: \<open>ed_tpl\<close> is \<open>None\<close> for \<open>undefined\<close>, \<open>Some None\<close> for
  \<open>null\<close>; \<open>ed_tel\<close> is the value when \<open>typeof telemetryIntervalSec === 'number'\<close>.\<close>

record exp_dev =
  ed_id :: "string option"
  ed_type :: "string option"
  ed_name :: string
  ed_slug :: "string option"
  ed_tpl :: "string option option"
  ed_caps :: "jobj option"
  ed_tel :: "jnum option"
  ed_state :: "jobj option"

definition str_field :: "jobj \<Rightarrow> string \<Rightarrow> string option option" where
  "str_field o' k = (case js_get o' k of None \<Rightarrow> Some None | Some (JStr s) \<Rightarrow> Some (Some s) | Some _ \<Rightarrow> None)"

definition obj_field :: "jobj \<Rightarrow> string \<Rightarrow> jobj option option" where
  "obj_field o' k = (case js_get o' k of None \<Rightarrow> Some None | Some (JObj x) \<Rightarrow> Some (Some x) | Some _ \<Rightarrow> None)"

definition tpl_field :: "jobj \<Rightarrow> string option option option" where
  "tpl_field o' = (case js_get o' ''templateId'' of None \<Rightarrow> Some None | Some JNull \<Rightarrow> Some (Some None)
                    | Some (JStr s) \<Rightarrow> Some (Some (Some s)) | Some _ \<Rightarrow> None)"

definition num_field :: "jobj \<Rightarrow> string \<Rightarrow> jnum option" where
  "num_field o' k = (case js_get o' k of Some (JNum n) \<Rightarrow> Some n | _ \<Rightarrow> None)"

definition entry_of :: "jval \<Rightarrow> exp_dev option" where
  "entry_of v =
     (case v of
        JObj o' \<Rightarrow>
          (case (str_field o' ''id'', str_field o' ''type'', js_get o' ''name'', str_field o' ''slug'', tpl_field o',
                 obj_field o' ''capabilities'', obj_field o' ''state'') of
             (Some i, Some t, Some (JStr n), Some s, Some tp, Some c, Some x) \<Rightarrow>
               Some \<lparr>ed_id = i, ed_type = t, ed_name = n, ed_slug = s, ed_tpl = tp, ed_caps = c,
                     ed_tel = num_field o' ''telemetryIntervalSec'', ed_state = x\<rparr>
           | _ \<Rightarrow> None)
      | _ \<Rightarrow> None)"

text \<open>\<open>ImportPayloadDto\<close>: \<open>ip_devices\<close> is \<open>None\<close> when \<open>payload.devices\<close> is no array.\<close>

record imp_payload =
  ip_devices :: "exp_dev list option"
  ip_replace :: bool

definition payload_of :: "jval \<Rightarrow> imp_payload option" where
  "payload_of v =
     (case v of
        JObj o' \<Rightarrow>
          (case js_get o' ''devices'' of
             Some (JArr xs) \<Rightarrow>
               map_option (\<lambda>es. \<lparr>ip_devices = Some es, ip_replace = js_truthy (js_get o' ''replaceAll'')\<rparr>)
                 (those (map entry_of xs))
           | _ \<Rightarrow> Some \<lparr>ip_devices = None, ip_replace = js_truthy (js_get o' ''replaceAll'')\<rparr>)
      | _ \<Rightarrow> Some \<lparr>ip_devices = None, ip_replace = False\<rparr>)"

subsection \<open>The report\<close>

datatype imp_detail = DError exp_dev string | DAction string string

record imp_report =
  rp_created :: nat
  rp_updated :: nat
  rp_unchanged :: nat
  rp_deleted :: nat
  rp_errors :: nat
  rp_details :: "imp_detail list"

definition empty_report :: imp_report where
  "empty_report = \<lparr>rp_created = 0, rp_updated = 0, rp_unchanged = 0, rp_deleted = 0, rp_errors = 0, rp_details = []\<rparr>"

definition report_error :: "exp_dev \<Rightarrow> string \<Rightarrow> imp_report \<Rightarrow> imp_report" where
  "report_error e m rp = rp\<lparr>rp_errors := Suc (rp_errors rp), rp_details := rp_details rp @ [DError e m]\<rparr>"

definition report_action :: "string \<Rightarrow> string \<Rightarrow> imp_report \<Rightarrow> imp_report" where
  "report_action i a rp =
     (let rp' = rp\<lparr>rp_details := rp_details rp @ [DAction i a]\<rparr> in
      if a = ''created'' then rp'\<lparr>rp_created := Suc (rp_created rp)\<rparr>
      else if a = ''updated'' then rp'\<lparr>rp_updated := Suc (rp_updated rp)\<rparr>
      else rp'\<lparr>rp_unchanged := Suc (rp_unchanged rp)\<rparr>)"

text \<open>\<open>e?.message || String(e)\<close> of a rejection of the service.\<close>

definition svc_error_msg :: "svc_error \<Rightarrow> string" where
  "svc_error_msg err =
     (case err of BadRequest m \<Rightarrow> m | NotFound m \<Rightarrow> m | Conflict m \<Rightarrow> m | JsErr e \<Rightarrow> error_message e
      | UniqueViolation \<Rightarrow> ''SQLITE_CONSTRAINT: UNIQUE constraint failed: device.type, device.slug'')"

subsection \<open>The first loop: keys of \<open>replaceAll\<close>\<close>

definition entry_key :: "string \<Rightarrow> string \<Rightarrow> string" where
  "entry_key t s = t @ ''#'' @ s"

definition pre_check :: "exp_dev \<Rightarrow> imp_report \<times> string list \<Rightarrow> imp_report \<times> string list" where
  "pre_check e acc =
     (let (rp, ks) = acc in
      if \<not> slug_given (ed_type e) then (report_error e ''type missing'' rp, ks)
      else if \<not> slug_given (ed_slug e) \<and> \<not> slug_given (ed_id e) then (report_error e ''slug or id required'' rp, ks)
      else (rp, if slug_given (ed_slug e) then ks @ [entry_key (the (ed_type e)) (the (ed_slug e))] else ks))"

subsection \<open>The second loop\<close>

text \<open>\<open>dev.type\<close> as the string \<open>getKind\<close> and the queries see.\<close>

definition entry_type :: "exp_dev \<Rightarrow> string" where
  "entry_type e = (case ed_type e of None \<Rightarrow> ''undefined'' | Some t \<Rightarrow> t)"

definition result_id :: "create_result \<Rightarrow> string" where
  "result_id r = (case r of CrExisted i s \<Rightarrow> i | CrCreated d init \<Rightarrow> dv_id d)"

text \<open>\<open>states.update({deviceId}, {data: dev.state})\<close> and the retained publish, for a
  non-empty state.\<close>

definition import_state :: "exp_dev \<Rightarrow> string \<Rightarrow> string \<Rightarrow> svc \<Rightarrow> svc" where
  "import_state e ty i st =
     (case ed_state e of
        Some s \<Rightarrow> if s \<noteq> [] then svc_publish (topic_state (sv_ns st) ty i) (PVal (JObj s)) (Some True) (update_state i s st)
                  else st
      | None \<Rightarrow> st)"

definition import_create :: "exp_dev \<Rightarrow> string \<Rightarrow> svc \<Rightarrow> (svc_error \<times> svc) + ((string \<times> string) \<times> svc)" where
  "import_create e ty st =
     (case create_device ty (ed_name e) (ed_slug e) (ed_caps e)
             (case ed_tpl e of Some (Some t) \<Rightarrow> Some t | _ \<Rightarrow> None) st of
        Inl err \<Rightarrow> Inl (err, st)
      | Inr (r, st1) \<Rightarrow>
          (case (case ed_tel e of None \<Rightarrow> Inr st1 | Some n \<Rightarrow> update_telemetry (result_id r) n st1) of
             Inl err \<Rightarrow> Inl (err, st1)
           | Inr st2 \<Rightarrow> Inr ((result_id r, ''created''), import_state e ty (result_id r) st2)))"

text \<open>The patch of an existing device: name, template id (possibly \<open>null\<close>), capabilities.\<close>

record imp_patch =
  pt_name :: "string option"
  pt_tpl :: "string option option"
  pt_caps :: "jobj option"

definition import_patch :: "exp_dev \<Rightarrow> device \<Rightarrow> imp_patch" where
  "import_patch e ex =
     \<lparr>pt_name = (if ed_name e \<noteq> [] \<and> ed_name e \<noteq> dv_name ex then Some (ed_name e) else None),
      pt_tpl = (case ed_tpl e of Some t \<Rightarrow> if t \<noteq> dv_template ex then Some t else None | None \<Rightarrow> None),
      pt_caps = (case ed_caps e of
                   Some c \<Rightarrow> if json_stringify_obj c \<noteq> json_stringify_obj (dv_caps ex) then Some (js_spread (dv_caps ex) c) else None
                 | None \<Rightarrow> None)\<rparr>"

definition patch_empty :: "imp_patch \<Rightarrow> bool" where
  "patch_empty p \<longleftrightarrow> pt_name p = None \<and> pt_tpl p = None \<and> pt_caps p = None"

text \<open>\<open>devices.update({id}, patch)\<close>: the patched columns and the update timestamp.\<close>

definition apply_patch :: "string \<Rightarrow> imp_patch \<Rightarrow> svc \<Rightarrow> svc" where
  "apply_patch i p st =
     st\<lparr>sv_devices := map (\<lambda>x. if dv_id x = i
          then x\<lparr>dv_name := (case pt_name p of Some n \<Rightarrow> n | None \<Rightarrow> dv_name x),
                 dv_template := (case pt_tpl p of Some t \<Rightarrow> t | None \<Rightarrow> dv_template x),
                 dv_caps := (case pt_caps p of Some c \<Rightarrow> json_norm_obj c | None \<Rightarrow> dv_caps x),
                 dv_updated := sv_now st\<rparr>
          else x) (sv_devices st)\<rparr>"

text \<open>\<open>a !== b\<close> on numbers\<close>

definition num_differs :: "jnum \<Rightarrow> jnum \<Rightarrow> bool" where
  "num_differs a b \<longleftrightarrow> a \<noteq> b \<or> a = NaN"

text \<open>The \<open>before\<close> and \<open>after\<close> texts compared for the report.\<close>

definition import_before :: "device \<Rightarrow> string" where
  "import_before ex =
     json_stringify (JObj [(''name'', JStr (dv_name ex)), (''capabilities'', JObj (dv_caps ex)),
                           (''templateId'', opt_str (dv_template ex)), (''telemetry'', JNum (dv_telemetry ex))])"

definition import_after :: "exp_dev \<Rightarrow> device \<Rightarrow> imp_patch \<Rightarrow> string" where
  "import_after e ex p =
     json_stringify (JObj [(''name'', JStr (case pt_name p of Some n \<Rightarrow> n | None \<Rightarrow> dv_name ex)),
                           (''capabilities'', JObj (case pt_caps p of Some c \<Rightarrow> c | None \<Rightarrow> dv_caps ex)),
                           (''templateId'', opt_str (case pt_tpl p of Some (Some t) \<Rightarrow> Some t | _ \<Rightarrow> dv_template ex)),
                           (''telemetry'', JNum (case ed_tel e of Some n \<Rightarrow> n | None \<Rightarrow> dv_telemetry ex))])"

definition import_update ::
  "exp_dev \<Rightarrow> string \<Rightarrow> device \<Rightarrow> svc \<Rightarrow> (svc_error \<times> svc) + ((string \<times> string) \<times> svc)" where
  "import_update e ty ex st =
     (let p = import_patch e ex;
          st1 = (if patch_empty p then st
                 else let st' = apply_patch (dv_id ex) p st in
                      case find_device st' (dv_id ex) of Some u \<Rightarrow> publish_discovery_if_enabled u st' | None \<Rightarrow> st');
          r2 = (case ed_tel e of
                  Some n \<Rightarrow> if num_differs n (dv_telemetry ex) then update_telemetry (dv_id ex) n st1 else Inr st1
                | None \<Rightarrow> Inr st1)
      in case r2 of
           Inl err \<Rightarrow> Inl (err, st1)
         | Inr st2 \<Rightarrow>
             Inr ((dv_id ex, if import_before ex \<noteq> import_after e ex p then ''updated'' else ''unchanged''),
                  import_state e ty (dv_id ex) st2))"

text \<open>One entry: \<open>getKind\<close>, the lookup by \<open>(type, slug)\<close> then by id, create or update.\<close>

definition import_entry :: "exp_dev \<Rightarrow> svc \<Rightarrow> (svc_error \<times> svc) + ((string \<times> string) \<times> svc)" where
  "import_entry e st =
     (let ty = entry_type e in
      case get_kind ty of
        Inl err \<Rightarrow> Inl (JsErr err, st)
      | Inr k \<Rightarrow>
          (let ex1 = (if slug_given (ed_slug e) then find_type_slug st ty (the (ed_slug e)) else None);
               ex = (case ex1 of None \<Rightarrow> if slug_given (ed_id e) then find_device st (the (ed_id e)) else None | _ \<Rightarrow> ex1)
           in case ex of None \<Rightarrow> import_create e ty st | Some x \<Rightarrow> import_update e ty x st))"

definition import_step :: "exp_dev \<Rightarrow> imp_report \<times> svc \<Rightarrow> imp_report \<times> svc" where
  "import_step e acc =
     (let (rp, st) = acc in
      case import_entry e st of
        Inl (err, st') \<Rightarrow> (report_error e (svc_error_msg err) rp, st')
      | Inr ((i, a), st') \<Rightarrow> (report_action i a rp, st'))"

subsection \<open>\<open>replaceAll\<close> and the whole import\<close>

primrec remove_all :: "string list \<Rightarrow> svc \<Rightarrow> svc_error + svc" where
  "remove_all [] st = Inr st"
| "remove_all (i # is) st = ebind (remove_device i st) (remove_all is)"

definition to_delete :: "string list \<Rightarrow> svc \<Rightarrow> device list" where
  "to_delete ks st = filter (\<lambda>d. slug_given (dv_slug d) \<and> entry_key (dv_type d) (the (dv_slug d)) \<notin> set ks) (sv_devices st)"

definition import_all :: "imp_payload \<Rightarrow> svc \<Rightarrow> svc_error + (imp_report \<times> svc)" where
  "import_all p st =
     (case ip_devices p of
        None \<Rightarrow> Inl (BadRequest ''devices array required'')
      | Some es \<Rightarrow>
          (let (rp1, ks) = fold pre_check es (empty_report, []);
               (rp2, st2) = fold import_step es (rp1, st)
           in if ip_replace p
              then (let ds = to_delete ks st2 in
                    ebind (remove_all (map dv_id ds) st2)
                      (\<lambda>st3. Inr (rp2\<lparr>rp_deleted := rp_deleted rp2 + length ds\<rparr>, st3)))
              else Inr (rp2, st2)))"

text \<open>The entry that reading an exported device back gives.\<close>

definition exp_entry :: "device \<Rightarrow> jobj \<Rightarrow> exp_dev" where
  "exp_entry d s =
     \<lparr>ed_id = Some (dv_id d), ed_type = Some (dv_type d), ed_name = dv_name d, ed_slug = dv_slug d,
      ed_tpl = map_option Some (dv_template d), ed_caps = Some (dv_caps d), ed_tel = Some (dv_telemetry d),
      ed_state = Some s\<rparr>"

subsection \<open>Lemmas and properties\<close>

lemma those_map_Some [simp]: "those (map Some xs) = Some xs"
  by (induction xs) auto

lemma entry_of_export: "entry_of (export_device st d) = Some (exp_entry d (export_state st d))"
  by (cases "dv_slug d"; cases "dv_template d")
     (simp_all add: entry_of_def export_device_def exp_entry_def str_field_def obj_field_def tpl_field_def num_field_def)

lemma payload_of_export:
  "payload_of (export_all st now) =
     Some \<lparr>ip_devices = Some (map (\<lambda>d. exp_entry d (export_state st d)) (sv_devices st)), ip_replace = False\<rparr>"
proof -
  have "map entry_of (map (export_device st) (sv_devices st)) = map Some (map (\<lambda>d. exp_entry d (export_state st d)) (sv_devices st))"
    by (simp add: entry_of_export)
  then show ?thesis by (simp add: payload_of_def export_all_def del: map_map)
qed

lemma has_kind_nonempty: "has_kind t \<Longrightarrow> t \<noteq> []"
proof
  assume "has_kind t" "t = []"
  moreover have "\<not> has_kind []" by (simp add: has_kind_def registry_lookup_def registry_def object_proto_keys_def)
  ultimately show False by simp
qed

lemma mk_uuid_nonempty [simp]: "mk_uuid j \<noteq> []" "[] \<noteq> mk_uuid j"
  by (simp_all add: mk_uuid_def)

lemma find_type_slug_unique:
  assumes inv: "store_inv st" and d: "d \<in> set (sv_devices st)" and s: "dv_slug d = Some s"
  shows "find_type_slug st (dv_type d) s = Some d"
proof -
  have "find_type_slug st (dv_type d) s \<noteq> None"
    using d s unfolding find_type_slug_def find_None_iff by blast
  then obtain x where x: "find_type_slug st (dv_type d) s = Some x" by blast
  then have xin: "x \<in> set (sv_devices st)" and xt: "dv_type x = dv_type d" and xs: "dv_slug x = Some s"
    unfolding find_type_slug_def by (auto simp: find_Some_iff)
  have "dv_id x = dv_id d"
    by (rule store_inv_slug_unique [OF inv xin d]) (simp_all add: xt xs s)
  moreover have "inj_on dv_id (set (sv_devices st))" using inv by (simp add: store_inv_def distinct_map)
  ultimately have "x = d" using xin d by (simp add: inj_on_def)
  then show ?thesis using x by simp
qed

lemma import_state_fields [simp]:
  "sv_devices (import_state e ty i st) = sv_devices st" "sv_uuid (import_state e ty i st) = sv_uuid st"
  "map fst (sv_states (import_state e ty i st)) = map fst (sv_states st)"
  by (simp_all add: import_state_def split: option.splits)

lemma store_inv_import_state: "store_inv st \<Longrightarrow> store_inv (import_state e ty i st)"
  using store_frame_keys [of "import_state e ty i st" st] by simp

lemma import_update_unchanged:
  assumes tel: "dv_telemetry d \<noteq> NaN"
  shows "import_update ((exp_entry d s)\<lparr>ed_slug := sl\<rparr>) ty d st =
           Inr ((dv_id d, ''unchanged''), import_state ((exp_entry d s)\<lparr>ed_slug := sl\<rparr>) ty (dv_id d) st)"
proof -
  let ?e = "(exp_entry d s)\<lparr>ed_slug := sl\<rparr>"
  have pe: "patch_empty (import_patch ?e d)"
    by (cases "dv_template d") (simp_all add: patch_empty_def import_patch_def exp_entry_def)
  have ba: "import_before d = import_after ?e d (import_patch ?e d)"
    using pe by (simp add: import_before_def import_after_def patch_empty_def exp_entry_def)
  show ?thesis using pe ba tel by (simp add: import_update_def Let_def num_differs_def exp_entry_def)
qed

lemma import_entry_unchanged:
  assumes inv: "store_inv st" and d: "d \<in> set (sv_devices st)" and k: "has_kind (dv_type d)"
    and tel: "dv_telemetry d \<noteq> NaN"
  shows "\<exists>st'. import_entry (exp_entry d s) st = Inr ((dv_id d, ''unchanged''), st') \<and>
           sv_devices st' = sv_devices st \<and> store_inv st'"
proof -
  obtain r where gk: "get_kind (dv_type d) = Inr r" using has_kind_get [OF k] by blast
  have lk: "(if slug_given (dv_slug d) then find_type_slug st (dv_type d) (the (dv_slug d)) = Some d
             else find_device st (dv_id d) = Some d) \<and> slug_given (Some (dv_id d))"
  proof -
    have "distinct (map dv_id (sv_devices st))" "\<exists>j. dv_id d = mk_uuid j" using inv d by (auto simp: store_inv_def)
    moreover have "slug_given (dv_slug d) \<Longrightarrow> find_type_slug st (dv_type d) (the (dv_slug d)) = Some d"
      using find_type_slug_unique [OF inv d] by (cases "dv_slug d") (auto simp: slug_given_def)
    ultimately show ?thesis using d by (auto simp: slug_given_def find_device_def find_distinct_key)
  qed
  have "import_entry (exp_entry d s) st =
          Inr ((dv_id d, ''unchanged''), import_state (exp_entry d s) (dv_type d) (dv_id d) st)"
  proof (cases "slug_given (dv_slug d)")
    case True then show ?thesis using gk lk import_update_unchanged [OF tel, where s = s and sl = "dv_slug d"]
      by (simp add: import_entry_def Let_def entry_type_def exp_entry_def)
  next
    case False then show ?thesis using gk lk import_update_unchanged [OF tel, where s = s and sl = "dv_slug d"]
      by (simp add: import_entry_def Let_def entry_type_def exp_entry_def)
  qed
  then show ?thesis using store_inv_import_state [OF inv] by simp
qed

lemma fold_import_unchanged:
  "store_inv st \<Longrightarrow> set ds \<subseteq> set (sv_devices st) \<Longrightarrow>
   \<forall>d \<in> set ds. has_kind (dv_type d) \<and> dv_telemetry d \<noteq> NaN \<Longrightarrow>
   \<exists>st'. fold import_step (map (\<lambda>d. exp_entry d (sf d)) ds) (rp, st) =
          (rp\<lparr>rp_unchanged := rp_unchanged rp + length ds,
              rp_details := rp_details rp @ map (\<lambda>d. DAction (dv_id d) ''unchanged'') ds\<rparr>, st') \<and>
        sv_devices st' = sv_devices st \<and> store_inv st'"
proof (induction ds arbitrary: rp st)
  case (Cons d ds)
  obtain st1 where s1: "import_entry (exp_entry d (sf d)) st = Inr ((dv_id d, ''unchanged''), st1)"
    "sv_devices st1 = sv_devices st" "store_inv st1"
    using import_entry_unchanged [OF Cons.prems(1), of d "sf d"] Cons.prems(2,3) by auto
  have step: "import_step (exp_entry d (sf d)) (rp, st) = (report_action (dv_id d) ''unchanged'' rp, st1)"
    using s1(1) by (simp add: import_step_def)
  have "\<exists>st'. fold import_step (map (\<lambda>d. exp_entry d (sf d)) ds) (report_action (dv_id d) ''unchanged'' rp, st1) =
          ((report_action (dv_id d) ''unchanged'' rp)\<lparr>rp_unchanged := rp_unchanged (report_action (dv_id d) ''unchanged'' rp) + length ds,
              rp_details := rp_details (report_action (dv_id d) ''unchanged'' rp) @ map (\<lambda>d. DAction (dv_id d) ''unchanged'') ds\<rparr>, st') \<and>
          sv_devices st' = sv_devices st1 \<and> store_inv st'"
    by (rule Cons.IH [OF s1(3)]) (use Cons.prems(2,3) s1(2) in auto)
  then show ?case using step s1(2) by (auto simp: report_action_def)
qed simp

lemma fold_pre_check_ok:
  "\<forall>e \<in> set es. slug_given (ed_type e) \<and> slug_given (ed_id e) \<Longrightarrow> fst (fold pre_check es (rp, ks)) = rp"
proof (induction es arbitrary: ks)
  case (Cons e es)
  then show ?case by (auto simp: pre_check_def Let_def)
qed simp

text \<open>
  C11: importing an export of a consistent store into that store, without replaceAll, reports every device unchanged and nothing created, updated, deleted or failed, and leaves the devices as they were (export and import are inverse on the device table).
\<close>

theorem import_export_roundtrip:
  assumes inv: "svc_inv st" and ok: "\<forall>d \<in> set (sv_devices st). has_kind (dv_type d) \<and> dv_telemetry d \<noteq> NaN"
  shows "\<exists>P rep st'. payload_of (export_all st now) = Some P \<and> import_all P st = Inr (rep, st') \<and>
           rp_unchanged rep = length (sv_devices st) \<and> rp_created rep = 0 \<and> rp_updated rep = 0 \<and>
           rp_errors rep = 0 \<and> rp_deleted rep = 0 \<and> sv_devices st' = sv_devices st"
proof -
  let ?es = "map (\<lambda>d. exp_entry d (export_state st d)) (sv_devices st)"
  have si: "store_inv st" using inv by (simp add: svc_inv_def)
  have "\<forall>e \<in> set ?es. slug_given (ed_type e) \<and> slug_given (ed_id e)"
    using ok si has_kind_nonempty by (auto simp: exp_entry_def slug_given_def store_inv_def)
  then have pc: "fst (fold pre_check ?es (empty_report, [])) = empty_report" by (rule fold_pre_check_ok)
  obtain st' where f: "fold import_step ?es (empty_report, st) =
          (empty_report\<lparr>rp_unchanged := length (sv_devices st),
              rp_details := map (\<lambda>d. DAction (dv_id d) ''unchanged'') (sv_devices st)\<rparr>, st')"
    "sv_devices st' = sv_devices st"
    using fold_import_unchanged [OF si order_refl ok, of "export_state st" empty_report] by (auto simp: empty_report_def)
  have "import_all \<lparr>ip_devices = Some ?es, ip_replace = False\<rparr> st =
          Inr (empty_report\<lparr>rp_unchanged := length (sv_devices st),
              rp_details := map (\<lambda>d. DAction (dv_id d) ''unchanged'') (sv_devices st)\<rparr>, st')"
  proof -
    obtain ks where "fold pre_check ?es (empty_report, []) = (empty_report, ks)"
      using pc by (metis prod.collapse)
    then show ?thesis using f(1) by (simp add: import_all_def)
  qed
  then show ?thesis using payload_of_export f(2) by (auto simp: empty_report_def)
qed

theorem import_export_roundtrip_witness:
  "svc_inv demo_svc \<and> sv_devices demo_svc = [demo_device] \<and> has_kind (dv_type demo_device) \<and>
   dv_telemetry demo_device \<noteq> NaN \<and>
   (\<exists>P rep st'. payload_of (export_all demo_svc ''t1'') = Some P \<and> import_all P demo_svc = Inr (rep, st') \<and>
      rp_unchanged rep = 1 \<and> rp_created rep = 0 \<and> rp_updated rep = 0 \<and> rp_errors rep = 0 \<and> rp_deleted rep = 0 \<and>
      sv_devices st' = sv_devices demo_svc)"
proof -
  have n: "sv_devices demo_svc = [demo_device]" by (simp add: demo_svc_def)
  have k: "has_kind (dv_type demo_device)" by (simp add: demo_device_def) code_simp
  have t: "dv_telemetry demo_device \<noteq> NaN" by (simp add: demo_device_def)
  have ok: "\<forall>d \<in> set (sv_devices demo_svc). has_kind (dv_type d) \<and> dv_telemetry d \<noteq> NaN"
    using k t n by simp
  show ?thesis using import_export_roundtrip [OF svc_inv_demo ok, of "''t1''"] svc_inv_demo k t unfolding n by simp
qed

lemma remove_device_devices:
  "find_device st i = Some dev \<Longrightarrow>
   \<exists>st'. remove_device i st = Inr st' \<and> sv_devices st' = filter (\<lambda>d. dv_id d \<noteq> i) (sv_devices st)"
  by (simp add: remove_device_def Let_def delete_device_def)

lemma remove_all_ok:
  "distinct is \<Longrightarrow> set is \<subseteq> set (map dv_id (sv_devices st)) \<Longrightarrow>
   \<exists>st'. remove_all is st = Inr st' \<and> sv_devices st' = filter (\<lambda>d. dv_id d \<notin> set is) (sv_devices st)"
proof (induction "is" arbitrary: st)
  case (Cons i "is")
  have "find_device st i \<noteq> None" using Cons.prems(2) by (auto simp: find_device_def find_None_iff)
  then obtain dev where "find_device st i = Some dev" by blast
  then obtain st1 where s1: "remove_device i st = Inr st1" "sv_devices st1 = filter (\<lambda>d. dv_id d \<noteq> i) (sv_devices st)"
    using remove_device_devices by blast
  have "set is \<subseteq> set (map dv_id (sv_devices st1))"
  proof
    fix x assume x: "x \<in> set is"
    then obtain y where "y \<in> set (sv_devices st)" "dv_id y = x" using Cons.prems(2) by auto
    moreover have "x \<noteq> i" using x Cons.prems(1) by auto
    ultimately show "x \<in> set (map dv_id (sv_devices st1))" using s1(2) by auto
  qed
  then obtain st' where "remove_all is st1 = Inr st'" "sv_devices st' = filter (\<lambda>d. dv_id d \<notin> set is) (sv_devices st1)"
    using Cons.IH Cons.prems(1) by auto
  then show ?case using s1 by (auto simp: filter_filter conj_commute)
qed simp

lemma get_kind_undefined: "get_kind ''undefined'' = Inl (Error ''Unsupported device type: undefined'')"
  by code_simp

text \<open>
  C30: an import entry without a type is reported twice as an error, once by the key-collecting loop (type missing) and once by the processing loop (unsupported type undefined): the first loop's continue does not skip the entry in the second loop.
\<close>

theorem import_missing_type_counted_twice:
  assumes "ed_type e = None"
  shows "import_all \<lparr>ip_devices = Some [e], ip_replace = False\<rparr> st =
           Inr (empty_report\<lparr>rp_errors := 2,
                  rp_details := [DError e ''type missing'', DError e ''Unsupported device type: undefined'']\<rparr>, st)"
  using assms get_kind_undefined
  by (simp add: import_all_def pre_check_def slug_given_def report_error_def empty_report_def import_step_def
                import_entry_def entry_type_def svc_error_msg_def error_message_def)

theorem import_missing_type_counted_twice_witness:
  "ed_type \<lparr>ed_id = None, ed_type = None, ed_name = ''Lamp'', ed_slug = None, ed_tpl = None, ed_caps = None,
            ed_tel = None, ed_state = None\<rparr> = None \<and>
   import_all \<lparr>ip_devices = Some [\<lparr>ed_id = None, ed_type = None, ed_name = ''Lamp'', ed_slug = None, ed_tpl = None,
                                 ed_caps = None, ed_tel = None, ed_state = None\<rparr>], ip_replace = False\<rparr> demo_svc =
     Inr (empty_report\<lparr>rp_errors := 2,
            rp_details := [DError \<lparr>ed_id = None, ed_type = None, ed_name = ''Lamp'', ed_slug = None, ed_tpl = None,
                                   ed_caps = None, ed_tel = None, ed_state = None\<rparr> ''type missing'',
                           DError \<lparr>ed_id = None, ed_type = None, ed_name = ''Lamp'', ed_slug = None, ed_tpl = None,
                                   ed_caps = None, ed_tel = None, ed_state = None\<rparr> ''Unsupported device type: undefined'']\<rparr>,
          demo_svc)"
  using import_missing_type_counted_twice [of "\<lparr>ed_id = None, ed_type = None, ed_name = ''Lamp'', ed_slug = None, ed_tpl = None,
      ed_caps = None, ed_tel = None, ed_state = None\<rparr>" demo_svc] by simp

lemma import_entry_by_id:
  assumes inv: "store_inv st" and d: "d \<in> set (sv_devices st)" and k: "has_kind (dv_type d)"
    and tel: "dv_telemetry d \<noteq> NaN"
  shows "import_entry ((exp_entry d s)\<lparr>ed_slug := None\<rparr>) st =
           Inr ((dv_id d, ''unchanged''), import_state ((exp_entry d s)\<lparr>ed_slug := None\<rparr>) (dv_type d) (dv_id d) st)"
proof -
  obtain r where gk: "get_kind (dv_type d) = Inr r" using has_kind_get [OF k] by blast
  have "distinct (map dv_id (sv_devices st))" "\<exists>j. dv_id d = mk_uuid j" using inv d by (auto simp: store_inv_def)
  then have fd: "find_device st (dv_id d) = Some d" "slug_given (Some (dv_id d))"
    using d by (auto simp: slug_given_def find_device_def find_distinct_key)
  show ?thesis using gk fd import_update_unchanged [OF tel, where s = s and sl = None]
    by (simp add: import_entry_def Let_def entry_type_def exp_entry_def slug_given_def)
qed

text \<open>
  C19: with replaceAll, a device that an entry matched by id only (without a slug) is deleted after being reported unchanged: the keys kept by replaceAll are collected from entry slugs only.
\<close>

theorem import_replace_deletes_matched:
  assumes inv: "svc_inv st" and d: "d \<in> set (sv_devices st)" and s: "slug_given (dv_slug d)"
    and k: "has_kind (dv_type d)" and tel: "dv_telemetry d \<noteq> NaN"
  shows "\<exists>rep st'. import_all \<lparr>ip_devices = Some [(exp_entry d (export_state st d))\<lparr>ed_slug := None\<rparr>], ip_replace = True\<rparr> st =
            Inr (rep, st') \<and> rp_unchanged rep = 1 \<and> rp_errors rep = 0 \<and> find_device st' (dv_id d) = None"
proof -
  let ?e = "(exp_entry d (export_state st d))\<lparr>ed_slug := None\<rparr>"
  let ?st1 = "import_state ?e (dv_type d) (dv_id d) st"
  have si: "store_inv st" using inv by (simp add: svc_inv_def)
  have ids: "distinct (map dv_id (sv_devices st))" "\<exists>j. dv_id d = mk_uuid j" using si d by (auto simp: store_inv_def)
  have pc: "fold pre_check [?e] (empty_report, []) = (empty_report, [])"
    using has_kind_nonempty [OF k] ids(2) by (auto simp: pre_check_def slug_given_def exp_entry_def)
  have st: "fold import_step [?e] (empty_report, st) = (report_action (dv_id d) ''unchanged'' empty_report, ?st1)"
    using import_entry_by_id [OF si d k tel] by (simp add: import_step_def)
  let ?ds = "to_delete [] ?st1"
  have dd: "d \<in> set ?ds" using d s by (simp add: to_delete_def)
  have "distinct (map dv_id ?ds)" using ids(1) by (simp add: to_delete_def distinct_map_filter)
  moreover have "set (map dv_id ?ds) \<subseteq> set (map dv_id (sv_devices ?st1))" by (auto simp: to_delete_def)
  ultimately obtain st' where r: "remove_all (map dv_id ?ds) ?st1 = Inr st'"
      "sv_devices st' = filter (\<lambda>x. dv_id x \<notin> set (map dv_id ?ds)) (sv_devices ?st1)"
    using remove_all_ok by blast
  have "find_device st' (dv_id d) = None" using r(2) dd by (auto simp: find_device_def find_None_iff)
  moreover have "import_all \<lparr>ip_devices = Some [?e], ip_replace = True\<rparr> st =
      Inr ((report_action (dv_id d) ''unchanged'' empty_report)\<lparr>rp_deleted := length ?ds\<rparr>, st')"
    using pc st r(1) by (simp add: import_all_def report_action_def empty_report_def del: fold_simps)
  ultimately show ?thesis by (auto simp: report_action_def empty_report_def)
qed

theorem import_replace_deletes_matched_witness:
  "svc_inv demo_svc \<and> demo_device \<in> set (sv_devices demo_svc) \<and> slug_given (dv_slug demo_device) \<and>
   has_kind (dv_type demo_device) \<and> dv_telemetry demo_device \<noteq> NaN \<and>
   (\<exists>rep st'. import_all \<lparr>ip_devices = Some [(exp_entry demo_device (export_state demo_svc demo_device))\<lparr>ed_slug := None\<rparr>],
                             ip_replace = True\<rparr> demo_svc = Inr (rep, st') \<and>
      rp_unchanged rep = 1 \<and> rp_errors rep = 0 \<and> find_device st' (mk_uuid 0) = None)"
proof -
  have h: "demo_device \<in> set (sv_devices demo_svc)" "slug_given (dv_slug demo_device)"
    "dv_telemetry demo_device \<noteq> NaN" "dv_id demo_device = mk_uuid 0"
    by (simp_all add: demo_svc_def demo_device_def slug_given_def)
  have k: "has_kind (dv_type demo_device)" by (simp add: demo_device_def) code_simp
  show ?thesis using import_replace_deletes_matched [OF svc_inv_demo h(1,2) k h(3)] svc_inv_demo h k by simp
qed

end
