(* ===== verification/WebClient.thy ===== *)
theory WebClient
  imports Lifecycle
begin

text \<open>
  The web control UI's mirror of the device list (\<open>mqtt-web\<close>):
  \<open>DeviceStateService\<close> (\<open>core/services/device-state.service.ts\<close>) holds the devices
  as the JSON objects the server sent, a loading flag, the error stream and the
  pagination subjects; \<open>WebsocketService\<close> (\<open>core/services/websocket.service.ts\<close>)
  forwards the socket.io events of the gateway to subjects that the state service
  subscribes to in its constructor; \<open>DashboardComponent.deleteDevice\<close> removes the
  device locally once the HTTP delete succeeded. The state is \<open>web_st\<close>; every
  subject's value is a field. \<open>web_recv\<close> applies the deliveries the gateway made
  to the client's socket (\<open>Gateway.gw_received\<close>) in order; this is where the
  server and the client compose. The initial \<open>null\<close> of the behaviour subjects is
  skipped by the \<open>if (device)\<close> guards and has no effect.
\<close>

record web_st =
  wb_devices :: "jval list"
  wb_loading :: bool
  wb_errors :: "string list"
  wb_page :: int
  wb_limit :: int
  wb_total :: int
  wb_connected :: bool

definition web_new :: web_st where
  "web_new = \<lparr>wb_devices = [], wb_loading = False, wb_errors = [], wb_page = 1, wb_limit = 50, wb_total = 0,
              wb_connected = False\<rparr>"

text \<open>\<open>pagination$\<close>: \<open>pages = Math.ceil(total / limit)\<close>.\<close>

definition web_pages :: "web_st \<Rightarrow> int" where
  "web_pages ws = \<lceil>of_int (wb_total ws) / (of_int (wb_limit ws) :: rat)\<rceil>"

text \<open>A \<open>ListDevicesResponse\<close>: the page of devices and its pagination.\<close>

record list_resp =
  lr_data :: "jval list"
  lr_page :: int
  lr_limit :: int
  lr_total :: int

subsection \<open>\<open>loadDevices\<close>\<close>

definition web_load_start :: "web_st \<Rightarrow> web_st" where
  "web_load_start ws = ws\<lparr>wb_loading := True\<rparr>"

definition web_load_ok :: "list_resp \<Rightarrow> web_st \<Rightarrow> web_st" where
  "web_load_ok r ws =
     ws\<lparr>wb_devices := lr_data r, wb_page := lr_page r, wb_limit := lr_limit r, wb_total := lr_total r,
        wb_loading := False\<rparr>"

definition web_load_err :: "string \<Rightarrow> web_st \<Rightarrow> web_st" where
  "web_load_err msg ws = ws\<lparr>wb_errors := wb_errors ws @ [''Failed to load devices: '' @ msg], wb_loading := False\<rparr>"

subsection \<open>Local updates\<close>

text \<open>\<open>d.id === id\<close>\<close>

definition has_id :: "jval option \<Rightarrow> jval \<Rightarrow> bool" where
  "has_id i d \<longleftrightarrow> js_prop d ''id'' = i"

definition web_get :: "web_st \<Rightarrow> string \<Rightarrow> jval option" where
  "web_get ws i = find (has_id (Some (JStr i))) (wb_devices ws)"

definition web_add :: "jval \<Rightarrow> web_st \<Rightarrow> web_st" where
  "web_add d ws = ws\<lparr>wb_devices := wb_devices ws @ [d], wb_total := wb_total ws + 1\<rparr>"

text \<open>\<open>findIndex\<close>\<close>

fun find_idx :: "('a \<Rightarrow> bool) \<Rightarrow> 'a list \<Rightarrow> nat option" where
  "find_idx P [] = None"
| "find_idx P (x # xs) = (if P x then Some 0 else map_option Suc (find_idx P xs))"

definition web_update_local :: "jval \<Rightarrow> web_st \<Rightarrow> web_st" where
  "web_update_local d ws =
     (case find_idx (has_id (js_prop d ''id'')) (wb_devices ws) of
        Some k \<Rightarrow> ws\<lparr>wb_devices := (wb_devices ws)[k := d]\<rparr>
      | None \<Rightarrow> ws)"

text \<open>
  \<open>updateDeviceState(id, state)\<close>: \<open>device.state.data = state\<close> mutates the object
  held in the list, then \<open>updateDeviceLocal(device)\<close> puts it back at its index. The
  server sends objects or nothing as \<open>state\<close>; on any other value nothing changes.
\<close>

definition web_update_state :: "jval option \<Rightarrow> jval option \<Rightarrow> web_st \<Rightarrow> web_st" where
  "web_update_state i s ws =
     (case find (has_id i) (wb_devices ws) of
        Some (JObj dev) \<Rightarrow>
          (case js_get dev ''state'' of
             Some (JObj so) \<Rightarrow> web_update_local (JObj (js_set ''state'' (JObj (js_set_opt ''data'' s so)) dev)) ws
           | _ \<Rightarrow> ws)
      | _ \<Rightarrow> ws)"

definition web_remove :: "jval option \<Rightarrow> web_st \<Rightarrow> web_st" where
  "web_remove i ws = ws\<lparr>wb_devices := filter (\<lambda>d. \<not> has_id i d) (wb_devices ws), wb_total := wb_total ws - 1\<rparr>"

subsection \<open>Socket events\<close>

text \<open>The \<open>socket.on\<close> handlers of \<open>WebsocketService.setupSocket\<close> composed with the
  subscriptions of \<open>DeviceStateService.setupWebSocketListeners\<close>.\<close>

definition web_on_socket :: "string \<times> jval \<Rightarrow> web_st \<Rightarrow> web_st" where
  "web_on_socket m ws =
     (let (ev, p) = m in
      if ev = ''connect'' then ws\<lparr>wb_connected := True\<rparr>
      else if ev = ''disconnect'' then ws\<lparr>wb_connected := False\<rparr>
      else if \<not> js_truthy (Some p) then ws
      else if ev = ''device:created'' then web_add p ws
      else if ev = ''device:updated'' then web_update_local p ws
      else if ev = ''device:deleted'' then web_remove (js_prop p ''id'') ws
      else if ev = ''device:state:changed'' then web_update_state (js_prop p ''id'') (js_prop p ''state'') ws
      else ws)"

definition web_recv :: "(string \<times> jval) list \<Rightarrow> web_st \<Rightarrow> web_st" where
  "web_recv ms ws = fold web_on_socket ms ws"

text \<open>\<open>DashboardComponent.deleteDevice\<close>: the \<open>next\<close> callback of the HTTP delete.\<close>

definition dash_delete_done :: "jval \<Rightarrow> web_st \<Rightarrow> web_st" where
  "dash_delete_done d ws = web_remove (js_prop d ''id'') ws"

subsection \<open>The abstraction: what the client shows of the server's devices\<close>

definition web_ids :: "web_st \<Rightarrow> jval option list" where
  "web_ids ws = map (\<lambda>d. js_prop d ''id'') (wb_devices ws)"

definition svc_ids :: "svc \<Rightarrow> jval option list" where
  "svc_ids st = map (\<lambda>d. Some (JStr (dv_id d))) (sv_devices st)"

definition web_synced :: "svc \<Rightarrow> web_st \<Rightarrow> bool" where
  "web_synced st ws \<longleftrightarrow> web_ids ws = svc_ids st \<and> wb_total ws = int (length (sv_devices st))"

text \<open>The deliveries to socket \<open>c\<close> between two server states.\<close>

definition new_msgs :: "string \<Rightarrow> svc \<Rightarrow> svc \<Rightarrow> (string \<times> jval) list" where
  "new_msgs c st st' = drop (length (gw_received c (sv_gw st))) (gw_received c (sv_gw st'))"

text \<open>The socket of a dashboard page: connected, hence in its own room and in
  \<open>devices:all\<close>, and subscribed to no type or device room. Socket.io ids never
  start with \<open>devices:\<close>.\<close>

definition dash_client :: "string \<Rightarrow> gw_st \<Rightarrow> bool" where
  "dash_client c g \<longleftrightarrow> gw_wf g \<and> map_of (gw_clients g) c = Some [c, room_all] \<and> \<not> prefix ''devices:'' c"

text \<open>A sequence of requests and events handled one after the other, each on the state
  the previous one left.\<close>

fun svc_run :: "template_map \<Rightarrow> svc_op list \<Rightarrow> svc \<Rightarrow> svc_error + svc" where
  "svc_run tpls [] st = Inr st"
| "svc_run tpls (op # ops) st = ebind (svc_step tpls op st) (svc_run tpls ops)"

text \<open>Examples: the demo store with one dashboard socket connected, and that page's list.\<close>

definition dash_demo :: svc where
  "dash_demo = demo_svc\<lparr>sv_gw := gw_connect ''sock-1'' gw_empty\<rparr>"

definition web_demo :: web_st where
  "web_demo = web_new\<lparr>wb_devices := [JObj (device_json demo_device)], wb_total := 1\<rparr>"

text \<open>The same store with the socket on the control page of its device.\<close>

definition ctl_demo :: svc where
  "ctl_demo = demo_svc\<lparr>sv_gw := fold gw_step [GConnect ''sock-1'', GSubDevice ''sock-1'' (JObj [(''deviceId'', JStr (mk_uuid 0))])] gw_empty\<rparr>"

subsection \<open>Lemmas: deliveries to a dashboard client\<close>

lemma dash_rooms [simp]:
  "\<not> prefix ''devices:'' c \<Longrightarrow> room_type t \<noteq> c \<and> room_id i \<noteq> c \<and> room_all \<noteq> c"
  by (auto simp: room_type_def room_id_def room_all_def)

lemma dash_client_to [simp]: "dash_client c (gw_to r ev p g) = dash_client c g"
  by (simp add: dash_client_def)

lemma dash_received_to:
  "dash_client c g \<Longrightarrow>
   gw_received c (gw_to r ev p g) = gw_received c g @ (if r = c \<or> r = room_all then [(ev, p)] else [])"
  by (auto simp: dash_client_def gw_received_to)

lemma dash_emits:
  assumes "dash_client c g"
  shows "gw_received c (emit_device_created d g) = gw_received c g @ [(''device:created'', d)]"
    "gw_received c (emit_device_updated d g) = gw_received c g @ [(''device:updated'', d)]"
    "gw_received c (emit_device_deleted i t g) =
       gw_received c g @ [(''device:deleted'', JObj [(''id'', JStr i), (''type'', JStr t)])]"
    "gw_received c (emit_device_state_changed i t s g) =
       gw_received c g @ [(''device:state:changed'', JObj [(''id'', JStr i), (''type'', JStr t), (''state'', JObj s)])]"
  using assms dash_rooms [of c] by (auto simp: emit_device_created_def emit_device_updated_def
      emit_device_deleted_def emit_device_state_changed_def Let_def dash_received_to dash_client_def)

lemma dash_client_emits [simp]:
  "dash_client c (emit_device_created d g) = dash_client c g"
  "dash_client c (emit_device_updated d g) = dash_client c g"
  "dash_client c (emit_device_deleted i t g) = dash_client c g"
  "dash_client c (emit_device_state_changed i t s g) = dash_client c g"
  by (simp_all add: emit_device_created_def emit_device_updated_def emit_device_deleted_def
      emit_device_state_changed_def Let_def)

subsection \<open>Lemmas: the client's handlers on the abstraction\<close>

lemma find_idx_Some: "find_idx P xs = Some k \<Longrightarrow> k < length xs \<and> P (xs ! k)"
  by (induction xs arbitrary: k) (auto split: if_splits)

lemma web_update_local_keeps [simp]:
  "web_ids (web_update_local d ws) = web_ids ws" "wb_total (web_update_local d ws) = wb_total ws"
proof -
  show "web_ids (web_update_local d ws) = web_ids ws"
  proof (cases "find_idx (has_id (js_prop d ''id'')) (wb_devices ws)")
    case (Some k)
    then have "k < length (wb_devices ws)" "js_prop (wb_devices ws ! k) ''id'' = js_prop d ''id''"
      using find_idx_Some [OF Some] by (simp_all add: has_id_def)
    then have "(map (\<lambda>x. js_prop x ''id'') (wb_devices ws))[k := js_prop d ''id''] = map (\<lambda>x. js_prop x ''id'') (wb_devices ws)"
      by (metis (no_types, lifting) length_map list_update_id nth_map)
    then show ?thesis using Some by (simp add: web_update_local_def web_ids_def map_update)
  qed (simp add: web_update_local_def)
  show "wb_total (web_update_local d ws) = wb_total ws"
    by (simp add: web_update_local_def split: option.splits)
qed

lemma web_update_state_keeps [simp]:
  "web_ids (web_update_state i s ws) = web_ids ws" "wb_total (web_update_state i s ws) = wb_total ws"
  by (simp_all add: web_update_state_def split: option.splits jval.splits)

lemma web_add_abs [simp]:
  "web_ids (web_add d ws) = web_ids ws @ [js_prop d ''id'']" "wb_total (web_add d ws) = wb_total ws + 1"
  by (simp_all add: web_add_def web_ids_def)

lemma web_remove_abs [simp]:
  "web_ids (web_remove i ws) = filter (\<lambda>x. x \<noteq> i) (web_ids ws)" "wb_total (web_remove i ws) = wb_total ws - 1"
  by (simp_all add: web_remove_def web_ids_def has_id_def filter_map comp_def)

lemma web_ids_conn: "web_ids (ws\<lparr>wb_connected := b\<rparr>) = web_ids ws"
  by (simp add: web_ids_def)

lemma web_on_socket_keeps:
  "fst m \<notin> {''device:created'', ''device:deleted''} \<Longrightarrow>
   web_ids (web_on_socket m ws) = web_ids ws \<and> wb_total (web_on_socket m ws) = wb_total ws"
  by (cases m) (simp add: web_on_socket_def web_ids_conn)

lemma web_recv_simps [simp]:
  "web_recv [] ws = ws" "web_recv (m # ms) ws = web_recv ms (web_on_socket m ws)"
  by (simp_all add: web_recv_def)

lemma web_on_created [simp]:
  "web_on_socket (''device:created'', JObj o') ws = web_add (JObj o') ws"
  "web_on_socket (''device:deleted'', JObj o') ws = web_remove (js_get o' ''id'') ws"
  by (simp_all add: web_on_socket_def js_truthy_def)

subsection \<open>Lemmas: what each request does to the device list and the gateway\<close>

lemma gw_frame [simp]:
  "sv_gw (svc_publish t p r st) = sv_gw st" "sv_gw (save_state i x st) = sv_gw st"
  "sv_gw (save_device d st) = sv_gw st" "sv_gw (delete_device i st) = sv_gw st"
  "sv_gw (update_state i x st) = sv_gw st"
  "sv_gw (publish_discovery_if_enabled d st) = sv_gw st" "sv_gw (clear_discovery d st) = sv_gw st"
  "sv_gw (svc_gw f st) = f (sv_gw st)"
  by (simp_all add: svc_publish_def save_state_def save_device_def delete_device_def
      publish_discovery_if_enabled_def clear_discovery_def svc_gw_def)

lemma svc_ids_save_device [simp]: "svc_ids (save_device d st) = svc_ids st"
  by (simp add: svc_ids_def save_device_def)

lemma create_commit_effect:
  assumes "create_commit p st = Inr (r, st')"
  shows "\<exists>d init. sv_devices st' = sv_devices st @ [d] \<and>
           sv_gw st' = emit_device_created (JObj (device_json d @ [(''state'', JObj init)])) (sv_gw st)"
proof -
  obtain d st1 where l: "create_loop (\<lambda>s. insert_device (new_device st (cp_type p) (cp_name p) s (cp_caps p) (cp_tpl p) (cp_tel p)) st)
      (cp_given p) (to_slug (cp_name p)) 0 (cp_slug p) = Inr (d, st1)" and f: "create_finish p d st1 = (r, st')"
    using assms by (auto simp: create_commit_def ebind_eq_Inr)
  obtain s where "insert_device (new_device st (cp_type p) (cp_name p) s (cp_caps p) (cp_tpl p) (cp_tel p)) st = Inr (d, st1)"
    using create_loop_Inr [OF l] by blast
  from insert_device_Inr(1,2) [OF this] have st1: "sv_devices st1 = sv_devices st @ [d]" "sv_gw st1 = sv_gw st"
    by simp_all
  have "sv_gw st' = sv_gw (snd (create_finish p d st1))" using f by simp
  also have "\<dots> = emit_device_created (JObj (device_json d @ [(''state'', JObj (kind_default_state (cp_kind p) (cp_caps p)))])) (sv_gw st)"
    using st1 by (simp add: create_finish_def Let_def)
  finally show ?thesis using create_finish_facts(1) [OF f] st1 by auto
qed

lemma ctl_create_effect:
  assumes "ctl_create tpls ty name slug caps tid st = Inr (r, st')"
  shows "st' = st \<or> (\<exists>d init. sv_devices st' = sv_devices st @ [d] \<and>
           sv_gw st' = emit_device_created (JObj (device_json d @ [(''state'', JObj init)])) (sv_gw st))"
proof -
  obtain slug' caps' tid' where cd: "create_device ty name slug' caps' tid' st = Inr (r, st')"
    using assms by (auto simp: ctl_create_def Let_def split: if_splits option.splits prod.splits)
  show ?thesis
  proof (cases "create_prepare ty name slug' caps' tid' st")
    case (Inr x)
    then show ?thesis using cd create_commit_effect
      by (cases x) (auto simp: create_device_def)
  qed (use cd in \<open>simp add: create_device_def\<close>)
qed

lemma remove_device_effect:
  assumes "remove_device i st = Inr st'"
  shows "\<exists>dev. find_device st i = Some dev \<and> sv_devices st' = filter (\<lambda>d. dv_id d \<noteq> i) (sv_devices st) \<and>
           sv_gw st' = emit_device_deleted i (dv_type dev) (sv_gw st)"
  using assms by (auto simp: remove_device_def Let_def delete_device_def split: option.splits)

lemma update_device_effect:
  "update_device i b st = Inr st' \<Longrightarrow>
   svc_ids st' = svc_ids st \<and> (\<exists>p. sv_gw st' = emit_device_updated p (sv_gw st))"
  by (auto simp: update_device_def Let_def save_device_def svc_ids_def split: option.splits)

lemma apply_command_effect:
  "apply_command i ty raw st = Inr st' \<Longrightarrow> sv_devices st' = sv_devices st \<and>
   (sv_gw st' = sv_gw st \<or> (\<exists>j t s. sv_gw st' = emit_device_state_changed j t s (sv_gw st)))"
  by (cases "get_state st i"; cases "find_device st i")
     (force simp: apply_command_def Let_def ebind_eq_Inr)+

lemma heartbeat_tick_effect:
  assumes "heartbeat_tick d rd rn st = Inr st'"
  shows "sv_devices st' = sv_devices st \<and>
   (sv_gw st' = sv_gw st \<or> (\<exists>j t s. sv_gw st' = emit_device_state_changed j t s (sv_gw st)))"
proof (cases "get_state st (dv_id d)")
  case (Some data)
  then obtain k where k: "get_kind (dv_type d) = Inr k" using assms by (auto simp: heartbeat_tick_def ebind_eq_Inr)
  obtain data' w where dw: "(case ref_tick k of None \<Rightarrow> (data, False)
      | Some f \<Rightarrow> (f data (dv_caps d) rd rn, \<not> tick_returns_prev k data)) = (data', w)" by fastforce
  have "st' = svc_gw (emit_device_state_changed (dv_id d) (dv_type d) data')
      (svc_publish (topic_state (sv_ns st) (dv_type d) (dv_id d)) (PVal (JObj data')) (Some True)
        (if w then update_state (dv_id d) data' st else st))"
    using assms Some k dw by (simp add: heartbeat_tick_def Let_def)
  then show ?thesis by auto
qed (use assms in \<open>simp add: heartbeat_tick_def\<close>)

lemma length_filter_distinct:
  "distinct (map f xs) \<Longrightarrow> x \<in> set xs \<Longrightarrow> int (length (filter (\<lambda>y. f y \<noteq> f x) xs)) = int (length xs) - 1"
proof (induction xs)
  case (Cons y ys)
  show ?case
  proof (cases "y = x")
    case True
    with Cons.prems have "\<forall>z \<in> set ys. f z \<noteq> f x" by (auto simp: image_iff)
    then have "filter (\<lambda>y. f y \<noteq> f x) ys = ys" by simp
    then show ?thesis using True by simp
  next
    case False
    with Cons.prems have "f y \<noteq> f x" by auto
    then show ?thesis using Cons False by simp
  qed
qed simp

subsection \<open>Lemmas: one server step seen by a dashboard client\<close>

lemma sync_keeps:
  assumes "dash_client c (sv_gw st)" "web_synced st ws" "svc_ids st' = svc_ids st"
    "sv_gw st' = sv_gw st \<or> (\<exists>p. sv_gw st' = emit_device_updated p (sv_gw st)) \<or>
     (\<exists>j t s. sv_gw st' = emit_device_state_changed j t s (sv_gw st))"
  shows "\<exists>ms. gw_received c (sv_gw st') = gw_received c (sv_gw st) @ ms \<and> dash_client c (sv_gw st') \<and>
           web_synced st' (web_recv ms ws)"
proof -
  have len: "length (sv_devices st') = length (sv_devices st)"
    using assms(3) by (metis length_map svc_ids_def)
  show ?thesis using assms(4)
  proof (elim disjE exE)
    assume "sv_gw st' = sv_gw st"
    then show ?thesis using assms len by (intro exI [of _ "[]"]) (simp add: web_synced_def)
  next
    fix p assume g: "sv_gw st' = emit_device_updated p (sv_gw st)"
    show ?thesis using assms len web_on_socket_keeps [of "(''device:updated'', p)" ws]
      by (intro exI [of _ "[(''device:updated'', p)]"]) (simp add: g dash_emits web_synced_def)
  next
    fix j t s assume g: "sv_gw st' = emit_device_state_changed j t s (sv_gw st)"
    let ?m = "(''device:state:changed'', JObj [(''id'', JStr j), (''type'', JStr t), (''state'', JObj s)])"
    show ?thesis using assms len web_on_socket_keeps [of ?m ws]
      by (intro exI [of _ "[?m]"]) (simp add: g dash_emits web_synced_def)
  qed
qed

lemma sync_created:
  assumes "dash_client c (sv_gw st)" "web_synced st ws" "sv_devices st' = sv_devices st @ [d]"
    "sv_gw st' = emit_device_created (JObj (device_json d @ xs)) (sv_gw st)"
  shows "\<exists>ms. gw_received c (sv_gw st') = gw_received c (sv_gw st) @ ms \<and> dash_client c (sv_gw st') \<and>
           web_synced st' (web_recv ms ws)"
  using assms
  by (intro exI [of _ "[(''device:created'', JObj (device_json d @ xs))]"])
     (simp add: dash_emits web_synced_def svc_ids_def device_json_def js_get_def)

lemma remove_device_abs:
  assumes "svc_inv st" "remove_device i st = Inr st'"
  shows "int (length (sv_devices st')) = int (length (sv_devices st)) - 1"
    "svc_ids st' = filter (\<lambda>x. x \<noteq> Some (JStr i)) (svc_ids st)"
    "\<exists>t. sv_gw st' = emit_device_deleted i t (sv_gw st)"
proof -
  obtain dev where fd: "find_device st i = Some dev" and ds: "sv_devices st' = filter (\<lambda>d. dv_id d \<noteq> i) (sv_devices st)"
    and g: "sv_gw st' = emit_device_deleted i (dv_type dev) (sv_gw st)"
    using remove_device_effect [OF assms(2)] by blast
  have dev: "dev \<in> set (sv_devices st)" "dv_id dev = i" using find_device_in [OF fd] by simp_all
  have "distinct (map dv_id (sv_devices st))" using assms(1) by (simp add: svc_inv_def store_inv_def)
  then show "int (length (sv_devices st')) = int (length (sv_devices st)) - 1"
    using length_filter_distinct [of dv_id, OF _ dev(1)] dev(2) ds by simp
  show "svc_ids st' = filter (\<lambda>x. x \<noteq> Some (JStr i)) (svc_ids st)"
    using ds by (simp add: svc_ids_def filter_map comp_def)
  show "\<exists>t. sv_gw st' = emit_device_deleted i t (sv_gw st)" using g by blast
qed

lemma sync_removed:
  assumes "dash_client c (sv_gw st)" "web_synced st ws" "svc_inv st" "remove_device i st = Inr st'"
  shows "\<exists>ms. gw_received c (sv_gw st') = gw_received c (sv_gw st) @ ms \<and> dash_client c (sv_gw st') \<and>
           web_synced st' (web_recv ms ws)"
proof -
  obtain t where "sv_gw st' = emit_device_deleted i t (sv_gw st)" using remove_device_abs(3) [OF assms(3,4)] by blast
  then show ?thesis using assms(1,2) remove_device_abs(1,2) [OF assms(3,4)]
    by (intro exI [of _ "[(''device:deleted'', JObj [(''id'', JStr i), (''type'', JStr t)])]"])
       (simp add: dash_emits web_synced_def js_get_def)
qed

lemma svc_ids_same_devices: "sv_devices st' = sv_devices st \<Longrightarrow> svc_ids st' = svc_ids st"
  by (simp add: svc_ids_def)

lemma update_telemetry_effect:
  "update_telemetry i n st = Inr st' \<Longrightarrow> svc_ids st' = svc_ids st \<and> sv_gw st' = sv_gw st"
  by (auto simp: update_telemetry_def Let_def svc_ids_def save_device_def split: if_splits option.splits)

lemma refresh_discovery_effect:
  "refresh_discovery i st = Inr st' \<Longrightarrow> sv_devices st' = sv_devices st \<and> sv_gw st' = sv_gw st"
  by (auto simp: refresh_discovery_def split: option.splits)

lemma route_message_effect:
  "svc_step tpls (OpMqtt t bs) st = Inr st' \<Longrightarrow> sv_devices st' = sv_devices st \<and>
   (sv_gw st' = sv_gw st \<or> (\<exists>j t s. sv_gw st' = emit_device_state_changed j t s (sv_gw st)))"
  using apply_command_effect
  by (fastforce simp: route_message_def split: option.splits prod.splits sum.splits route_outcome.splits)

lemma timer_fire_effect:
  "timer_fire h rd rn st = Inr st' \<Longrightarrow> sv_devices st' = sv_devices st \<and>
   (sv_gw st' = sv_gw st \<or> (\<exists>j t s. sv_gw st' = emit_device_state_changed j t s (sv_gw st)))"
  using heartbeat_tick_effect by (fastforce simp: timer_fire_def split: option.splits)

lemma web_step_sync:
  assumes inv: "svc_inv st" and c: "dash_client c (sv_gw st)" and s: "web_synced st ws"
    and ok: "svc_step tpls op st = Inr st'"
  shows "\<exists>ms. gw_received c (sv_gw st') = gw_received c (sv_gw st) @ ms \<and> dash_client c (sv_gw st') \<and>
           web_synced st' (web_recv ms ws)"
proof (cases op)
  case (OpCreate ty name slug caps tid)
  then obtain r where "ctl_create tpls ty name slug caps tid st = Inr (r, st')"
    using ok by (auto simp: ebind_eq_Inr)
  from ctl_create_effect [OF this] show ?thesis
  proof (elim disjE exE conjE)
    assume "st' = st" then show ?thesis using c s by (intro exI [of _ "[]"]) simp
  qed (use sync_created [OF c s] in blast)
next
  case (OpTelemetry i n)
  then show ?thesis using ok update_telemetry_effect [of i n st st'] sync_keeps [OF c s, of st'] by simp
next
  case (OpUpdate i b)
  then show ?thesis using ok update_device_effect [of i b st st'] sync_keeps [OF c s, of st'] by simp
next
  case (OpRefresh i)
  then show ?thesis
    using ok refresh_discovery_effect [of i st st'] sync_keeps [OF c s, of st'] svc_ids_same_devices [of st' st] by simp
next
  case (OpRemove i)
  then show ?thesis using ok sync_removed [OF c s inv] by simp
next
  case (OpSend i cmd)
  then obtain dev :: device where "apply_command i (dv_type dev) cmd st = Inr st'"
    using ok by (cases "find_device st i") (auto simp: send_by_id_def)
  then show ?thesis using apply_command_effect sync_keeps [OF c s] svc_ids_same_devices by meson
next
  case (OpMqtt t bs)
  then show ?thesis using ok route_message_effect sync_keeps [OF c s] svc_ids_same_devices by meson
next
  case (OpFire h rd rn)
  then have "timer_fire h rd rn st = Inr st'" using ok by (simp split: sum.splits)
  then show ?thesis using timer_fire_effect sync_keeps [OF c s] svc_ids_same_devices by meson
qed

lemma web_run_sync:
  "svc_inv st \<Longrightarrow> dash_client c (sv_gw st) \<Longrightarrow> web_synced st ws \<Longrightarrow> svc_run tpls ops st = Inr st' \<Longrightarrow>
   \<exists>ms. gw_received c (sv_gw st') = gw_received c (sv_gw st) @ ms \<and> dash_client c (sv_gw st') \<and>
        web_synced st' (web_recv ms ws)"
proof (induction ops arbitrary: st ws)
  case Nil then show ?case by (intro exI [of _ "[]"]) simp
next
  case (Cons op ops)
  obtain st1 where s1: "svc_step tpls op st = Inr st1" "svc_run tpls ops st1 = Inr st'"
    using Cons.prems(4) by (auto simp: ebind_eq_Inr)
  obtain ms1 where m1: "gw_received c (sv_gw st1) = gw_received c (sv_gw st) @ ms1" "dash_client c (sv_gw st1)"
      "web_synced st1 (web_recv ms1 ws)"
    using web_step_sync [OF Cons.prems(1-3) s1(1)] by blast
  obtain ms2 where m2: "gw_received c (sv_gw st') = gw_received c (sv_gw st1) @ ms2" "dash_client c (sv_gw st')"
      "web_synced st' (web_recv ms2 (web_recv ms1 ws))"
    using Cons.IH [OF svc_step_preserves [OF Cons.prems(1) s1(1)] m1(2,3) s1(2)] by blast
  show ?case using m1 m2 by (intro exI [of _ "ms1 @ ms2"]) (simp add: web_recv_def)
qed

lemma new_msgs_append: "gw_received c (sv_gw st') = gw_received c (sv_gw st) @ ms \<Longrightarrow> new_msgs c st st' = ms"
  by (simp add: new_msgs_def)

text \<open>
  C5: refinement of the server by the dashboard. Start from a consistent server and a
  dashboard page whose socket is connected and whose list shows the server's
  devices in the server's order with the right total. After any sequence of
  successful requests and events (HTTP create, update, telemetry, discovery
  refresh, delete and command, broker commands, heartbeats), applying the
  socket.io events the gateway delivered to that socket in the meantime keeps the
  list and the total equal to the server's.
\<close>

theorem web_refines_run:
  assumes "svc_inv st" "dash_client c (sv_gw st)" "web_synced st ws" "svc_run tpls ops st = Inr st'"
  shows "web_synced st' (web_recv (new_msgs c st st') ws) \<and> dash_client c (sv_gw st')"
  using web_run_sync [OF assms] new_msgs_append by metis

lemma dash_demo_facts:
  "svc_inv dash_demo" "dash_client ''sock-1'' (sv_gw dash_demo)" "web_synced dash_demo web_demo"
proof -
  show "svc_inv dash_demo" unfolding dash_demo_def by (rule svc_inv_frame [OF svc_inv_demo]) simp_all
  show "dash_client ''sock-1'' (sv_gw dash_demo)"
    by (simp add: dash_demo_def dash_client_def gw_connect_def gw_join_def gw_empty_def gw_wf_def room_all_def)
  show "web_synced dash_demo web_demo"
    by (simp add: web_synced_def web_ids_def svc_ids_def dash_demo_def web_demo_def web_new_def demo_svc_def
        device_json_def js_get_def)
qed

theorem web_refines_run_witness:
  "\<exists>st'. svc_run (\<lambda>_. None) [OpRemove (mk_uuid 0)] dash_demo = Inr st' \<and> sv_devices st' = [] \<and>
     web_synced st' (web_recv (new_msgs ''sock-1'' dash_demo st') web_demo)"
proof -
  obtain st' where r: "remove_device (mk_uuid 0) dash_demo = Inr st'" "sv_devices st' = []"
    by (simp add: remove_device_def find_device_def dash_demo_def demo_svc_def demo_device_def Let_def
        delete_device_def)
  then have "svc_run (\<lambda>_. None) [OpRemove (mk_uuid 0)] dash_demo = Inr st'" by simp
  with web_refines_run [OF dash_demo_facts this] r show ?thesis by blast
qed

lemma filter_absent: "x \<notin> set xs \<Longrightarrow> filter (\<lambda>y. y \<noteq> x) xs = xs"
  by (simp add: filter_id_conv) blast

text \<open>
  C20: the dashboard counts a delete twice. When the dashboard deletes a device
  (\<open>DashboardComponent.deleteDevice\<close>), the server removes it and broadcasts
  \<open>device:deleted\<close> to \<open>devices:all\<close>, which the page's socket receives and applies
  with \<open>removeDevice\<close>; then the HTTP response arrives and the page calls
  \<open>removeDevice\<close> again. The list stays right, but the total shown under the list is
  one less than the number of devices the server holds.
\<close>

theorem dash_delete_double_count:
  assumes "svc_inv st" "dash_client c (sv_gw st)" "web_synced st ws" "remove_device i st = Inr st'"
    "js_prop dj ''id'' = Some (JStr i)"
  shows "web_ids (dash_delete_done dj (web_recv (new_msgs c st st') ws)) = svc_ids st' \<and>
         wb_total (dash_delete_done dj (web_recv (new_msgs c st st') ws)) = int (length (sv_devices st')) - 1"
proof -
  obtain ms where m: "gw_received c (sv_gw st') = gw_received c (sv_gw st) @ ms" "web_synced st' (web_recv ms ws)"
    using sync_removed [OF assms(2,3,1,4)] by blast
  have "Some (JStr i) \<notin> set (svc_ids st')" using remove_device_abs(2) [OF assms(1,4)] by simp
  then show ?thesis using m assms(5) new_msgs_append [OF m(1)]
    by (simp add: dash_delete_done_def web_synced_def filter_absent)
qed

text \<open>
  C21: an open control page counts a delete twice. The control page of a device
  (\<open>DeviceControlComponent.ngOnInit\<close>) joins the socket to the device's room; when that
  device is deleted, the gateway emits \<open>device:deleted\<close> to \<open>devices:all\<close> and to the
  device's room, the socket receives it twice, and \<open>removeDevice\<close> decrements the
  total twice.
\<close>

theorem control_delete_double_count:
  assumes "svc_inv st" "gw_wf (sv_gw st)" "map_of (gw_clients (sv_gw st)) c = Some [c, room_all, room_id i]"
    "\<not> prefix ''devices:'' c" "web_synced st ws" "remove_device i st = Inr st'"
  shows "web_ids (web_recv (new_msgs c st st') ws) = svc_ids st' \<and>
         wb_total (web_recv (new_msgs c st st') ws) = int (length (sv_devices st')) - 1"
proof -
  obtain t where g: "sv_gw st' = emit_device_deleted i t (sv_gw st)" using remove_device_abs(3) [OF assms(1,6)] by blast
  let ?m = "(''device:deleted'', JObj [(''id'', JStr i), (''type'', JStr t)])"
  have "gw_received c (sv_gw st') = gw_received c (sv_gw st) @ [?m, ?m]"
    using assms(2-4) dash_rooms [OF assms(4)] by (simp add: g emit_device_deleted_def Let_def gw_received_to)
  then have "new_msgs c st st' = [?m, ?m]" by (rule new_msgs_append)
  then show ?thesis using assms(5) remove_device_abs(1,2) [OF assms(1,6)]
    by (simp add: web_synced_def js_get_def)
qed

lemma remove_demo:
  "\<exists>st'. remove_device (mk_uuid 0) (demo_svc\<lparr>sv_gw := g\<rparr>) = Inr st' \<and> sv_devices st' = []"
  by (simp add: remove_device_def find_device_def demo_svc_def demo_device_def Let_def delete_device_def)

theorem dash_delete_double_count_witness:
  "\<exists>st'. remove_device (mk_uuid 0) dash_demo = Inr st' \<and> sv_devices st' = [] \<and>
     wb_devices (dash_delete_done (JObj (device_json demo_device)) (web_recv (new_msgs ''sock-1'' dash_demo st') web_demo)) = [] \<and>
     wb_total (dash_delete_done (JObj (device_json demo_device)) (web_recv (new_msgs ''sock-1'' dash_demo st') web_demo)) = -1"
proof -
  obtain st' where r: "remove_device (mk_uuid 0) dash_demo = Inr st'" "sv_devices st' = []"
    using remove_demo unfolding dash_demo_def by blast
  have "js_prop (JObj (device_json demo_device)) ''id'' = Some (JStr (mk_uuid 0))"
    by (simp add: device_json_def js_get_def demo_device_def)
  from dash_delete_double_count [OF dash_demo_facts r(1) this] r show ?thesis
    by (simp add: web_ids_def svc_ids_def)
qed

theorem control_delete_double_count_witness:
  "\<exists>st'. remove_device (mk_uuid 0) ctl_demo = Inr st' \<and> sv_devices st' = [] \<and>
     wb_devices (web_recv (new_msgs ''sock-1'' ctl_demo st') web_demo) = [] \<and>
     wb_total (web_recv (new_msgs ''sock-1'' ctl_demo st') web_demo) = -1"
proof -
  obtain st' where r: "remove_device (mk_uuid 0) ctl_demo = Inr st'" "sv_devices st' = []"
    using remove_demo unfolding ctl_demo_def by blast
  have inv: "svc_inv ctl_demo" unfolding ctl_demo_def by (rule svc_inv_frame [OF svc_inv_demo]) simp_all
  have g: "gw_wf (sv_gw ctl_demo)" "map_of (gw_clients (sv_gw ctl_demo)) ''sock-1'' = Some [''sock-1'', room_all, room_id (mk_uuid 0)]"
    by (simp_all add: ctl_demo_def gw_wf_def gw_empty_def gw_connect_def gw_join_def gw_handled_def handle_subscribe_device_def
        gw_sub_room_def js_read_def js_get_def js_template_def room_all_def room_id_def)
  have s: "web_synced ctl_demo web_demo"
    by (simp add: web_synced_def web_ids_def svc_ids_def ctl_demo_def web_demo_def web_new_def demo_svc_def
        device_json_def js_get_def)
  have "\<not> prefix ''devices:'' ''sock-1''" by simp
  from control_delete_double_count [OF inv g this s r(1)] r show ?thesis
    by (simp add: web_ids_def svc_ids_def)
qed

end
