(* ===== verification/RequestDto.thy ===== *)
theory RequestDto
  imports Lifecycle
begin

text \<open>
  The request validation of the HTTP surface. \<open>main.ts\<close> installs one global
  \<open>ValidationPipe\<close> with \<open>whitelist\<close>, \<open>forbidNonWhitelisted\<close> and \<open>transform\<close>: a
  body whose parameter type is a class is turned into an instance of that class
  (its field initialisers first, then the body's properties), every property of
  the instance must carry a class-validator decorator, and the decorators'
  constraints must hold; otherwise the request is answered with 400. Parameters
  typed \<open>any\<close> or with an inline object type (the command, telemetry and update
  handlers) are not validated. The DTO classes are \<open>CreateDeviceDto\<close>
  (\<open>dto/create-device.dto.ts\<close>) and \<open>ImportPayloadDto\<close> (\<open>dto/import.dto.ts\<close>), whose
  properties carry only Swagger decorators. The texts of class-validator's
  messages are not modelled: a rejection is \<open>BadRequest ''Validation failed''\<close>.
\<close>

subsection \<open>The pipe\<close>

text \<open>\<open>whitelist\<close> with \<open>forbidNonWhitelisted\<close>: the instance may only have
  properties that carry a class-validator decorator (\<open>wl\<close>).\<close>

definition pipe_whitelisted :: "string list \<Rightarrow> jobj \<Rightarrow> bool" where
  "pipe_whitelisted wl inst \<longleftrightarrow> list_all (\<lambda>k. k \<in> set wl) (map fst inst)"

text \<open>\<open>@IsOptional()\<close>: the other constraints are skipped on \<open>null\<close> and \<open>undefined\<close>.\<close>

definition dto_optional :: "(jval \<Rightarrow> bool) \<Rightarrow> jval option \<Rightarrow> bool" where
  "dto_optional P v = (case v of None \<Rightarrow> True | Some JNull \<Rightarrow> True | Some x \<Rightarrow> P x)"

text \<open>\<open>@IsString()\<close>\<close>

definition dto_is_string :: "jval \<Rightarrow> bool" where
  "dto_is_string v = (case v of JStr _ \<Rightarrow> True | _ \<Rightarrow> False)"

subsection \<open>\<open>CreateDeviceDto\<close>\<close>

text \<open>The properties of \<open>CreateDeviceDto\<close> with a class-validator decorator:
  all five (\<open>capabilities\<close> has \<open>@IsOptional()\<close>).\<close>

definition create_dto_keys :: "string list" where
  "create_dto_keys = [''type'', ''name'', ''slug'', ''templateId'', ''capabilities'']"

text \<open>
  The constraints: \<open>type\<close> \<open>@IsString() @IsIn(kindIds())\<close>, \<open>name\<close>
  \<open>@IsString() @MinLength(1)\<close>, \<open>slug\<close> optional, a string matching the slug pattern,
  \<open>templateId\<close> optional, a string. \<open>capabilities\<close> is optional and has no other
  constraint (no \<open>@ValidateNested\<close>).
\<close>

definition create_dto_ok :: "jobj \<Rightarrow> bool" where
  "create_dto_ok b \<longleftrightarrow>
     (case js_get b ''type'' of Some (JStr t) \<Rightarrow> t \<in> set kind_ids | _ \<Rightarrow> False) \<and>
     (case js_get b ''name'' of Some (JStr n) \<Rightarrow> 1 \<le> length n | _ \<Rightarrow> False) \<and>
     dto_optional (\<lambda>v. case v of JStr s \<Rightarrow> slug_ok s | _ \<Rightarrow> False) (js_get b ''slug'') \<and>
     dto_optional dto_is_string (js_get b ''templateId'')"

text \<open>A create body passes the pipe: \<open>CreateDeviceDto\<close> has no field initialisers, so
  the instance has exactly the body's properties.\<close>

definition create_dto_valid :: "jobj \<Rightarrow> bool" where
  "create_dto_valid b \<longleftrightarrow> pipe_whitelisted create_dto_keys b \<and> create_dto_ok b"

subsection \<open>\<open>ImportPayloadDto\<close>\<close>

text \<open>No property of \<open>ImportPayloadDto\<close> carries a class-validator decorator
  (\<open>@ApiPropertyOptional\<close> is Swagger metadata).\<close>

definition import_dto_keys :: "string list" where
  "import_dto_keys = []"

text \<open>\<open>plainToInstance(ImportPayloadDto, body)\<close>: the field initialisers
  \<open>mode = 'upsert'\<close> and \<open>replaceAll = false\<close>, then the body's properties.\<close>

definition import_dto_instance :: "jobj \<Rightarrow> jobj" where
  "import_dto_instance b = js_spread [(''mode'', JStr ''upsert''), (''replaceAll'', JBool False)] b"

definition import_dto_valid :: "jobj \<Rightarrow> bool" where
  "import_dto_valid b \<longleftrightarrow> pipe_whitelisted import_dto_keys (import_dto_instance b)"

subsection \<open>Lemmas\<close>

lemma import_dto_instance_mode: "''mode'' \<in> set (map fst (import_dto_instance b))"
  using alist_spread_keys [of "[(''mode'', JStr ''upsert''), (''replaceAll'', JBool False)]" b]
  by (simp add: import_dto_instance_def js_spread_def)

text \<open>No body passes the pipe of the import handler.\<close>

lemma import_dto_never_valid: "\<not> import_dto_valid b"
  using import_dto_instance_mode [of b]
  unfolding import_dto_valid_def pipe_whitelisted_def import_dto_keys_def list_all_iff by auto

end
