(* ===== verification/WebControl.thy ===== *)
theory WebControl
  imports WebClient RequestDto
begin

text \<open>
  The pages of the web control UI that act on the server, and the HTTP client
  between them. \<open>ApiService\<close> (\<open>core/services/api.service.ts\<close>) turns each call into
  a request \<open>api_req\<close>; \<open>api_op\<close> is the handler of \<open>DevicesController\<close> that the
  request reaches, as a step of the service (\<open>Lifecycle.svc_step\<close>). The dashboard
  (\<open>features/dashboard/dashboard.component.ts\<close>) filters by type, toggles power,
  orders its cards by the order saved in \<open>localStorage\<close> and lets the user drag
  them; the control page (\<open>features/devices/device-control.component.ts\<close>) joins the
  device's gateway room while it is open and sends slider values as commands.
\<close>

subsection \<open>The HTTP client and the controller\<close>

text \<open>The requests of \<open>ApiService\<close> that change the server; the body is the JSON
  object the client posts.\<close>

datatype api_req =
    ApiCreate jobj
  | ApiUpdate string jobj
  | ApiDelete string
  | ApiCommand string jobj
  | ApiTelemetry string jobj
  | ApiRefresh string

text \<open>An optional string or object property of a validated body.\<close>

definition opt_str_prop :: "jobj \<Rightarrow> string \<Rightarrow> string option" where
  "opt_str_prop b k = (case js_get b k of Some (JStr s) \<Rightarrow> Some s | _ \<Rightarrow> None)"

definition opt_obj_prop :: "jobj \<Rightarrow> string \<Rightarrow> jobj option" where
  "opt_obj_prop b k = (case js_get b k of Some (JObj o') \<Rightarrow> Some o' | _ \<Rightarrow> None)"

text \<open>
  The controller handler a request reaches. A create body must pass the validation
  pipe for \<open>CreateDeviceDto\<close> (\<open>RequestDto.create_dto_valid\<close>); otherwise it is
  rejected (\<open>None\<close>). The other handlers take their body untyped or with an inline
  type, which the pipe does not validate. \<open>setTelemetry\<close> passes
  \<open>Number(body.intervalSec)\<close>.
\<close>

fun api_op :: "api_req \<Rightarrow> svc_op option" where
  "api_op (ApiCreate b) =
     (case (js_get b ''type'', js_get b ''name'') of
        (Some (JStr t), Some (JStr n)) \<Rightarrow>
          if \<not> create_dto_valid b then None else
          Some (OpCreate t n (opt_str_prop b ''slug'') (opt_obj_prop b ''capabilities'') (opt_str_prop b ''templateId''))
      | _ \<Rightarrow> None)"
| "api_op (ApiUpdate i b) = Some (OpUpdate i b)"
| "api_op (ApiDelete i) = Some (OpRemove i)"
| "api_op (ApiCommand i c) = Some (OpSend i (RawObject c))"
| "api_op (ApiTelemetry i b) = Some (OpTelemetry i (js_number (js_get b ''intervalSec'')))"
| "api_op (ApiRefresh i) = Some (OpRefresh i)"

text \<open>The server's answer to a request: a rejected body or a failed step is an error.\<close>

definition api_call :: "template_map \<Rightarrow> api_req \<Rightarrow> svc \<Rightarrow> svc_error + svc" where
  "api_call tpls r st =
     (case api_op r of None \<Rightarrow> Inl (BadRequest ''Validation failed'') | Some op \<Rightarrow> svc_step tpls op st)"

text \<open>\<open>`${this.apiUrl}/devices/${id}`\<close>: the id of a device object as the URL shows it.\<close>

definition dev_url_id :: "jval \<Rightarrow> string" where
  "dev_url_id d = js_template (js_prop d ''id'')"

subsection \<open>The device list as the server sends it\<close>

text \<open>
  A device row of \<open>list()\<close> with its \<open>state\<close> relation loaded: the state entity is
  \<open>{deviceId, data}\<close>, or \<open>null\<close> without a state row. The entity's \<open>updatedAt\<close>
  column is not modelled.
\<close>

definition list_device_json :: "svc \<Rightarrow> device \<Rightarrow> jval" where
  "list_device_json st d =
     JObj (device_json d @
           [(''state'', case get_state st (dv_id d) of
                          Some s \<Rightarrow> JObj [(''deviceId'', JStr (dv_id d)), (''data'', JObj s)]
                        | None \<Rightarrow> JNull)])"

text \<open>The \<open>ListDevicesResponse\<close> body built from the result of \<open>list()\<close>.\<close>

definition list_response :: "svc \<Rightarrow> device list \<times> rat \<times> rat \<times> nat \<times> int \<Rightarrow> list_resp" where
  "list_response st r =
     (case r of (ds, pg, lm, tot, pgs) \<Rightarrow>
        \<lparr>lr_data = map (list_device_json st) ds, lr_page = \<lfloor>pg\<rfloor>, lr_limit = \<lfloor>lm\<rfloor>, lr_total = int tot\<rparr>)"

text \<open>
  \<open>DeviceStateService.loadDevices(type)\<close> with the defaults \<open>page = 1\<close>,
  \<open>limit = 50\<close>, answered by the server in state \<open>st\<close>. The listing of an integral
  page always succeeds (\<open>svc_list\<close> is \<open>None\<close> only for a fractional page).
\<close>

definition web_load :: "string option \<Rightarrow> svc \<Rightarrow> web_st \<Rightarrow> web_st" where
  "web_load ty st ws =
     (case svc_list ty None (Fin 1) (Fin 50) st of
        Some r \<Rightarrow> web_load_ok (list_response st r) (web_load_start ws)
      | None \<Rightarrow> web_load_start ws)"

subsection \<open>The dashboard\<close>

text \<open>The dashboard's own fields: the selected type filter and the order of its cards.\<close>

record dash_st =
  ds_selected :: "string option"
  ds_saved :: "jval list option"

text \<open>\<open>filterByType(type)\<close>\<close>

definition dash_filter :: "string option \<Rightarrow> svc \<Rightarrow> dash_st \<times> web_st \<Rightarrow> dash_st \<times> web_st" where
  "dash_filter t st dw =
     (case dw of (d, ws) \<Rightarrow>
        (d\<lparr>ds_selected := t\<rparr>,
         if (case t of Some s \<Rightarrow> s \<noteq> [] | None \<Rightarrow> False) then web_load t st ws else web_load None st ws))"

text \<open>\<open>x?.k\<close>\<close>

definition opt_prop :: "jval option \<Rightarrow> string \<Rightarrow> jval option" where
  "opt_prop v k = (case v of Some x \<Rightarrow> js_prop x k | None \<Rightarrow> None)"

text \<open>\<open>getStateValue(device, key)\<close>: \<open>device.state?.data?.[key]\<close>\<close>

definition dash_state_value :: "jval \<Rightarrow> string \<Rightarrow> jval option" where
  "dash_state_value d k = opt_prop (opt_prop (js_prop d ''state'') ''data'') k"

text \<open>\<open>toggleLightPower\<close>: the command it sends.\<close>

definition dash_toggle_state :: "jval \<Rightarrow> string" where
  "dash_toggle_state d = (if dash_state_value d ''state'' = Some (JStr ''ON'') then ''OFF'' else ''ON'')"

definition dash_toggle :: "jval \<Rightarrow> api_req" where
  "dash_toggle d = ApiCommand (dev_url_id d) [(''state'', JStr (dash_toggle_state d))]"

text \<open>
  The \<open>next\<close> callback: when \<open>device.state?.data\<close> is truthy, \<open>data.state\<close> is set
  and the device is put back with \<open>updateDeviceLocal\<close>. The server's state data is
  an object; a truthy non-object \<open>data\<close> is left unchanged.
\<close>

definition dash_toggle_done :: "jval \<Rightarrow> web_st \<Rightarrow> web_st" where
  "dash_toggle_done d ws =
     (if \<not> js_truthy (opt_prop (js_prop d ''state'') ''data'') then ws
      else case d of
        JObj o' \<Rightarrow>
          (case js_get o' ''state'' of
             Some (JObj so) \<Rightarrow>
               (case js_get so ''data'' of
                  Some (JObj dd) \<Rightarrow>
                    web_update_local (JObj (js_set ''state'' (JObj (js_set ''data''
                      (JObj (js_set ''state'' (JStr (dash_toggle_state d)) dd)) so)) o')) ws
                | _ \<Rightarrow> ws)
           | _ \<Rightarrow> ws)
      | _ \<Rightarrow> ws)"

text \<open>
  The cards the dashboard shows (the subscription to \<open>devices$\<close> in \<open>ngOnInit\<close>):
  with a saved order of the same length as the list, the devices are looked up by
  id in a \<open>Map\<close> (a later device with the same id wins) in the saved order, and the
  ids not found are dropped; otherwise the list as it is.
\<close>

definition dash_view :: "jval list option \<Rightarrow> jval list \<Rightarrow> jval list" where
  "dash_view saved ds =
     (case saved of
        Some ord \<Rightarrow>
          if length ord = length ds
          then List.map_filter (\<lambda>i. map_of (rev (map (\<lambda>d. (js_prop d ''id'', d)) ds)) (Some i)) ord
          else ds
      | None \<Rightarrow> ds)"

text \<open>
  \<open>moveItemInArray\<close> of the Angular CDK, which \<open>drop\<close> calls: both indices are
  clamped to the array, the item is taken out and put back at the target index.
\<close>

definition move_item :: "nat \<Rightarrow> nat \<Rightarrow> 'a list \<Rightarrow> 'a list" where
  "move_item f t xs =
     (if xs = [] then xs
      else let f' = min f (length xs - 1); t' = min t (length xs - 1); x = xs ! f';
               ys = take f' xs @ drop (Suc f') xs
           in take t' ys @ [x] @ drop t' ys)"

text \<open>\<open>drop(event)\<close> and \<open>saveDeviceOrder\<close>: the moved cards and the ids written
  to \<open>localStorage\<close>.\<close>

definition dash_drop :: "nat \<Rightarrow> nat \<Rightarrow> jval list \<Rightarrow> jval list \<times> jval list option" where
  "dash_drop f t cards =
     (if f \<noteq> t then let cs = move_item f t cards in (cs, Some (map (\<lambda>d. js_coalesce (js_prop d ''id'') JNull) cs))
      else (cards, None))"

text \<open>\<open>getDeviceIcon\<close> and \<open>getDeviceColor\<close>\<close>

definition dash_icon :: "string \<Rightarrow> string" where
  "dash_icon t =
     (if t = ''light'' then ''lightbulb'' else if t = ''switch'' then ''toggle_on''
      else if t = ''sensor.temp'' then ''thermostat'' else if t = ''cover'' then ''window''
      else if t = ''fan'' then ''air'' else ''devices'')"

definition dash_color :: "string \<Rightarrow> string" where
  "dash_color t =
     (if t = ''light'' then ''#FFC107'' else if t = ''switch'' then ''#2196F3''
      else if t = ''sensor.temp'' then ''#FF5722'' else if t = ''cover'' then ''#9C27B0''
      else if t = ''fan'' then ''#4CAF50'' else ''#757575'')"

subsection \<open>The device control page\<close>

text \<open>\<open>ngOnInit\<close> and \<open>ngOnDestroy\<close>: the socket joins and leaves the device's room
  (\<open>WebsocketService.subscribeToDevice\<close>, \<open>unsubscribeFromDevice\<close>).\<close>

definition ctl_open :: "string \<Rightarrow> string \<Rightarrow> gw_st \<Rightarrow> gw_st" where
  "ctl_open c i g = gw_step (GSubDevice c (JObj [(''deviceId'', JStr i)])) g"

definition ctl_close :: "string \<Rightarrow> string \<Rightarrow> gw_st \<Rightarrow> gw_st" where
  "ctl_close c i g = gw_step (GUnsubDevice c (JObj [(''deviceId'', JStr i)])) g"

text \<open>\<open>parseNumber(value)\<close>: \<open>parseFloat\<close>, and \<open>0\<close> for \<open>NaN\<close>.\<close>

definition ctl_parse_number :: "string \<Rightarrow> jnum" where
  "ctl_parse_number s = (case parse_float s of NaN \<Rightarrow> Fin 0 | x \<Rightarrow> x)"

text \<open>The slider handlers, each sending one property through \<open>sendCommand\<close>.\<close>

definition ctl_slider :: "string \<Rightarrow> jval \<Rightarrow> string \<Rightarrow> api_req" where
  "ctl_slider k d s = ApiCommand (dev_url_id d) [(k, JNum (ctl_parse_number s))]"

definition ctl_brightness_change :: "jval \<Rightarrow> string \<Rightarrow> api_req" where
  "ctl_brightness_change = ctl_slider ''brightness''"

definition ctl_color_temp_change :: "jval \<Rightarrow> string \<Rightarrow> api_req" where
  "ctl_color_temp_change = ctl_slider ''colorTemperature''"

definition ctl_position_change :: "jval \<Rightarrow> string \<Rightarrow> api_req" where
  "ctl_position_change = ctl_slider ''position''"

subsection \<open>Lemmas\<close>

lemma dev_url_id_json [simp]: "dev_url_id (JObj (device_json d @ xs)) = dv_id d"
  by (simp add: dev_url_id_def device_json_def js_get_def js_template_def)

lemma coerce_field_num: "js_get obj f = Some (JNum n) \<or> js_get obj f = None \<Longrightarrow> coerce_field f obj = obj"
  by (auto simp: coerce_field_def)

lemma coerce_ct:
  "coerce_command (RawObject [(''colorTemperature'', JNum n)]) = JObj [(''colorTemperature'', JNum n)]"
  "coerce_command (RawObject []) = JObj []"
  by (simp_all add: coerce_command_def coerce_obj_def numeric_fields_def coerce_field_num js_get_def)

lemma js_get_single: "js_get [(k, v)] k' = (if k' = k then Some v else None)"
  by (simp add: js_get_def)

text \<open>No kind reads \<open>colorTemperature\<close>: the light reads \<open>colorTemp\<close>.\<close>

lemma ct_get: "k \<noteq> ''colorTemperature'' \<Longrightarrow> js_get [(''colorTemperature'', x)] k = None"
  by (simp add: js_get_def)

lemma ct_cmd [simp]:
  "k \<noteq> ''colorTemperature'' \<Longrightarrow> js_prop (JObj [(''colorTemperature'', x)]) k = None"
  "k \<noteq> ''colorTemperature'' \<Longrightarrow> js_read (JObj [(''colorTemperature'', x)]) k = Inr None"
  "k \<noteq> ''colorTemperature'' \<Longrightarrow> js_in k (JObj [(''colorTemperature'', x)]) = Inr False"
  by (simp_all add: ct_get js_read_def js_in_def)

lemma ct_switch: "switch_reduce prev (JObj [(''colorTemperature'', x)]) caps = switch_reduce prev (JObj []) caps \<and>
   switch_validate (JObj [(''colorTemperature'', x)]) caps = switch_validate (JObj []) caps"
  by (simp add: switch_reduce_def switch_validate_def js_read_def js_in_def js_get_def Let_def)

lemma ct_fan: "fan_reduce prev (JObj [(''colorTemperature'', x)]) caps = fan_reduce prev (JObj []) caps \<and>
   fan_validate (JObj [(''colorTemperature'', x)]) caps = fan_validate (JObj []) caps"
  by (simp add: fan_reduce_def fan_validate_def js_read_def js_in_def js_get_def Let_def)

lemma ct_cover: "cover_reduce prev (JObj [(''colorTemperature'', x)]) caps = cover_reduce prev (JObj []) caps \<and>
   cover_validate (JObj [(''colorTemperature'', x)]) caps = cover_validate (JObj []) caps"
  by (simp add: cover_reduce_def cover_validate_def js_read_def js_in_def js_get_def Let_def)

lemma ct_sensor: "sensor_reduce prev (JObj [(''colorTemperature'', x)]) caps = sensor_reduce prev (JObj []) caps \<and>
   sensor_validate (JObj [(''colorTemperature'', x)]) caps = sensor_validate (JObj []) caps"
  by (simp add: sensor_reduce_def sensor_validate_def js_read_def js_in_def js_get_def Let_def)

lemma ct_light: "light_reduce prev (JObj [(''colorTemperature'', x)]) caps = light_reduce prev (JObj []) caps \<and>
   light_validate (JObj [(''colorTemperature'', x)]) caps = light_validate (JObj []) caps"
  by (simp add: light_reduce_def light_validate_def js_read_def js_in_def js_get_def Let_def)

lemma kind_ignores_ct:
  "kind_reduce k prev (JObj [(''colorTemperature'', x)]) caps = kind_reduce k prev (JObj []) caps \<and>
   kind_validate k (JObj [(''colorTemperature'', x)]) caps = kind_validate k (JObj []) caps"
  using ct_switch ct_fan ct_cover ct_sensor ct_light by (cases k) simp_all

text \<open>
  C22: the colour temperature slider of the control page has no effect. It sends
  \<open>{colorTemperature: v}\<close>; the server coerces that field, but no kind reads it (the
  light reads \<open>colorTemp\<close>), so the request is handled exactly like the empty
  command \<open>{}\<close>, whatever the slider value and the device.
\<close>

theorem ctl_color_temp_ignored:
  "api_call tpls (ctl_color_temp_change d s) st = api_call tpls (ApiCommand (dev_url_id d) []) st"
proof -
  let ?c = "[(''colorTemperature'', JNum (ctl_parse_number s))]"
  have rv: "ref_validate r (JObj ?c) caps = ref_validate r (JObj []) caps"
    and rr: "ref_reduce r prev (JObj ?c) caps = ref_reduce r prev (JObj []) caps" for r prev caps
    using kind_ignores_ct by (cases r; simp add: ref_validate_def ref_reduce_def)+
  have "apply_command i ty (RawObject ?c) st = apply_command i ty (RawObject []) st" for i ty
    unfolding apply_command_def coerce_ct Let_def validate_or_bad_request_def rv rr ..
  then show ?thesis
    by (simp add: api_call_def ctl_color_temp_change_def ctl_slider_def send_by_id_def split: option.splits)
qed

lemma map_filter_all_Some: "\<forall>x \<in> set xs. f x \<noteq> None \<Longrightarrow> List.map_filter f xs = map (the \<circ> f) xs"
  by (simp add: map_filter_def filter_True)

lemma set_map_filter_iff: "y \<in> set (List.map_filter f xs) \<longleftrightarrow> (\<exists>x \<in> set xs. f x = Some y)"
  by (force simp: map_filter_def image_iff)

lemma map_of_rev_distinct: "distinct (map fst xs) \<Longrightarrow> map_of (rev xs) = map_of xs"
proof (rule ext)
  fix k assume d: "distinct (map fst xs)"
  then have d': "distinct (map fst (rev xs))" by (simp add: rev_map [symmetric])
  show "map_of (rev xs) k = map_of xs k"
  proof (cases "map_of xs k")
    case None then show ?thesis by (metis map_of_eq_None_iff set_rev)
  next
    case (Some v)
    then have "(k, v) \<in> set (rev xs)" using map_of_eq_Some_iff [OF d] by simp
    then show ?thesis using map_of_eq_Some_iff [OF d'] Some by simp
  qed
qed

lemma zip_self_map: "zip (map f xs) xs = map (\<lambda>x. (f x, x)) xs"
  by (induction xs) simp_all

lemma dash_view_own_order:
  assumes ids: "map (\<lambda>d. js_prop d ''id'') cs = map (\<lambda>i. Some (JStr i)) ids" and dis: "distinct ids"
  shows "dash_view (Some (map JStr ids)) cs = cs"
proof -
  let ?K = "map (\<lambda>i. Some (JStr i)) ids"
  have len: "length ids = length cs" using arg_cong [OF ids, of length] by simp
  have dK: "distinct ?K" using dis by (simp add: distinct_map inj_on_def)
  have pairs: "map (\<lambda>d. (js_prop d ''id'', d)) cs = zip ?K cs"
    using zip_self_map [of "\<lambda>d. js_prop d ''id''" cs] ids by simp
  have m: "map_of (rev (map (\<lambda>d. (js_prop d ''id'', d)) cs)) = map_of (zip ?K cs)"
    unfolding pairs using dK len by (simp add: map_of_rev_distinct)
  have nth: "map_of (zip ?K cs) (Some (JStr (ids ! k))) = Some (cs ! k)" if "k < length cs" for k
    using map_of_zip_nth [of ?K cs k] dK len that by simp
  have some: "\<forall>i \<in> set (map JStr ids). map_of (zip ?K cs) (Some i) \<noteq> None"
    using nth len by (auto simp: in_set_conv_nth)
  have "map (the \<circ> (\<lambda>i. map_of (zip ?K cs) (Some i))) (map JStr ids) = cs"
    using nth len by (intro nth_equalityI) simp_all
  then show ?thesis using some len by (simp add: dash_view_def m map_filter_all_Some)
qed

lemma move_item_split:
  assumes "xs \<noteq> []"
  obtains f' t' where "f' < length xs"
    "move_item f t xs = take t' (take f' xs @ drop (Suc f') xs) @ [xs ! f'] @ drop t' (take f' xs @ drop (Suc f') xs)"
proof (rule that [of "min f (length xs - 1)" "min t (length xs - 1)"])
  show "min f (length xs - 1) < length xs" using assms by (cases xs) auto
  show "move_item f t xs = take (min t (length xs - 1)) (take (min f (length xs - 1)) xs @ drop (Suc (min f (length xs - 1))) xs) @
      [xs ! min f (length xs - 1)] @ drop (min t (length xs - 1)) (take (min f (length xs - 1)) xs @ drop (Suc (min f (length xs - 1))) xs)"
    unfolding move_item_def Let_def if_not_P [OF assms] ..
qed

lemma del_nth_facts:
  assumes "f' < length xs"
  shows "length (take f' xs @ drop (Suc f') xs) = length xs - 1"
    "set xs = insert (xs ! f') (set (take f' xs @ drop (Suc f') xs))"
    "distinct xs \<Longrightarrow> distinct (take f' xs @ drop (Suc f') xs) \<and> xs ! f' \<notin> set (take f' xs @ drop (Suc f') xs)"
proof -
  have xs: "xs = take f' xs @ xs ! f' # drop (Suc f') xs" using id_take_nth_drop [OF assms] .
  show "length (take f' xs @ drop (Suc f') xs) = length xs - 1" using assms by simp
  show "set xs = insert (xs ! f') (set (take f' xs @ drop (Suc f') xs))"
    by (subst xs) auto
  show "distinct xs \<Longrightarrow> distinct (take f' xs @ drop (Suc f') xs) \<and> xs ! f' \<notin> set (take f' xs @ drop (Suc f') xs)"
    by (subst (asm) xs) auto
qed

lemma ins_facts:
  "length (take t ys @ [x] @ drop t ys) = Suc (length ys)"
  "set (take t ys @ [x] @ drop t ys) = insert x (set ys)"
  "distinct ys \<Longrightarrow> x \<notin> set ys \<Longrightarrow> distinct (take t ys @ [x] @ drop t ys)"
proof -
  show "length (take t ys @ [x] @ drop t ys) = Suc (length ys)" by simp
  have "set ys = set (take t ys) \<union> set (drop t ys)" by (metis append_take_drop_id set_append)
  then show "set (take t ys @ [x] @ drop t ys) = insert x (set ys)" by auto
  show "distinct ys \<Longrightarrow> x \<notin> set ys \<Longrightarrow> distinct (take t ys @ [x] @ drop t ys)"
    using set_take_disj_set_drop_if_distinct [of ys t t] by (auto dest: in_set_takeD in_set_dropD)
qed

lemma move_item_facts:
  "length (move_item f t xs) = length xs" "set (move_item f t xs) = set xs"
  "distinct xs \<Longrightarrow> distinct (move_item f t xs)"
proof -
  have "length (move_item f t xs) = length xs \<and> set (move_item f t xs) = set xs \<and>
        (distinct xs \<longrightarrow> distinct (move_item f t xs))"
  proof (cases "xs = []")
    case False
    then obtain f' t' where f': "f' < length xs" and m: "move_item f t xs =
        take t' (take f' xs @ drop (Suc f') xs) @ [xs ! f'] @ drop t' (take f' xs @ drop (Suc f') xs)"
      by (rule move_item_split)
    define ys where "ys = take f' xs @ drop (Suc f') xs"
    have m': "move_item f t xs = take t' ys @ [xs ! f'] @ drop t' ys" using m by (simp only: ys_def)
    have "length xs = Suc (length ys)" using del_nth_facts(1) [OF f'] f' by (simp only: ys_def)
    then show ?thesis unfolding m' using del_nth_facts(2,3) [OF f', folded ys_def] ins_facts [where t = t' and ys = ys and x = "xs ! f'"]
      by simp
  qed (simp add: move_item_def)
  then show "length (move_item f t xs) = length xs" "set (move_item f t xs) = set xs"
    "distinct xs \<Longrightarrow> distinct (move_item f t xs)" by simp_all
qed

lemma move_item_map: "map g (move_item f t xs) = move_item f t (map g xs)"
proof (cases "xs = []")
  case False
  then have "min f (length xs - 1) < length xs" by (cases xs) auto
  then show ?thesis using False by (simp add: move_item_def Let_def take_map drop_map)
qed (simp add: move_item_def)

lemma dash_view_perm:
  assumes ids: "map (\<lambda>d. js_prop d ''id'') ds = map (\<lambda>i. Some (JStr i)) ids" "distinct ids"
    and cs: "set cs = set ds" "length cs = length ds"
    and cids: "map (\<lambda>d. js_prop d ''id'') cs = map (\<lambda>i. Some (JStr i)) ics"
  shows "dash_view (Some (map JStr ics)) ds = cs"
proof -
  let ?P = "map (\<lambda>d. (js_prop d ''id'', d)) ds"
  have dK: "distinct (map fst ?P)" using ids by (simp add: comp_def distinct_map inj_on_def)
  have look: "map_of (rev ?P) (js_prop c ''id'') = Some c" if "c \<in> set cs" for c
  proof -
    have "(js_prop c ''id'', c) \<in> set ?P" using that cs(1) by auto
    then show ?thesis using map_of_eq_Some_iff [OF dK] map_of_rev_distinct [OF dK] by simp
  qed
  have len: "length ics = length ds" using arg_cong [OF cids, of length] cs(2) by simp
  have "List.map_filter (\<lambda>i. map_of (rev ?P) (Some i)) (map JStr ics) =
        List.map_filter (map_of (rev ?P)) (map (\<lambda>d. js_prop d ''id'') cs)"
    unfolding cids by (simp add: map_filter_def filter_map comp_def)
  also have "\<dots> = cs" using look by (auto simp: map_filter_def comp_def filter_True intro!: map_idI)
  finally show ?thesis using len by (simp add: dash_view_def)
qed

text \<open>
  C40: the card order survives a drag. When the user drags a card of the shown
  cards (a rearrangement of the state service's list) to another position, the
  dashboard saves the ids in the new order; the next time the service's list is
  emitted, the view computed from it with the saved order
  (\<open>ngOnInit\<close>'s subscription) shows exactly the moved cards in the moved order,
  provided the device ids are distinct strings.
\<close>

theorem dash_drop_roundtrip:
  assumes ids: "map (\<lambda>d. js_prop d ''id'') ds = map (\<lambda>i. Some (JStr i)) ids" and dis: "distinct ids"
    and cards: "set cards = set ds" "length cards = length ds" and ft: "f \<noteq> t"
  shows "dash_view (snd (dash_drop f t cards)) ds = fst (dash_drop f t cards) \<and>
         set (fst (dash_drop f t cards)) = set ds"
proof -
  define ics where "ics = map (\<lambda>d. case js_prop d ''id'' of Some (JStr i) \<Rightarrow> i | _ \<Rightarrow> []) cards"
  have "\<forall>d \<in> set cards. \<exists>i. js_prop d ''id'' = Some (JStr i)"
  proof
    fix d assume "d \<in> set cards"
    then have "js_prop d ''id'' \<in> set (map (\<lambda>d. js_prop d ''id'') ds)" using cards(1) by auto
    then show "\<exists>i. js_prop d ''id'' = Some (JStr i)" unfolding ids by auto
  qed
  then have cids: "map (\<lambda>d. js_prop d ''id'') cards = map (\<lambda>i. Some (JStr i)) ics"
    by (auto simp: ics_def)
  let ?cs = "move_item f t cards"
  have cids': "map (\<lambda>d. js_prop d ''id'') ?cs = map (\<lambda>i. Some (JStr i)) (move_item f t ics)"
    using cids by (simp add: move_item_map)
  have ord: "map (\<lambda>d. js_coalesce (js_prop d ''id'') JNull) ?cs = map JStr (move_item f t ics)"
  proof -
    have "map (\<lambda>d. js_coalesce (js_prop d ''id'') JNull) ?cs = map (\<lambda>v. js_coalesce v JNull) (map (\<lambda>d. js_prop d ''id'') ?cs)"
      by simp
    also have "\<dots> = map JStr (move_item f t ics)" unfolding cids' by (simp add: js_coalesce_def)
    finally show ?thesis .
  qed
  have "set ?cs = set ds" "length ?cs = length ds" using cards by (simp_all add: move_item_facts)
  then have "dash_view (Some (map JStr (move_item f t ics))) ds = ?cs"
    using dash_view_perm [OF ids dis _ _ cids'] by blast
  then show ?thesis using ft ord cards(1) by (simp add: dash_drop_def move_item_facts Let_def)
qed

text \<open>
  C24: the dashboard hides a device. A saved card order that has as many ids as the
  list has devices is applied as it is: a device whose id is not in the saved order
  is not shown. This happens after one device was deleted and another created
  (on this or another client), or after an import that replaced a device.
\<close>

theorem dash_view_hides:
  assumes "length ord = length ds" "d \<in> set ds" "js_prop d ''id'' = Some x" "x \<notin> set ord"
  shows "d \<notin> set (dash_view (Some ord) ds)"
proof
  assume "d \<in> set (dash_view (Some ord) ds)"
  then obtain i where i: "i \<in> set ord" "map_of (rev (map (\<lambda>d. (js_prop d ''id'', d)) ds)) (Some i) = Some d"
    using assms(1) by (auto simp: dash_view_def set_map_filter_iff)
  then have "(Some i, d) \<in> set (map (\<lambda>d. (js_prop d ''id'', d)) ds)" by (metis map_of_SomeD set_rev)
  then have "js_prop d ''id'' = Some i" by auto
  then show False using assms(3,4) i(1) by simp
qed

text \<open>
  The control page leaves the rooms as it found them. Opening the control page
  of a device puts the socket of a dashboard page into the device's room, and
  leaving the page takes it out again, so that the socket is a plain dashboard
  socket once more.
\<close>

theorem ctl_page_rooms:
  assumes "dash_client c g"
  shows "map_of (gw_clients (ctl_open c i g)) c = Some [c, room_all, room_id i] \<and>
         dash_client c (ctl_close c i (ctl_open c i g))"
proof -
  have j: "map_of (gw_clients (ctl_open c i g)) c = Some [c, room_all, room_id i]" "gw_wf (ctl_open c i g)"
    using assms dash_rooms [of c i]
    by (auto simp: ctl_open_def dash_client_def gw_handled_def handle_subscribe_device_def gw_sub_room_def
        js_read_def js_get_def js_template_def gw_join_def gw_wf_def update_conv' distinct_update)
  then show ?thesis using assms dash_rooms [of c i]
    by (auto simp: ctl_close_def dash_client_def gw_handled_def handle_unsubscribe_device_def gw_sub_room_def
        js_read_def js_get_def js_template_def gw_leave_def gw_wf_def update_conv' distinct_update)
qed

lemma js_get_lit: "js_get [] k = None" "js_get ((a, b) # xs) k = (if k = a then Some b else js_get xs k)"
  by (simp_all add: js_get_def)

lemma kind_default_no_data: "js_get (kind_default_state k caps) ''data'' = None"
  by (cases k) (simp_all add: light_default_state_def switch_default_state_def fan_default_state_def
      cover_default_state_def sensor_default_state_def Let_def js_get_lit)

lemma create_prepare_type: "create_prepare ty name slug caps tpl st = Inr (Inr p) \<Longrightarrow> cp_type p = ty"
  by (auto simp: create_prepare_def Let_def js_lift_def ebind_eq_Inr
      split: sum.splits option.splits kind_ref.splits if_splits)

lemma create_device_created:
  assumes "create_device ty name slug caps tpl st = Inr (CrCreated d init, st')"
  shows "dv_type d = ty \<and> (\<exists>k caps'. init = kind_default_state k caps') \<and>
         sv_gw st' = emit_device_created (JObj (device_json d @ [(''state'', JObj init)])) (sv_gw st)"
proof -
  obtain p where pr: "create_prepare ty name slug caps tpl st = Inr (Inr p)" and cc: "create_commit p st = Inr (CrCreated d init, st')"
  proof (cases "create_prepare ty name slug caps tpl st")
    case (Inr x)
    show ?thesis
    proof (cases x)
      case (Inl a) then show ?thesis using assms Inr by (cases a) (simp add: create_device_def)
    next
      case (Inr p) then show ?thesis using assms \<open>create_prepare ty name slug caps tpl st = Inr x\<close> that
        by (simp add: create_device_def)
    qed
  qed (use assms in \<open>simp add: create_device_def\<close>)
  obtain d' st1 where l: "create_loop (\<lambda>s. insert_device (new_device st (cp_type p) (cp_name p) s (cp_caps p) (cp_tpl p) (cp_tel p)) st)
      (cp_given p) (to_slug (cp_name p)) 0 (cp_slug p) = Inr (d', st1)" and f: "create_finish p d' st1 = (CrCreated d init, st')"
    using cc by (auto simp: create_commit_def ebind_eq_Inr)
  obtain s where "insert_device (new_device st (cp_type p) (cp_name p) s (cp_caps p) (cp_tpl p) (cp_tel p)) st = Inr (d', st1)"
    using create_loop_Inr [OF l] by blast
  from insert_device_Inr(1,2) [OF this]
  have d': "d' = new_device st (cp_type p) (cp_name p) s (cp_caps p) (cp_tpl p) (cp_tel p)" and g1: "sv_gw st1 = sv_gw st"
    by simp_all
  have r: "CrCreated d init = CrCreated d' (kind_default_state (cp_kind p) (cp_caps p))"
    using arg_cong [OF f, of fst] by (simp add: create_finish_def Let_def)
  have "sv_gw st' = sv_gw (snd (create_finish p d' st1))" using f by simp
  also have "\<dots> = emit_device_created (JObj (device_json d' @ [(''state'', JObj (kind_default_state (cp_kind p) (cp_caps p)))])) (sv_gw st1)"
    by (simp add: create_finish_def Let_def)
  finally have "sv_gw st' = emit_device_created (JObj (device_json d' @ [(''state'', JObj (kind_default_state (cp_kind p) (cp_caps p)))])) (sv_gw st1)" .
  then show ?thesis using r d' g1 create_prepare_type [OF pr] by (auto simp: new_device_def)
qed

lemma payload_props:
  "js_get (device_json d @ [(''state'', v)]) ''id'' = Some (JStr (dv_id d))"
  "js_get (device_json d @ [(''state'', v)]) ''type'' = Some (JStr (dv_type d))"
  "js_get (device_json d @ [(''state'', v)]) ''state'' = Some v"
  by (simp_all add: device_json_def js_get_lit)

lemma svc_list_first_page:
  "svc_list ty None (Fin 1) (Fin 50) st =
     Some (take 50 (filter (\<lambda>d. case ty of Some t \<Rightarrow> t = [] \<or> dv_type d = t | None \<Rightarrow> True) (sv_devices st)), 1, 50,
           length (filter (\<lambda>d. case ty of Some t \<Rightarrow> t = [] \<or> dv_type d = t | None \<Rightarrow> True) (sv_devices st)),
           \<lceil>of_nat (length (filter (\<lambda>d. case ty of Some t \<Rightarrow> t = [] \<or> dv_type d = t | None \<Rightarrow> True) (sv_devices st))) / (50::rat)\<rceil>)"
  by (simp add: svc_list_def num_or_def num_max_def num_min_def Let_def)

lemma dash_receives_created:
  assumes "dash_client c (sv_gw st)" "create_device ty name slug caps tpl st = Inr (CrCreated d init, st')"
  shows "new_msgs c st st' = [(''device:created'', JObj (device_json d @ [(''state'', JObj init)]))]"
  using create_device_created [OF assms(2)] dash_emits(1) [OF assms(1)] by (auto intro: new_msgs_append)

text \<open>
  C25: a device created while the dashboard is open shows no state. The gateway's
  \<open>device:created\<close> event carries the state data itself under \<open>state\<close>, while the
  dashboard reads \<open>device.state.data\<close> (the shape of the listed rows); the card that
  the event appends shows nothing for any state key until a state change arrives.
\<close>

theorem dash_created_no_state:
  assumes "dash_client c (sv_gw st)" "create_device ty name slug caps tpl st = Inr (CrCreated d init, st')"
  shows "\<exists>p. wb_devices (web_recv (new_msgs c st st') ws) = wb_devices ws @ [p] \<and>
             js_prop p ''id'' = Some (JStr (dv_id d)) \<and> dash_state_value p key = None"
proof -
  obtain k caps' where "init = kind_default_state k caps'" using create_device_created [OF assms(2)] by blast
  then have "js_get init ''data'' = None" by (simp add: kind_default_no_data)
  then show ?thesis using dash_receives_created [OF assms]
    by (simp add: web_add_def payload_props dash_state_value_def opt_prop_def)
qed

text \<open>
  C23: the type filter of the dashboard does not hold. After \<open>filterByType(t)\<close> the
  list holds only devices of type \<open>t\<close>; a device of another type created afterwards
  is appended by the \<open>device:created\<close> handler all the same, and is then the one
  device of the filtered list whose type is not \<open>t\<close>.
\<close>

theorem dash_filter_foreign_created:
  assumes "dash_client c (sv_gw st)" "t \<noteq> []" "ty \<noteq> t"
    "create_device ty name slug caps tpl st = Inr (CrCreated d init, st')"
  shows "filter (\<lambda>x. js_prop x ''type'' \<noteq> Some (JStr t)) (wb_devices (snd (dash_filter (Some t) st dw))) = [] \<and>
         filter (\<lambda>x. js_prop x ''type'' \<noteq> Some (JStr t))
           (wb_devices (web_recv (new_msgs c st st') (snd (dash_filter (Some t) st dw)))) =
         [JObj (device_json d @ [(''state'', JObj init)])]"
proof -
  have ty: "dv_type d = ty" using create_device_created [OF assms(4)] by blast
  have lt: "js_prop (list_device_json st x) ''type'' = Some (JStr (dv_type x))" for x
    by (simp add: list_device_json_def payload_props)
  have f: "filter (\<lambda>x. js_prop x ''type'' \<noteq> Some (JStr t)) (wb_devices (snd (dash_filter (Some t) st dw))) = []"
    using assms(2) by (cases dw) (auto simp: dash_filter_def web_load_def svc_list_first_page list_response_def
        web_load_ok_def web_load_start_def lt filter_empty_conv dest: in_set_takeD)
  show ?thesis using f dash_receives_created [OF assms(1,4)] ty assms(3)
    by (simp add: web_add_def payload_props)
qed

theorem dash_drop_roundtrip_witness:
  "dash_view (snd (dash_drop 0 1 [JObj [(''id'', JStr ''a'')], JObj [(''id'', JStr ''b'')]]))
      [JObj [(''id'', JStr ''a'')], JObj [(''id'', JStr ''b'')]] =
     [JObj [(''id'', JStr ''b'')], JObj [(''id'', JStr ''a'')]] \<and>
   fst (dash_drop 0 1 [JObj [(''id'', JStr ''a'')], JObj [(''id'', JStr ''b'')]]) =
     [JObj [(''id'', JStr ''b'')], JObj [(''id'', JStr ''a'')]]"
proof -
  have m: "fst (dash_drop 0 1 [JObj [(''id'', JStr ''a'')], JObj [(''id'', JStr ''b'')]]) =
      [JObj [(''id'', JStr ''b'')], JObj [(''id'', JStr ''a'')]]"
    by (simp add: dash_drop_def move_item_def Let_def)
  have "map (\<lambda>d. js_prop d ''id'') [JObj [(''id'', JStr ''a'')], JObj [(''id'', JStr ''b'')]] =
      map (\<lambda>i. Some (JStr i)) [''a'', ''b'']" "distinct [''a'', ''b'']"
    "set [JObj [(''id'', JStr ''a'')], JObj [(''id'', JStr ''b'')]] = set [JObj [(''id'', JStr ''a'')], JObj [(''id'', JStr ''b'')]]"
    "length [JObj [(''id'', JStr ''a'')], JObj [(''id'', JStr ''b'')]] = length [JObj [(''id'', JStr ''a'')], JObj [(''id'', JStr ''b'')]]"
    "(0::nat) \<noteq> 1"
    by (simp_all add: js_get_def)
  from dash_drop_roundtrip [OF this] m show ?thesis by simp
qed

theorem dash_view_hides_witness:
  "JObj [(''id'', JStr ''c'')] \<notin>
     set (dash_view (Some [JStr ''a'', JStr ''b'']) [JObj [(''id'', JStr ''a'')], JObj [(''id'', JStr ''c'')]])"
proof -
  have "length [JStr ''a'', JStr ''b''] = length [JObj [(''id'', JStr ''a'')], JObj [(''id'', JStr ''c'')]]"
    "JObj [(''id'', JStr ''c'')] \<in> set [JObj [(''id'', JStr ''a'')], JObj [(''id'', JStr ''c'')]]"
    "js_prop (JObj [(''id'', JStr ''c'')]) ''id'' = Some (JStr ''c'')" "JStr ''c'' \<notin> set [JStr ''a'', JStr ''b'']"
    by (simp_all add: js_get_def)
  from dash_view_hides [OF this] show ?thesis .
qed

theorem ctl_page_rooms_witness:
  "map_of (gw_clients (ctl_open ''sock-1'' (mk_uuid 0) (sv_gw dash_demo))) ''sock-1'' =
     Some [''sock-1'', room_all, room_id (mk_uuid 0)] \<and>
   dash_client ''sock-1'' (ctl_close ''sock-1'' (mk_uuid 0) (ctl_open ''sock-1'' (mk_uuid 0) (sv_gw dash_demo)))"
  using ctl_page_rooms [OF dash_demo_facts(2)] .

lemma desk_created:
  "\<exists>d init st'. create_device ''light'' ''Desk'' None None None dash_demo = Inr (CrCreated d init, st')"
proof -
  have k: "get_kind ''light'' = Inr (KindRef Light)" by code_simp
  show ?thesis using create_auto [OF dash_demo_facts(1) k, of "''Desk''" None None] by blast
qed

theorem dash_created_no_state_witness:
  "\<exists>d init st'. create_device ''light'' ''Desk'' None None None dash_demo = Inr (CrCreated d init, st') \<and>
     (\<exists>p. wb_devices (web_recv (new_msgs ''sock-1'' dash_demo st') web_demo) = wb_devices web_demo @ [p] \<and>
          js_prop p ''id'' = Some (JStr (dv_id d)) \<and> dash_state_value p ''state'' = None)"
proof -
  obtain d init st' where c: "create_device ''light'' ''Desk'' None None None dash_demo = Inr (CrCreated d init, st')"
    using desk_created by blast
  show ?thesis using dash_created_no_state [OF dash_demo_facts(2) c, of web_demo "''state''"] c by blast
qed

theorem dash_filter_foreign_created_witness:
  "\<exists>d init st'. create_device ''light'' ''Desk'' None None None dash_demo = Inr (CrCreated d init, st') \<and>
     filter (\<lambda>x. js_prop x ''type'' \<noteq> Some (JStr ''switch''))
       (wb_devices (snd (dash_filter (Some ''switch'') dash_demo (\<lparr>ds_selected = None, ds_saved = None\<rparr>, web_demo)))) = [] \<and>
     filter (\<lambda>x. js_prop x ''type'' \<noteq> Some (JStr ''switch''))
       (wb_devices (web_recv (new_msgs ''sock-1'' dash_demo st')
          (snd (dash_filter (Some ''switch'') dash_demo (\<lparr>ds_selected = None, ds_saved = None\<rparr>, web_demo))))) =
       [JObj (device_json d @ [(''state'', JObj init)])]"
proof -
  obtain d init st' where c: "create_device ''light'' ''Desk'' None None None dash_demo = Inr (CrCreated d init, st')"
    using desk_created by blast
  have "''switch'' \<noteq> []" "''light'' \<noteq> ''switch''" by simp_all
  from dash_filter_foreign_created [OF dash_demo_facts(2) this c] c show ?thesis by blast
qed

end
