(* ===== verification/WebForms.thy ===== *)
theory WebForms
  imports WebControl ImportExport
begin

text \<open>
  The remaining pages of the web control UI and the root component: \<open>App\<close>
  (\<open>app.ts\<close>), which loads the device list on start; the device form
  (\<open>features/devices/device-form.component.ts\<close>), which creates a device or edits
  its name and template; and the export and import dialogs
  (\<open>shared/components/export-dialog.component.ts\<close>, \<open>import-dialog.component.ts\<close>),
  which download the export and post a chosen file to the import endpoint. Each
  handler is composed with the server handler its request reaches. The import
  endpoint's validation is \<open>RequestDto.import_dto_valid\<close>.
\<close>

subsection \<open>The root component\<close>

text \<open>\<open>App.ngOnInit\<close>: \<open>this.ds.loadDevices()\<close> on a fresh \<open>DeviceStateService\<close>.\<close>

definition app_init :: "svc \<Rightarrow> web_st" where
  "app_init st = web_load None st web_new"

subsection \<open>The device form\<close>

text \<open>
  The component's fields and the values of its four form controls. A control's
  value is a JavaScript value, \<open>None\<close> for \<open>undefined\<close> (what \<open>patchValue\<close> writes
  for a missing device property). \<open>fm_locked\<close> records that the \<open>type\<close> and \<open>slug\<close>
  controls are disabled.
\<close>

record form_st =
  fm_type :: "jval option"
  fm_name :: "jval option"
  fm_slug :: "jval option"
  fm_tpl :: "jval option"
  fm_locked :: bool
  fm_edit :: bool
  fm_submitting :: bool
  fm_kinds :: "jval list"
  fm_templates :: "jval list"
  fm_id :: "string option"

text \<open>The constructor: \<open>type: ['light', required]\<close>, \<open>name: ['', [required, minLength(1)]]\<close>,
  \<open>slug: ['']\<close>, \<open>templateId: ['']\<close>.\<close>

definition form_new :: form_st where
  "form_new = \<lparr>fm_type = Some (JStr ''light''), fm_name = Some (JStr ''''), fm_slug = Some (JStr ''''),
               fm_tpl = Some (JStr ''''), fm_locked = False, fm_edit = False, fm_submitting = False,
               fm_kinds = [], fm_templates = [], fm_id = None\<rparr>"

text \<open>\<open>Validators.required\<close>: no error unless the value is \<open>null\<close>, \<open>undefined\<close> or an
  empty string or array.\<close>

definition ng_required :: "jval option \<Rightarrow> bool" where
  "ng_required v = (case v of None \<Rightarrow> False | Some JNull \<Rightarrow> False | Some (JStr s) \<Rightarrow> s \<noteq> []
                    | Some (JArr xs) \<Rightarrow> xs \<noteq> [] | Some _ \<Rightarrow> True)"

text \<open>\<open>Validators.minLength(n)\<close>: an empty value, or one without a length, passes.\<close>

definition ng_min_length :: "nat \<Rightarrow> jval option \<Rightarrow> bool" where
  "ng_min_length n v = (case v of Some (JStr s) \<Rightarrow> s = [] \<or> n \<le> length s
                         | Some (JArr xs) \<Rightarrow> xs = [] \<or> n \<le> length xs | _ \<Rightarrow> True)"

text \<open>\<open>form.valid\<close>: every enabled control passes its validators.\<close>

definition form_valid :: "form_st \<Rightarrow> bool" where
  "form_valid fm \<longleftrightarrow> (fm_locked fm \<or> ng_required (fm_type fm)) \<and>
                      ng_required (fm_name fm) \<and> ng_min_length 1 (fm_name fm)"

text \<open>\<open>loadDeviceData()\<close>: the device as the state service holds it, patched into
  the form.\<close>

definition form_load_data :: "web_st \<Rightarrow> form_st \<Rightarrow> form_st" where
  "form_load_data ws fm =
     (case fm_id fm of
        None \<Rightarrow> fm
      | Some i \<Rightarrow>
          if i = [] then fm
          else case web_get ws i of
                 None \<Rightarrow> fm
               | Some d \<Rightarrow>
                   fm\<lparr>fm_type := js_prop d ''type'', fm_name := js_prop d ''name'', fm_slug := js_prop d ''slug'',
                      fm_tpl := (if js_truthy (js_prop d ''templateId'') then js_prop d ''templateId''
                                 else Some (JStr ''''))\<rparr>)"

text \<open>The route subscription of \<open>ngOnInit\<close> on the route's \<open>id\<close> parameter.\<close>

definition form_init :: "string option \<Rightarrow> web_st \<Rightarrow> form_st \<Rightarrow> form_st" where
  "form_init p ws fm =
     (case p of
        Some i \<Rightarrow>
          if i = [] then fm
          else (form_load_data ws (fm\<lparr>fm_edit := True, fm_id := Some i\<rparr>))\<lparr>fm_locked := True\<rparr>
      | None \<Rightarrow> fm)"

text \<open>The \<open>next\<close> callbacks of \<open>loadDeviceTypes\<close> and \<open>loadDeviceTemplates\<close>:
  \<open>Object.entries(data.templates).map(([id, template]) => ({id, ...template}))\<close>.
  The server sends its template map as an object (a value without a \<open>templates\<close>
  object leaves the list as it was: \<open>Object.entries\<close> throws in the callback).\<close>

definition form_kinds_loaded :: "jval list \<Rightarrow> form_st \<Rightarrow> form_st" where
  "form_kinds_loaded ks fm = fm\<lparr>fm_kinds := ks\<rparr>"

definition form_templates_loaded :: "jval \<Rightarrow> form_st \<Rightarrow> form_st" where
  "form_templates_loaded data fm =
     (case js_prop data ''templates'' of
        Some (JObj ts) \<Rightarrow>
          fm\<lparr>fm_templates := map (\<lambda>(i, t). JObj (js_spread [(''id'', JStr i)]
                                       (case t of JObj o' \<Rightarrow> o' | _ \<Rightarrow> []))) ts\<rparr>
      | _ \<Rightarrow> fm)"

text \<open>\<open>v || undefined\<close>\<close>

definition or_undef :: "jval option \<Rightarrow> jval option" where
  "or_undef v = (if js_truthy v then v else None)"

text \<open>\<open>form.value\<close> omits disabled controls.\<close>

definition form_value :: "form_st \<Rightarrow> string \<Rightarrow> jval option" where
  "form_value fm k =
     (if k = ''type'' then (if fm_locked fm then None else fm_type fm)
      else if k = ''name'' then fm_name fm
      else if k = ''slug'' then (if fm_locked fm then None else fm_slug fm)
      else if k = ''templateId'' then fm_tpl fm else None)"

text \<open>The request \<open>onSubmit\<close> sends; \<open>undefined\<close> properties are not serialised.\<close>

definition form_request :: "form_st \<Rightarrow> api_req" where
  "form_request fm =
     (case fm_id fm of
        Some i \<Rightarrow>
          if fm_edit fm \<and> i \<noteq> []
          then ApiUpdate i (js_obj_lit [(''name'', form_value fm ''name''),
                                       (''templateId'', or_undef (form_value fm ''templateId''))])
          else ApiCreate (js_obj_lit [(''type'', form_value fm ''type''), (''name'', form_value fm ''name''),
                                     (''slug'', or_undef (form_value fm ''slug'')),
                                     (''templateId'', or_undef (form_value fm ''templateId''))])
      | None \<Rightarrow>
          ApiCreate (js_obj_lit [(''type'', form_value fm ''type''), (''name'', form_value fm ''name''),
                                (''slug'', or_undef (form_value fm ''slug'')),
                                (''templateId'', or_undef (form_value fm ''templateId''))]))"

text \<open>
  \<open>onSubmit()\<close> with the server's answer: on success the list is reloaded and the
  router navigates to the dashboard (the last component, \<open>True\<close>); on an error the
  form is enabled again.
\<close>

definition form_submit :: "template_map \<Rightarrow> svc \<Rightarrow> form_st \<times> web_st \<Rightarrow> form_st \<times> web_st \<times> svc \<times> bool" where
  "form_submit tpls st fw =
     (case fw of (fm, ws) \<Rightarrow>
        if \<not> form_valid fm then (fm, ws, st, False)
        else let fm1 = fm\<lparr>fm_submitting := True\<rparr> in
             case api_call tpls (form_request fm1) st of
               Inr st' \<Rightarrow> (fm1, web_load None st' ws, st', True)
             | Inl e \<Rightarrow> (fm1\<lparr>fm_submitting := False\<rparr>, ws, st, False))"

subsection \<open>The export and import dialogs\<close>

text \<open>\<open>ExportDialogComponent.export()\<close>: the file it downloads, as its name and the
  value \<open>JSON.stringify(data, null, 2)\<close> writes; \<open>now\<close> is \<open>new Date().toISOString()\<close>
  (the server's export is stamped at the same instant).\<close>

definition export_file :: "svc \<Rightarrow> string \<Rightarrow> string \<times> jval" where
  "export_file st now = (''mqtt-devices-'' @ takeWhile (\<lambda>c. c \<noteq> CHR ''T'') now @ ''.json'', export_all st now)"

text \<open>\<open>ImportDialogComponent\<close>: the chosen file's name and text, the \<open>importing\<close>
  flag, the last report and the \<open>replaceAll\<close> checkbox.\<close>

record imp_dlg =
  id_file :: "string option"
  id_content :: "string option"
  id_importing :: bool
  id_result :: "imp_report option"
  id_replace :: bool

definition imp_dlg_new :: imp_dlg where
  "imp_dlg_new = \<lparr>id_file = None, id_content = None, id_importing = False, id_result = None, id_replace = False\<rparr>"

text \<open>\<open>onFileSelected\<close>: the name is set at once, the text when the \<open>FileReader\<close>'s
  \<open>onload\<close> fires.\<close>

definition imp_file_selected :: "string option \<Rightarrow> imp_dlg \<Rightarrow> imp_dlg" where
  "imp_file_selected f d = (case f of Some n \<Rightarrow> d\<lparr>id_file := Some n\<rparr> | None \<Rightarrow> d)"

definition imp_file_read :: "string \<Rightarrow> imp_dlg \<Rightarrow> imp_dlg" where
  "imp_file_read s d = d\<lparr>id_content := Some s\<rparr>"

text \<open>
  The \<open>importAll\<close> handler: the validation pipe, then \<open>DevicesService.importAll\<close>.
  \<open>None\<close> is a payload whose entries lie outside what \<open>ImportExport.payload_of\<close>
  reads.
\<close>

definition import_http :: "jobj \<Rightarrow> svc \<Rightarrow> (svc_error + (imp_report \<times> svc)) option" where
  "import_http b st =
     (if \<not> import_dto_valid b then Some (Inl (BadRequest ''Validation failed''))
      else map_option (\<lambda>p. import_all p st) (payload_of (JObj (import_dto_instance b))))"

text \<open>The body \<open>{devices: data.devices || data, replaceAll}\<close>.\<close>

definition imp_body :: "jval \<Rightarrow> bool \<Rightarrow> jobj" where
  "imp_body data r =
     [(''devices'', if js_truthy (js_prop data ''devices'') then the (js_prop data ''devices'') else data),
      (''replaceAll'', JBool r)]"

text \<open>
  \<open>import()\<close> with the server's answer. \<open>parse\<close> is \<open>JSON.parse\<close> (\<open>None\<close>: a
  \<open>SyntaxError\<close>); a \<open>SyntaxError\<close> and the \<open>TypeError\<close> of \<open>null.devices\<close> are caught.
  On success the report is shown and the list reloaded.
\<close>

definition imp_import :: "(string \<Rightarrow> jval option) \<Rightarrow> svc \<Rightarrow> imp_dlg \<times> web_st \<Rightarrow> (imp_dlg \<times> web_st \<times> svc) option" where
  "imp_import parse st dw =
     (case dw of (d, ws) \<Rightarrow>
        case id_content d of
          None \<Rightarrow> Some (d, ws, st)
        | Some s \<Rightarrow>
            if s = [] then Some (d, ws, st)
            else case parse s of
              None \<Rightarrow> Some (d\<lparr>id_importing := False\<rparr>, ws, st)
            | Some data \<Rightarrow>
                if data = JNull then Some (d\<lparr>id_importing := False\<rparr>, ws, st)
                else case import_http (imp_body data (id_replace d)) st of
                  None \<Rightarrow> None
                | Some (Inr (rep, st')) \<Rightarrow> Some (d\<lparr>id_result := Some rep, id_importing := False\<rparr>, web_load None st' ws, st')
                | Some (Inl e) \<Rightarrow> Some (d\<lparr>id_importing := False\<rparr>, ws, st))"

subsection \<open>The type lists\<close>

text \<open>\<open>GET /devices/types\<close>: \<open>listTypes()\<close> answers \<open>listKinds()\<close>, one object per kind.\<close>

definition kinds_json :: "jval list" where
  "kinds_json = map (\<lambda>(i, t, c). JObj [(''id'', JStr i), (''title'', JStr t), (''capabilities'', JObj c)]) list_kinds"

text \<open>\<open>DashboardComponent.loadDeviceTypes\<close>: \<open>kinds.map((k) => k.id)\<close>.\<close>

definition dash_kind_ids :: "jval list \<Rightarrow> jval option list" where
  "dash_kind_ids ks = map (\<lambda>k. js_prop k ''id'') ks"

subsection \<open>Example states\<close>

text \<open>The demo store with a template on its device, and the edit form of that device.\<close>

definition tpl_demo :: svc where
  "tpl_demo = demo_svc\<lparr>sv_devices := [demo_device\<lparr>dv_template := Some ''switch.basic''\<rparr>]\<rparr>"

definition edit_demo :: form_st where
  "edit_demo = form_new\<lparr>fm_edit := True, fm_locked := True, fm_id := Some (mk_uuid 0), fm_name := Some (JStr ''Lamp'')\<rparr>"

subsection \<open>Properties\<close>

lemma list_device_json_id [simp]: "js_prop (list_device_json st d) ''id'' = Some (JStr (dv_id d))"
  by (simp add: list_device_json_def device_json_def)

lemma app_init_synced: "length (sv_devices st) \<le> 50 \<Longrightarrow> web_synced st (app_init st)"
  by (simp add: app_init_def web_load_def svc_list_first_page list_response_def web_load_ok_def
      web_load_start_def web_new_def web_synced_def web_ids_def svc_ids_def)

text \<open>
  C6: refinement from the start of the web client. When the app starts
  (\<open>App.ngOnInit\<close>) against a consistent server holding at most one page of
  devices, and its socket is a plain dashboard socket, the list it loads and then
  keeps current from the socket.io events equals the server's device list, with
  the right total, after any run of successful server steps.
\<close>

theorem app_refines_run:
  assumes "svc_inv st" "dash_client c (sv_gw st)" "length (sv_devices st) \<le> 50" "svc_run tpls ops st = Inr st'"
  shows "web_synced st' (web_recv (new_msgs c st st') (app_init st))"
  using web_run_sync [OF assms(1,2) app_init_synced [OF assms(3)] assms(4)] new_msgs_append by metis

text \<open>
  C12: the import dialog can never import. For every file content and every result of
  \<open>JSON.parse\<close>, \<open>ImportDialogComponent.import()\<close> either fails to parse or posts a
  body that the validation pipe rejects, since \<open>ImportPayloadDto\<close> has no
  class-validator decorators and its instance always has the properties \<open>mode\<close> and
  \<open>replaceAll\<close>. The server is unchanged, no report is shown and the list is not
  reloaded.
\<close>

theorem imp_import_rejected:
  assumes "id_content d = Some s" "s \<noteq> []"
  shows "imp_import parse st (d, ws) = Some (d\<lparr>id_importing := False\<rparr>, ws, st)"
  using assms import_dto_never_valid
  by (simp add: imp_import_def import_http_def split: option.splits)

text \<open>The types the form and the dashboard offer are exactly the registered kinds,
  which \<open>CreateDeviceDto\<close>'s \<open>@IsIn\<close> accepts.\<close>

lemma offered_types: "dash_kind_ids kinds_json = map (\<lambda>t. Some (JStr t)) kind_ids"
  by (simp add: dash_kind_ids_def kinds_json_def list_kinds_def kind_ids_def registry_def)

lemma find_replace_id:
  "find (\<lambda>x. dv_id x = i) xs \<noteq> None \<Longrightarrow> dv_id y = i \<Longrightarrow>
   find (\<lambda>x. dv_id x = i) (map (\<lambda>x. if dv_id x = i then y else x) xs) = Some y"
  by (induction xs) auto

lemma save_device_saved_row:
  "save_device d st = st\<lparr>sv_devices := map (\<lambda>x. if dv_id x = dv_id d then saved_row d st else x) (sv_devices st)\<rparr>"
  by (simp add: save_device_def saved_row_def)

lemma update_device_row:
  assumes "find_device st i = Some dev" "update_device i b st = Inr st'"
  shows "find_device st' i = Some (saved_row (patch_device b dev) st)"
proof -
  have di: "dv_id dev = i" using assms(1) by (auto simp: find_device_def dest: find_Some_iff [THEN iffD1])
  have "find_device (save_device (patch_device b dev) st) i = Some (saved_row (patch_device b dev) st)"
    unfolding save_device_saved_row find_device_def
    using find_replace_id [of i "sv_devices st" "saved_row (patch_device b dev) st"] assms(1) di
    by (simp add: find_device_def saved_row_def)
  then show ?thesis using assms by (auto simp: update_device_def Let_def find_device_def)
qed

lemma form_request_create:
  assumes "fm_id fm = None" "\<not> fm_locked fm"
  shows "form_request fm =
    ApiCreate (js_obj_lit [(''type'', fm_type fm), (''name'', fm_name fm), (''slug'', or_undef (fm_slug fm)),
                           (''templateId'', or_undef (fm_tpl fm))])"
  using assms by (simp add: form_request_def form_value_def)

text \<open>
  C26: what the create form's request reaches. For a create form with string values,
  the controller runs \<open>createDevice\<close> with the form's type, name, slug and template
  (empty ones omitted) exactly when the type is a registered kind, the name is not
  empty, and the slug is empty or matches the DTO's slug pattern; otherwise the
  request is rejected. The form itself checks only that the name is not empty, so
  a valid form with a slug such as \<open>My Lamp\<close> fails on the server.
\<close>

theorem form_create_request:
  assumes "fm_id fm = None" "\<not> fm_locked fm" "fm_type fm = Some (JStr t)" "fm_name fm = Some (JStr n)"
    "fm_slug fm = Some (JStr s)" "fm_tpl fm = Some (JStr tp)"
  shows "api_op (form_request fm) =
    (if t \<in> set kind_ids \<and> n \<noteq> [] \<and> (s = [] \<or> slug_ok s)
     then Some (OpCreate t n (if s = [] then None else Some s) None (if tp = [] then None else Some tp)) else None)"
  using assms
  by (cases "s = []"; cases "tp = []")
     (simp_all add: form_request_create or_undef_def create_dto_valid_def create_dto_ok_def pipe_whitelisted_def
       create_dto_keys_def dto_optional_def dto_is_string_def opt_str_prop_def opt_obj_prop_def Suc_le_eq)

theorem form_create_request_witness:
  "form_valid (form_new\<lparr>fm_name := Some (JStr ''Lamp''), fm_slug := Some (JStr ''My Lamp'')\<rparr>) \<and>
   api_op (form_request (form_new\<lparr>fm_name := Some (JStr ''Lamp''), fm_slug := Some (JStr ''My Lamp'')\<rparr>)) = None"
proof -
  have "\<not> slug_ok ''My Lamp''" by (simp add: slug_ok_def is_slug_char_def is_digit_def)
  then show ?thesis
    using form_create_request [of "form_new\<lparr>fm_name := Some (JStr ''Lamp''), fm_slug := Some (JStr ''My Lamp'')\<rparr>"
        "''light''" "''Lamp''" "''My Lamp''" "''''"]
    by (simp add: form_new_def form_valid_def ng_required_def ng_min_length_def)
qed

lemma form_edit_valid:
  "fm_locked fm \<Longrightarrow> fm_name fm = Some (JStr n) \<Longrightarrow> n \<noteq> [] \<Longrightarrow> form_valid fm"
  by (simp add: form_valid_def ng_required_def ng_min_length_def Suc_le_eq)

lemma form_submit_edit:
  assumes "fm_edit fm" "fm_locked fm" "fm_id fm = Some i" "i \<noteq> []" "fm_name fm = Some (JStr n)" "n \<noteq> []"
    "fm_tpl fm = Some (JStr '''')" "find_device st i = Some dev"
  shows "\<exists>st'. form_submit tpls st (fm, ws) = (fm\<lparr>fm_submitting := True\<rparr>, web_load None st' ws, st', True) \<and>
           find_device st' i = Some (saved_row (patch_device [(''name'', JStr n)] dev) st)"
proof -
  have r: "form_request (fm\<lparr>fm_submitting := True\<rparr>) = ApiUpdate i [(''name'', JStr n)]"
    using assms(1-5,7) by (simp add: form_request_def form_value_def or_undef_def)
  obtain st' where u: "update_device i [(''name'', JStr n)] st = Inr st'"
    using assms(8) by (simp add: update_device_def Let_def)
  show ?thesis using form_edit_valid [OF assms(2,5,6)] r u update_device_row [OF assms(8) u]
    by (simp add: form_submit_def api_call_def)
qed

text \<open>
  C27: the edit form cannot remove a template. When the user clears the template of a
  device that has one and saves, the form sends no \<open>templateId\<close>
  (\<open>'' || undefined\<close>), the server keeps the old template, and the page reports
  success and returns to the dashboard.
\<close>

theorem form_edit_template_kept:
  assumes "fm_edit fm" "fm_locked fm" "fm_id fm = Some i" "i \<noteq> []" "fm_name fm = Some (JStr n)" "n \<noteq> []"
    "fm_tpl fm = Some (JStr '''')" "find_device st i = Some dev" "dv_template dev = Some tp"
  shows "\<exists>st' dev'. form_submit tpls st (fm, ws) = (fm\<lparr>fm_submitting := True\<rparr>, web_load None st' ws, st', True) \<and>
           find_device st' i = Some dev' \<and> dv_template dev' = Some tp"
proof -
  obtain st' where "form_submit tpls st (fm, ws) = (fm\<lparr>fm_submitting := True\<rparr>, web_load None st' ws, st', True)"
    "find_device st' i = Some (saved_row (patch_device [(''name'', JStr n)] dev) st)"
    using form_submit_edit [OF assms(1-8)] by blast
  moreover have "dv_template (saved_row (patch_device [(''name'', JStr n)] dev) st) = Some tp"
    using assms(9) by (simp add: saved_row_def patch_device_def Let_def)
  ultimately show ?thesis by blast
qed

lemma form_edit_blank_name:
  assumes "fm_edit fm" "fm_locked fm" "fm_id fm = Some i" "i \<noteq> []" "fm_name fm = Some (JStr ''  '')"
    "fm_tpl fm = Some (JStr '''')" "find_device st i = Some dev"
  shows "\<exists>st' dev'. form_submit tpls st (fm, ws) = (fm\<lparr>fm_submitting := True\<rparr>, web_load None st' ws, st', True) \<and>
           find_device st' i = Some dev' \<and> dv_name dev' = dv_name dev"
proof -
  obtain st' where "form_submit tpls st (fm, ws) = (fm\<lparr>fm_submitting := True\<rparr>, web_load None st' ws, st', True)"
    "find_device st' i = Some (saved_row (patch_device [(''name'', JStr ''  '')] dev) st)"
    using form_submit_edit [OF assms(1-5) _ assms(6,7)] by blast
  moreover have "dv_name (saved_row (patch_device [(''name'', JStr ''  '')] dev) st) = dv_name dev"
    by (simp add: saved_row_def patch_device_def Let_def trim_js_def is_js_space_def)
  ultimately show ?thesis by blast
qed

theorem app_refines_run_witness:
  "\<exists>st'. svc_run (\<lambda>_. None) [OpRemove (mk_uuid 0)] dash_demo = Inr st' \<and> sv_devices st' = [] \<and>
     web_synced st' (web_recv (new_msgs ''sock-1'' dash_demo st') (app_init dash_demo))"
proof -
  obtain st' where r: "remove_device (mk_uuid 0) dash_demo = Inr st'" "sv_devices st' = []"
    by (simp add: remove_device_def find_device_def dash_demo_def demo_svc_def demo_device_def Let_def
        delete_device_def)
  then have "svc_run (\<lambda>_. None) [OpRemove (mk_uuid 0)] dash_demo = Inr st'" by simp
  moreover have "length (sv_devices dash_demo) \<le> 50" by (simp add: dash_demo_def demo_svc_def)
  ultimately show ?thesis using app_refines_run [OF dash_demo_facts(1,2)] r(2) by blast
qed

theorem imp_import_rejected_witness:
  "imp_import (\<lambda>_. Some (snd (export_file demo_svc ''2026-11-09T10:00:00Z''))) demo_svc
      (imp_file_read ''{}'' imp_dlg_new, web_new) =
   Some ((imp_file_read ''{}'' imp_dlg_new)\<lparr>id_importing := False\<rparr>, web_new, demo_svc)"
  using imp_import_rejected [of "imp_file_read ''{}'' imp_dlg_new" "''{}''"] by (simp add: imp_file_read_def)

theorem form_edit_template_kept_witness:
  "\<exists>st' dev'. form_submit (\<lambda>_. None) tpl_demo (edit_demo, web_new) =
      (edit_demo\<lparr>fm_submitting := True\<rparr>, web_load None st' web_new, st', True) \<and>
    find_device st' (mk_uuid 0) = Some dev' \<and> dv_template dev' = Some ''switch.basic''"
  by (rule form_edit_template_kept [where dev = "demo_device\<lparr>dv_template := Some ''switch.basic''\<rparr>" and n = "''Lamp''"])
     (simp_all add: edit_demo_def form_new_def tpl_demo_def find_device_def demo_svc_def demo_device_def)

end
