(* ===== verification/ControlView.thy ===== *)
theory ControlView
  imports WebControl
begin

text \<open>
  The template of the device control page (\<open>features/devices/device-control.component.ts\<close>,
  lines 37-183): which controls it shows for a device, as the \<open>*ngIf\<close> conditions on
  the device's type and capabilities select them, and the request each control
  sends through \<open>sendCommand\<close> or a slider handler. The device is the one
  \<open>DeviceStateService.getDeviceObservable(id)\<close> finds in the list
  (\<open>WebClient.web_get\<close>).
\<close>

subsection \<open>The controls\<close>

text \<open>A button with its fixed command, a slider thumb (its handler's property and its
  \<open>min\<close> and \<open>max\<close>, step 1), the fan's speed select (its property and the option
  values) and the sensor's read-only temperature.\<close>

datatype ctl_widget =
    WButton jobj
  | WSlider string nat nat
  | WSelect string "string list"
  | WReadout "jval option"

text \<open>\<open>$any(device).capabilities?.k\<close> is truthy.\<close>

definition ctl_cap :: "jval \<Rightarrow> string \<Rightarrow> bool" where
  "ctl_cap d k = js_truthy (opt_prop (js_prop d ''capabilities'') k)"

definition ctl_on_off :: "ctl_widget list" where
  "ctl_on_off = [WButton [(''state'', JStr ''ON'')], WButton [(''state'', JStr ''OFF'')]]"

definition ctl_widgets :: "jval \<Rightarrow> ctl_widget list" where
  "ctl_widgets d =
     (let ty = js_prop d ''type'' in
      (if ty = Some (JStr ''light'') then
         ctl_on_off @
         (if ctl_cap d ''brightness'' then [WSlider ''brightness'' 0 255] else []) @
         (if ctl_cap d ''colorTemperature'' then [WSlider ''colorTemperature'' 153 500] else [])
       else []) @
      (if ty = Some (JStr ''switch'') then ctl_on_off else []) @
      (if ty = Some (JStr ''cover'') then
         [WButton [(''action'', JStr ''OPEN'')], WButton [(''action'', JStr ''STOP'')],
          WButton [(''action'', JStr ''CLOSE'')]] @
         (if ctl_cap d ''position'' then [WSlider ''position'' 0 100] else [])
       else []) @
      (if ty = Some (JStr ''fan'') then [WSelect ''speed'' [''0'', ''1'', ''2'', ''3'']] else []) @
      (if ty = Some (JStr ''sensor.temp'') then [WReadout (dash_state_value d ''temperature'')] else []))"

text \<open>\<open>*ngIf="device$ | async as device"\<close>: nothing is shown for an id not in the list.\<close>

definition ctl_page :: "web_st \<Rightarrow> string \<Rightarrow> ctl_widget list" where
  "ctl_page ws i = (case web_get ws i of Some d \<Rightarrow> ctl_widgets d | None \<Rightarrow> [])"

text \<open>The values a control can report: none for a button, the decimal strings of
  \<open>min..max\<close> for a slider thumb, the option values for the select.\<close>

fun ctl_values :: "ctl_widget \<Rightarrow> string list" where
  "ctl_values (WButton c) = [[]]"
| "ctl_values (WSlider k lo hi) = map show_nat [lo..<Suc hi]"
| "ctl_values (WSelect k os) = os"
| "ctl_values (WReadout v) = []"

text \<open>The request a control sends for a value: \<open>sendCommand(device, c)\<close>, the
  slider handler, \<open>sendCommand(device, {speed: $event.target.value})\<close>.\<close>

fun ctl_widget_req :: "jval \<Rightarrow> ctl_widget \<Rightarrow> string \<Rightarrow> api_req option" where
  "ctl_widget_req d (WButton c) v = Some (ApiCommand (dev_url_id d) c)"
| "ctl_widget_req d (WSlider k lo hi) v = Some (ctl_slider k d v)"
| "ctl_widget_req d (WSelect k os) v = Some (ApiCommand (dev_url_id d) [(k, JStr v)])"
| "ctl_widget_req d (WReadout x) v = None"

subsection \<open>Properties\<close>

lemma reduce_obj_Inr: "\<exists>n. kind_reduce k prev (JObj c) caps = Inr n"
  by (cases k) (simp_all add: light_reduce_def switch_reduce_def cover_reduce_def fan_reduce_def
      sensor_reduce_def js_read_def Let_def)

lemma kind_of_id: "t \<in> set kind_ids \<Longrightarrow> \<exists>k. t = kind_id k \<and> get_kind t = Inr (KindRef k)"
  by (auto simp: kind_ids_def registry_def get_kind_def registry_lookup_def)

lemma send_cmd_ok:
  assumes "find_device st i = Some dev" "get_kind (dv_type dev) = Inr (KindRef k)"
    "kind_validate k (JObj (coerce_obj c)) (dv_caps dev) = Inr ()"
  shows "\<exists>st'. api_call tpls (ApiCommand i c) st = Inr st'"
proof (cases "get_state st i")
  case (Some prev)
  obtain n where "kind_reduce k prev (JObj (coerce_obj c)) (dv_caps dev) = Inr n" using reduce_obj_Inr by blast
  then show ?thesis using assms Some
    by (simp add: api_call_def send_by_id_def apply_command_def js_lift_def validate_or_bad_request_def
        ref_validate_def ref_reduce_def coerce_command_def Let_def)
qed (use assms in \<open>simp add: api_call_def send_by_id_def apply_command_def js_lift_def coerce_command_def\<close>)

lemma list_device_json_props [simp]:
  "js_prop (list_device_json st d) ''type'' = Some (JStr (dv_type d))"
  "js_prop (list_device_json st d) ''capabilities'' = Some (JObj (dv_caps d))"
  "dev_url_id (list_device_json st d) = dv_id d"
  by (simp_all add: list_device_json_def device_json_def js_get_lit del: dev_url_id_json)
     (simp add: dev_url_id_def js_template_def)

lemma ctl_cap_json [simp]: "ctl_cap (list_device_json st d) k = js_truthy (js_get (dv_caps d) k)"
  by (simp add: ctl_cap_def opt_prop_def)

lemma slider_value [simp]: "ctl_parse_number (show_nat n) = Fin (of_nat n)"
  by (simp add: ctl_parse_number_def parse_float_show_nat)

lemma spread_default_truthy:
  assumes "distinct (map fst caps)" "js_truthy (js_get base k)" "js_get caps k \<noteq> None \<Longrightarrow> js_truthy (js_get caps k)"
  shows "js_truthy (js_get (js_spread base caps) k)"
proof -
  have "map_of (rev caps) k = js_get caps k" using assms(1) by (simp add: map_of_rev_distinct js_get_def)
  then show ?thesis using assms(2,3) by (cases "js_get caps k") (simp_all add: js_get_spread)
qed

lemma light_cmds_ok:
  assumes "distinct (map fst caps)"
  shows "light_validate (JObj (coerce_obj [(''state'', JStr ''ON'')])) caps = Inr ()"
    "light_validate (JObj (coerce_obj [(''state'', JStr ''OFF'')])) caps = Inr ()"
    "light_validate (JObj (coerce_obj [(''colorTemperature'', JNum (Fin (of_nat n)))])) caps = Inr ()"
    "js_truthy (js_get caps ''brightness'') \<Longrightarrow> n \<le> 255 \<Longrightarrow>
       light_validate (JObj (coerce_obj [(''brightness'', JNum (Fin (of_nat n)))])) caps = Inr ()"
proof -
  have b: "js_truthy (js_get caps ''brightness'') \<Longrightarrow> js_truthy (js_get (light_caps caps) ''brightness'')"
    using spread_default_truthy [OF assms, of light_capabilities "''brightness''"]
    by (simp add: light_caps_def light_capabilities_def)
  show "light_validate (JObj (coerce_obj [(''state'', JStr ''ON'')])) caps = Inr ()"
    "light_validate (JObj (coerce_obj [(''state'', JStr ''OFF'')])) caps = Inr ()"
    "light_validate (JObj (coerce_obj [(''colorTemperature'', JNum (Fin (of_nat n)))])) caps = Inr ()"
    by (simp_all add: light_validate_def coerce_obj_def numeric_fields_def coerce_field_def js_read_def js_in_def
        js_includes_def Let_def)
  show "js_truthy (js_get caps ''brightness'') \<Longrightarrow> n \<le> 255 \<Longrightarrow>
       light_validate (JObj (coerce_obj [(''brightness'', JNum (Fin (of_nat n)))])) caps = Inr ()"
    using b by (simp add: light_validate_def coerce_obj_def numeric_fields_def coerce_field_def js_read_def js_in_def
        js_lt_def js_gt_def Let_def)
qed

lemma switch_cmds_ok:
  "switch_validate (JObj (coerce_obj [(''state'', JStr ''ON'')])) caps = Inr ()"
  "switch_validate (JObj (coerce_obj [(''state'', JStr ''OFF'')])) caps = Inr ()"
  by (simp_all add: switch_validate_def coerce_obj_def numeric_fields_def coerce_field_def js_read_def js_includes_def)

lemma cover_cmds_ok:
  "a \<in> {''OPEN'', ''STOP'', ''CLOSE''} \<Longrightarrow> cover_validate (JObj (coerce_obj [(''action'', JStr a)])) caps = Inr ()"
  "n \<le> 100 \<Longrightarrow> cover_validate (JObj (coerce_obj [(''position'', JNum (Fin (of_nat n)))])) caps = Inr ()"
  by (auto simp: cover_validate_def coerce_obj_def numeric_fields_def coerce_field_def js_read_def js_includes_def
      js_nullish_def js_lt_def js_gt_def)

lemma fan_cmds_ok:
  assumes "fan_caps_ok caps m d" "3 \<le> m" "n \<le> 3"
  shows "fan_validate (JObj (coerce_obj [(''speed'', JStr (show_nat n))])) caps = Inr ()"
proof -
  have "coerce_obj [(''speed'', JStr (show_nat n))] = [(''speed'', JNum (Fin (of_nat n)))]"
    by (simp add: coerce_obj_def numeric_fields_def coerce_field_def parse_float_show_nat js_set_def)
  moreover have "\<not> num_less (Fin m) (Fin (of_nat n))" using assms(2,3) by simp
  ultimately show ?thesis using assms(1)
    by (simp add: fan_validate_def fan_caps_ok_def js_read_def js_nullish_def js_lt_def js_less_def js_to_prim_def
        js_number_def Let_def)
qed

lemma ctl_widgets_kind:
  "dv_type dev = kind_id k \<Longrightarrow> ctl_widgets (list_device_json st dev) =
     (case k of
        Light \<Rightarrow> ctl_on_off @ (if js_truthy (js_get (dv_caps dev) ''brightness'') then [WSlider ''brightness'' 0 255] else []) @
                 (if js_truthy (js_get (dv_caps dev) ''colorTemperature'') then [WSlider ''colorTemperature'' 153 500] else [])
      | Switch \<Rightarrow> ctl_on_off
      | Cover \<Rightarrow> [WButton [(''action'', JStr ''OPEN'')], WButton [(''action'', JStr ''STOP'')],
                  WButton [(''action'', JStr ''CLOSE'')]] @
                 (if js_truthy (js_get (dv_caps dev) ''position'') then [WSlider ''position'' 0 100] else [])
      | Fan \<Rightarrow> [WSelect ''speed'' [''0'', ''1'', ''2'', ''3'']]
      | TempSensor \<Rightarrow> [WReadout (dash_state_value (list_device_json st dev) ''temperature'')])"
  by (cases k) (simp_all add: ctl_widgets_def Let_def)

lemma ctl_values_slider: "v \<in> set (ctl_values (WSlider k lo hi)) \<longleftrightarrow> (\<exists>n. lo \<le> n \<and> n \<le> hi \<and> v = show_nat n)"
  by (auto simp del: upt_Suc)

lemma fan_option_values: "v \<in> set [''0'', ''1'', ''2'', ''3''] \<Longrightarrow> \<exists>n \<le> 3. v = show_nat n"
proof -
  have "[''0'', ''1'', ''2'', ''3''] = map show_nat [0, 1, 2, 3]"
    by (simp add: show_nat.simps digit_char_def) code_simp
  moreover assume "v \<in> set [''0'', ''1'', ''2'', ''3'']"
  ultimately obtain n where n: "n \<in> set [0, 1, 2, 3 :: nat]" "v = show_nat n"
    by (metis imageE set_map)
  have "n \<le> 3" using n(1) by auto
  then show "\<exists>n \<le> 3. v = show_nat n" using n(2) by blast
qed

lemma ctl_widget_cmd:
  assumes "find_device st i = Some dev" "dv_type dev = kind_id k" "distinct (map fst (dv_caps dev))"
    "k = Fan \<Longrightarrow> \<exists>m df. fan_caps_ok (dv_caps dev) m df \<and> 3 \<le> m"
    "w \<in> set (ctl_widgets (list_device_json st dev))" "v \<in> set (ctl_values w)"
    "ctl_widget_req (list_device_json st dev) w v = Some r"
  shows "\<exists>c. r = ApiCommand i c \<and> kind_validate k (JObj (coerce_obj c)) (dv_caps dev) = Inr ()"
proof -
  have i: "dv_id dev = i" using assms(1) by (auto simp: find_device_def dest: find_Some_iff [THEN iffD1])
  show ?thesis
  proof (cases k)
    case Light
    then show ?thesis using assms(5-7) ctl_widgets_kind [OF assms(2)] light_cmds_ok [OF assms(3)] i
      by (auto simp: ctl_on_off_def ctl_slider_def ctl_values_slider simp del: ctl_values.simps(2) split: if_splits)
  next
    case Switch
    then show ?thesis using assms(5-7) ctl_widgets_kind [OF assms(2)] switch_cmds_ok i
      by (auto simp: ctl_on_off_def)
  next
    case Cover
    then show ?thesis using assms(5-7) ctl_widgets_kind [OF assms(2)] cover_cmds_ok i
      by (auto simp: ctl_slider_def ctl_values_slider simp del: ctl_values.simps(2) split: if_splits)
  next
    case Fan
    then obtain m df where f: "fan_caps_ok (dv_caps dev) m df" "3 \<le> m" using assms(4) by blast
    have w: "w = WSelect ''speed'' [''0'', ''1'', ''2'', ''3'']" "v \<in> set [''0'', ''1'', ''2'', ''3'']"
      using Fan assms(5,6) ctl_widgets_kind [OF assms(2)] by auto
    then obtain n where n: "n \<le> 3" "v = show_nat n" using fan_option_values by blast
    have "r = ApiCommand i [(''speed'', JStr (show_nat n))]" using w(1) n(2) assms(7) i by auto
    then show ?thesis using Fan fan_cmds_ok [OF f n(1)] by auto
  next
    case TempSensor
    then show ?thesis using assms(5-7) ctl_widgets_kind [OF assms(2)] by auto
  qed
qed


text \<open>
  C28: every control of the device control page sends a command the server accepts.
  For a stored device of a registered kind whose capabilities have distinct keys
  (and, for a fan, a numeric \<open>maxSpeed\<close> of at least 3, the select's highest
  option), every button, every position of every slider thumb and every option of
  the speed select yields a request that the controller's \<open>sendById\<close> completes
  without error: the kind's \<open>validate\<close> accepts it and \<open>reduce\<close> succeeds.
\<close>

theorem ctl_widgets_accepted:
  assumes "find_device st i = Some dev" "dv_type dev \<in> set kind_ids" "distinct (map fst (dv_caps dev))"
    "dv_type dev = ''fan'' \<Longrightarrow> \<exists>m df. fan_caps_ok (dv_caps dev) m df \<and> 3 \<le> m"
    "w \<in> set (ctl_widgets (list_device_json st dev))" "v \<in> set (ctl_values w)"
    "ctl_widget_req (list_device_json st dev) w v = Some r"
  shows "\<exists>st'. api_call tpls r st = Inr st'"
proof -
  obtain k where k: "dv_type dev = kind_id k" "get_kind (dv_type dev) = Inr (KindRef k)"
    using kind_of_id [OF assms(2)] by blast
  have "k = Fan \<Longrightarrow> \<exists>m df. fan_caps_ok (dv_caps dev) m df \<and> 3 \<le> m" using assms(4) k(1) by auto
  then obtain c where "r = ApiCommand i c" "kind_validate k (JObj (coerce_obj c)) (dv_caps dev) = Inr ()"
    using ctl_widget_cmd [OF assms(1) k(1) assms(3) _ assms(5-7)] by blast
  then show ?thesis using send_cmd_ok [OF assms(1) k(2)] by blast
qed

theorem ctl_widgets_accepted_witness:
  "\<exists>st'. api_call (\<lambda>_. None) (ApiCommand (mk_uuid 0) [(''state'', JStr ''ON'')]) demo_svc = Inr st'"
proof -
  have "WButton [(''state'', JStr ''ON'')] \<in> set (ctl_widgets (list_device_json demo_svc demo_device))"
    by (simp add: ctl_widgets_def demo_device_def ctl_on_off_def)
  moreover have "find_device demo_svc (mk_uuid 0) = Some demo_device"
    by (simp add: find_device_def demo_svc_def demo_device_def)
  moreover have "dv_type demo_device \<in> set kind_ids" "distinct (map fst (dv_caps demo_device))"
    by (simp_all add: demo_device_def kind_ids_def registry_def)
  ultimately show ?thesis
    using ctl_widgets_accepted [of demo_svc "mk_uuid 0" demo_device "WButton [(''state'', JStr ''ON'')]" "[]"]
    by (simp add: demo_device_def)
qed

lemma get_kind_ref: "get_kind t = Inr (KindRef k) \<Longrightarrow> t = kind_id k"
  by (auto simp: get_kind_def registry_lookup_def registry_def split: if_splits option.splits)

lemma default_caps_no_slider_keys:
  "js_get (json_norm_obj (kind_capabilities k)) ''colorTemperature'' = None \<and>
   js_get (json_norm_obj (kind_capabilities k)) ''position'' = None"
  by (cases k) (simp_all add: json_norm_obj_def light_capabilities_def switch_capabilities_def
      sensor_capabilities_def cover_capabilities_def fan_capabilities_def)

text \<open>
  C29: the control page never shows its colour temperature and position sliders for
  a device created with the kind's default capabilities. The template asks for
  \<open>capabilities.colorTemperature\<close> and \<open>capabilities.position\<close>, which no kind
  declares (the light's is \<open>color_temp\<close>, the cover has \<open>speedPerTick\<close> and
  \<open>invert\<close>), so a cover created without capabilities and template cannot be
  positioned from the page although its kind accepts \<open>position\<close>.
\<close>

theorem ctl_sliders_hidden:
  assumes "svc_inv st" "get_kind ty = Inr (KindRef k)"
  shows "\<exists>d init st'. create_device ty name None None tpl st = Inr (CrCreated d init, st') \<and>
           WSlider ''colorTemperature'' 153 500 \<notin> set (ctl_widgets (list_device_json st' d)) \<and>
           WSlider ''position'' 0 100 \<notin> set (ctl_widgets (list_device_json st' d))"
proof -
  obtain st' where c: "create_device ty name None None tpl st =
      Inr (CrCreated (new_device st ty name (probe_slug (taken_slugs st ty) (to_slug name))
             (js_spread (kind_capabilities k) []) tpl (kind_default_telemetry k))
           (kind_default_state k (js_spread (kind_capabilities k) [])), st')"
    using create_auto [OF assms, of name None tpl] by auto
  let ?d = "new_device st ty name (probe_slug (taken_slugs st ty) (to_slug name)) (js_spread (kind_capabilities k) []) tpl
              (kind_default_telemetry k)"
  have t: "dv_type ?d = kind_id k" using get_kind_ref [OF assms(2)] by (simp add: new_device_def)
  have "dv_caps ?d = json_norm_obj (kind_capabilities k)" by (simp add: new_device_def)
  then have "WSlider ''colorTemperature'' 153 500 \<notin> set (ctl_widgets (list_device_json st' ?d)) \<and>
             WSlider ''position'' 0 100 \<notin> set (ctl_widgets (list_device_json st' ?d))"
    using ctl_widgets_kind [OF t, of st'] default_caps_no_slider_keys [of k] by (cases k) (auto simp: ctl_on_off_def)
  then show ?thesis using c by blast
qed

theorem ctl_sliders_hidden_witness:
  "\<exists>d init st'. create_device ''cover'' ''Blind'' None None None dash_demo = Inr (CrCreated d init, st') \<and>
     WSlider ''colorTemperature'' 153 500 \<notin> set (ctl_widgets (list_device_json st' d)) \<and>
     WSlider ''position'' 0 100 \<notin> set (ctl_widgets (list_device_json st' d))"
proof -
  have k: "get_kind ''cover'' = Inr (KindRef Cover)" by code_simp
  show ?thesis using ctl_sliders_hidden [OF dash_demo_facts(1) k] .
qed

end
