(* ===== verification/Health.thy ===== *)
theory Health
  imports Service
begin

text \<open>
  The health endpoints of \<open>HealthController\<close> (\<open>src/mqtt-sim/src/health/health.controller.ts\<close>).
  The liveness answer carries \<open>process.uptime()\<close>; the readiness answer combines the
  database probe (\<open>SELECT 1\<close> through a query runner, whose failure message is
  \<open>Some m\<close>) with the adapter's connection flag (\<open>MqttService.isConnected()\<close>,
  \<open>mq_connected\<close>). Both are reads: the service state is unchanged.
\<close>

definition health_live :: "rat \<Rightarrow> jval" where
  "health_live up = JObj [(''status'', JStr ''ok''), (''uptime'', jn up)]"

text \<open>The \<open>checks\<close> object of \<open>ready()\<close>.\<close>

definition ready_checks :: "string option \<Rightarrow> svc \<Rightarrow> jobj" where
  "ready_checks db st =
     [(''database'', case db of None \<Rightarrow> JObj [(''ok'', JBool True)]
                              | Some m \<Rightarrow> JObj [(''ok'', JBool False), (''error'', JStr m)]),
      (''mqtt'', JObj [(''ok'', JBool (mq_connected (sv_mqtt st)))])]"

text \<open>\<open>Object.values(checks).every((c) => c.ok === true)\<close>\<close>

definition checks_ok :: "jobj \<Rightarrow> bool" where
  "checks_ok cs \<longleftrightarrow> list_all (\<lambda>(k, c). js_prop c ''ok'' = Some (JBool True)) cs"

definition health_ready :: "string option \<Rightarrow> string \<Rightarrow> svc \<Rightarrow> jval" where
  "health_ready db now st =
     (let cs = ready_checks db st in
      JObj ([(''status'', JStr (if checks_ok cs then ''ok'' else ''degraded''))] @ cs @
            [(''timestamp'', JStr now)]))"

text \<open>Readiness reports \<open>ok\<close> exactly when the database answers and the broker
  connection is up.\<close>

lemma health_ready_status:
  "js_prop (health_ready db now st) ''status'' =
     Some (JStr (if db = None \<and> mq_connected (sv_mqtt st) then ''ok'' else ''degraded''))"
  by (cases db) (simp_all add: health_ready_def ready_checks_def checks_ok_def Let_def)

end
