(* ===== verification/Spec2Isabelle.thy ===== *)
theory Spec2Isabelle
  imports ImportExport WebForms ControlView Health
begin

text \<open>
  \<^bold>\<open>A verification model of mqtt-simulator.\<close>

  The repository has two programs. The NestJS service \<open>src/mqtt-sim\<close> simulates
  smart-home devices. It stores them with TypeORM, answers HTTP requests
  (\<open>devices.controller.ts\<close>), takes commands from an MQTT broker
  (\<open>mqtt/mqtt.service.ts\<close>), publishes device states, and pushes live updates over
  socket.io (\<open>devices.gateway.ts\<close>). The Angular client \<open>src/mqtt-web\<close> shows the
  devices and keeps its list current from those socket events. This development
  embeds both programs in HOL: each TypeScript function is one HOL function on an
  explicit state, and each thrown exception is an \<open>Inl\<close> value.

  \<^bold>\<open>Theories and what they model.\<close>
  \<^item> \<open>Prelude\<close>: the rewrite-rule collections, \<open>ebind\<close> (exceptions as
    \<open>svc_error + 'a\<close>), \<open>clamp\<close>, and association-list lemmas. Insertion-ordered
    association lists model JavaScript objects.
  \<^item> \<open>Decimal\<close>, \<open>JsValue\<close>, \<open>Json\<close>: the JavaScript values the code touches (\<open>jval\<close>,
    with numbers \<open>Fin\<close> rational, infinities and \<open>NaN\<close>) and the operators it applies
    to them: property reads, truthiness, \<open>Number()\<close>, \<open>parseFloat\<close>, template literals,
    \<open>JSON.stringify\<close>.
  \<^item> \<open>KindSwitch\<close>, \<open>KindFan\<close>, \<open>KindCover\<close>, \<open>KindLight\<close>, \<open>KindSensor\<close> and \<open>Registry\<close>:
    the device kinds (\<open>devices/kinds/*.kind.ts\<close>), each with its capabilities,
    default state, validate, reduce and tick. \<open>Registry\<close> holds \<open>getKind\<close> and
    \<open>listKinds\<close>, including the lookup through \<open>Object.prototype\<close>.
  \<^item> \<open>Topics\<close> and \<open>Mqtt\<close>: the topic namespace (\<open>mqtt/topics.ts\<close>) and the adapter
    \<open>MqttService\<close>, as a state \<open>mqtt_st\<close> of subscriptions, handler, outbox and
    connection. \<open>Gateway\<close>: the socket.io rooms and the deliveries \<open>gw_to\<close> makes.
  \<^item> \<open>Service\<close>: the state \<open>svc\<close> of \<open>DevicesService\<close> (device rows, state rows, timers,
    intervals, broker, gateway, uuid counter, clock) and the store operations.
    \<open>Router\<close> models \<open>applyCommand\<close>, \<open>sendById\<close> and the broker message path.
    \<open>Scheduler\<close> models \<open>ensureTelemetryTimer\<close>, \<open>clearTelemetryTimer\<close> and
    \<open>heartbeatTick\<close>. \<open>Slug\<close> models \<open>toSlug\<close> and the slug probe.
  \<^item> \<open>Lifecycle\<close>: \<open>createDevice\<close> with its retry loop, \<open>updateTelemetry\<close>,
    \<open>updateDevice\<close>, \<open>refreshDiscovery\<close>, \<open>remove\<close>, \<open>onModuleInit\<close> and the
    controller's create with templates. Together they form the transition system
    \<open>svc_step\<close>, whose reachable states are the inductive \<open>svc_reach\<close>.
    \<open>ImportExport\<close> holds \<open>exportAll\<close> and \<open>importAll\<close> (\<open>devices.service.ts\<close>, lines
    357-479).
  \<^item> \<open>WebClient\<close>: the client's \<open>DeviceStateService\<close>, the handlers of
    \<open>WebsocketService\<close> and the dashboard's delete callback. \<open>web_recv\<close> composes them
    with what the gateway delivers to a socket. \<open>WebControl\<close>: the HTTP client
    \<open>ApiService\<close>, with the controller handler (\<open>api_op\<close>) each request reaches as a
    \<open>svc_step\<close>, the dashboard (type filter, power toggle, saved card order, drag and
    drop) and the device control page (its gateway room, the sliders).
  \<^item> \<open>RequestDto\<close>: the global \<open>ValidationPipe\<close> of \<open>main.ts\<close> (whitelist,
    forbidNonWhitelisted, transform) and the constraints of \<open>CreateDeviceDto\<close> and
    \<open>ImportPayloadDto\<close>; \<open>api_op\<close> applies them to a create request.
  \<^item> \<open>WebForms\<close>: \<open>App.ngOnInit\<close>, the device form (\<open>device-form.component.ts\<close>:
    route parameters, loading the device, Angular's \<open>required\<close> and \<open>minLength\<close>,
    \<open>form.value\<close> without disabled controls, the submitted request and the handling
    of the server's answer), the export dialog and the import dialog with the import
    handler. \<open>ControlView\<close>: the template of the device control page, that is the
    controls it shows for a device and the request each control sends.
  \<^item> \<open>Health\<close>: the liveness and readiness answers of \<open>HealthController\<close>.

  \<^bold>\<open>What is proved.\<close>
  \<^item> Invariants:
    \<^item> the store invariant \<open>store_inv\<close> (distinct generated ids, a unique
      \<open>(type, slug)\<close>, one state row per device);
    \<^item> the scheduler invariant (one interval per armed device);
    \<^item> both hold in every reachable state, by rule induction on \<open>svc_reach\<close>.
  \<^item> The kinds: each reducer keeps its state well formed (the light's only for
    commands whose numbers and colour channels convert to finite numbers, since
    \<open>validate\<close> lets a non-numeric colour channel through and \<open>reduce\<close> stores
    \<open>NaN\<close>), each validator's range is proved, and the cover's movement terminates with a bound on the number of ticks.
  \<^item> Functional behaviour of create, update, remove, telemetry and refresh, on every
    branch, including the errors.
  \<^item> The import/export round trip.
  \<^item> The wildcard subscription: the adapter requests it exactly once, and the topics
    it matches are exactly the topics the router parses.
  \<^item> A refinement, \<open>web_refines_run\<close>: the dashboard's list, updated from the socket
    deliveries, stays equal to the server's device list over any run of \<open>svc_step\<close>.
    \<open>app_refines_run\<close> starts it from the app's first load (at most one page of
    devices).
  \<^item> Composition of the pages with the server: every control of the control page
    sends a command the server accepts (\<open>ctl_widgets_accepted\<close>); the create form's
    request reaches \<open>createDevice\<close> exactly under the DTO's constraints
    (\<open>form_create_request\<close>).
  \<^item> The defects listed under "findings" in the manifest, each as a theorem with a
    concrete witness:
    \<^item> broker commands are ignored;
    \<^item> an unknown type crashes the process;
    \<^item> the slug races;
    \<^item> the 1 ms interval;
    \<^item> the light's colour command, whose non-numeric channel passes \<open>validate\<close>
      and is stored as \<open>NaN\<close> (\<open>KindLight.light_rgb_nan\<close>);
    \<^item> the import counting and deletion;
    \<^item> the duplicated socket events and the web client's double-counted deletes;
    \<^item> the control page's colour temperature slider, which no kind reads;
    \<^item> the dashboard's type filter, which does not hold for created devices;
    \<^item> the saved card order, which hides devices;
    \<^item> the state of a device created while the dashboard is open, which is not
      shown;
    \<^item> the import dialog, whose every request the validation pipe rejects;
    \<^item> the create form, which accepts slugs the server rejects, and the edit form,
      which cannot remove a template;
    \<^item> the control page's colour temperature and position sliders, which test
      capability keys no kind declares and so never show for default capabilities.
  \<^item> Round trips on the web side: after a drag, the view the dashboard recomputes
    from the service's device list with the saved id order is the dragged order
    (\<open>dash_drop_roundtrip\<close>, for distinct string ids), and the control page leaves
    the socket's rooms as it found them.

  \<^bold>\<open>Bounds and termination.\<close>
  \<^item> The retry loop of \<open>createDevice\<close> is a \<open>function\<close> with the measure
    \<open>6 - attempt\<close>. The code throws after its sixth failure, so this measure is exact.
  \<^item> The slug probe is bounded by the number of taken slugs plus one
    (\<open>probe_slug_bounded\<close>).
  \<^item> Timer delays follow Node.js: a delay above \<open>2^31 - 1\<close> ms, or below 1 ms,
    becomes 1 ms.
  \<^item> There is no fuel anywhere: every loop of the code has a proved measure.

  \<^bold>\<open>Not modelled.\<close>
  \<^item> The template file loader (\<open>kinds/templates.ts\<close>): it is file I/O with a
    modification-time cache. The templates appear as the map \<open>template_map\<close>.
  \<^item> The legacy \<open>light.machine.ts\<close>: nothing imports it.
  \<^item> The DTO decorators: they are validation metadata, and the validation pipe is
    a library.
  \<^item> \<open>main.ts\<close> (apart from its validation pipe), the logging interceptor and the
    module wiring: these are plumbing. The database probe of the readiness
    endpoint is an input of \<open>Health.health_ready\<close>.
  \<^item> TypeORM's SQL: only its effect on rows is modelled.
  \<^item> Rendering: styles, texts, icons, snack bars and console output; router
    navigation appears only as the flag that it happens. The \<open>WebsocketService\<close>
    methods no page calls (the type rooms, \<open>disconnect\<close>, \<open>reconnect\<close>) and
    \<open>ApiService\<close>'s read-only requests other than the list are not modelled.
  \<^item> Browser and library functions: \<open>JSON.parse\<close> is a parameter of the import
    dialog, the \<open>FileReader\<close> a separate step; the texts of class-validator's
    messages are replaced by one \<open>BadRequest\<close>.
  \<^item> \<open>moveItemInArray\<close> of the Angular CDK: it is a library function, defined in
    \<open>move_item\<close> from its documented behaviour.
  \<^item> Concurrency: it appears only as explicit interleavings, such as the slug races
    in \<open>create_commit\<close>.
\<close>

end
